(* ===== verification/Prelude.thy ===== *)
theory Prelude
  imports Complex_Main "HOL-Library.Word"
begin

text \<open>
  What every component shares: Go's byte strings with the functions of package strings the
  program calls, 32-bit wrap-around, truncated integer division (big.Int Quo), and the
  named collections the component proofs use.

  A Go string is a sequence of bytes, here a \<^typ>\<open>string\<close>, whose characters are the 256
  byte values.  \<open>TrimSpace\<close> is exact for UTF-8 text: it strips the encodings of every code point
  with the property White_Space.  \<open>ToUpper\<close> and \<open>EqualFold\<close> map the ASCII letters and leave
  every other byte as it is, so they agree with Go on ASCII text, which is what providers,
  symbols, sides and statuses are.
\<close>

named_theorems dec_simps \<open>the value of each decimal operation\<close>
named_theorems sql_defs \<open>the SQL statements of the repositories, unfolded\<close>
named_theorems prog_simps \<open>unfolding of the program combinators\<close>

section \<open>Integers\<close>

text \<open>Conversion to int32 with wrap-around, as Go's int32 arithmetic does it.\<close>

definition wrap32 :: "int \<Rightarrow> int" where
  "wrap32 x = (x + 2147483648) mod 4294967296 - 2147483648"

definition in32 :: "int \<Rightarrow> bool" where
  "in32 x \<longleftrightarrow> - 2147483648 \<le> x \<and> x < 2147483648"

lemma wrap32_id [simp]: "in32 x \<Longrightarrow> wrap32 x = x"
  by (simp add: wrap32_def in32_def)

lemma wrap32_in32 [simp]: "in32 (wrap32 x)"
  by (simp add: wrap32_def in32_def algebra_simps)

text \<open>big.Int.Quo and Rem truncate towards zero.\<close>

definition quo :: "int \<Rightarrow> int \<Rightarrow> int" where
  "quo a b = sgn a * sgn b * (\<bar>a\<bar> div \<bar>b\<bar>)"

definition quo_rem :: "int \<Rightarrow> int \<Rightarrow> int" where
  "quo_rem a b = a - b * quo a b"

lemma abs_times_sgn: "\<bar>a\<bar> * sgn a = (a :: int)"
  by (simp add: mult_sgn_abs mult.commute [of "\<bar>a\<bar>"])

lemma quo_1 [simp]: "quo a 1 = a"
  by (simp add: quo_def mult_sgn_abs)

lemma quo_0 [simp]: "quo 0 b = 0"
  by (simp add: quo_def)

lemma quo_mult_cancel [simp]: "b \<noteq> 0 \<Longrightarrow> quo (a * b) b = a"
  by (simp add: quo_def abs_mult sgn_mult abs_times_sgn ac_simps flip: mult.assoc)

section \<open>Strings\<close>

definition byte_of :: "char \<Rightarrow> nat" where
  "byte_of c = of_char c"

definition up_char :: "char \<Rightarrow> char" where
  "up_char c = (if 97 \<le> byte_of c \<and> byte_of c \<le> 122 then char_of (byte_of c - 32) else c)"

text \<open>Evaluation of a character code, bit by bit.\<close>

lemma char_of_eval:
  "char_of (n :: nat) = Char (odd n) (odd (n div 2)) (odd (n div 4)) (odd (n div 8))
     (odd (n div 16)) (odd (n div 32)) (odd (n div 64)) (odd (n div 128))"
  by (simp add: char_of_def bit_iff_odd)

lemmas str_eval = byte_of_def char_of_eval up_char_def

definition to_upper :: "string \<Rightarrow> string" where
  "to_upper s = map up_char s"

text \<open>strings.EqualFold.\<close>

definition equal_fold :: "string \<Rightarrow> string \<Rightarrow> bool" where
  "equal_fold s t \<longleftrightarrow> to_upper s = to_upper t"

lemma byte_of_less [simp]: "byte_of c < 256"
  by (simp add: byte_of_def)

lemma byte_of_char_of [simp]: "n < 256 \<Longrightarrow> byte_of (char_of n) = n"
  by (simp add: byte_of_def)

lemma byte_of_eq_iff [simp]: "byte_of c = byte_of d \<longleftrightarrow> c = d"
  by (simp add: byte_of_def)

lemma up_char_idem [simp]: "up_char (up_char c) = up_char c"
proof (cases "97 \<le> byte_of c \<and> byte_of c \<le> 122")
  case True
  then have "byte_of (up_char c) = byte_of c - 32"
    by (simp add: up_char_def less_imp_diff_less)
  with True have "\<not> 97 \<le> byte_of (up_char c)" by linarith
  then show ?thesis by (simp add: up_char_def [of "up_char c"])
next
  case False
  then show ?thesis by (auto simp: up_char_def)
qed

lemma to_upper_idem [simp]: "to_upper (to_upper s) = to_upper s"
  by (simp add: to_upper_def)

lemma length_to_upper [simp]: "length (to_upper s) = length s"
  by (simp add: to_upper_def)

lemma to_upper_Nil_iff [simp]: "to_upper s = [] \<longleftrightarrow> s = []"
  by (simp add: to_upper_def)

text \<open>
  The UTF-8 encodings of the code points for which unicode.IsSpace holds: the six ASCII ones,
  U+0085, U+00A0, U+1680, U+2000 to U+200A, U+2028, U+2029, U+202F, U+205F and U+3000.
\<close>

definition space_encodings :: "string list" where
  "space_encodings =
     map (\<lambda>c. [c]) [CHR 0x09, CHR 0x0A, CHR 0x0B, CHR 0x0C, CHR 0x0D, CHR 0x20]
   @ map (\<lambda>c. [CHR 0xC2, c]) [CHR 0x85, CHR 0xA0]
   @ [[CHR 0xE1, CHR 0x9A, CHR 0x80]]
   @ map (\<lambda>c. [CHR 0xE2, CHR 0x80, c])
       [CHR 0x80, CHR 0x81, CHR 0x82, CHR 0x83, CHR 0x84, CHR 0x85, CHR 0x86, CHR 0x87,
        CHR 0x88, CHR 0x89, CHR 0x8A, CHR 0xA8, CHR 0xA9, CHR 0xAF]
   @ [[CHR 0xE2, CHR 0x81, CHR 0x9F], [CHR 0xE3, CHR 0x80, CHR 0x80]]"

definition starts_with :: "string \<Rightarrow> string \<Rightarrow> bool" where
  "starts_with p s \<longleftrightarrow> take (length p) s = p"

fun first_space :: "string list \<Rightarrow> string \<Rightarrow> nat" where
  "first_space [] s = 0"
| "first_space (p # ps) s = (if starts_with p s then length p else first_space ps s)"

text \<open>Strip the encodings in \<open>ps\<close> from the front as long as one is there.\<close>

function strip_front :: "string list \<Rightarrow> string \<Rightarrow> string" where
  "strip_front ps s =
     (let n = first_space ps s in if n = 0 \<or> s = [] then s else strip_front ps (drop n s))"
  by pat_completeness auto
termination
  by (relation "measure (\<lambda>(ps, s). length s)") auto

declare strip_front.simps [simp del]

definition trim_space :: "string \<Rightarrow> string" where
  "trim_space s =
     rev (strip_front (map rev space_encodings) (rev (strip_front space_encodings s)))"

text \<open>strings.TrimRight with a one-byte cutset.\<close>

definition trim_right :: "char \<Rightarrow> string \<Rightarrow> string" where
  "trim_right c s = rev (dropWhile (\<lambda>x. x = c) (rev s))"

lemma strip_front_Nil [simp]: "strip_front ps [] = []"
  by (simp add: strip_front.simps)

lemmas trim_eval = trim_space_def strip_front.simps space_encodings_def starts_with_def Let_def

lemma trim_space_Nil [simp]: "trim_space [] = []"
  by (simp add: trim_space_def)

section \<open>Text forms\<close>

text \<open>
  What a component relies on when it sends a value as text: on the values with \<open>ok\<close>, decoding
  what was encoded gives a value the program does not distinguish from it.  Two values with
  one encoding are then the same value, also when the encoding stands at the end of a longer
  text, as in the idempotency keys.
\<close>

locale wire_codec =
  fixes enc :: "'a \<Rightarrow> string" and dec :: "string \<Rightarrow> 'a option"
    and ok :: "'a \<Rightarrow> bool" and same :: "'a \<Rightarrow> 'a \<Rightarrow> bool"
  assumes decode: "ok x \<Longrightarrow> \<exists>y. dec (enc x) = Some y \<and> same y x"
    and same_sym: "same x y \<Longrightarrow> same y x"
    and same_trans: "same x y \<Longrightarrow> same y z \<Longrightarrow> same x z"
begin

lemma enc_determines:
  assumes "ok x" and "ok y" and "enc x = enc y"
  shows "same x y"
proof -
  obtain x' y' where "dec (enc x) = Some x'" "same x' x" "dec (enc y) = Some y'" "same y' y"
    using decode [OF assms(1)] decode [OF assms(2)] by blast
  with assms(3) have "same x x'" and "same x' y"
    by (simp_all add: same_sym)
  then show ?thesis by (rule same_trans)
qed

lemma suffix_determines: "ok x \<Longrightarrow> ok y \<Longrightarrow> p @ enc x = p @ enc y \<Longrightarrow> same x y"
  by (simp add: enc_determines)

end

end
