(* ===== verification/Decimal.thy ===== *)
theory Decimal
  imports Prelude
begin

text \<open>
  The part of vendor/github.com/shopspring/decimal the program computes with: every quantity,
  price and balance of the service is a \<open>Decimal\<close>, an unbounded integer times a power of ten
  with an int32 exponent.  The methods are translated from decimal.go with their panics as
  \<^term>\<open>None\<close> and the int32 arithmetic on exponents wrapping.  A nil big.Int (the zero value of the
  struct) is 0 for every method here (ensureInitialized), so it is the decimal 0 with exponent 0.

  The lemmas give each method its meaning on rationals: addition, subtraction and
  multiplication are exact, comparison is the order, Floor is the floor, Round and Div round half
  away from zero, and String followed by NewFromString loses nothing.
\<close>

record decimal =
  coef :: int
  expo :: int

datatype dec_error = ExponentRange | ExponentNotNumeric | TooManyDots | NotANumber | FractionTooLong

section \<open>Construction and arithmetic\<close>

definition Decimal_New :: "int \<Rightarrow> int \<Rightarrow> decimal" where
  "Decimal_New v e = \<lparr>coef = v, expo = e\<rparr>"

definition Decimal_NewFromInt :: "int \<Rightarrow> decimal" where
  "Decimal_NewFromInt v = \<lparr>coef = v, expo = 0\<rparr>"

text \<open>decimal.Zero is New(0, 1); \<open>Decimal_Unset\<close> is the zero value of the struct.\<close>

definition Decimal_Zero :: decimal where
  "Decimal_Zero = Decimal_New 0 1"

definition Decimal_Unset :: decimal where
  "Decimal_Unset = \<lparr>coef = 0, expo = 0\<rparr>"

definition Decimal_rescale :: "decimal \<Rightarrow> int \<Rightarrow> decimal" where
  "Decimal_rescale d e =
     (if expo d = e then d
      else
        let diff = nat \<bar>e - expo d\<bar>;
            expScale = 10 ^ diff;
            v = (if e > expo d then quo (coef d) expScale else coef d * expScale)
        in \<lparr>coef = v, expo = e\<rparr>)"

definition Decimal_RescalePair :: "decimal \<Rightarrow> decimal \<Rightarrow> decimal \<times> decimal" where
  "Decimal_RescalePair d1 d2 =
     (if expo d1 < expo d2 then (d1, Decimal_rescale d2 (expo d1))
      else if expo d1 > expo d2 then (Decimal_rescale d1 (expo d2), d2)
      else (d1, d2))"

definition Decimal_Abs :: "decimal \<Rightarrow> decimal" where
  "Decimal_Abs d = (if \<not> coef d < 0 then d else d\<lparr>coef := \<bar>coef d\<bar>\<rparr>)"

definition Decimal_Add :: "decimal \<Rightarrow> decimal \<Rightarrow> decimal" where
  "Decimal_Add d d2 =
     (let (rd, rd2) = Decimal_RescalePair d d2 in \<lparr>coef = coef rd + coef rd2, expo = expo rd\<rparr>)"

definition Decimal_Sub :: "decimal \<Rightarrow> decimal \<Rightarrow> decimal" where
  "Decimal_Sub d d2 =
     (let (rd, rd2) = Decimal_RescalePair d d2 in \<lparr>coef = coef rd - coef rd2, expo = expo rd\<rparr>)"

text \<open>Mul panics when the exponent leaves int32.\<close>

definition Decimal_Mul :: "decimal \<Rightarrow> decimal \<Rightarrow> decimal option" where
  "Decimal_Mul d d2 =
     (let e = expo d + expo d2
      in if e > 2147483647 \<or> e < - 2147483648 then None
         else Some \<lparr>coef = coef d * coef d2, expo = e\<rparr>)"

definition Decimal_Cmp :: "decimal \<Rightarrow> decimal \<Rightarrow> int" where
  "Decimal_Cmp d d2 =
     (if expo d = expo d2 then sgn (coef d - coef d2)
      else let (rd, rd2) = Decimal_RescalePair d d2 in sgn (coef rd - coef rd2))"

definition Decimal_GreaterThan :: "decimal \<Rightarrow> decimal \<Rightarrow> bool" where
  "Decimal_GreaterThan d d2 \<longleftrightarrow> Decimal_Cmp d d2 = 1"

definition Decimal_GreaterThanOrEqual :: "decimal \<Rightarrow> decimal \<Rightarrow> bool" where
  "Decimal_GreaterThanOrEqual d d2 \<longleftrightarrow> Decimal_Cmp d d2 = 1 \<or> Decimal_Cmp d d2 = 0"

definition Decimal_LessThanOrEqual :: "decimal \<Rightarrow> decimal \<Rightarrow> bool" where
  "Decimal_LessThanOrEqual d d2 \<longleftrightarrow> Decimal_Cmp d d2 = - 1 \<or> Decimal_Cmp d d2 = 0"

definition Decimal_Sign :: "decimal \<Rightarrow> int" where
  "Decimal_Sign d = sgn (coef d)"

definition Decimal_IsPositive :: "decimal \<Rightarrow> bool" where
  "Decimal_IsPositive d \<longleftrightarrow> Decimal_Sign d = 1"

definition Decimal_IsZero :: "decimal \<Rightarrow> bool" where
  "Decimal_IsZero d \<longleftrightarrow> Decimal_Sign d = 0"

section \<open>Division and rounding\<close>

text \<open>
  QuoRem panics on a zero divisor and when the exponent difference leaves int32.  The second
  component is the remainder.
\<close>

definition Decimal_QuoRem :: "decimal \<Rightarrow> decimal \<Rightarrow> int \<Rightarrow> (decimal \<times> decimal) option" where
  "Decimal_QuoRem d d2 precision =
     (if coef d2 = 0 then None
      else
        let scale = wrap32 (- precision);
            e = expo d - expo d2 - scale
        in if e > 2147483647 \<or> e < - 2147483648 then None
           else
             let (aa, bb, scalerest) =
               (if e < 0 then (coef d, coef d2 * 10 ^ nat (- e), expo d)
                else (10 ^ nat e * coef d, coef d2, wrap32 (scale + expo d2)))
             in Some (\<lparr>coef = quo aa bb, expo = scale\<rparr>, \<lparr>coef = quo_rem aa bb, expo = scalerest\<rparr>))"

definition Decimal_DivRound :: "decimal \<Rightarrow> decimal \<Rightarrow> int \<Rightarrow> decimal option" where
  "Decimal_DivRound d d2 precision =
     (case Decimal_QuoRem d d2 precision of
        None \<Rightarrow> None
      | Some (q, r) \<Rightarrow>
          let r2 = \<lparr>coef = 2 * \<bar>coef r\<bar>, expo = wrap32 (expo r + precision)\<rparr>;
              c = Decimal_Cmp r2 (Decimal_Abs d2)
          in Some
            (if c < 0 then q
             else if sgn (coef d) * sgn (coef d2) < 0
             then Decimal_Sub q (Decimal_New 1 (wrap32 (- precision)))
             else Decimal_Add q (Decimal_New 1 (wrap32 (- precision)))))"

text \<open>DivisionPrecision is 16.\<close>

definition Decimal_Div :: "decimal \<Rightarrow> decimal \<Rightarrow> decimal option" where
  "Decimal_Div d d2 = Decimal_DivRound d d2 16"

definition Decimal_Floor :: "decimal \<Rightarrow> decimal" where
  "Decimal_Floor d =
     (if expo d \<ge> 0 then d else \<lparr>coef = coef d div 10 ^ nat (- expo d), expo = 0\<rparr>)"

definition Decimal_Round :: "decimal \<Rightarrow> int \<Rightarrow> decimal" where
  "Decimal_Round d places =
     (if expo d = wrap32 (- places) then d
      else
        let ret = Decimal_rescale d (wrap32 (- places - 1));
            v = (if coef ret < 0 then coef ret - 5 else coef ret + 5);
            v' = v div 10; m = v mod 10
        in \<lparr>coef = (if v' < 0 \<and> m \<noteq> 0 then v' + 1 else v'), expo = wrap32 (expo ret + 1)\<rparr>)"

section \<open>Text\<close>

definition digit_char :: "nat \<Rightarrow> char" where
  "digit_char n = char_of (48 + n)"

fun nat_digits :: "nat \<Rightarrow> string" where
  "nat_digits n = (if n < 10 then [digit_char n] else nat_digits (n div 10) @ [digit_char (n mod 10)])"

declare nat_digits.simps [simp del]

text \<open>big.Int.String and strconv.FormatInt in base 10.\<close>

definition int_string :: "int \<Rightarrow> string" where
  "int_string v = (if v < 0 then CHR ''-'' # nat_digits (nat (- v)) else nat_digits (nat v))"

definition trim_zeros :: "string \<Rightarrow> string" where
  "trim_zeros s = trim_right CHR ''0'' s"

definition Decimal_string :: "bool \<Rightarrow> decimal \<Rightarrow> string" where
  "Decimal_string trimTrailingZeros d =
     (if expo d \<ge> 0 then int_string (coef (Decimal_rescale d 0))
      else
        let str = nat_digits (nat \<bar>coef d\<bar>);
            n = nat (- expo d);
            (intPart, fractionalPart) =
              (if length str > n then (take (length str - n) str, drop (length str - n) str)
               else (''0'', replicate (n - length str) CHR ''0'' @ str));
            frac = (if trimTrailingZeros then trim_zeros fractionalPart else fractionalPart);
            number = (if length frac > 0 then intPart @ ''.'' @ frac else intPart)
        in if coef d < 0 then ''-'' @ number else number)"

definition Decimal_String :: "decimal \<Rightarrow> string" where
  "Decimal_String d = Decimal_string True d"

definition Decimal_StringFixed :: "decimal \<Rightarrow> int \<Rightarrow> string" where
  "Decimal_StringFixed d places = Decimal_string False (Decimal_Round d places)"

definition digit_val :: "char \<Rightarrow> nat option" where
  "digit_val c = (if 48 \<le> byte_of c \<and> byte_of c \<le> 57 then Some (byte_of c - 48) else None)"

fun digits_val :: "nat \<Rightarrow> string \<Rightarrow> nat option" where
  "digits_val acc [] = Some acc"
| "digits_val acc (c # cs) =
     (case digit_val c of None \<Rightarrow> None | Some k \<Rightarrow> digits_val (acc * 10 + k) cs)"

text \<open>An optional sign and at least one decimal digit: the base-10 grammar of big.Int.SetString.\<close>

fun set_string :: "string \<Rightarrow> int option" where
  "set_string [] = None"
| "set_string (c # cs) =
     (if c = CHR ''-'' then (if cs = [] then None else map_option (\<lambda>n. - int n) (digits_val 0 cs))
      else if c = CHR ''+'' then (if cs = [] then None else map_option int (digits_val 0 cs))
      else map_option int (digits_val 0 (c # cs)))"

datatype num_error = ErrSyntax | ErrRange

text \<open>strconv.ParseInt in base 10 with a bit size.\<close>

definition parse_int :: "nat \<Rightarrow> string \<Rightarrow> num_error + int" where
  "parse_int bits s =
     (case set_string s of
        None \<Rightarrow> Inl ErrSyntax
      | Some v \<Rightarrow>
          if v < - (2 ^ (bits - 1)) \<or> v \<ge> 2 ^ (bits - 1) then Inl ErrRange else Inr v)"

fun find_index :: "(char \<Rightarrow> bool) \<Rightarrow> string \<Rightarrow> nat option" where
  "find_index p [] = None"
| "find_index p (c # cs) = (if p c then Some 0 else map_option Suc (find_index p cs))"

text \<open>The mantissa: at most one dot, its digits parsed as one integer, its scale.\<close>

definition parse_mantissa :: "string \<Rightarrow> dec_error + (string \<times> int)" where
  "parse_mantissa value =
     (case find_index (\<lambda>c. c = CHR ''.'') value of
        None \<Rightarrow> Inr (value, 0)
      | Some pIndex \<Rightarrow>
          let rest = drop (Suc pIndex) value
          in if find_index (\<lambda>c. c = CHR ''.'') rest \<noteq> None then Inl TooManyDots
             else Inr (take pIndex value @ rest, - int (length rest)))"

definition parse_coef :: "string \<Rightarrow> int option" where
  "parse_coef intString =
     (if length intString \<le> 18
      then (case parse_int 64 intString of Inl _ \<Rightarrow> None | Inr v \<Rightarrow> Some v)
      else set_string intString)"

definition Decimal_finish :: "string \<Rightarrow> int \<Rightarrow> dec_error + decimal" where
  "Decimal_finish value e0 =
     (case parse_mantissa value of
        Inl e \<Rightarrow> Inl e
      | Inr (intString, scale) \<Rightarrow>
          (case parse_coef intString of
             None \<Rightarrow> Inl NotANumber
           | Some v \<Rightarrow>
               if e0 + scale < - 2147483648 \<or> e0 + scale > 2147483647 then Inl FractionTooLong
               else Inr \<lparr>coef = v, expo = e0 + scale\<rparr>))"

definition Decimal_NewFromString :: "string \<Rightarrow> dec_error + decimal" where
  "Decimal_NewFromString value =
     (case find_index (\<lambda>c. c = CHR ''E'' \<or> c = CHR ''e'') value of
        None \<Rightarrow> Decimal_finish value 0
      | Some eIndex \<Rightarrow>
          (case parse_int 32 (drop (Suc eIndex) value) of
             Inl ErrRange \<Rightarrow> Inl ExponentRange
           | Inl ErrSyntax \<Rightarrow> Inl ExponentNotNumeric
           | Inr e \<Rightarrow> Decimal_finish (take eIndex value) e))"

text \<open>Evaluation on literals.\<close>

lemmas dec_eval = Decimal_LessThanOrEqual_def Decimal_GreaterThan_def Decimal_GreaterThanOrEqual_def
  Decimal_Cmp_def Decimal_Zero_def Decimal_Unset_def Decimal_New_def Decimal_NewFromInt_def
  Decimal_Div_def Decimal_DivRound_def Decimal_QuoRem_def Decimal_Floor_def Decimal_Mul_def Decimal_Add_def
  Decimal_Sub_def Decimal_RescalePair_def Decimal_rescale_def Decimal_Abs_def Decimal_Sign_def
  Decimal_IsZero_def Decimal_IsPositive_def Decimal_Round_def Decimal_String_def Decimal_StringFixed_def
  Decimal_string_def int_string_def nat_digits.simps digit_char_def char_of_eval trim_zeros_def trim_right_def
  quo_def quo_rem_def wrap32_def in32_def Let_def

lemmas parse_eval = Decimal_NewFromString_def Decimal_finish_def parse_mantissa_def parse_coef_def parse_int_def
  digit_val_def byte_of_def Let_def

section \<open>Meaning on rationals\<close>

definition dval :: "decimal \<Rightarrow> rat" where
  "dval d = of_int (coef d) * 10 powi expo d"

lemma pow10_pos [simp]: "0 < (10 :: rat) powi k"
  by (simp add: power_int_def)

lemma pow10_not_neg [simp]: "\<not> (10 :: rat) powi k < 0"
  using pow10_pos [of k] by linarith

lemma of_int_pow10: "0 \<le> k \<Longrightarrow> (10 :: rat) ^ nat k = 10 powi k"
  by (simp add: power_int_def)

lemma pow10_add: "(10 :: rat) powi (a + b) = 10 powi a * 10 powi b"
  by (simp add: power_int_add)

lemma pow10_diff: "(10 :: rat) powi (a - b) = 10 powi a / 10 powi b"
  by (simp add: power_int_diff)

lemma dval_rescale [dec_simps]: "e \<le> expo d \<Longrightarrow> dval (Decimal_rescale d e) = dval d"
  by (auto simp: dval_def Decimal_rescale_def Let_def of_int_pow10 mult.assoc simp flip: pow10_add)

lemma expo_rescale [simp]: "expo (Decimal_rescale d e) = e"
  by (simp add: Decimal_rescale_def Let_def)

lemma RescalePair_cases:
  obtains x y where "Decimal_RescalePair a b = (x, y)"
    and "dval x = dval a" and "dval y = dval b"
    and "expo x = min (expo a) (expo b)" and "expo y = min (expo a) (expo b)"
proof -
  have "dval (fst (Decimal_RescalePair a b)) = dval a"
    and "dval (snd (Decimal_RescalePair a b)) = dval b"
    and "expo (fst (Decimal_RescalePair a b)) = min (expo a) (expo b)"
    and "expo (snd (Decimal_RescalePair a b)) = min (expo a) (expo b)"
    by (auto simp: Decimal_RescalePair_def dec_simps)
  with surjective_pairing show thesis by (rule that)
qed

lemma dval_Add [dec_simps]: "dval (Decimal_Add a b) = dval a + dval b"
  by (rule RescalePair_cases [of a b]) (simp add: Decimal_Add_def dval_def algebra_simps)

lemma dval_Sub [dec_simps]: "dval (Decimal_Sub a b) = dval a - dval b"
  by (rule RescalePair_cases [of a b]) (simp add: Decimal_Sub_def dval_def algebra_simps)

lemma expo_Add [simp]: "expo (Decimal_Add a b) = min (expo a) (expo b)"
  by (rule RescalePair_cases [of a b]) (simp add: Decimal_Add_def)

lemma expo_Sub [simp]: "expo (Decimal_Sub a b) = min (expo a) (expo b)"
  by (rule RescalePair_cases [of a b]) (simp add: Decimal_Sub_def)

lemma Mul_Some_iff:
  "Decimal_Mul a b = Some c \<longleftrightarrow>
     in32 (expo a + expo b) \<and> c = \<lparr>coef = coef a * coef b, expo = expo a + expo b\<rparr>"
  by (auto simp: Decimal_Mul_def in32_def Let_def)

lemma dval_Mul: "Decimal_Mul a b = Some c \<Longrightarrow> dval c = dval a * dval b"
  by (auto simp: Mul_Some_iff dval_def pow10_add)

lemma sgn_scaled:
  "expo x = expo y \<Longrightarrow> sgn (coef x - coef y) =
     (if dval x < dval y then - 1 else if dval x = dval y then 0 else 1)"
  by (auto simp: dval_def sgn_if)

lemma Cmp_eq:
  "Decimal_Cmp a b = (if dval a < dval b then - 1 else if dval a = dval b then 0 else 1)"
  by (rule RescalePair_cases [of a b]) (simp add: Decimal_Cmp_def sgn_scaled)

lemma GreaterThan_iff [dec_simps]: "Decimal_GreaterThan a b \<longleftrightarrow> dval b < dval a"
  by (auto simp: Decimal_GreaterThan_def Cmp_eq)

lemma GreaterThanOrEqual_iff [dec_simps]: "Decimal_GreaterThanOrEqual a b \<longleftrightarrow> dval b \<le> dval a"
  by (auto simp: Decimal_GreaterThanOrEqual_def Cmp_eq)

lemma LessThanOrEqual_iff [dec_simps]: "Decimal_LessThanOrEqual a b \<longleftrightarrow> dval a \<le> dval b"
  by (auto simp: Decimal_LessThanOrEqual_def Cmp_eq)

lemma dval_less_0 [simp]: "dval d < 0 \<longleftrightarrow> coef d < 0"
  by (simp add: dval_def mult_less_0_iff not_less_iff_gr_or_eq)

lemma dval_gr_0: "0 < dval d \<longleftrightarrow> 0 < coef d"
  by (simp add: dval_def zero_less_mult_iff)

lemma dval_eq_0: "dval d = 0 \<longleftrightarrow> coef d = 0"
  by (simp add: dval_def)

lemma IsZero_iff [dec_simps]: "Decimal_IsZero d \<longleftrightarrow> dval d = 0"
  by (simp add: Decimal_IsZero_def Decimal_Sign_def dval_eq_0 sgn_0_0)

lemma IsPositive_iff [dec_simps]: "Decimal_IsPositive d \<longleftrightarrow> 0 < dval d"
  by (simp add: Decimal_IsPositive_def Decimal_Sign_def dval_gr_0 sgn_1_pos)

lemma dval_Zero [simp, dec_simps]: "dval Decimal_Zero = 0"
  by (simp add: Decimal_Zero_def Decimal_New_def dval_def)

lemma dval_Unset [simp, dec_simps]: "dval Decimal_Unset = 0"
  by (simp add: Decimal_Unset_def dval_def)

lemma dval_New: "dval (Decimal_New v e) = of_int v * 10 powi e"
  by (simp add: Decimal_New_def dval_def)

lemma dval_Abs: "dval (Decimal_Abs d) = \<bar>dval d\<bar>"
  by (simp add: Decimal_Abs_def dval_def abs_mult)

section \<open>Rounding half away from zero\<close>

definition round_away :: "rat \<Rightarrow> int" where
  "round_away x = (if x < 0 then - \<lfloor>- x + 1 / 2\<rfloor> else \<lfloor>x + 1 / 2\<rfloor>)"

lemma floor_half [simp]: "\<lfloor>1 / 2 :: rat\<rfloor> = 0"
  by (simp add: floor_eq_iff)

lemma floor_of_int_half [simp]: "\<lfloor>of_int n + 1 / 2 :: rat\<rfloor> = n"
  by (simp add: floor_eq_iff)

lemma round_away_of_int [simp]: "round_away (of_int n) = n"
  using floor_of_int_half [of "- n"] floor_of_int_half [of n] by (simp add: round_away_def)

lemma round_away_0 [simp]: "round_away 0 = 0"
  by (simp add: round_away_def)

lemma floor_half_bounds:
  "of_int \<lfloor>x + 1 / 2\<rfloor> \<le> x + 1 / 2" "x - 1 / 2 < of_int \<lfloor>x + 1 / 2 :: rat\<rfloor>"
  using floor_correct [of "x + 1 / 2"] by linarith+

lemma round_away_minus: "round_away (- x) = - round_away x"
  by (cases x "0 :: rat" rule: linorder_cases) (simp_all add: round_away_def)

lemma round_away_bound: "\<bar>of_int (round_away x) - x\<bar> \<le> 1 / 2"
proof -
  have pos: "\<bar>of_int (round_away y) - y\<bar> \<le> 1 / 2" if "0 \<le> y" for y
  proof -
    have "round_away y = \<lfloor>y + 1 / 2\<rfloor>"
      using that by (simp add: round_away_def)
    with floor_half_bounds [of y] show ?thesis by linarith
  qed
  show ?thesis
    using pos [of x] pos [of "- x"]
    by (cases "0 \<le> x") (simp_all add: round_away_minus abs_minus_commute)
qed

lemma round_away_nonneg: "0 \<le> x \<Longrightarrow> 0 \<le> round_away x"
  by (simp add: round_away_def)

lemma round_away_mono: "x \<le> y \<Longrightarrow> round_away x \<le> round_away y"
proof -
  assume le: "x \<le> y"
  consider "0 \<le> x" | "x < 0" "0 \<le> y" | "y < 0"
    by linarith
  then show ?thesis
  proof cases
    case 1
    with le show ?thesis by (simp add: round_away_def floor_mono)
  next
    case 2
    then have "0 \<le> round_away (- x)" and "0 \<le> round_away y"
      by (simp_all add: round_away_nonneg)
    then show ?thesis by (simp add: round_away_minus)
  next
    case 3
    with le show ?thesis by (simp add: round_away_def floor_mono)
  qed
qed

lemma round_away_quotient_pos:
  assumes "0 \<le> a" and "0 < b"
  shows "round_away (of_int a / of_int b) =
    (if 2 * (a mod b) < b then a div b else a div b + 1)"
proof -
  have a: "(of_int a :: rat) = of_int (a div b) * of_int b + of_int (a mod b)"
    by (metis div_mult_mod_eq of_int_add of_int_mult)
  have lt: "(of_int (a mod b) :: rat) < of_int b" and ge: "(0 :: rat) \<le> of_int (a mod b)"
    using assms by simp_all
  have b: "0 < (of_int b :: rat)"
    using assms by simp
  have eq: "(of_int a :: rat) / of_int b = of_int (a div b) + of_int (a mod b) / of_int b"
    using b by (subst a) (simp add: add_divide_distrib)
  have "\<lfloor>(of_int a :: rat) / of_int b + 1 / 2\<rfloor> =
      (if 2 * (a mod b) < b then a div b else a div b + 1)"
  proof (cases "2 * (a mod b) < b")
    case True
    then have "2 * (of_int (a mod b) :: rat) < of_int b"
      by (metis of_int_less_iff of_int_mult of_int_numeral)
    then have "(of_int (a mod b) :: rat) / of_int b < 1 / 2"
      using b by (simp add: field_simps)
    moreover have "0 \<le> (of_int (a mod b) :: rat) / of_int b"
      using b ge by simp
    ultimately show ?thesis
      using True unfolding eq by (simp only: if_True) (intro floor_unique; linarith)
  next
    case False
    then have "(of_int b :: rat) \<le> 2 * of_int (a mod b)"
      by (metis not_less of_int_le_iff of_int_mult of_int_numeral)
    then have "1 / 2 \<le> (of_int (a mod b) :: rat) / of_int b"
      using b by (simp add: field_simps)
    moreover have "(of_int (a mod b) :: rat) / of_int b < 1"
      using b lt by simp
    ultimately show ?thesis
      using False unfolding eq by (simp only: if_False of_int_add of_int_1) (intro floor_unique; linarith)
  qed
  moreover have "\<not> (of_int a :: rat) / of_int b < 0"
    using assms by (simp add: divide_less_0_iff)
  ultimately show ?thesis
    by (simp add: round_away_def)
qed

lemma abs_quo_rem: "b \<noteq> 0 \<Longrightarrow> \<bar>quo_rem a b\<bar> = \<bar>a\<bar> mod \<bar>b\<bar>"
proof -
  assume "b \<noteq> 0"
  have "quo_rem a b = sgn a * \<bar>a\<bar> - (b * sgn b) * (sgn a * (\<bar>a\<bar> div \<bar>b\<bar>))"
    by (simp add: quo_rem_def quo_def abs_times_sgn ac_simps)
  also have "b * sgn b = \<bar>b\<bar>"
    by (simp add: abs_sgn)
  also have "sgn a * \<bar>a\<bar> - \<bar>b\<bar> * (sgn a * (\<bar>a\<bar> div \<bar>b\<bar>)) = sgn a * (\<bar>a\<bar> mod \<bar>b\<bar>)"
    by (simp add: minus_mult_div_eq_mod [symmetric] algebra_simps)
  finally show ?thesis
    using \<open>b \<noteq> 0\<close> by (auto simp: abs_mult sgn_if)
qed

lemma round_away_quotient:
  assumes "b \<noteq> 0"
  shows "round_away (of_int a / of_int b) =
    (if 2 * \<bar>quo_rem a b\<bar> < \<bar>b\<bar> then quo a b
     else if sgn a * sgn b < 0 then quo a b - 1 else quo a b + 1)"
proof -
  have "(of_int a :: rat) / of_int b = of_int (sgn a * sgn b) * (of_int \<bar>a\<bar> / of_int \<bar>b\<bar>)"
    using assms by (cases "a = 0") (auto simp: sgn_if abs_if)
  moreover have "round_away (of_int (s * t) * x) = s * t * round_away x"
    if "s \<in> {- 1, 0, 1}" and "t \<in> {- 1, 0, 1 :: int}" for s t x
    using that by (auto simp: round_away_minus)
  moreover have "sgn x \<in> {- 1, 0, 1}" for x :: int
    by (simp add: sgn_if)
  ultimately have "round_away (of_int a / of_int b) =
      sgn a * sgn b * round_away (of_int \<bar>a\<bar> / of_int \<bar>b\<bar>)"
    by (simp only:)
  also have "round_away (of_int \<bar>a\<bar> / of_int \<bar>b\<bar>) =
      (if 2 * \<bar>quo_rem a b\<bar> < \<bar>b\<bar> then \<bar>a\<bar> div \<bar>b\<bar> else \<bar>a\<bar> div \<bar>b\<bar> + 1)"
    using assms by (simp add: round_away_quotient_pos abs_quo_rem del: of_int_abs)
  also have "sgn a * sgn b * \<dots> = (if 2 * \<bar>quo_rem a b\<bar> < \<bar>b\<bar> then quo a b
     else if sgn a * sgn b < 0 then quo a b - 1 else quo a b + 1)"
    using assms by (auto simp: quo_def sgn_if quo_rem_def algebra_simps)
  finally show ?thesis .
qed

section \<open>Div, Round and Floor\<close>

lemma Sub_New_1: "expo q = e \<Longrightarrow> Decimal_Sub q (Decimal_New 1 e) = \<lparr>coef = coef q - 1, expo = e\<rparr>"
  by (simp add: Decimal_Sub_def Decimal_RescalePair_def Decimal_New_def)

lemma Add_New_1: "expo q = e \<Longrightarrow> Decimal_Add q (Decimal_New 1 e) = \<lparr>coef = coef q + 1, expo = e\<rparr>"
  by (simp add: Decimal_Add_def Decimal_RescalePair_def Decimal_New_def)

text \<open>The last step of DivRound, for the numerator and denominator QuoRem divides.\<close>

definition div_round_last :: "decimal \<Rightarrow> decimal \<Rightarrow> int \<Rightarrow> int \<Rightarrow> int \<Rightarrow> int \<Rightarrow> decimal" where
  "div_round_last a b p aa bb k =
     (let c = Decimal_Cmp \<lparr>coef = 2 * \<bar>quo_rem aa bb\<bar>, expo = k\<rparr> (Decimal_Abs b)
      in if c < 0 then \<lparr>coef = quo aa bb, expo = - p\<rparr>
         else if sgn (coef a) * sgn (coef b) < 0
         then Decimal_Sub \<lparr>coef = quo aa bb, expo = - p\<rparr> (Decimal_New 1 (- p))
         else Decimal_Add \<lparr>coef = quo aa bb, expo = - p\<rparr> (Decimal_New 1 (- p)))"

lemma div_round_last:
  assumes "bb \<noteq> 0" and "sgn (coef a) * sgn (coef b) = sgn aa * sgn bb"
    and "\<bar>dval b\<bar> = of_int \<bar>bb\<bar> * 10 powi k"
  shows "div_round_last a b p aa bb k = \<lparr>coef = round_away (of_int aa / of_int bb), expo = - p\<rparr>"
proof -
  have "Decimal_Cmp \<lparr>coef = 2 * \<bar>quo_rem aa bb\<bar>, expo = k\<rparr> (Decimal_Abs b) < 0 \<longleftrightarrow>
      of_int (2 * \<bar>quo_rem aa bb\<bar>) * 10 powi k < (of_int \<bar>bb\<bar> * 10 powi k :: rat)"
    by (simp add: Cmp_eq dval_Abs assms(3) dval_def [of "\<lparr>coef = _, expo = _\<rparr>"] del: of_int_abs)
  also have "\<dots> \<longleftrightarrow> 2 * \<bar>quo_rem aa bb\<bar> < \<bar>bb\<bar>"
    by (simp only: mult_less_cancel_right_pos pow10_pos of_int_less_iff)
  finally show ?thesis
    using assms(1,2)
    by (simp add: div_round_last_def round_away_quotient Sub_New_1 Add_New_1)
qed

definition div_exponents_ok :: "decimal \<Rightarrow> decimal \<Rightarrow> int \<Rightarrow> bool" where
  "div_exponents_ok a b p \<longleftrightarrow>
     in32 p \<and> in32 (- p) \<and> in32 (expo a + p) \<and> in32 (expo b - p) \<and> in32 (expo b) \<and>
     in32 (expo a - expo b + p)"

lemma DivRound_eq:
  assumes "coef b \<noteq> 0" and "div_exponents_ok a b p"
  shows "Decimal_DivRound a b p =
    Some \<lparr>coef = round_away (dval a / dval b * 10 powi p), expo = - p\<rparr>"
proof -
  define e where "e = expo a - expo b + p"
  have ok: "in32 (- p)" "in32 (expo a + p)" "in32 (expo b - p)" "in32 (expo b)" "in32 e"
    using assms(2) by (simp_all add: div_exponents_ok_def e_def)
  have range: "\<not> (e > 2147483647 \<or> e < - 2147483648)"
    using ok(5) by (auto simp: in32_def)
  show ?thesis
  proof (cases "e < 0")
    case True
    let ?bb = "coef b * 10 ^ nat (- e)"
    have "Decimal_DivRound a b p = Some (div_round_last a b p (coef a) ?bb (expo a + p))"
      using assms(1) ok range True
      by (simp add: Decimal_DivRound_def Decimal_QuoRem_def div_round_last_def Let_def e_def
          del: mult_eq_0_iff)
    also have "\<bar>dval b\<bar> = of_int \<bar>?bb\<bar> * 10 powi (expo a + p)"
      using True by (simp add: dval_def abs_mult of_int_pow10 mult.assoc e_def flip: pow10_add)
    then have "div_round_last a b p (coef a) ?bb (expo a + p) =
        \<lparr>coef = round_away (of_int (coef a) / of_int ?bb), expo = - p\<rparr>"
      using assms(1) by (intro div_round_last) (auto simp: sgn_mult)
    also have "(of_int (coef a) :: rat) / of_int ?bb = dval a / dval b * 10 powi p"
      using True by (simp add: dval_def of_int_pow10 e_def pow10_add pow10_diff field_simps)
    finally show ?thesis .
  next
    case False
    let ?aa = "10 ^ nat e * coef a"
    have "Decimal_DivRound a b p = Some (div_round_last a b p ?aa (coef b) (expo b))"
      using assms(1) ok range False
      by (simp add: Decimal_DivRound_def Decimal_QuoRem_def div_round_last_def Let_def e_def)
    also have "\<bar>dval b\<bar> = of_int \<bar>coef b\<bar> * 10 powi expo b"
      by (simp add: dval_def abs_mult)
    then have "div_round_last a b p ?aa (coef b) (expo b) =
        \<lparr>coef = round_away (of_int ?aa / of_int (coef b)), expo = - p\<rparr>"
      using assms(1) by (intro div_round_last) (auto simp: sgn_mult)
    also have "(of_int ?aa :: rat) / of_int (coef b) = dval a / dval b * 10 powi p"
      using False by (simp add: dval_def of_int_pow10 e_def pow10_add pow10_diff field_simps)
    finally show ?thesis .
  qed
qed

text \<open>Exponents of this size never wrap in the service's arithmetic.\<close>

definition small_expo :: "decimal \<Rightarrow> bool" where
  "small_expo d \<longleftrightarrow> \<bar>expo d\<bar> \<le> 1000000000"

lemma small_expo_in32 [simp]: "small_expo d \<Longrightarrow> in32 (expo d)"
  by (auto simp: small_expo_def in32_def)

lemma Div_eq:
  assumes "coef b \<noteq> 0" and "small_expo a" and "small_expo b"
  shows "Decimal_Div a b = Some \<lparr>coef = round_away (dval a / dval b * 10 ^ 16), expo = - 16\<rparr>"
proof -
  have "div_exponents_ok a b 16"
    using assms(2,3) by (auto simp: div_exponents_ok_def small_expo_def in32_def)
  then have "Decimal_Div a b = Some \<lparr>coef = round_away (dval a / dval b * 10 powi 16), expo = - 16\<rparr>"
    unfolding Decimal_Div_def by (rule DivRound_eq [OF assms(1)])
  then show ?thesis by simp
qed

lemma scaled_bound:
  assumes "\<bar>r - x * 10 ^ 16\<bar> \<le> (1 / 2 :: rat)"
  shows "\<bar>r / 10 ^ 16 - x\<bar> \<le> 1 / (2 * 10 ^ 16)"
proof -
  have e: "(10 :: rat) ^ 16 = 10000000000000000" by simp
  from assms show ?thesis
    unfolding e by linarith
qed

lemma Div_error:
  assumes "coef b \<noteq> 0" and "small_expo a" and "small_expo b" and "Decimal_Div a b = Some c"
  shows "\<bar>dval c - dval a / dval b\<bar> \<le> 1 / (2 * 10 ^ 16)"
proof -
  have "dval c = of_int (round_away (dval a / dval b * 10 ^ 16)) / 10 ^ 16"
    using assms by (auto simp: Div_eq dval_def power_int_minus_divide)
  with round_away_bound show ?thesis
    by (simp only: scaled_bound)
qed

definition trunc :: "rat \<Rightarrow> int" where
  "trunc y = (if y < 0 then - \<lfloor>- y\<rfloor> else \<lfloor>y\<rfloor>)"

lemma quo_trunc:
  assumes "0 < b"
  shows "quo a b = trunc (of_int a / of_int b)"
proof (cases "a < 0")
  case True
  then have "(of_int a :: rat) / of_int b < 0"
    using assms by (simp add: divide_less_0_iff)
  moreover have "- ((of_int a :: rat) / of_int b) = of_int (- a) / of_int b"
    by simp
  then have "\<lfloor>- ((of_int a :: rat) / of_int b)\<rfloor> = - a div b"
    by (simp only: floor_divide_of_int_eq)
  ultimately show ?thesis
    using True assms by (simp add: trunc_def quo_def)
next
  case False
  then have "\<not> (of_int a :: rat) / of_int b < 0"
    using assms by (simp add: divide_less_0_iff)
  with False assms show ?thesis
    by (auto simp: trunc_def quo_def floor_divide_of_int_eq sgn_if)
qed

lemma floor_tenth_half: "\<lfloor>y / 10 + 1 / 2 :: rat\<rfloor> = (\<lfloor>y\<rfloor> + 5) div 10"
proof (rule floor_unique)
  let ?k = "(\<lfloor>y\<rfloor> + 5) div 10"
  have "10 * ?k \<le> \<lfloor>y\<rfloor> + 5" and "\<lfloor>y\<rfloor> + 6 \<le> 10 * ?k + 10"
    by presburger+
  then have "(of_int (10 * ?k) :: rat) \<le> of_int (\<lfloor>y\<rfloor> + 5)"
    and "(of_int (\<lfloor>y\<rfloor> + 6) :: rat) \<le> of_int (10 * ?k + 10)"
    by (simp_all only: of_int_le_iff)
  moreover have "of_int \<lfloor>y\<rfloor> \<le> y" and "y < of_int \<lfloor>y\<rfloor> + 1"
    using floor_correct [of y] by simp_all
  ultimately show "of_int ?k \<le> y / 10 + 1 / 2" and "y / 10 + 1 / 2 < of_int ?k + 1"
    unfolding of_int_add of_int_mult of_int_numeral by linarith+
qed

lemma digit_of_negative:
  fixes n w :: int
  assumes "0 \<le> n" and "w = (if - n < 0 then - n - 5 else - n + 5)"
  shows "(if w div 10 < 0 \<and> w mod 10 \<noteq> 0 then w div 10 + 1 else w div 10) = - ((n + 5) div 10)"
proof (cases "n = 0")
  case True
  with assms(2) show ?thesis by simp
next
  case False
  define m where "m = n + 5"
  from False assms have w: "w = - m" and n: "0 \<le> m div 10" by (simp_all add: m_def)
  have d: "w div 10 = (if m mod 10 = 0 then - (m div 10) else - (m div 10) - 1)"
    unfolding w by (rule zdiv_zminus1_eq_if) simp
  have r: "w mod 10 = 0 \<longleftrightarrow> m mod 10 = 0"
    unfolding w by (simp add: mod_eq_0_iff_dvd)
  have "(if w div 10 < 0 \<and> w mod 10 \<noteq> 0 then w div 10 + 1 else w div 10) = - (m div 10)"
  proof (cases "m mod 10 = 0")
    case True
    then show ?thesis unfolding r d by (simp only: simp_thms if_True if_False)
  next
    case False
    with n have "- (m div 10) - 1 < 0" by linarith
    with False show ?thesis unfolding r d by simp
  qed
  then show ?thesis unfolding m_def .
qed

lemma round_digit:
  fixes y :: rat
  defines "r \<equiv> trunc y"
  defines "v \<equiv> (if r < 0 then r - 5 else r + 5)"
  shows "(if v div 10 < 0 \<and> v mod 10 \<noteq> 0 then v div 10 + 1 else v div 10) = round_away (y / 10)"
proof (cases "y < 0")
  case False
  then have "0 \<le> \<lfloor>y\<rfloor>" by simp
  then have "\<not> \<lfloor>y\<rfloor> < 0" and "\<not> (\<lfloor>y\<rfloor> + 5) div 10 < 0" by presburger+
  with False show ?thesis
    by (simp add: r_def v_def trunc_def round_away_def floor_tenth_half del: zero_le_floor floor_less_zero)
next
  case True
  then have "0 \<le> \<lfloor>- y\<rfloor>" by simp
  moreover have "round_away (y / 10) = - ((\<lfloor>- y\<rfloor> + 5) div 10)"
    using True floor_tenth_half [of "- y"] by (simp add: round_away_def)
  moreover have "r = - \<lfloor>- y\<rfloor>"
    using True by (simp add: r_def trunc_def)
  ultimately show ?thesis
    using digit_of_negative [of "\<lfloor>- y\<rfloor>" v] by (simp only: v_def)
qed

lemma coef_rescale:
  "coef (Decimal_rescale d e) = trunc (dval d * 10 powi (- e))"
proof -
  have trunc_int: "trunc (of_int n) = n" for n
    by (simp add: trunc_def)
  show ?thesis
  proof (cases "e > expo d")
    case True
    then have "dval d * 10 powi (- e) = of_int (coef d) / of_int (10 ^ nat (e - expo d))"
      by (simp add: dval_def of_int_pow10 pow10_diff power_int_minus_divide)
    with True show ?thesis
      by (simp add: Decimal_rescale_def quo_trunc Let_def del: of_int_power)
  next
    case False
    then have "dval d * 10 powi (- e) = of_int (coef d * 10 ^ nat (expo d - e))"
      by (simp add: dval_def of_int_pow10 pow10_diff power_int_minus_divide)
    with False show ?thesis
      by (auto simp: Decimal_rescale_def Let_def trunc_int simp del: of_int_power of_int_mult)
  qed
qed

lemma Round_eq:
  assumes "in32 (- p)" and "in32 (- p - 1)"
  shows "Decimal_Round d p = \<lparr>coef = round_away (dval d * 10 powi p), expo = - p\<rparr>"
proof (cases "expo d = - p")
  case True
  then have "dval d * 10 powi p = of_int (coef d)"
    by (simp add: dval_def power_int_minus_divide)
  then show ?thesis
    using True assms by (simp add: Decimal_Round_def)
next
  case False
  have e: "dval d * 10 powi p = dval d * 10 powi (- (- p - 1)) / 10"
    by (simp add: power_int_add)
  show ?thesis
    unfolding e round_digit [symmetric]
    using False assms by (simp add: Decimal_Round_def Let_def coef_rescale)
qed

lemma dval_Floor [dec_simps]: "dval (Decimal_Floor d) = of_int \<lfloor>dval d\<rfloor>"
proof (cases "expo d \<ge> 0")
  case True
  then have "dval d = of_int (coef d * 10 ^ nat (expo d))"
    by (simp add: dval_def of_int_pow10)
  then show ?thesis
    using True by (simp only: Decimal_Floor_def if_True floor_of_int)
next
  case False
  then have "dval d = of_int (coef d) / of_int (10 ^ nat (- expo d))"
    by (simp add: dval_def of_int_pow10 power_int_minus_divide)
  then show ?thesis
    using False by (simp add: Decimal_Floor_def floor_divide_of_int_eq dval_def [of "\<lparr>coef = _, expo = _\<rparr>"]
        del: of_int_power)
qed

end
