(* ===== verification/Broker.thy ===== *)
theory Broker
  imports Decimal
begin

text \<open>
  Package internal/broker: the broker enum and its text names (enum.go), and the data of the
  Broker interface (broker.go).  The enum is ativosv1.Broker, whose two values are 0 and 1.
\<close>

datatype Broker = BROKER_UNSPECIFIED | BROKER_BINANCE

definition ProviderName :: "Broker \<Rightarrow> string" where
  "ProviderName b = (case b of BROKER_BINANCE \<Rightarrow> ''BINANCE'' | _ \<Rightarrow> ''BINANCE'')"

definition ParseBroker :: "string \<Rightarrow> Broker" where
  "ParseBroker provider =
     (if provider = ''BINANCE'' then BROKER_BINANCE else BROKER_UNSPECIFIED)"

definition DefaultBroker :: Broker where
  "DefaultBroker = BROKER_BINANCE"

record BookTicker =
  bt_Symbol :: string
  bt_BidPrice :: decimal
  bt_BidQty :: decimal
  bt_AskPrice :: decimal
  bt_AskQty :: decimal
  bt_MidPrice :: decimal

record MarketOrderRequest =
  mo_Symbol :: string
  mo_Side :: string
  mo_Quantity :: decimal
  mo_ClientOrderID :: string

record OrderResult =
  or_ProviderOrderID :: string
  or_Status :: string
  or_ExecutedQuantity :: decimal
  or_CumulativeQuoteQuantity :: decimal
  or_AveragePrice :: decimal

datatype broker_error =
    ErrRateLimited | ErrOrderRejected | ErrSymbolNotFound | ErrInvalidQuantity | BrokerError string

lemma ParseBroker_ProviderName: "ParseBroker (ProviderName b) = BROKER_BINANCE"
  by (cases b) (simp_all add: ParseBroker_def ProviderName_def)

end
