(* ===== verification/Uuid.thy ===== *)
theory Uuid
  imports Prelude
begin

text \<open>
  UUIDs as github.com/google/uuid parses and prints them: sixteen bytes, read from the standard
  form, the urn form, the braced form or raw hexadecimal, and printed in the standard form.
  \<open>Nil\<close> is the zero UUID.  An error of Parse is \<^term>\<open>None\<close>: its callers only test for it.
\<close>

unbundle bit_operations_syntax

type_synonym uuid = "8 word list"

definition uuid_Nil :: uuid where
  "uuid_Nil = replicate 16 0"

text \<open>The table xvalues: the value of a hexadecimal digit, 255 for any other byte.\<close>

definition xvalue :: "char \<Rightarrow> 8 word" where
  "xvalue c =
     (let n = byte_of c in
      if 48 \<le> n \<and> n \<le> 57 then of_nat (n - 48)
      else if 65 \<le> n \<and> n \<le> 70 then of_nat (n - 55)
      else if 97 \<le> n \<and> n \<le> 102 then of_nat (n - 87)
      else 255)"

definition xtob :: "char \<Rightarrow> char \<Rightarrow> 8 word option" where
  "xtob x1 x2 =
     (let b1 = xvalue x1; b2 = xvalue x2
      in if b1 \<noteq> 255 \<and> b2 \<noteq> 255 then Some (push_bit 4 b1 OR b2) else None)"

text \<open>The bytes whose digits start at the given offsets.\<close>

fun xtob_at :: "string \<Rightarrow> nat list \<Rightarrow> uuid option" where
  "xtob_at s [] = Some []"
| "xtob_at s (x # xs) =
     (case xtob (s ! x) (s ! Suc x) of
        None \<Rightarrow> None
      | Some v \<Rightarrow> map_option (Cons v) (xtob_at s xs))"

definition uuid_offsets :: "nat list" where
  "uuid_offsets = [0, 2, 4, 6, 9, 11, 14, 16, 19, 21, 24, 26, 28, 30, 32, 34]"

text \<open>The last part of Parse, on a text of at least 36 bytes.\<close>

definition uuid_Parse36 :: "string \<Rightarrow> uuid option" where
  "uuid_Parse36 s =
     (if s ! 8 \<noteq> CHR ''-'' \<or> s ! 13 \<noteq> CHR ''-'' \<or> s ! 18 \<noteq> CHR ''-'' \<or> s ! 23 \<noteq> CHR ''-'' then None
      else xtob_at s uuid_offsets)"

definition uuid_Parse :: "string \<Rightarrow> uuid option" where
  "uuid_Parse s =
     (if length s = 36 then uuid_Parse36 s
      else if length s = 36 + 9
      then (if \<not> equal_fold (take 9 s) ''urn:uuid:'' then None else uuid_Parse36 (drop 9 s))
      else if length s = 36 + 2 then uuid_Parse36 (drop 1 s)
      else if length s = 32
      then xtob_at s [0, 2, 4, 6, 8, 10, 12, 14, 16, 18, 20, 22, 24, 26, 28, 30]
      else None)"

text \<open>hex.Encode prints two lower-case digits a byte.\<close>

definition hex_digit :: "nat \<Rightarrow> char" where
  "hex_digit n = (if n < 10 then char_of (48 + n) else char_of (87 + n))"

definition hex_byte :: "8 word \<Rightarrow> string" where
  "hex_byte b = [hex_digit (unat b div 16), hex_digit (unat b mod 16)]"

definition hex :: "8 word list \<Rightarrow> string" where
  "hex bs = concat (map hex_byte bs)"

definition uuid_String :: "uuid \<Rightarrow> string" where
  "uuid_String u =
     hex (take 4 u) @ ''-'' @ hex (take 2 (drop 4 u)) @ ''-'' @ hex (take 2 (drop 6 u)) @ ''-''
     @ hex (take 2 (drop 8 u)) @ ''-'' @ hex (drop 10 u)"

section \<open>Printing and parsing\<close>

lemma xvalue_hex_digit: "n < 16 \<Longrightarrow> xvalue (hex_digit n) = of_nat n"
  by (auto simp: xvalue_def hex_digit_def Let_def)

lemma small_word_neq_255: "n < 16 \<Longrightarrow> (of_nat n :: 8 word) \<noteq> 255"
proof
  assume "n < 16" and "(of_nat n :: 8 word) = 255"
  then have "unat (of_nat n :: 8 word) = unat (255 :: 8 word)" by simp
  with \<open>n < 16\<close> show False by (simp add: unat_of_nat)
qed

lemma nibbles: "push_bit 4 (of_nat (unat b div 16)) OR of_nat (unat b mod 16) = (b :: 8 word)"
proof -
  have hi: "of_nat (unat b div 16) = drop_bit 4 b"
  proof -
    have "unat b div 16 = unat (b div 16)" by (simp add: unat_div)
    then show ?thesis by (simp add: drop_bit_eq_div)
  qed
  have lo: "of_nat (unat b mod 16) = take_bit 4 b"
  proof -
    have "unat b mod 16 = unat (b mod 16)" by (simp add: unat_mod)
    then show ?thesis by (simp add: take_bit_eq_mod)
  qed
  show ?thesis
    unfolding hi lo
    by (rule bit_word_eqI) (auto simp: bit_or_iff bit_push_bit_iff bit_drop_bit_eq bit_take_bit_iff not_less)
qed

lemma xtob_hex_byte: "xtob (hex_digit (unat b div 16)) (hex_digit (unat b mod 16)) = Some (b :: 8 word)"
proof -
  have "unat b < 256" using unsigned_less [of b] by simp
  then have "unat b div 16 < 16" and "unat b mod 16 < 16" by auto
  then show ?thesis
    by (simp add: xtob_def xvalue_hex_digit small_word_neq_255 nibbles)
qed

lemma length_16_cases:
  assumes "length u = 16"
  obtains a0 a1 a2 a3 a4 a5 a6 a7 a8 a9 b0 b1 b2 b3 b4 b5
  where "u = [a0, a1, a2, a3, a4, a5, a6, a7, a8, a9, b0, b1, b2, b3, b4, b5]"
  using assms by (auto simp: numeral_eq_Suc length_Suc_conv)

lemma Parse_String: "length u = 16 \<Longrightarrow> uuid_Parse (uuid_String u) = Some u"
  by (erule length_16_cases)
    (simp add: uuid_String_def hex_def hex_byte_def uuid_Parse_def uuid_Parse36_def uuid_offsets_def
      xtob_hex_byte)

lemma xtob_at_length: "xtob_at s xs = Some u \<Longrightarrow> length u = length xs"
  by (induction xs arbitrary: u) (auto split: option.splits)

lemma Parse_length: "uuid_Parse s = Some u \<Longrightarrow> length u = 16"
  by (auto simp: uuid_Parse_def uuid_Parse36_def uuid_offsets_def split: if_splits
      dest!: xtob_at_length simp del: xtob_at.simps)

interpretation uuid_text: wire_codec uuid_String uuid_Parse "\<lambda>u. length u = 16" "(=)"
  by unfold_locales (simp_all add: Parse_String)

end
