(* ===== verification/Db_Store.thy ===== *)
theory Db_Store
  imports Decimal Uuid
begin

text \<open>
  The tables of migrations/001_initial_schema.sql and the SQL statements of
  internal/db/orders_repo.go and credentials_repo.go, as functions on tables; the row types of
  internal/db/models.go.

  A table is the list of its rows in insertion order.  A statement gives the number of rows it
  affected and the new table, or the data error PostgreSQL reports (the table then keeps its
  rows).  Storing a value in a column converts it to the column's type: a VARCHAR(n) rejects a
  longer text unless what is beyond n is blank, a NUMERIC(p, s) rounds half away from zero to s
  digits and rejects a value of more than p digits.  Times are nanoseconds, 0 is the zero time.
\<close>

section \<open>Models\<close>

definition StatusPending :: string where "StatusPending = ''PENDING''"
definition StatusSubmitted :: string where "StatusSubmitted = ''SUBMITTED''"
definition StatusPartial :: string where "StatusPartial = ''PARTIAL''"
definition StatusFilled :: string where "StatusFilled = ''FILLED''"
definition StatusCanceled :: string where "StatusCanceled = ''CANCELED''"
definition StatusRejected :: string where "StatusRejected = ''REJECTED''"
definition SideBuy :: string where "SideBuy = ''BUY''"
definition SideSell :: string where "SideSell = ''SELL''"

lemmas status_defs = StatusPending_def StatusSubmitted_def StatusPartial_def StatusFilled_def
  StatusCanceled_def StatusRejected_def

record BrokerCredential =
  bc_ID :: uuid
  bc_TenantID :: string
  bc_Provider :: string
  bc_APIKeyCiphertext :: string
  bc_APISecretCiphertext :: string
  bc_CreatedAt :: nat

record BrokerOrder =
  bo_ID :: uuid
  bo_TradeIntentID :: uuid
  bo_TenantID :: string
  bo_UserID :: string
  bo_Provider :: string
  bo_ProviderOrderID :: string
  bo_Symbol :: string
  bo_Side :: string
  bo_TargetQuantity :: decimal
  bo_Status :: string
  bo_FilledQuantity :: decimal
  bo_AverageFillPrice :: decimal
  bo_IdempotencyKey :: string
  bo_PortfolioID :: string
  bo_LivroHoldID :: string
  bo_CreatedAt :: nat
  bo_UpdatedAt :: nat

text \<open>A row of broker_orders; a column that may be NULL is an option.\<close>

record order_row =
  c_id :: uuid
  c_trade_intent_id :: uuid
  c_tenant_id :: string
  c_user_id :: string
  c_provider :: string
  c_provider_order_id :: "string option"
  c_symbol :: string
  c_side :: string
  c_target_quantity :: decimal
  c_status :: string
  c_filled_quantity :: decimal
  c_average_fill_price :: decimal
  c_idempotency_key :: "string option"
  c_portfolio_id :: "string option"
  c_livro_hold_id :: "string option"
  c_created_at :: nat
  c_updated_at :: nat

record tables =
  t_orders :: "order_row list"
  t_creds :: "BrokerCredential list"

section \<open>Column types\<close>

definition varchar_ok :: "nat \<Rightarrow> string \<Rightarrow> bool" where
  "varchar_ok n s \<longleftrightarrow> list_all (\<lambda>c. c = CHR '' '') (drop n s)"

definition varchar :: "nat \<Rightarrow> string \<Rightarrow> string" where
  "varchar n s = take n s"

definition numeric :: "nat \<Rightarrow> decimal \<Rightarrow> decimal" where
  "numeric scale d = Decimal_Round d (int scale)"

definition numeric_ok :: "nat \<Rightarrow> nat \<Rightarrow> decimal \<Rightarrow> bool" where
  "numeric_ok precision scale d \<longleftrightarrow> \<bar>coef (numeric scale d)\<bar> < 10 ^ precision"

definition option_ok :: "('a \<Rightarrow> bool) \<Rightarrow> 'a option \<Rightarrow> bool" where
  "option_ok p x = (case x of None \<Rightarrow> True | Some v \<Rightarrow> p v)"

definition row_ok :: "order_row \<Rightarrow> bool" where
  "row_ok r \<longleftrightarrow>
     varchar_ok 64 (c_tenant_id r) \<and> varchar_ok 64 (c_user_id r) \<and> varchar_ok 32 (c_provider r) \<and>
     option_ok (varchar_ok 64) (c_provider_order_id r) \<and> varchar_ok 32 (c_symbol r) \<and>
     varchar_ok 16 (c_side r) \<and> numeric_ok 28 8 (c_target_quantity r) \<and> varchar_ok 32 (c_status r) \<and>
     numeric_ok 28 8 (c_filled_quantity r) \<and> numeric_ok 28 4 (c_average_fill_price r) \<and>
     option_ok (varchar_ok 128) (c_idempotency_key r) \<and> option_ok (varchar_ok 64) (c_portfolio_id r) \<and>
     option_ok (varchar_ok 64) (c_livro_hold_id r)"

definition stored_row :: "order_row \<Rightarrow> order_row" where
  "stored_row r = r\<lparr>
     c_tenant_id := varchar 64 (c_tenant_id r),
     c_user_id := varchar 64 (c_user_id r),
     c_provider := varchar 32 (c_provider r),
     c_provider_order_id := map_option (varchar 64) (c_provider_order_id r),
     c_symbol := varchar 32 (c_symbol r),
     c_side := varchar 16 (c_side r),
     c_target_quantity := numeric 8 (c_target_quantity r),
     c_status := varchar 32 (c_status r),
     c_filled_quantity := numeric 8 (c_filled_quantity r),
     c_average_fill_price := numeric 4 (c_average_fill_price r),
     c_idempotency_key := map_option (varchar 128) (c_idempotency_key r),
     c_portfolio_id := map_option (varchar 64) (c_portfolio_id r),
     c_livro_hold_id := map_option (varchar 64) (c_livro_hold_id r)\<rparr>"

section \<open>Unique constraints\<close>

text \<open>
  The primary key, UNIQUE (trade_intent_id), and the partial unique index on
  (tenant_id, idempotency_key) where the key is not empty.  NULL never equals NULL.
\<close>

definition order_clash :: "order_row \<Rightarrow> order_row \<Rightarrow> bool" where
  "order_clash r s \<longleftrightarrow>
     c_id r = c_id s \<or> c_trade_intent_id r = c_trade_intent_id s \<or>
     (c_tenant_id r = c_tenant_id s \<and> c_idempotency_key r = c_idempotency_key s \<and>
      c_idempotency_key r \<noteq> None \<and> c_idempotency_key r \<noteq> Some [])"

definition cred_clash :: "BrokerCredential \<Rightarrow> BrokerCredential \<Rightarrow> bool" where
  "cred_clash r s \<longleftrightarrow>
     bc_ID r = bc_ID s \<or> (bc_TenantID r = bc_TenantID s \<and> bc_Provider r = bc_Provider s)"

definition clash_free :: "('r \<Rightarrow> 'r \<Rightarrow> bool) \<Rightarrow> 'r list \<Rightarrow> bool" where
  "clash_free clash t = sorted_wrt (\<lambda>r s. \<not> clash r s) t"

text \<open>What unique constraints promise a client of a table, whatever they compare.\<close>

locale keyed_table =
  fixes clash :: "'r \<Rightarrow> 'r \<Rightarrow> bool"
  assumes clash_refl: "clash r r"
    and clash_sym: "clash r s \<Longrightarrow> clash s r"
begin

lemma insert_keeps: "clash_free clash t \<Longrightarrow> \<not> list_ex (\<lambda>s. clash s r) t \<Longrightarrow> clash_free clash (t @ [r])"
  by (simp add: clash_free_def sorted_wrt_append list_ex_iff)

lemma delete_keeps: "clash_free clash t \<Longrightarrow> clash_free clash (filter p t)"
  by (simp add: clash_free_def sorted_wrt_filter)

lemma update_keeps:
  "clash_free clash t \<Longrightarrow> (\<And>r s. clash (f r) (f s) = clash r s) \<Longrightarrow> clash_free clash (map f t)"
  by (simp add: clash_free_def sorted_wrt_map)

lemma same_row:
  assumes "clash_free clash t" and "r \<in> set t" and "s \<in> set t" and "clash r s"
  shows "r = s"
proof (rule ccontr)
  assume "r \<noteq> s"
  obtain i j where ij: "i < length t" "j < length t" "t ! i = r" "t ! j = s"
    using assms(2,3) by (auto simp: in_set_conv_nth)
  with \<open>r \<noteq> s\<close> have "i < j \<or> j < i" by (metis linorder_neqE_nat)
  then show False
    using assms(1,4) ij clash_sym unfolding clash_free_def sorted_wrt_iff_nth_less by blast
qed

lemma one_position:
  assumes "clash_free clash t" and "i < length t" and "j < length t" and "t ! i = t ! j"
  shows "i = j"
  using assms clash_refl [of "t ! i"] unfolding clash_free_def sorted_wrt_iff_nth_less
  by (metis linorder_neqE_nat)

lemma distinct_rows: "clash_free clash t \<Longrightarrow> distinct t"
  using one_position by (auto simp: distinct_conv_nth)

end

interpretation order_table: keyed_table order_clash
  by unfold_locales (simp_all add: order_clash_def, metis)

interpretation cred_table: keyed_table cred_clash
  by unfold_locales (auto simp: cred_clash_def)

section \<open>Statements\<close>

datatype pg_error = PgData | PgUniqueViolation | PgConnection

datatype stmt =
    InsertOrder order_row
  | ConfirmStmt string string decimal decimal uuid string
  | DeleteStmt uuid string
  | FillStmt string decimal decimal string string
  | UpsertCred BrokerCredential

datatype order_query =
    ByIntent uuid
  | ByKey string string
  | ByProviderOrder string string

text \<open>INSERT INTO broker_orders ... ON CONFLICT DO NOTHING.\<close>

definition insert_order :: "order_row \<Rightarrow> order_row list \<Rightarrow> (pg_error + nat) \<times> order_row list" where
  "insert_order r t =
     (if \<not> row_ok r then (Inl PgData, t)
      else if list_ex (\<lambda>s. order_clash s (stored_row r)) t then (Inr 0, t)
      else (Inr 1, t @ [stored_row r]))"

text \<open>UPDATE broker_orders SET ... WHERE p, once the values fit their columns.\<close>

definition update_orders ::
  "(order_row \<Rightarrow> bool) \<Rightarrow> bool \<Rightarrow> (order_row \<Rightarrow> order_row) \<Rightarrow> order_row list
    \<Rightarrow> (pg_error + nat) \<times> order_row list" where
  "update_orders p fits f t =
     (if \<not> list_ex p t then (Inr 0, t)
      else if \<not> fits then (Inl PgData, t)
      else (Inr (length (filter p t)), map (\<lambda>r. if p r then f r else r) t))"

definition confirm_orders ::
  "nat \<Rightarrow> string \<Rightarrow> string \<Rightarrow> decimal \<Rightarrow> decimal \<Rightarrow> uuid \<Rightarrow> string \<Rightarrow> order_row list
    \<Rightarrow> (pg_error + nat) \<times> order_row list" where
  "confirm_orders now poid st fq ap i old t =
     update_orders (\<lambda>r. c_id r = i \<and> c_status r = old)
       (varchar_ok 64 poid \<and> varchar_ok 32 st \<and> numeric_ok 28 8 fq \<and> numeric_ok 28 4 ap)
       (\<lambda>r. r\<lparr>c_provider_order_id := Some (varchar 64 poid), c_status := varchar 32 st,
              c_filled_quantity := numeric 8 fq, c_average_fill_price := numeric 4 ap,
              c_updated_at := now\<rparr>) t"

definition delete_orders :: "uuid \<Rightarrow> string \<Rightarrow> order_row list \<Rightarrow> (pg_error + nat) \<times> order_row list" where
  "delete_orders i st t =
     (let p = (\<lambda>r. c_id r = i \<and> c_status r = st)
      in (Inr (length (filter p t)), filter (\<lambda>r. \<not> p r) t))"

definition fill_orders ::
  "nat \<Rightarrow> string \<Rightarrow> decimal \<Rightarrow> decimal \<Rightarrow> string \<Rightarrow> string \<Rightarrow> order_row list
    \<Rightarrow> (pg_error + nat) \<times> order_row list" where
  "fill_orders now st fq ap provider poid t =
     update_orders (\<lambda>r. c_provider r = provider \<and> c_provider_order_id r = Some poid)
       (varchar_ok 32 st \<and> numeric_ok 28 8 fq \<and> numeric_ok 28 4 ap)
       (\<lambda>r. r\<lparr>c_status := varchar 32 st, c_filled_quantity := numeric 8 fq,
              c_average_fill_price := numeric 4 ap, c_updated_at := now\<rparr>) t"

text \<open>INSERT INTO broker_credentials ... ON CONFLICT (tenant_id, provider) DO UPDATE.\<close>

definition cred_ok :: "BrokerCredential \<Rightarrow> bool" where
  "cred_ok c \<longleftrightarrow> varchar_ok 64 (bc_TenantID c) \<and> varchar_ok 32 (bc_Provider c)"

definition stored_cred :: "BrokerCredential \<Rightarrow> BrokerCredential" where
  "stored_cred c = c\<lparr>bc_TenantID := varchar 64 (bc_TenantID c), bc_Provider := varchar 32 (bc_Provider c)\<rparr>"

definition same_cred :: "BrokerCredential \<Rightarrow> BrokerCredential \<Rightarrow> bool" where
  "same_cred c s \<longleftrightarrow> bc_TenantID s = bc_TenantID c \<and> bc_Provider s = bc_Provider c"

definition refresh_cred :: "BrokerCredential \<Rightarrow> BrokerCredential \<Rightarrow> BrokerCredential" where
  "refresh_cred c s =
     (if same_cred c s
      then s\<lparr>bc_APIKeyCiphertext := bc_APIKeyCiphertext c,
             bc_APISecretCiphertext := bc_APISecretCiphertext c\<rparr>
      else s)"

definition upsert_cred ::
  "BrokerCredential \<Rightarrow> BrokerCredential list \<Rightarrow> (pg_error + nat) \<times> BrokerCredential list" where
  "upsert_cred c t =
     (let c' = stored_cred c
      in if \<not> cred_ok c then (Inl PgData, t)
         else if list_ex (same_cred c') t then (Inr 1, map (refresh_cred c') t)
         else if list_ex (\<lambda>s. bc_ID s = bc_ID c') t then (Inl PgUniqueViolation, t)
         else (Inr 1, t @ [c']))"

fun run_stmt :: "nat \<Rightarrow> stmt \<Rightarrow> tables \<Rightarrow> (pg_error + nat) \<times> tables" where
  "run_stmt now (InsertOrder r) db =
     (case insert_order r (t_orders db) of (res, t) \<Rightarrow> (res, db\<lparr>t_orders := t\<rparr>))"
| "run_stmt now (ConfirmStmt poid st fq ap i old) db =
     (case confirm_orders now poid st fq ap i old (t_orders db) of (res, t) \<Rightarrow> (res, db\<lparr>t_orders := t\<rparr>))"
| "run_stmt now (DeleteStmt i st) db =
     (case delete_orders i st (t_orders db) of (res, t) \<Rightarrow> (res, db\<lparr>t_orders := t\<rparr>))"
| "run_stmt now (FillStmt st fq ap provider poid) db =
     (case fill_orders now st fq ap provider poid (t_orders db) of (res, t) \<Rightarrow> (res, db\<lparr>t_orders := t\<rparr>))"
| "run_stmt now (UpsertCred c) db =
     (case upsert_cred c (t_creds db) of (res, t) \<Rightarrow> (res, db\<lparr>t_creds := t\<rparr>))"

fun query_matches :: "order_query \<Rightarrow> order_row \<Rightarrow> bool" where
  "query_matches (ByIntent u) r \<longleftrightarrow> c_trade_intent_id r = u"
| "query_matches (ByKey tenant key) r \<longleftrightarrow> c_tenant_id r = tenant \<and> c_idempotency_key r = Some key"
| "query_matches (ByProviderOrder provider poid) r \<longleftrightarrow>
     c_provider r = provider \<and> c_provider_order_id r = Some poid"

text \<open>QueryRow reads the first row of the result; no row is \<^term>\<open>None\<close> (pgx.ErrNoRows).\<close>

definition query_order :: "order_query \<Rightarrow> order_row list \<Rightarrow> order_row option" where
  "query_order q t = List.find (query_matches q) t"

definition query_cred :: "string \<Rightarrow> string \<Rightarrow> BrokerCredential list \<Rightarrow> BrokerCredential option" where
  "query_cred tenant provider t =
     List.find (\<lambda>c. bc_TenantID c = tenant \<and> bc_Provider c = provider) t"

section \<open>Statements keep the constraints\<close>

lemma varchar_Nil_iff [simp]: "0 < n \<Longrightarrow> varchar n s = [] \<longleftrightarrow> s = []"
  by (auto simp: varchar_def)

lemma insert_order_unique:
  "clash_free order_clash t \<Longrightarrow> clash_free order_clash (snd (insert_order r t))"
  by (simp add: insert_order_def order_table.insert_keeps)

lemma update_orders_unique:
  assumes "clash_free order_clash t"
    and "\<And>r. c_id (f r) = c_id r \<and> c_trade_intent_id (f r) = c_trade_intent_id r \<and>
      c_tenant_id (f r) = c_tenant_id r \<and> c_idempotency_key (f r) = c_idempotency_key r"
  shows "clash_free order_clash (snd (update_orders p fits f t))"
proof -
  let ?g = "\<lambda>r. if p r then f r else r"
  have "order_clash (?g r) (?g s) = order_clash r s" for r s
    using assms(2) by (simp add: order_clash_def if_distrib [of c_id] if_distrib [of c_trade_intent_id]
        if_distrib [of c_tenant_id] if_distrib [of c_idempotency_key])
  with assms(1) have "clash_free order_clash (map ?g t)"
    by (rule order_table.update_keeps)
  with assms(1) show ?thesis
    by (simp add: update_orders_def)
qed

lemma refresh_cred_keys [simp]:
  "bc_ID (refresh_cred c s) = bc_ID s" "bc_TenantID (refresh_cred c s) = bc_TenantID s"
  "bc_Provider (refresh_cred c s) = bc_Provider s"
  by (simp_all add: refresh_cred_def)

lemma upsert_cred_unique:
  assumes "clash_free cred_clash t"
  shows "clash_free cred_clash (snd (upsert_cred c t))"
proof -
  have "clash_free cred_clash (map (refresh_cred (stored_cred c)) t)"
    using assms by (rule cred_table.update_keeps) (simp add: cred_clash_def)
  with assms show ?thesis
    by (auto simp: upsert_cred_def Let_def cred_clash_def same_cred_def list_ex_iff
        intro!: cred_table.insert_keeps)
qed

definition tables_ok :: "tables \<Rightarrow> bool" where
  "tables_ok db \<longleftrightarrow> clash_free order_clash (t_orders db) \<and> clash_free cred_clash (t_creds db)"

lemma confirm_orders_unique:
  "clash_free order_clash t \<Longrightarrow> clash_free order_clash (snd (confirm_orders now poid st fq ap i old t))"
  unfolding confirm_orders_def by (rule update_orders_unique) simp_all

lemma fill_orders_unique:
  "clash_free order_clash t \<Longrightarrow> clash_free order_clash (snd (fill_orders now st fq ap provider poid t))"
  unfolding fill_orders_def by (rule update_orders_unique) simp_all

lemma delete_orders_unique:
  "clash_free order_clash t \<Longrightarrow> clash_free order_clash (snd (delete_orders i st t))"
  by (simp add: delete_orders_def Let_def order_table.delete_keeps)

lemmas stmt_unique = insert_order_unique confirm_orders_unique fill_orders_unique
  delete_orders_unique upsert_cred_unique

lemma run_stmt_tables_ok: "tables_ok db \<Longrightarrow> tables_ok (snd (run_stmt now st db))"
  by (cases st) (simp_all add: tables_ok_def split_beta stmt_unique)

end
