(* ===== verification/Json.thy ===== *)
theory Json
  imports Prelude
begin

text \<open>
  JSON documents and the part of encoding/json and net/http the clients use.  A document is its
  tree; a number keeps its literal text.  \<open>decode_struct\<close> is Unmarshal into a struct: every member
  of the object is offered to the field of that exact name and, when there is none, to the first
  field whose name agrees up to case; a value of the wrong type is an error that is reported
  after the other members have been decoded; null leaves a field as it is.  A struct is given by
  its list of fields, each with the decoder of its values.
\<close>

datatype json =
    JNull
  | JBool bool
  | JNumber string
  | JString string
  | JArray "json list"
  | JObject "(string \<times> json) list"

section \<open>Decoding\<close>

type_synonym 's decoder = "json \<Rightarrow> 's \<Rightarrow> 's \<times> bool"
type_synonym 's fields = "(string \<times> 's decoder) list"

fun fold_lookup :: "(string \<times> 'a) list \<Rightarrow> string \<Rightarrow> 'a option" where
  "fold_lookup [] key = None"
| "fold_lookup ((name, d) # fs) key = (if equal_fold name key then Some d else fold_lookup fs key)"

definition field_for :: "'s fields \<Rightarrow> string \<Rightarrow> 's decoder option" where
  "field_for fs key = (case map_of fs key of Some d \<Rightarrow> Some d | None \<Rightarrow> fold_lookup fs key)"

fun decode_members :: "'s fields \<Rightarrow> (string \<times> json) list \<Rightarrow> 's \<Rightarrow> 's \<times> bool" where
  "decode_members fs [] s = (s, True)"
| "decode_members fs ((key, v) # ms) s =
     (case field_for fs key of
        None \<Rightarrow> decode_members fs ms s
      | Some d \<Rightarrow>
          (case d v s of
             (s', ok) \<Rightarrow> (case decode_members fs ms s' of (s'', ok') \<Rightarrow> (s'', ok \<and> ok'))))"

fun decode_struct :: "'s fields \<Rightarrow> 's decoder" where
  "decode_struct fs (JObject ms) s = decode_members fs ms s"
| "decode_struct fs JNull s = (s, True)"
| "decode_struct fs _ s = (s, False)"

fun decode_string :: "(string \<Rightarrow> 's \<Rightarrow> 's) \<Rightarrow> 's decoder" where
  "decode_string upd (JString x) s = (upd x s, True)"
| "decode_string upd JNull s = (s, True)"
| "decode_string upd _ s = (s, False)"

text \<open>strconv.ParseInt with base 10 and 64 bits, on the literal of a JSON number.\<close>

fun number_nat :: "nat \<Rightarrow> string \<Rightarrow> nat option" where
  "number_nat acc [] = Some acc"
| "number_nat acc (c # cs) =
     (if 48 \<le> byte_of c \<and> byte_of c \<le> 57 then number_nat (acc * 10 + (byte_of c - 48)) cs else None)"

definition in64 :: "int \<Rightarrow> bool" where
  "in64 x \<longleftrightarrow> - (2 ^ 63) \<le> x \<and> x < 2 ^ 63"

definition number_int64 :: "string \<Rightarrow> int option" where
  "number_int64 lit =
     (let value = (case lit of
          [] \<Rightarrow> None
        | c # cs \<Rightarrow> if c = CHR ''-'' then map_option (\<lambda>n. - int n) (if cs = [] then None else number_nat 0 cs)
                   else map_option int (number_nat 0 lit))
      in case value of None \<Rightarrow> None | Some v \<Rightarrow> if in64 v then Some v else None)"

fun decode_int64 :: "(int \<Rightarrow> 's \<Rightarrow> 's) \<Rightarrow> 's decoder" where
  "decode_int64 upd (JNumber lit) s =
     (case number_int64 lit of Some v \<Rightarrow> (upd v s, True) | None \<Rightarrow> (s, False))"
| "decode_int64 upd JNull s = (s, True)"
| "decode_int64 upd _ s = (s, False)"

fun decode_bool :: "(bool \<Rightarrow> 's \<Rightarrow> 's) \<Rightarrow> 's decoder" where
  "decode_bool upd (JBool b) s = (upd b s, True)"
| "decode_bool upd JNull s = (s, True)"
| "decode_bool upd _ s = (s, False)"

text \<open>Elements of a slice, each decoded into the zero value of its type.\<close>

fun decode_elements :: "'e decoder \<Rightarrow> 'e \<Rightarrow> json list \<Rightarrow> 'e list \<times> bool" where
  "decode_elements d zero [] = ([], True)"
| "decode_elements d zero (v # vs) =
     (case d v zero of (x, ok) \<Rightarrow> (case decode_elements d zero vs of (xs, ok') \<Rightarrow> (x # xs, ok \<and> ok')))"

fun decode_array :: "'e decoder \<Rightarrow> 'e \<Rightarrow> ('e list \<Rightarrow> 's \<Rightarrow> 's) \<Rightarrow> 's decoder" where
  "decode_array d zero upd (JArray vs) s =
     (case decode_elements d zero vs of (xs, ok) \<Rightarrow> (upd xs s, ok))"
| "decode_array d zero upd JNull s = (upd [] s, True)"
| "decode_array d zero upd _ s = (s, False)"

definition decode_nested :: "'e decoder \<Rightarrow> ('s \<Rightarrow> 'e) \<Rightarrow> ('e \<Rightarrow> 's \<Rightarrow> 's) \<Rightarrow> 's decoder" where
  "decode_nested d get upd v s = (case d v (get s) of (x, ok) \<Rightarrow> (upd x s, ok))"

definition decoded :: "'s decoder \<Rightarrow> 's \<Rightarrow> json \<Rightarrow> 's option" where
  "decoded d zero v = (case d v zero of (s, ok) \<Rightarrow> if ok then Some s else None)"

section \<open>HTTP messages\<close>

record http_request =
  hr_method :: string
  hr_url :: string
  hr_headers :: "(string \<times> string) list"
  hr_body :: "json option"

text \<open>
  A response body: whether it could be read to its end, the JSON value it begins with, and
  whether anything but blanks follows that value.
\<close>

record http_body =
  hb_complete :: bool
  hb_value :: "json option"
  hb_trailing :: bool

record http_response =
  rs_StatusCode :: nat
  rs_Body :: http_body

text \<open>An error of NewRequestWithContext, or of Do.\<close>

datatype http_error = RequestInvalid | RequestFailed

text \<open>Unmarshal wants the whole text to be one value; a Decoder reads the first one.\<close>

definition unmarshal :: "'s decoder \<Rightarrow> 's \<Rightarrow> http_body \<Rightarrow> 's option" where
  "unmarshal d zero b =
     (case hb_value b of None \<Rightarrow> None | Some v \<Rightarrow> if hb_trailing b then None else decoded d zero v)"

definition decode_first :: "'s decoder \<Rightarrow> 's \<Rightarrow> http_body \<Rightarrow> 's option" where
  "decode_first d zero b = (case hb_value b of None \<Rightarrow> None | Some v \<Rightarrow> decoded d zero v)"

section \<open>Facts about decoding\<close>

lemma field_for_exact: "map_of fs key = Some d \<Longrightarrow> field_for fs key = Some d"
  by (simp add: field_for_def)

lemma decode_members_append:
  "decode_members fs (xs @ ys) s =
     (case decode_members fs xs s of
        (s', ok) \<Rightarrow> (case decode_members fs ys s' of (s'', ok') \<Rightarrow> (s'', ok \<and> ok')))"
  by (induction xs arbitrary: s) (auto split: option.split prod.split)

text \<open>A member that no field accepts decides the outcome, whatever stands around it.\<close>

lemma decode_members_error:
  assumes "(key, v) \<in> set ms" and "field_for fs key = Some d" and "\<And>s. \<not> snd (d v s)"
  shows "\<not> snd (decode_members fs ms s)"
  using assms(1)
proof (induction ms arbitrary: s)
  case Nil
  then show ?case by simp
next
  case (Cons m ms)
  obtain k x where m: "m = (k, x)" by (cases m)
  show ?case
  proof (cases "(k, x) = (key, v)")
    case True
    then have "\<not> snd (d x s)" using assms(3) by simp
    with True m assms(2) show ?thesis by (auto split: prod.split)
  next
    case False
    with Cons.prems m have "(key, v) \<in> set ms" by auto
    from Cons.IH [OF this] show ?thesis
      by (auto simp: m split: option.split prod.split) (metis snd_conv)+
  qed
qed

end
