(* ===== verification/Prog.thy ===== *)
theory Prog
  imports Broker Db_Store Json
begin

text \<open>
  How the Go code that talks to other systems is modelled.  A function is a value of \<open>'a prog\<close>:
  a tree whose nodes are the calls that leave the process (an SQL statement, a gRPC, the broker,
  the vault, the clock, a wait) and whose branches continue with the reply.  The tree is written
  in the order of the Go code; Go's local computation is inside the continuations.  One tree has
  two readings: \<open>exec\<close> runs it alone against an environment, and \<open>sys_step\<close> interleaves the trees
  of any number of requests call by call over one shared world, as goroutines and replicas of
  the service interleave over one PostgreSQL.

  The systems behind the calls are not under src/: what they answer is the environment \<open>env\<close>, an
  arbitrary function of the number of the call, so that no answer is excluded and a failure can
  follow a success.  Only PostgreSQL, whose statements and schema are in the source, runs the
  statements of \<open>Db_Store\<close> on the tables, and can also fail, with or without having applied the
  statement.
\<close>

section \<open>Messages of the services called\<close>

record CaptureHoldRequest =
  ch_HoldId :: string
  ch_Amount :: string
  ch_DestinationAccountId :: string
  ch_Description :: string
  ch_IdempotencyKey :: string
  ch_ReleaseRemainder :: bool

record CreditRequest =
  cr_IdempotencyKey :: string
  cr_ScopeType :: string
  cr_ScopeId :: string
  cr_AccountId :: string
  cr_Amount :: string
  cr_Currency :: string
  cr_Description :: string
  cr_Reference :: string

datatype AccountType = ACCOUNT_TYPE_CUSTOMER_WALLET

record AccountLookup =
  al_ScopeType :: string
  al_ScopeId :: string
  al_EntityType :: string
  al_EntityId :: string
  al_AccountName :: string
  al_Currency :: string

record InitializeAccountRequest =
  ia_ScopeType :: string
  ia_ScopeId :: string
  ia_EntityType :: string
  ia_EntityId :: string
  ia_AccountName :: string
  ia_Currency :: string
  ia_AccountType :: AccountType
  ia_AllowOverdraft :: bool

datatype Action = ACTION_BUY | ACTION_SELL

record SyncBrokerExecutionRequest =
  sx_TenantId :: string
  sx_PortfolioId :: string
  sx_TradeIntentId :: string
  sx_Ticker :: string
  sx_Action :: Action
  sx_ExecutedShares :: string
  sx_ExecutedPrice :: string
  sx_IdempotencyKey :: string

section \<open>Programs\<close>

datatype ctx_error = Canceled | DeadlineExceeded

text \<open>
  Byte slices that hold secrets live in a heap of buffers: \<open>CAlloc\<close> makes one and answers its
  address, \<open>CLoad\<close> reads it, \<open>CWipe\<close> sets every byte of it to 0.  A \<open>PlaintextCredentials\<close> struct
  is a pair of slices that may be nil, itself behind a pointer: \<open>CNewCreds\<close>, \<open>CGetCreds\<close> and
  \<open>CSetCreds\<close>.  An account is answered as its id, \<^term>\<open>None\<close> when the response holds no account.
\<close>

type_synonym creds = "nat option \<times> nat option"

datatype call =
    CNow
  | CNewUUID
  | CExec stmt
  | CQueryOrder order_query
  | CQueryCred string string
  | CWait nat
  | CAlloc "8 word list"
  | CLoad nat
  | CWipe nat
  | CNewCreds creds
  | CGetCreds nat
  | CSetCreds nat creds
  | CVault http_request
  | CBinance http_request
  | CCaptureHold CaptureHoldRequest
  | CCredit CreditRequest
  | CGetBalance string
  | CInitAccount InitializeAccountRequest
  | CGetAccount AccountLookup
  | CSyncExecution SyncBrokerExecutionRequest
  | CRedisMGet "string list"
  | CRedisSet "(string \<times> json \<times> nat) list"

datatype reply =
    RTime nat
  | RUuid uuid
  | RExec "pg_error + nat"
  | ROrder "pg_error + order_row option"
  | RCred "pg_error + BrokerCredential option"
  | RWait "ctx_error option"
  | RAddress nat
  | RBytes "8 word list"
  | RCreds creds
  | RUnit
  | RHttp "http_error + http_response"
  | RAck "string option"
  | RText "string + string"
  | RAccount "string + string option"
  | RValues "string + json option list"

datatype halt = Panicked | OutOfFuel | BadReply

datatype 'a prog = Ret 'a | Halt halt | Call call "reply \<Rightarrow> 'a prog"

primrec pbind :: "'a prog \<Rightarrow> ('a \<Rightarrow> 'b prog) \<Rightarrow> 'b prog" where
  "pbind (Ret a) f = f a"
| "pbind (Halt h) f = Halt h"
| "pbind (Call c k) f = Call c (\<lambda>r. pbind (k r) f)"

text \<open>\<open>pdefer p d\<close> is p with d deferred: d runs when p returns and when it panics.\<close>

primrec pdefer :: "'a prog \<Rightarrow> unit prog \<Rightarrow> 'a prog" where
  "pdefer (Ret a) d = pbind d (\<lambda>_. Ret a)"
| "pdefer (Halt h) d = (if h = Panicked then pbind d (\<lambda>_. Halt h) else Halt h)"
| "pdefer (Call c k) d = Call c (\<lambda>r. pdefer (k r) d)"

text \<open>
  \<open>pguard p d\<close> is p with d deferred under a flag that is set at the end of p: d runs when p panics
  or ends with an error, and no longer once p has ended well.
\<close>

primrec pguard :: "('e + 'a) prog \<Rightarrow> unit prog \<Rightarrow> ('e + 'a) prog" where
  "pguard (Ret x) d = (case x of Inl e \<Rightarrow> pbind d (\<lambda>_. Ret x) | Inr a \<Rightarrow> Ret x)"
| "pguard (Halt h) d = (if h = Panicked then pbind d (\<lambda>_. Halt h) else Halt h)"
| "pguard (Call c k) d = Call c (\<lambda>r. pguard (k r) d)"

text \<open>A value that a panic may prevent.\<close>

definition or_panic :: "'b option \<Rightarrow> ('b \<Rightarrow> 'a prog) \<Rightarrow> 'a prog" where
  "or_panic x k = (case x of None \<Rightarrow> Halt Panicked | Some v \<Rightarrow> k v)"

text \<open>A method call on an interface value, which panics when the interface is nil.\<close>

abbreviation not_nil :: "bool \<Rightarrow> 'a prog \<Rightarrow> 'a prog" where
  "not_nil b p \<equiv> (if b then p else Halt Panicked)"

text \<open>The calls with the type of their replies.\<close>

definition c_now :: "(nat \<Rightarrow> 'a prog) \<Rightarrow> 'a prog" where
  "c_now k = Call CNow (\<lambda>r. case r of RTime t \<Rightarrow> k t | _ \<Rightarrow> Halt BadReply)"

definition c_uuid :: "(uuid \<Rightarrow> 'a prog) \<Rightarrow> 'a prog" where
  "c_uuid k = Call CNewUUID (\<lambda>r. case r of RUuid u \<Rightarrow> k u | _ \<Rightarrow> Halt BadReply)"

definition c_exec :: "stmt \<Rightarrow> (pg_error + nat \<Rightarrow> 'a prog) \<Rightarrow> 'a prog" where
  "c_exec st k = Call (CExec st) (\<lambda>r. case r of RExec x \<Rightarrow> k x | _ \<Rightarrow> Halt BadReply)"

definition c_query_order :: "order_query \<Rightarrow> (pg_error + order_row option \<Rightarrow> 'a prog) \<Rightarrow> 'a prog" where
  "c_query_order q k = Call (CQueryOrder q) (\<lambda>r. case r of ROrder x \<Rightarrow> k x | _ \<Rightarrow> Halt BadReply)"

definition c_query_cred ::
  "string \<Rightarrow> string \<Rightarrow> (pg_error + BrokerCredential option \<Rightarrow> 'a prog) \<Rightarrow> 'a prog" where
  "c_query_cred t p k = Call (CQueryCred t p) (\<lambda>r. case r of RCred x \<Rightarrow> k x | _ \<Rightarrow> Halt BadReply)"

definition c_wait :: "nat \<Rightarrow> (ctx_error option \<Rightarrow> 'a prog) \<Rightarrow> 'a prog" where
  "c_wait n k = Call (CWait n) (\<lambda>r. case r of RWait x \<Rightarrow> k x | _ \<Rightarrow> Halt BadReply)"

definition c_alloc :: "8 word list \<Rightarrow> (nat \<Rightarrow> 'a prog) \<Rightarrow> 'a prog" where
  "c_alloc bs k = Call (CAlloc bs) (\<lambda>r. case r of RAddress x \<Rightarrow> k x | _ \<Rightarrow> Halt BadReply)"

definition c_load :: "nat \<Rightarrow> (8 word list \<Rightarrow> 'a prog) \<Rightarrow> 'a prog" where
  "c_load a k = Call (CLoad a) (\<lambda>r. case r of RBytes x \<Rightarrow> k x | _ \<Rightarrow> Halt BadReply)"

definition c_wipe :: "nat \<Rightarrow> 'a prog \<Rightarrow> 'a prog" where
  "c_wipe a p = Call (CWipe a) (\<lambda>_. p)"

definition c_new_creds :: "creds \<Rightarrow> (nat \<Rightarrow> 'a prog) \<Rightarrow> 'a prog" where
  "c_new_creds c k = Call (CNewCreds c) (\<lambda>r. case r of RAddress x \<Rightarrow> k x | _ \<Rightarrow> Halt BadReply)"

definition c_get_creds :: "nat \<Rightarrow> (creds \<Rightarrow> 'a prog) \<Rightarrow> 'a prog" where
  "c_get_creds p k = Call (CGetCreds p) (\<lambda>r. case r of RCreds x \<Rightarrow> k x | _ \<Rightarrow> Halt BadReply)"

definition c_set_creds :: "nat \<Rightarrow> creds \<Rightarrow> 'a prog \<Rightarrow> 'a prog" where
  "c_set_creds p c q = Call (CSetCreds p c) (\<lambda>_. q)"

definition c_http :: "call \<Rightarrow> (http_error + http_response \<Rightarrow> 'a prog) \<Rightarrow> 'a prog" where
  "c_http c k = Call c (\<lambda>r. case r of RHttp x \<Rightarrow> k x | _ \<Rightarrow> Halt BadReply)"

definition c_ack :: "call \<Rightarrow> (string option \<Rightarrow> 'a prog) \<Rightarrow> 'a prog" where
  "c_ack c k = Call c (\<lambda>r. case r of RAck x \<Rightarrow> k x | _ \<Rightarrow> Halt BadReply)"

definition c_balance :: "string \<Rightarrow> (string + string \<Rightarrow> 'a prog) \<Rightarrow> 'a prog" where
  "c_balance a k = Call (CGetBalance a) (\<lambda>r. case r of RText x \<Rightarrow> k x | _ \<Rightarrow> Halt BadReply)"

definition c_account :: "call \<Rightarrow> (string + string option \<Rightarrow> 'a prog) \<Rightarrow> 'a prog" where
  "c_account c k = Call c (\<lambda>r. case r of RAccount x \<Rightarrow> k x | _ \<Rightarrow> Halt BadReply)"

definition c_mget :: "string list \<Rightarrow> (string + json option list \<Rightarrow> 'a prog) \<Rightarrow> 'a prog" where
  "c_mget keys k = Call (CRedisMGet keys) (\<lambda>r. case r of RValues x \<Rightarrow> k x | _ \<Rightarrow> Halt BadReply)"

lemmas call_defs = c_now_def c_uuid_def c_exec_def c_query_order_def c_query_cred_def c_wait_def
  c_alloc_def c_load_def c_wipe_def c_new_creds_def c_get_creds_def c_set_creds_def c_http_def
  c_ack_def c_balance_def c_account_def c_mget_def

lemma pbind_Ret [simp]: "pbind p Ret = p"
  by (induction p) simp_all

lemma pbind_assoc: "pbind (pbind p f) g = pbind p (\<lambda>x. pbind (f x) g)"
  by (induction p) simp_all

section \<open>The world and the environment\<close>

text \<open>\<open>DbLost b\<close>: the connection fails; b says whether the statement was applied before.\<close>

datatype db_outcome = DbUp | DbLost bool

text \<open>
  \<open>e_http\<close> answers a request to OpenBao or to Binance; \<open>e_ack\<close> the gRPCs of which the program
  uses only the error; \<open>e_redis\<close> is the number of writes Redis has applied when it fails, \<^term>\<open>None\<close>
  when it does not fail.
\<close>

record env =
  e_db :: "nat \<Rightarrow> db_outcome"
  e_uuid :: "nat \<Rightarrow> uuid"
  e_latency :: "nat \<Rightarrow> nat"
  e_wait :: "nat \<Rightarrow> ctx_error option"
  e_http :: "nat \<Rightarrow> call \<Rightarrow> http_error + http_response"
  e_ack :: "nat \<Rightarrow> call \<Rightarrow> string option"
  e_balance :: "nat \<Rightarrow> string \<Rightarrow> string + string"
  e_account :: "nat \<Rightarrow> call \<Rightarrow> string + string option"
  e_redis :: "nat \<Rightarrow> nat option"

text \<open>
  \<open>w_heap\<close> and \<open>w_creds\<close> are the buffers and credential structs in the order they were allocated,
  \<open>w_redis\<close> the cache entries with their expiry time, \<open>w_trace\<close> the calls made and their replies.
\<close>

record world =
  w_db :: tables
  w_clock :: nat
  w_tick :: nat
  w_heap :: "8 word list list"
  w_creds :: "creds list"
  w_redis :: "(string \<times> json \<times> nat) list"
  w_trace :: "(call \<times> reply) list"

fun redis_get :: "nat \<Rightarrow> (string \<times> json \<times> nat) list \<Rightarrow> string \<Rightarrow> json option" where
  "redis_get now [] key = None"
| "redis_get now ((k, v, expiry) # es) key =
     (if k = key then (if now < expiry then Some v else None) else redis_get now es key)"

definition redis_set :: "nat \<Rightarrow> (string \<times> json \<times> nat) list \<Rightarrow> (string \<times> json \<times> nat) list
    \<Rightarrow> (string \<times> json \<times> nat) list" where
  "redis_set now entries es = fold (\<lambda>(k, v, ttl) es. (k, v, now + ttl) # es) entries es"

definition wipe :: "8 word list \<Rightarrow> 8 word list" where
  "wipe bs = replicate (length bs) 0"

text \<open>
  What a call does to the world, and its reply; the clock then moves by the call's latency.  Go has
  no dangling pointers: an address that was never allocated, which no program has, reads as empty.
\<close>

fun answer :: "env \<Rightarrow> call \<Rightarrow> world \<Rightarrow> reply \<times> world" where
  "answer e CNow w = (RTime (w_clock w), w)"
| "answer e CNewUUID w = (RUuid (e_uuid e (w_tick w)), w)"
| "answer e (CExec st) w =
     (case run_stmt (w_clock w) st (w_db w) of
        (res, db') \<Rightarrow>
          (case e_db e (w_tick w) of
             DbUp \<Rightarrow> (RExec res, w\<lparr>w_db := db'\<rparr>)
           | DbLost applied \<Rightarrow> (RExec (Inl PgConnection), if applied then w\<lparr>w_db := db'\<rparr> else w)))"
| "answer e (CQueryOrder q) w =
     (ROrder (case e_db e (w_tick w) of
        DbUp \<Rightarrow> Inr (query_order q (t_orders (w_db w))) | DbLost _ \<Rightarrow> Inl PgConnection), w)"
| "answer e (CQueryCred t p) w =
     (RCred (case e_db e (w_tick w) of
        DbUp \<Rightarrow> Inr (query_cred t p (t_creds (w_db w))) | DbLost _ \<Rightarrow> Inl PgConnection), w)"
| "answer e (CWait n) w =
     (case e_wait e (w_tick w) of
        None \<Rightarrow> (RWait None, w\<lparr>w_clock := w_clock w + n\<rparr>)
      | Some x \<Rightarrow> (RWait (Some x), w))"
| "answer e (CAlloc bs) w = (RAddress (length (w_heap w)), w\<lparr>w_heap := w_heap w @ [bs]\<rparr>)"
| "answer e (CLoad a) w = (RBytes (if a < length (w_heap w) then w_heap w ! a else []), w)"
| "answer e (CWipe a) w = (RUnit, w\<lparr>w_heap := (w_heap w)[a := wipe (w_heap w ! a)]\<rparr>)"
| "answer e (CNewCreds c) w = (RAddress (length (w_creds w)), w\<lparr>w_creds := w_creds w @ [c]\<rparr>)"
| "answer e (CGetCreds p) w =
     (RCreds (if p < length (w_creds w) then w_creds w ! p else (None, None)), w)"
| "answer e (CSetCreds p c) w = (RUnit, w\<lparr>w_creds := (w_creds w)[p := c]\<rparr>)"
| "answer e (CVault r) w = (RHttp (e_http e (w_tick w) (CVault r)), w)"
| "answer e (CBinance r) w = (RHttp (e_http e (w_tick w) (CBinance r)), w)"
| "answer e (CCaptureHold r) w = (RAck (e_ack e (w_tick w) (CCaptureHold r)), w)"
| "answer e (CCredit r) w = (RAck (e_ack e (w_tick w) (CCredit r)), w)"
| "answer e (CGetBalance a) w = (RText (e_balance e (w_tick w) a), w)"
| "answer e (CInitAccount r) w = (RAccount (e_account e (w_tick w) (CInitAccount r)), w)"
| "answer e (CGetAccount r) w = (RAccount (e_account e (w_tick w) (CGetAccount r)), w)"
| "answer e (CSyncExecution r) w = (RAck (e_ack e (w_tick w) (CSyncExecution r)), w)"
| "answer e (CRedisMGet keys) w =
     (RValues (case e_redis e (w_tick w) of
        None \<Rightarrow> Inr (map (redis_get (w_clock w) (w_redis w)) keys)
      | Some _ \<Rightarrow> Inl ''redis unavailable''), w)"
| "answer e (CRedisSet entries) w =
     (case e_redis e (w_tick w) of
        None \<Rightarrow> (RAck None, w\<lparr>w_redis := redis_set (w_clock w) entries (w_redis w)\<rparr>)
      | Some n \<Rightarrow> (RAck (Some ''redis unavailable''),
                   w\<lparr>w_redis := redis_set (w_clock w) (take n entries) (w_redis w)\<rparr>))"

definition handle :: "env \<Rightarrow> call \<Rightarrow> world \<Rightarrow> reply \<times> world" where
  "handle e c w =
     (case answer e c w of
        (r, w') \<Rightarrow> (r, w'\<lparr>w_tick := Suc (w_tick w), w_clock := w_clock w' + e_latency e (w_tick w),
                       w_trace := w_trace w @ [(c, r)]\<rparr>))"

section \<open>Running alone\<close>

datatype 'a outcome = Done 'a | Stopped halt

primrec exec :: "env \<Rightarrow> 'a prog \<Rightarrow> world \<Rightarrow> 'a outcome \<times> world" where
  "exec e (Ret a) w = (Done a, w)"
| "exec e (Halt h) w = (Stopped h, w)"
| "exec e (Call c k) w = (case handle e c w of (r, w') \<Rightarrow> exec e (k r) w')"

lemma exec_pbind: "exec e (pbind p f) w =
    (case exec e p w of (Done a, w') \<Rightarrow> exec e (f a) w' | (Stopped h, w') \<Rightarrow> (Stopped h, w'))"
  by (induction p arbitrary: w) (simp_all split: prod.split)

lemma exec_pbind_Done: "exec e p w = (Done a, w') \<Longrightarrow> exec e (pbind p f) w = exec e (f a) w'"
  by (simp add: exec_pbind)

section \<open>Interleaved\<close>

text \<open>Requests share the world; the log says which request made which call.\<close>

record 'a sys =
  s_world :: world
  s_threads :: "nat \<Rightarrow> 'a prog"
  s_log :: "(nat \<times> call \<times> reply) list"

inductive sys_step :: "env \<Rightarrow> 'a sys \<Rightarrow> 'a sys \<Rightarrow> bool" for e where
  step: "s_threads s i = Call c k \<Longrightarrow> handle e c (s_world s) = (r, w') \<Longrightarrow>
    sys_step e s (s\<lparr>s_world := w', s_threads := (s_threads s)(i := k r), s_log := s_log s @ [(i, c, r)]\<rparr>)"

inductive_cases sys_step_cases: "sys_step e s t"

text \<open>The same steps as a function of the thread that moves, and a whole schedule.\<close>

definition move :: "env \<Rightarrow> nat \<Rightarrow> 'a sys \<Rightarrow> 'a sys" where
  "move e i s =
     (case s_threads s i of
        Call c k \<Rightarrow>
          (case handle e c (s_world s) of
             (r, w') \<Rightarrow> s\<lparr>s_world := w', s_threads := (s_threads s)(i := k r),
                         s_log := s_log s @ [(i, c, r)]\<rparr>)
      | _ \<Rightarrow> s)"

fun run_schedule :: "env \<Rightarrow> nat list \<Rightarrow> 'a sys \<Rightarrow> 'a sys" where
  "run_schedule e [] s = s"
| "run_schedule e (i # is) s = run_schedule e is (move e i s)"

inductive reachable :: "('s \<Rightarrow> bool) \<Rightarrow> ('s \<Rightarrow> 's \<Rightarrow> bool) \<Rightarrow> 's \<Rightarrow> bool" for init and step where
  start: "init s \<Longrightarrow> reachable init step s"
| follow: "reachable init step s \<Longrightarrow> step s t \<Longrightarrow> reachable init step t"

text \<open>An invariant of a transition system holds in every state it can reach.\<close>

locale invariant_system =
  fixes init :: "'s \<Rightarrow> bool" and step :: "'s \<Rightarrow> 's \<Rightarrow> bool" and inv :: "'s \<Rightarrow> bool"
  assumes inv_init: "init s \<Longrightarrow> inv s"
    and inv_step: "inv s \<Longrightarrow> step s t \<Longrightarrow> inv t"
begin

lemma reachable_inv: "reachable init step s \<Longrightarrow> inv s"
  by (induction rule: reachable.induct) (auto intro: inv_init inv_step)

end

lemma move_step: "move e i s = s \<or> sys_step e s (move e i s)"
  by (auto simp: move_def split: prog.split prod.split intro: sys_step.step)

lemma reachable_move:
  "reachable init (sys_step e) s \<Longrightarrow> reachable init (sys_step e) (move e i s)"
  using move_step [of e i s] by (metis reachable.follow)

lemma reachable_schedule:
  "reachable init (sys_step e) s \<Longrightarrow> reachable init (sys_step e) (run_schedule e is s)"
  by (induction "is" arbitrary: s) (auto intro: reachable_move)

section \<open>A thread that runs alone\<close>

lemma answer_trace: "w_trace (snd (answer e c w)) = w_trace w"
  by (cases c) (auto split: prod.split db_outcome.split option.split)

lemma handle_trace: "handle e c w = (r, w') \<Longrightarrow> w_trace w' = w_trace w @ [(c, r)]"
  using answer_trace [of e c w] by (auto simp: handle_def split: prod.splits)

lemma exec_trace: "\<exists>l. w_trace (snd (exec e p w)) = w_trace w @ l"
proof (induction p arbitrary: w)
  case (Call c k)
  obtain r w' where h: "handle e c w = (r, w')" by fastforce
  from Call.IH [OF rangeI, of r w'] handle_trace [OF h] show ?case by (auto simp: h)
qed simp_all

text \<open>
  Running a program alone is the schedule that moves no other thread: it leaves the same world,
  logs for the thread the calls that the run adds to the trace, and ends the thread as the run ends.
\<close>

definition ended_as :: "'a outcome \<Rightarrow> 'a prog" where
  "ended_as r = (case r of Done a \<Rightarrow> Ret a | Stopped h \<Rightarrow> Halt h)"

lemma exec_schedule:
  assumes "s_threads s i = p"
  shows "\<exists>n. s_world (run_schedule e (replicate n i) s) = snd (exec e p (s_world s)) \<and>
    s_log (run_schedule e (replicate n i) s) =
      s_log s @ map (\<lambda>cr. (i, cr)) (drop (length (w_trace (s_world s))) (w_trace (snd (exec e p (s_world s))))) \<and>
    s_threads (run_schedule e (replicate n i) s) = (s_threads s)(i := ended_as (fst (exec e p (s_world s))))"
  using assms
proof (induction p arbitrary: s)
  case (Ret a)
  then show ?case by (intro exI [of _ 0]) (auto simp: ended_as_def)
next
  case (Halt h)
  then show ?case by (intro exI [of _ 0]) (auto simp: ended_as_def)
next
  case (Call c k)
  obtain r w' where h: "handle e c (s_world s) = (r, w')" by fastforce
  let ?s = "move e i s"
  have s: "s_world ?s = w'" "s_threads ?s i = k r" "s_log ?s = s_log s @ [(i, c, r)]"
    "s_threads ?s = (s_threads s)(i := k r)"
    using Call.prems h by (simp_all add: move_def)
  note IH = Call.IH [OF rangeI s(2), unfolded s(1,3,4) fun_upd_upd]
  then obtain n where n: "s_world (run_schedule e (replicate n i) ?s) = snd (exec e (k r) w')"
    "s_log (run_schedule e (replicate n i) ?s) = (s_log s @ [(i, c, r)]) @
      map (\<lambda>cr. (i, cr)) (drop (length (w_trace w')) (w_trace (snd (exec e (k r) w'))))"
    "s_threads (run_schedule e (replicate n i) ?s) = (s_threads s)(i := ended_as (fst (exec e (k r) w')))"
    by blast
  obtain l where "w_trace (snd (exec e (k r) w')) = w_trace w' @ l"
    using exec_trace [of e "k r" w'] by blast
  with n handle_trace [OF h] h show ?case
    by (intro exI [of _ "Suc n"]) simp
qed

end
