(* ===== verification/Db.thy ===== *)
theory Db
  imports Prog
begin

text \<open>
  internal/db/orders_repo.go and credentials_repo.go: the two repositories as programs over the
  statements of \<open>Db_Store\<close>.  A function that fills in fields of the struct it is given returns the
  struct with its result.  The value \<open>DbError e\<close> stands for the fmt.Errorf that wraps a driver
  error; the two sentinel errors are kept apart, as errors.Is keeps them.
\<close>

datatype repo_error = ErrOrderNotFound | ErrCredentialsNotFound | DbError pg_error

section \<open>Orders\<close>

text \<open>
  The values INSERT binds, in a row whose provider_order_id is NULL; the other nullable columns
  get the (possibly empty) strings.
\<close>

definition row_of_order :: "BrokerOrder \<Rightarrow> order_row" where
  "row_of_order ord = \<lparr>
     c_id = bo_ID ord,
     c_trade_intent_id = bo_TradeIntentID ord,
     c_tenant_id = bo_TenantID ord,
     c_user_id = bo_UserID ord,
     c_provider = bo_Provider ord,
     c_provider_order_id = None,
     c_symbol = bo_Symbol ord,
     c_side = bo_Side ord,
     c_target_quantity = bo_TargetQuantity ord,
     c_status = bo_Status ord,
     c_filled_quantity = bo_FilledQuantity ord,
     c_average_fill_price = bo_AverageFillPrice ord,
     c_idempotency_key = Some (bo_IdempotencyKey ord),
     c_portfolio_id = Some (bo_PortfolioID ord),
     c_livro_hold_id = Some (bo_LivroHoldID ord),
     c_created_at = bo_CreatedAt ord,
     c_updated_at = bo_UpdatedAt ord\<rparr>"

definition null_text :: "string option \<Rightarrow> string" where
  "null_text x = (case x of None \<Rightarrow> [] | Some s \<Rightarrow> s)"

definition order_of_row :: "order_row \<Rightarrow> BrokerOrder" where
  "order_of_row r = \<lparr>
     bo_ID = c_id r,
     bo_TradeIntentID = c_trade_intent_id r,
     bo_TenantID = c_tenant_id r,
     bo_UserID = c_user_id r,
     bo_Provider = c_provider r,
     bo_ProviderOrderID = null_text (c_provider_order_id r),
     bo_Symbol = c_symbol r,
     bo_Side = c_side r,
     bo_TargetQuantity = c_target_quantity r,
     bo_Status = c_status r,
     bo_FilledQuantity = c_filled_quantity r,
     bo_AverageFillPrice = c_average_fill_price r,
     bo_IdempotencyKey = null_text (c_idempotency_key r),
     bo_PortfolioID = null_text (c_portfolio_id r),
     bo_LivroHoldID = null_text (c_livro_hold_id r),
     bo_CreatedAt = c_created_at r,
     bo_UpdatedAt = c_updated_at r\<rparr>"

definition scanOrder :: "pg_error + order_row option \<Rightarrow> repo_error + BrokerOrder" where
  "scanOrder row =
     (case row of
        Inl e \<Rightarrow> Inl (DbError e)
      | Inr None \<Rightarrow> Inl ErrOrderNotFound
      | Inr (Some r) \<Rightarrow> Inr (order_of_row r))"

definition GetOrderByIntentID :: "uuid \<Rightarrow> (repo_error + BrokerOrder) prog" where
  "GetOrderByIntentID intent = c_query_order (ByIntent intent) (\<lambda>row. Ret (scanOrder row))"

definition GetOrderByIdempotencyKey :: "string \<Rightarrow> string \<Rightarrow> (repo_error + BrokerOrder) prog" where
  "GetOrderByIdempotencyKey tenant key = c_query_order (ByKey tenant key) (\<lambda>row. Ret (scanOrder row))"

definition GetOrderByProviderOrderID :: "string \<Rightarrow> string \<Rightarrow> (repo_error + BrokerOrder) prog" where
  "GetOrderByProviderOrderID provider poid =
     c_query_order (ByProviderOrder provider poid) (\<lambda>row. Ret (scanOrder row))"

text \<open>The fields ReserveOrder sets: the times that are zero, and the status.\<close>

definition stamp_order :: "nat \<Rightarrow> BrokerOrder \<Rightarrow> BrokerOrder" where
  "stamp_order now order = order\<lparr>
     bo_CreatedAt := (if bo_CreatedAt order = 0 then now else bo_CreatedAt order),
     bo_UpdatedAt := (if bo_UpdatedAt order = 0 then now else bo_UpdatedAt order),
     bo_Status := StatusPending\<rparr>"

definition ReserveOrder :: "BrokerOrder \<Rightarrow> ((repo_error + bool) \<times> BrokerOrder) prog" where
  "ReserveOrder order =
     pbind (if bo_ID order = uuid_Nil then c_uuid (\<lambda>u. Ret (order\<lparr>bo_ID := u\<rparr>)) else Ret order) (\<lambda>order.
     c_now (\<lambda>now.
       let order = stamp_order now order
       in c_exec (InsertOrder (row_of_order order)) (\<lambda>res. case res of
            Inl e \<Rightarrow> Ret (Inl (DbError e), order)
          | Inr rows \<Rightarrow> Ret (Inr (rows = 1), order))))"

definition ConfirmOrder ::
  "uuid \<Rightarrow> string \<Rightarrow> string \<Rightarrow> decimal \<Rightarrow> decimal \<Rightarrow> (repo_error + unit) prog" where
  "ConfirmOrder i poid st filled avg =
     c_exec (ConfirmStmt poid st filled avg i StatusPending) (\<lambda>res. case res of
       Inl e \<Rightarrow> Ret (Inl (DbError e))
     | Inr rows \<Rightarrow> if rows = 0 then Ret (Inl ErrOrderNotFound) else Ret (Inr ()))"

definition ReleaseOrder :: "uuid \<Rightarrow> (repo_error + unit) prog" where
  "ReleaseOrder i =
     c_exec (DeleteStmt i StatusPending) (\<lambda>res. case res of
       Inl e \<Rightarrow> Ret (Inl (DbError e))
     | Inr rows \<Rightarrow> Ret (Inr ()))"

definition UpdateOrderFill ::
  "string \<Rightarrow> string \<Rightarrow> string \<Rightarrow> decimal \<Rightarrow> decimal \<Rightarrow> (repo_error + unit) prog" where
  "UpdateOrderFill provider poid st filled avg =
     c_exec (FillStmt st filled avg provider poid) (\<lambda>res. case res of
       Inl e \<Rightarrow> Ret (Inl (DbError e))
     | Inr rows \<Rightarrow> if rows = 0 then Ret (Inl ErrOrderNotFound) else Ret (Inr ()))"

section \<open>Credentials\<close>

definition GetCredentials :: "string \<Rightarrow> string \<Rightarrow> (repo_error + BrokerCredential) prog" where
  "GetCredentials tenant provider =
     c_query_cred tenant provider (\<lambda>row. case row of
       Inl e \<Rightarrow> Ret (Inl (DbError e))
     | Inr None \<Rightarrow> Ret (Inl ErrCredentialsNotFound)
     | Inr (Some cred) \<Rightarrow> Ret (Inr cred))"

definition SaveCredentials :: "BrokerCredential \<Rightarrow> ((repo_error + unit) \<times> BrokerCredential) prog" where
  "SaveCredentials cred =
     pbind (if bc_ID cred = uuid_Nil then c_uuid (\<lambda>u. Ret (cred\<lparr>bc_ID := u\<rparr>)) else Ret cred) (\<lambda>cred.
     pbind (if bc_CreatedAt cred = 0 then c_now (\<lambda>now. Ret (cred\<lparr>bc_CreatedAt := now\<rparr>)) else Ret cred) (\<lambda>cred.
     c_exec (UpsertCred cred) (\<lambda>res. case res of
       Inl e \<Rightarrow> Ret (Inl (DbError e), cred)
     | Inr rows \<Rightarrow> Ret (Inr (), cred))))"

section \<open>Rows and structs\<close>

lemma row_of_order_simps [simp]:
  "c_id (row_of_order ord) = bo_ID ord"
  "c_trade_intent_id (row_of_order ord) = bo_TradeIntentID ord"
  "c_tenant_id (row_of_order ord) = bo_TenantID ord"
  "c_idempotency_key (row_of_order ord) = Some (bo_IdempotencyKey ord)"
  "c_status (row_of_order ord) = bo_Status ord"
  by (simp_all add: row_of_order_def)

lemma stored_row_simps [simp]:
  "c_id (stored_row r) = c_id r"
  "c_trade_intent_id (stored_row r) = c_trade_intent_id r"
  "c_status (stored_row r) = varchar 32 (c_status r)"
  "c_tenant_id (stored_row r) = varchar 64 (c_tenant_id r)"
  "c_idempotency_key (stored_row r) = map_option (varchar 128) (c_idempotency_key r)"
  by (simp_all add: stored_row_def)

lemma varchar_short [simp]: "length s \<le> n \<Longrightarrow> varchar n s = s"
  by (simp add: varchar_def)

lemma varchar_ok_short [simp]: "length s \<le> n \<Longrightarrow> varchar_ok n s"
  by (simp add: varchar_ok_def)

lemma length_statuses [simp]:
  "length StatusPending \<le> 32" "length StatusSubmitted \<le> 32" "length StatusPartial \<le> 32"
  "length StatusFilled \<le> 32" "length StatusCanceled \<le> 32" "length StatusRejected \<le> 32"
  by (simp_all add: status_defs)

lemma statuses_not_pending [simp]:
  "StatusSubmitted \<noteq> StatusPending" "StatusPartial \<noteq> StatusPending" "StatusFilled \<noteq> StatusPending"
  "StatusCanceled \<noteq> StatusPending" "StatusRejected \<noteq> StatusPending"
  by (simp_all add: status_defs)

section \<open>Every call keeps the constraints of the tables\<close>

text \<open>The only calls that reach the tables are the statements.\<close>

lemma answer_db:
  "w_db (snd (answer e c w)) = w_db w \<or>
   (\<exists>st. c = CExec st \<and> w_db (snd (answer e c w)) = snd (run_stmt (w_clock w) st (w_db w)))"
  by (cases c) (auto split: prod.split db_outcome.split option.split)

lemma handle_db:
  "w_db (snd (handle e c w)) = w_db w \<or>
   (\<exists>st. c = CExec st \<and> w_db (snd (handle e c w)) = snd (run_stmt (w_clock w) st (w_db w)))"
  using answer_db [of e c w] by (auto simp: handle_def split: prod.split)

lemma handle_tables_ok: "tables_ok (w_db w) \<Longrightarrow> tables_ok (w_db (snd (handle e c w)))"
  using handle_db [of e c w] run_stmt_tables_ok by metis

lemma exec_tables_ok: "tables_ok (w_db w) \<Longrightarrow> tables_ok (w_db (snd (exec e p w)))"
proof (induction p arbitrary: w)
  case (Call c k)
  obtain r w' where h: "handle e c w = (r, w')" by fastforce
  with handle_tables_ok [OF Call.prems, of e c] have "tables_ok (w_db w')" by simp
  with Call.IH [OF rangeI, of w' r] h show ?case by simp
qed simp_all

section \<open>One statement on a reachable database\<close>

text \<open>What a statement answers while the connection holds.\<close>

lemma handle_exec_up:
  assumes "e_db e (w_tick w) = DbUp" and "run_stmt (w_clock w) st (w_db w) = (res, db)"
  shows "handle e (CExec st) w =
    (RExec res, w\<lparr>w_db := db, w_tick := Suc (w_tick w), w_clock := w_clock w + e_latency e (w_tick w),
                w_trace := w_trace w @ [(CExec st, RExec res)]\<rparr>)"
  using assms by (simp add: handle_def)

text \<open>
  A row of the table that has the intent of an order, or its tenant and non-empty key, refuses
  the order; nothing else does.
\<close>

definition blocks :: "order_row \<Rightarrow> BrokerOrder \<Rightarrow> bool" where
  "blocks r ord \<longleftrightarrow>
     c_id r = bo_ID ord \<or> c_trade_intent_id r = bo_TradeIntentID ord \<or>
     (c_tenant_id r = varchar 64 (bo_TenantID ord) \<and> bo_IdempotencyKey ord \<noteq> [] \<and>
      c_idempotency_key r = Some (varchar 128 (bo_IdempotencyKey ord)))"

lemma order_clash_blocks: "order_clash r (stored_row (row_of_order ord)) \<longleftrightarrow> blocks r ord"
  by (auto simp: order_clash_def blocks_def eq_commute [of "[]"])

lemma insert_order_row:
  "insert_order (row_of_order ord) t =
     (if \<not> row_ok (row_of_order ord) then (Inl PgData, t)
      else if list_ex (\<lambda>r. blocks r ord) t then (Inr 0, t)
      else (Inr 1, t @ [stored_row (row_of_order ord)]))"
  by (simp add: insert_order_def order_clash_blocks)

lemma in_row_blocks:
  "insert_order (row_of_order ord) t = (Inr 1, t') \<Longrightarrow>
     list_ex (\<lambda>r. blocks r ord') t' \<longleftrightarrow>
       list_ex (\<lambda>r. blocks r ord') t \<or> blocks (stored_row (row_of_order ord)) ord'"
  by (auto simp: insert_order_row split: if_splits)

end
