(* ===== verification/Ledger.thy ===== *)
theory Ledger
  imports Prog
begin

text \<open>
  internal/client/livro/client.go and internal/client/ativos/client.go: the requests the service
  builds for the ledger (Livro) and the portfolio engine (Ativos), and what it makes of their
  answers.  An error value keeps the text of the gRPC error it wraps.  The responses of
  CaptureHold, Credit and SyncBrokerExecution are passed on and never read, so only their
  success is kept.
\<close>

datatype client_error =
    CaptureHoldFailed string
  | CreditFailed string
  | GetBalanceFailed string
  | BadBalance string
  | AccountFailed string
  | AccountEmpty
  | SyncExecutionFailed string

section \<open>Connections\<close>

text \<open>
  A gRPC connection is the address it was dialled at; the stub generated from the protocol is a
  view of it and has no state of its own.  grpc.Dial is a parameter: the text of its error, or
  \<^term>\<open>None\<close> when it returns a connection.
\<close>

datatype dial_error = LivroDialFailed string string | AtivosDialFailed string string

record grpcLivroClient =
  lv_conn :: "string option"

definition Livro_NewClient :: "(string \<Rightarrow> string option) \<Rightarrow> string \<Rightarrow> dial_error + grpcLivroClient" where
  "Livro_NewClient dial addr =
     (case dial addr of
        Some err \<Rightarrow> Inl (LivroDialFailed addr err)
      | None \<Rightarrow> Inr \<lparr>lv_conn = Some addr\<rparr>)"

definition Livro_NewClientWithConn :: "string option \<Rightarrow> grpcLivroClient" where
  "Livro_NewClientWithConn conn = \<lparr>lv_conn = conn\<rparr>"

text \<open>The connections Close closes: none when the client has none.\<close>

definition Livro_Close :: "grpcLivroClient \<Rightarrow> string list" where
  "Livro_Close c = (case lv_conn c of Some conn \<Rightarrow> [conn] | None \<Rightarrow> [])"

record grpcAtivosClient =
  at_conn :: "string option"

definition Ativos_NewClient :: "(string \<Rightarrow> string option) \<Rightarrow> string \<Rightarrow> dial_error + grpcAtivosClient" where
  "Ativos_NewClient dial addr =
     (case dial addr of
        Some err \<Rightarrow> Inl (AtivosDialFailed addr err)
      | None \<Rightarrow> Inr \<lparr>at_conn = Some addr\<rparr>)"

definition Ativos_NewClientWithConn :: "string option \<Rightarrow> grpcAtivosClient" where
  "Ativos_NewClientWithConn conn = \<lparr>at_conn = conn\<rparr>"

definition Ativos_Close :: "grpcAtivosClient \<Rightarrow> string list" where
  "Ativos_Close c = (case at_conn c of Some conn \<Rightarrow> [conn] | None \<Rightarrow> [])"

section \<open>Livro\<close>

record CaptureHoldParams =
  chp_HoldID :: string
  chp_Amount :: decimal
  chp_DestinationAccountID :: string
  chp_Description :: string
  chp_IdempotencyKey :: string
  chp_ReleaseRemainder :: bool

record CreditParams =
  crp_TenantID :: string
  crp_AccountID :: string
  crp_Amount :: decimal
  crp_Currency :: string
  crp_Description :: string
  crp_Reference :: string
  crp_IdempotencyKey :: string

definition capture_request :: "CaptureHoldParams \<Rightarrow> CaptureHoldRequest" where
  "capture_request params = \<lparr>
     ch_HoldId = chp_HoldID params,
     ch_Amount = Decimal_StringFixed (chp_Amount params) 4,
     ch_DestinationAccountId = chp_DestinationAccountID params,
     ch_Description = chp_Description params,
     ch_IdempotencyKey = chp_IdempotencyKey params,
     ch_ReleaseRemainder = chp_ReleaseRemainder params\<rparr>"

definition CaptureHold :: "CaptureHoldParams \<Rightarrow> (client_error + unit) prog" where
  "CaptureHold params =
     c_ack (CCaptureHold (capture_request params)) (\<lambda>err. case err of
       Some m \<Rightarrow> Ret (Inl (CaptureHoldFailed m))
     | None \<Rightarrow> Ret (Inr ()))"

definition credit_request :: "CreditParams \<Rightarrow> CreditRequest" where
  "credit_request params = \<lparr>
     cr_IdempotencyKey = crp_IdempotencyKey params,
     cr_ScopeType = ''tenant'',
     cr_ScopeId = crp_TenantID params,
     cr_AccountId = crp_AccountID params,
     cr_Amount = Decimal_StringFixed (crp_Amount params) 4,
     cr_Currency = crp_Currency params,
     cr_Description = crp_Description params,
     cr_Reference = crp_Reference params\<rparr>"

definition Credit :: "CreditParams \<Rightarrow> (client_error + unit) prog" where
  "Credit params =
     c_ack (CCredit (credit_request params)) (\<lambda>err. case err of
       Some m \<Rightarrow> Ret (Inl (CreditFailed m))
     | None \<Rightarrow> Ret (Inr ()))"

definition GetBalance :: "string \<Rightarrow> (client_error + decimal) prog" where
  "GetBalance accountID =
     c_balance accountID (\<lambda>resp. case resp of
       Inl m \<Rightarrow> Ret (Inl (GetBalanceFailed m))
     | Inr balance \<Rightarrow>
         (case Decimal_NewFromString balance of
            Inl e \<Rightarrow> Ret (Inl (BadBalance balance))
          | Inr bal \<Rightarrow> Ret (Inr bal)))"

definition clearing_account :: "string \<Rightarrow> InitializeAccountRequest" where
  "clearing_account tenantID = \<lparr>
     ia_ScopeType = ''tenant'',
     ia_ScopeId = tenantID,
     ia_EntityType = ''broker'',
     ia_EntityId = ''clearing'',
     ia_AccountName = ''broker_usd'',
     ia_Currency = ''USD'',
     ia_AccountType = ACCOUNT_TYPE_CUSTOMER_WALLET,
     ia_AllowOverdraft = True\<rparr>"

definition clearing_lookup :: "string \<Rightarrow> AccountLookup" where
  "clearing_lookup tenantID = \<lparr>
     al_ScopeType = ''tenant'',
     al_ScopeId = tenantID,
     al_EntityType = ''broker'',
     al_EntityId = ''clearing'',
     al_AccountName = ''broker_usd'',
     al_Currency = ''USD''\<rparr>"

text \<open>A response that holds no account is \<^term>\<open>Inr None\<close>.\<close>

definition GetOrCreateBrokerAccount :: "string \<Rightarrow> (client_error + string) prog" where
  "GetOrCreateBrokerAccount tenantID =
     c_account (CInitAccount (clearing_account tenantID)) (\<lambda>resp.
       let lookup =
         c_account (CGetAccount (clearing_lookup tenantID)) (\<lambda>resp. case resp of
           Inl m \<Rightarrow> Ret (Inl (AccountFailed m))
         | Inr None \<Rightarrow> Ret (Inl AccountEmpty)
         | Inr (Some i) \<Rightarrow> if i = [] then Ret (Inl AccountEmpty) else Ret (Inr i))
       in case resp of
         Inr (Some i) \<Rightarrow> if i \<noteq> [] then Ret (Inr i) else lookup
       | _ \<Rightarrow> lookup)"

section \<open>Ativos\<close>

record SyncExecutionParams =
  sep_TenantID :: string
  sep_PortfolioID :: string
  sep_TradeIntentID :: string
  sep_Ticker :: string
  sep_Action :: Action
  sep_ExecutedShares :: decimal
  sep_ExecutedPrice :: decimal
  sep_IdempotencyKey :: string

definition sync_request :: "SyncExecutionParams \<Rightarrow> SyncBrokerExecutionRequest" where
  "sync_request params = \<lparr>
     sx_TenantId = sep_TenantID params,
     sx_PortfolioId = sep_PortfolioID params,
     sx_TradeIntentId = sep_TradeIntentID params,
     sx_Ticker = sep_Ticker params,
     sx_Action = sep_Action params,
     sx_ExecutedShares = Decimal_String (sep_ExecutedShares params),
     sx_ExecutedPrice = Decimal_String (sep_ExecutedPrice params),
     sx_IdempotencyKey = sep_IdempotencyKey params\<rparr>"

definition SyncBrokerExecution :: "SyncExecutionParams \<Rightarrow> (client_error + unit) prog" where
  "SyncBrokerExecution params =
     c_ack (CSyncExecution (sync_request params)) (\<lambda>err. case err of
       Some m \<Rightarrow> Ret (Inl (SyncExecutionFailed m))
     | None \<Rightarrow> Ret (Inr ()))"

end
