(* ===== verification/Worker.thy ===== *)
theory Worker
  imports Db Ledger
begin

text \<open>
  internal/worker/fill_processor.go: settlement of one fill.  The processor holds the
  repository and its ledger clients as interfaces that may be nil; here they are present or not.
\<close>

record FillEvent =
  fe_Provider :: string
  fe_ProviderOrderID :: string
  fe_Symbol :: string
  fe_Side :: string
  fe_Status :: string
  fe_ExecutedQuantity :: decimal
  fe_FillPrice :: decimal

record fillProcessor =
  fp_ordersRepo :: bool
  fp_livroClient :: bool
  fp_ativosClient :: bool

datatype worker_error =
    InvalidExecutedQuantity
  | InvalidFillPrice
  | LookupFailed repo_error
  | AtivosSyncFailed client_error
  | ClearingAccountFailed client_error
  | CaptureFailed client_error
  | SaleCreditFailed client_error
  | FillUpdateFailed repo_error

text \<open>The weighted average over the fills, kept only as the last average and its quantity.\<close>

definition new_average :: "BrokerOrder \<Rightarrow> FillEvent \<Rightarrow> decimal \<Rightarrow> decimal \<Rightarrow> decimal option" where
  "new_average order event exactFiatValue newFilledQty =
     (if Decimal_IsZero (bo_FilledQuantity order) then Some (fe_FillPrice event)
      else (case Decimal_Mul (bo_FilledQuantity order) (bo_AverageFillPrice order) of
              None \<Rightarrow> None
            | Some prevTotalFiat \<Rightarrow> Decimal_Div (Decimal_Add prevTotalFiat exactFiatValue) newFilledQty))"

definition new_status :: "BrokerOrder \<Rightarrow> FillEvent \<Rightarrow> decimal \<Rightarrow> string" where
  "new_status order event newFilledQty =
     (if equal_fold (fe_Status event) StatusFilled
         \<or> Decimal_GreaterThanOrEqual newFilledQty (bo_TargetQuantity order)
      then StatusFilled else StatusPartial)"

text \<open>fmt.Sprintf of "<name>-%s-%s-%s" on the intent, the order and the cumulative quantity.\<close>

definition settlement_key :: "string \<Rightarrow> BrokerOrder \<Rightarrow> decimal \<Rightarrow> string" where
  "settlement_key name order newFilledQty =
     name @ ''-'' @ uuid_String (bo_TradeIntentID order) @ ''-'' @ bo_ProviderOrderID order @ ''-''
       @ Decimal_String newFilledQty"

definition sync_params :: "BrokerOrder \<Rightarrow> FillEvent \<Rightarrow> decimal \<Rightarrow> SyncExecutionParams" where
  "sync_params order event newFilledQty = \<lparr>
     sep_TenantID = bo_TenantID order,
     sep_PortfolioID = bo_PortfolioID order,
     sep_TradeIntentID = uuid_String (bo_TradeIntentID order),
     sep_Ticker = bo_Symbol order,
     sep_Action = (if equal_fold (bo_Side order) SideSell then ACTION_SELL else ACTION_BUY),
     sep_ExecutedShares = fe_ExecutedQuantity event,
     sep_ExecutedPrice = fe_FillPrice event,
     sep_IdempotencyKey = settlement_key ''sync-ativos'' order newFilledQty\<rparr>"

definition capture_params :: "BrokerOrder \<Rightarrow> decimal \<Rightarrow> string \<Rightarrow> decimal \<Rightarrow> string \<Rightarrow> CaptureHoldParams" where
  "capture_params order exactFiatValue destAccID newFilledQty newStatus = \<lparr>
     chp_HoldID = (if bo_LivroHoldID order = [] then uuid_String (bo_TradeIntentID order)
                   else bo_LivroHoldID order),
     chp_Amount = exactFiatValue,
     chp_DestinationAccountID = destAccID,
     chp_Description = ''Execution fill for order '' @ bo_ProviderOrderID order,
     chp_IdempotencyKey = settlement_key ''cap'' order newFilledQty,
     chp_ReleaseRemainder = (newStatus = StatusFilled)\<rparr>"

definition credit_params :: "BrokerOrder \<Rightarrow> decimal \<Rightarrow> decimal \<Rightarrow> CreditParams" where
  "credit_params order exactFiatValue newFilledQty = \<lparr>
     crp_TenantID = bo_TenantID order,
     crp_AccountID = bo_UserID order,
     crp_Amount = exactFiatValue,
     crp_Currency = ''USD'',
     crp_Description = ''Sale execution proceeds for order '' @ bo_ProviderOrderID order,
     crp_Reference = uuid_String (bo_TradeIntentID order),
     crp_IdempotencyKey = settlement_key ''credit'' order newFilledQty\<rparr>"

text \<open>Step 2 of ProcessFill: through Ativos, else directly against Livro, else nowhere.\<close>

definition settle ::
  "fillProcessor \<Rightarrow> BrokerOrder \<Rightarrow> FillEvent \<Rightarrow> decimal \<Rightarrow> decimal \<Rightarrow> string \<Rightarrow> (worker_error + unit) prog" where
  "settle p order event exactFiatValue newFilledQty newStatus =
     (if fp_ativosClient p then
        pbind (SyncBrokerExecution (sync_params order event newFilledQty)) (\<lambda>res. case res of
          Inl e \<Rightarrow> Ret (Inl (AtivosSyncFailed e))
        | Inr _ \<Rightarrow> Ret (Inr ()))
      else if fp_livroClient p then
        (if equal_fold (bo_Side order) SideBuy then
           pbind (GetOrCreateBrokerAccount (bo_TenantID order)) (\<lambda>acc. case acc of
             Inl e \<Rightarrow> Ret (Inl (ClearingAccountFailed e))
           | Inr destAccID \<Rightarrow>
               pbind (CaptureHold (capture_params order exactFiatValue destAccID newFilledQty newStatus))
                 (\<lambda>res. case res of
                    Inl e \<Rightarrow> Ret (Inl (CaptureFailed e))
                  | Inr _ \<Rightarrow> Ret (Inr ())))
         else if equal_fold (bo_Side order) SideSell then
           pbind (Credit (credit_params order exactFiatValue newFilledQty)) (\<lambda>res. case res of
             Inl e \<Rightarrow> Ret (Inl (SaleCreditFailed e))
           | Inr _ \<Rightarrow> Ret (Inr ()))
         else Ret (Inr ()))
      else Ret (Inr ()))"

text \<open>What ProcessFill does with the order it has found.\<close>

definition apply_fill :: "fillProcessor \<Rightarrow> FillEvent \<Rightarrow> BrokerOrder \<Rightarrow> (worker_error + unit) prog" where
  "apply_fill p event order =
     or_panic (Decimal_Mul (fe_ExecutedQuantity event) (fe_FillPrice event)) (\<lambda>exactFiatValue.
     let newFilledQty = Decimal_Add (bo_FilledQuantity order) (fe_ExecutedQuantity event)
     in or_panic (new_average order event exactFiatValue newFilledQty) (\<lambda>newAvgPrice.
        let newStatus = new_status order event newFilledQty
        in pbind (settle p order event exactFiatValue newFilledQty newStatus) (\<lambda>res. case res of
             Inl e \<Rightarrow> Ret (Inl e)
           | Inr _ \<Rightarrow>
               pbind (UpdateOrderFill (bo_Provider order) (bo_ProviderOrderID order) newStatus
                        newFilledQty newAvgPrice) (\<lambda>res. case res of
                 Inl e \<Rightarrow> Ret (Inl (FillUpdateFailed e))
               | Inr _ \<Rightarrow> Ret (Inr ())))))"

definition ProcessFill :: "fillProcessor \<Rightarrow> FillEvent \<Rightarrow> (worker_error + unit) prog" where
  "ProcessFill p event =
     (if Decimal_LessThanOrEqual (fe_ExecutedQuantity event) Decimal_Zero then Ret (Inl InvalidExecutedQuantity)
      else if Decimal_LessThanOrEqual (fe_FillPrice event) Decimal_Zero then Ret (Inl InvalidFillPrice)
      else
        not_nil (fp_ordersRepo p)
        (pbind (GetOrderByProviderOrderID (fe_Provider event) (fe_ProviderOrderID event)) (\<lambda>found. case found of
          Inl e \<Rightarrow> Ret (Inl (LookupFailed e))
        | Inr order \<Rightarrow> apply_fill p event order)))"

end
