(* ===== verification/Vault.thy ===== *)
theory Vault
  imports Prog
begin

text \<open>
  internal/vault/client.go: decryption of the broker credentials through OpenBao's transit API,
  and the life of the plaintext in memory.  Every base64 text that is decoded becomes a buffer
  of the heap, also when the text turns out to be corrupt; the credentials are a struct that
  points to two buffers.  Base64 is encoding/base64's StdEncoding, padded and not strict: line
  ends are skipped, nothing else may follow the padding, and the bytes before an error stay in
  the buffer.
\<close>

section \<open>Base64\<close>

definition b64_value :: "char \<Rightarrow> nat option" where
  "b64_value c =
     (let b = byte_of c
      in if 65 \<le> b \<and> b \<le> 90 then Some (b - 65)
         else if 97 \<le> b \<and> b \<le> 122 then Some (b - 71)
         else if 48 \<le> b \<and> b \<le> 57 then Some (b + 4)
         else if b = 43 then Some 62
         else if b = 47 then Some 63
         else None)"

definition b64_bytes :: "nat \<Rightarrow> nat \<Rightarrow> nat \<Rightarrow> nat \<Rightarrow> 8 word list" where
  "b64_bytes p q r s =
     [of_nat (p * 4 + q div 16), of_nat ((q mod 16) * 16 + r div 4), of_nat ((r mod 4) * 64 + s)]"

fun b64_quanta :: "string \<Rightarrow> 8 word list \<times> bool" where
  "b64_quanta [] = ([], True)"
| "b64_quanta (a # b # c # d # cs) =
     (case (b64_value a, b64_value b) of
        (Some p, Some q) \<Rightarrow>
          (case b64_value c of
             Some r \<Rightarrow>
               (case b64_value d of
                  Some s \<Rightarrow> (case b64_quanta cs of (bs, ok) \<Rightarrow> (b64_bytes p q r s @ bs, ok))
                | None \<Rightarrow> if d = CHR ''='' then (take 2 (b64_bytes p q r 0), cs = []) else ([], False))
           | None \<Rightarrow>
               if c = CHR ''='' \<and> d = CHR ''='' then (take 1 (b64_bytes p q 0 0), cs = [])
               else ([], False))
      | _ \<Rightarrow> ([], False))"
| "b64_quanta _ = ([], False)"

definition b64_DecodeString :: "string \<Rightarrow> 8 word list \<times> bool" where
  "b64_DecodeString s = b64_quanta (filter (\<lambda>c. byte_of c \<noteq> 10 \<and> byte_of c \<noteq> 13) s)"

section \<open>Plaintext credentials\<close>

text \<open>
  What a PlaintextCredentials formats to, whatever its two slices hold, and Zero, on a pointer
  that may be nil.
\<close>

definition creds_String :: "8 word list option \<times> 8 word list option \<Rightarrow> string" where
  "creds_String p = ''[REDACTED_BROKER_CREDENTIALS]''"

definition creds_GoString :: "8 word list option \<times> 8 word list option \<Rightarrow> string" where
  "creds_GoString p = ''[REDACTED_BROKER_CREDENTIALS]''"

definition Zero :: "nat option \<Rightarrow> unit prog" where
  "Zero ptr =
     (case ptr of
        None \<Rightarrow> Ret ()
      | Some p \<Rightarrow>
          pbind (c_get_creds p (\<lambda>(key, sec). case key of
            None \<Rightarrow> Ret ()
          | Some a \<Rightarrow> c_wipe a (c_set_creds p (None, sec) (Ret ())))) (\<lambda>_.
          c_get_creds p (\<lambda>(key, sec). case sec of
            None \<Rightarrow> Ret ()
          | Some a \<Rightarrow> c_wipe a (c_set_creds p (key, None) (Ret ())))))"

section \<open>The transit client\<close>

record openBaoTransitClient =
  tc_baseURL :: string
  tc_keyName :: string
  tc_token :: string
  tc_httpTimeout :: int

text \<open>
  An HTTP client is its time limit, in nanoseconds; a request that takes longer is one that the
  environment answers with an error.
\<close>

definition NewTransitClientWithHTTPClient ::
  "string \<Rightarrow> string \<Rightarrow> string \<Rightarrow> int option \<Rightarrow> openBaoTransitClient" where
  "NewTransitClientWithHTTPClient addr token keyName httpClient = \<lparr>
     tc_baseURL = trim_right CHR ''/'' addr,
     tc_keyName = (if keyName = [] then ''broker-keys'' else keyName),
     tc_token = token,
     tc_httpTimeout = (case httpClient of None \<Rightarrow> 5 * 10 ^ 9 | Some timeout \<Rightarrow> timeout)\<rparr>"

definition NewTransitClient :: "string \<Rightarrow> string \<Rightarrow> string \<Rightarrow> int \<Rightarrow> openBaoTransitClient" where
  "NewTransitClient addr token keyName timeout =
     NewTransitClientWithHTTPClient addr token keyName
       (Some (if timeout \<le> 0 then 5 * 10 ^ 9 else timeout))"

record decryptResponse =
  dr_Plaintext :: string
  dr_Errors :: "string list"

record batchDecryptResultItem =
  bi_Plaintext :: string
  bi_Error :: string

record batchDecryptResponse =
  br_BatchResults :: "batchDecryptResultItem list"
  br_Errors :: "string list"

definition decode_strings :: "(string list \<Rightarrow> 's \<Rightarrow> 's) \<Rightarrow> 's decoder" where
  "decode_strings upd = decode_array (decode_string (\<lambda>x _. x)) [] upd"

definition decryptResponse_json :: "decryptResponse decoder" where
  "decryptResponse_json = decode_struct
     [(''data'', decode_struct [(''plaintext'', decode_string (\<lambda>x s. s\<lparr>dr_Plaintext := x\<rparr>))]),
      (''errors'', decode_strings (\<lambda>xs s. s\<lparr>dr_Errors := xs\<rparr>))]"

definition batchDecryptResultItem_json :: "batchDecryptResultItem decoder" where
  "batchDecryptResultItem_json = decode_struct
     [(''plaintext'', decode_string (\<lambda>x s. s\<lparr>bi_Plaintext := x\<rparr>)),
      (''error'', decode_string (\<lambda>x s. s\<lparr>bi_Error := x\<rparr>))]"

definition batchDecryptResponse_json :: "batchDecryptResponse decoder" where
  "batchDecryptResponse_json = decode_struct
     [(''data'', decode_struct
         [(''batch_results'',
             decode_array batchDecryptResultItem_json \<lparr>bi_Plaintext = [], bi_Error = []\<rparr>
               (\<lambda>xs s. s\<lparr>br_BatchResults := xs\<rparr>))]),
      (''errors'', decode_strings (\<lambda>xs s. s\<lparr>br_Errors := xs\<rparr>))]"

datatype vault_error =
    ErrEmptyCiphertext
  | ErrDecryptionFailed
  | VaultRequest http_error
  | VaultBodyLost
  | VaultBadResponse
  | VaultBadBase64
  | ApiKeyFailed vault_error
  | ApiSecretFailed vault_error

definition transit_request :: "openBaoTransitClient \<Rightarrow> json \<Rightarrow> http_request" where
  "transit_request c body = \<lparr>
     hr_method = ''POST'',
     hr_url = tc_baseURL c @ ''/v1/transit/decrypt/'' @ tc_keyName c,
     hr_headers = (''Content-Type'', ''application/json'')
       # (if tc_token c \<noteq> [] then [(''X-Vault-Token'', tc_token c)] else []),
     hr_body = Some body\<rparr>"

definition ciphertext_json :: "string \<Rightarrow> json" where
  "ciphertext_json ciphertext = JObject [(''ciphertext'', JString ciphertext)]"

definition batch_json :: "string \<Rightarrow> string \<Rightarrow> json" where
  "batch_json apiKeyCiphertext apiSecretCiphertext = JObject
     [(''batch_input'', JArray [ciphertext_json apiKeyCiphertext, ciphertext_json apiSecretCiphertext])]"

definition Decrypt :: "openBaoTransitClient \<Rightarrow> string \<Rightarrow> (vault_error + nat) prog" where
  "Decrypt c ciphertext =
     (if trim_space ciphertext = [] then Ret (Inl ErrEmptyCiphertext)
      else
        c_http (CVault (transit_request c (ciphertext_json ciphertext))) (\<lambda>res. case res of
          Inl e \<Rightarrow> Ret (Inl (VaultRequest e))
        | Inr resp \<Rightarrow>
            if \<not> hb_complete (rs_Body resp) then Ret (Inl VaultBodyLost)
            else if rs_StatusCode resp \<noteq> 200 then Ret (Inl ErrDecryptionFailed)
            else (case unmarshal decryptResponse_json \<lparr>dr_Plaintext = [], dr_Errors = []\<rparr> (rs_Body resp) of
                    None \<Rightarrow> Ret (Inl VaultBadResponse)
                  | Some dResp \<Rightarrow>
                      if dr_Errors dResp \<noteq> [] then Ret (Inl ErrDecryptionFailed)
                      else (case b64_DecodeString (dr_Plaintext dResp) of
                              (bytes, ok) \<Rightarrow>
                                c_alloc bytes (\<lambda>decoded.
                                  if ok then Ret (Inr decoded) else Ret (Inl VaultBadBase64))))))"

text \<open>The two results of a batch response that can be used.\<close>

definition batch_results :: "http_error + http_response \<Rightarrow> (string \<times> string) option" where
  "batch_results res =
     (case res of
        Inl e \<Rightarrow> None
      | Inr resp \<Rightarrow>
          if rs_StatusCode resp \<noteq> 200 then None
          else (case decode_first batchDecryptResponse_json \<lparr>br_BatchResults = [], br_Errors = []\<rparr>
                       (rs_Body resp) of
                  Some bResp \<Rightarrow>
                    (case br_BatchResults bResp of
                       [rKey, rSec] \<Rightarrow>
                         if bi_Error rKey = [] \<and> bi_Error rSec = []
                         then Some (bi_Plaintext rKey, bi_Plaintext rSec) else None
                     | _ \<Rightarrow> None)
                | None \<Rightarrow> None))"

definition decrypt_each :: "openBaoTransitClient \<Rightarrow> string \<Rightarrow> string \<Rightarrow> (vault_error + nat) prog" where
  "decrypt_each c apiKeyCiphertext apiSecretCiphertext =
     pbind (Decrypt c apiKeyCiphertext) (\<lambda>key. case key of
       Inl e \<Rightarrow> Ret (Inl (ApiKeyFailed e))
     | Inr keyBytes \<Rightarrow>
         pbind (Decrypt c apiSecretCiphertext) (\<lambda>sec. case sec of
           Inl e \<Rightarrow> c_wipe keyBytes (Ret (Inl (ApiSecretFailed e)))
         | Inr secBytes \<Rightarrow> c_new_creds (Some keyBytes, Some secBytes) (\<lambda>p. Ret (Inr p))))"

definition DecryptCredentials ::
  "openBaoTransitClient \<Rightarrow> string \<Rightarrow> string \<Rightarrow> (vault_error + nat) prog" where
  "DecryptCredentials c apiKeyCiphertext apiSecretCiphertext =
     c_http (CVault (transit_request c (batch_json apiKeyCiphertext apiSecretCiphertext)))
       (\<lambda>res. case batch_results res of
          None \<Rightarrow> decrypt_each c apiKeyCiphertext apiSecretCiphertext
        | Some (keyText, secText) \<Rightarrow>
            (case (b64_DecodeString keyText, b64_DecodeString secText) of
               ((keyData, ok1), (secData, ok2)) \<Rightarrow>
                 c_alloc keyData (\<lambda>keyBytes.
                 c_alloc secData (\<lambda>secBytes.
                   if ok1 \<and> ok2
                   then c_new_creds (Some keyBytes, Some secBytes) (\<lambda>p. Ret (Inr p))
                   else decrypt_each c apiKeyCiphertext apiSecretCiphertext))))"

end
