(* ===== verification/Crypto.thy ===== *)
theory Crypto
  imports Prelude
begin

text \<open>
  What SignHMAC of internal/broker/binance/client.go uses of the standard library: SHA-256 on
  32-bit words (FIPS 180-4), HMAC with its 64-byte block (RFC 2104), both on byte lists.
\<close>

unbundle bit_operations_syntax

text \<open>The round constants and the initial state, as numbers.\<close>

definition sha_K :: "32 word list" where
  "sha_K = [
     1116352408, 1899447441, 3049323471, 3921009573, 961987163, 1508970993,
     2453635748, 2870763221, 3624381080, 310598401, 607225278, 1426881987,
     1925078388, 2162078206, 2614888103, 3248222580, 3835390401, 4022224774,
     264347078, 604807628, 770255983, 1249150122, 1555081692, 1996064986,
     2554220882, 2821834349, 2952996808, 3210313671, 3336571891, 3584528711,
     113926993, 338241895, 666307205, 773529912, 1294757372, 1396182291,
     1695183700, 1986661051, 2177026350, 2456956037, 2730485921, 2820302411,
     3259730800, 3345764771, 3516065817, 3600352804, 4094571909, 275423344,
     430227734, 506948616, 659060556, 883997877, 958139571, 1322822218,
     1537002063, 1747873779, 1955562222, 2024104815, 2227730452, 2361852424,
     2428436474, 2756734187, 3204031479, 3329325298]"

definition sha_init :: "32 word list" where
  "sha_init = [
     1779033703, 3144134277, 1013904242, 2773480762, 1359893119, 2600822924,
     528734635, 1541459225]"

definition rotr :: "nat \<Rightarrow> 32 word \<Rightarrow> 32 word" where
  "rotr n x = drop_bit n x OR push_bit (32 - n) x"

definition small_sigma0 :: "32 word \<Rightarrow> 32 word" where
  "small_sigma0 x = rotr 7 x XOR rotr 18 x XOR drop_bit 3 x"

definition small_sigma1 :: "32 word \<Rightarrow> 32 word" where
  "small_sigma1 x = rotr 17 x XOR rotr 19 x XOR drop_bit 10 x"

definition big_sigma0 :: "32 word \<Rightarrow> 32 word" where
  "big_sigma0 x = rotr 2 x XOR rotr 13 x XOR rotr 22 x"

definition big_sigma1 :: "32 word \<Rightarrow> 32 word" where
  "big_sigma1 x = rotr 6 x XOR rotr 11 x XOR rotr 25 x"

text \<open>The message schedule: the words of a block, extended n times.\<close>

fun sha_extend :: "nat \<Rightarrow> 32 word list \<Rightarrow> 32 word list" where
  "sha_extend 0 ws = ws"
| "sha_extend (Suc n) ws =
     (let t = length ws
      in sha_extend n (ws @ [small_sigma1 (ws ! (t - 2)) + ws ! (t - 7) + small_sigma0 (ws ! (t - 15)) + ws ! (t - 16)]))"

fun sha_round :: "32 word list \<Rightarrow> 32 word \<times> 32 word \<Rightarrow> 32 word list" where
  "sha_round [a, b, c, d, e, f, g, h] (k, w) =
     (let t1 = h + big_sigma1 e + ((e AND f) XOR (NOT e AND g)) + k + w;
          t2 = big_sigma0 a + ((a AND b) XOR (a AND c) XOR (b AND c))
      in [t1 + t2, a, b, c, d + t1, e, f, g])"
| "sha_round st _ = st"

definition sha_block :: "32 word list \<Rightarrow> 32 word list \<Rightarrow> 32 word list" where
  "sha_block st ws = map2 (+) st (foldl sha_round st (zip sha_K (sha_extend 48 ws)))"

fun be_words :: "8 word list \<Rightarrow> 32 word list" where
  "be_words (a # b # c # d # bs) =
     (push_bit 24 (ucast a) OR push_bit 16 (ucast b) OR push_bit 8 (ucast c) OR ucast d) # be_words bs"
| "be_words _ = []"

fun sha_blocks :: "32 word list \<Rightarrow> 32 word list list \<Rightarrow> 32 word list" where
  "sha_blocks st [] = st"
| "sha_blocks st (ws # blocks) = sha_blocks (sha_block st ws) blocks"

fun chunks :: "nat \<Rightarrow> 'a list \<Rightarrow> nat \<Rightarrow> 'a list list" where
  "chunks n xs 0 = []"
| "chunks n xs (Suc k) = take n xs # chunks n (drop n xs) k"

definition be_bytes :: "nat \<Rightarrow> nat \<Rightarrow> 8 word list" where
  "be_bytes n x = map (\<lambda>i. of_nat (x div 256 ^ (n - 1 - i))) [0..<n]"

definition sha_pad :: "8 word list \<Rightarrow> 8 word list" where
  "sha_pad m = m @ 0x80 # replicate ((119 - length m mod 64) mod 64) 0 @ be_bytes 8 (8 * length m)"

definition Sha256_Sum :: "8 word list \<Rightarrow> 8 word list" where
  "Sha256_Sum m =
     (let ws = be_words (sha_pad m)
      in concat (map (\<lambda>w. be_bytes 4 (unat w)) (sha_blocks sha_init (chunks 16 ws (length ws div 16)))))"

definition hmac_key :: "8 word list \<Rightarrow> 8 word list" where
  "hmac_key key =
     (let k = (if length key > 64 then Sha256_Sum key else key)
      in k @ replicate (64 - length k) 0)"

definition Hmac_Sha256 :: "8 word list \<Rightarrow> 8 word list \<Rightarrow> 8 word list" where
  "Hmac_Sha256 key m =
     Sha256_Sum (map (\<lambda>b. b XOR 0x5c) (hmac_key key)
       @ Sha256_Sum (map (\<lambda>b. b XOR 0x36) (hmac_key key) @ m))"

end
