(* ===== verification/Http_Text.thy ===== *)
theory Http_Text
  imports Uuid Decimal Json "HOL-Library.AList" "HOL-Library.List_Lexorder" "HOL-Library.Char_ord"
begin

text \<open>
  Text the clients build with the standard library: url.QueryEscape, url.Values and its Encode,
  the JSON text of a list of strings and of a decimal, strconv.FormatInt.  A Go map is an association list with
  distinct keys; \<open>AList.update\<close> is assignment to it.
\<close>

definition unreserved :: "char \<Rightarrow> bool" where
  "unreserved c =
     (let b = byte_of c
      in (97 \<le> b \<and> b \<le> 122) \<or> (65 \<le> b \<and> b \<le> 90) \<or> (48 \<le> b \<and> b \<le> 57) \<or> b \<in> {45, 46, 95, 126})"

definition upper_hex :: "nat \<Rightarrow> char" where
  "upper_hex n = char_of (if n < 10 then 48 + n else 55 + n)"

definition escape_byte :: "char \<Rightarrow> string" where
  "escape_byte c =
     (if unreserved c then [c]
      else if c = CHR '' '' then ''+''
      else [CHR ''%'', upper_hex (byte_of c div 16), upper_hex (byte_of c mod 16)])"

definition QueryEscape :: "string \<Rightarrow> string" where
  "QueryEscape s = concat (map escape_byte s)"

fun join :: "string \<Rightarrow> string list \<Rightarrow> string" where
  "join sep [] = []"
| "join sep [s] = s"
| "join sep (s # ss) = s @ sep @ join sep ss"

text \<open>url.Values with one value for every key, sorted by key when encoded.\<close>

type_synonym url_values = "(string \<times> string) list"

definition values_Encode :: "url_values \<Rightarrow> string" where
  "values_Encode vs =
     join ''&'' (map (\<lambda>(k, v). QueryEscape k @ ''='' @ QueryEscape v) (sort_key fst vs))"

text \<open>
  json.Marshal of a []string: what is not printed as itself is escaped, among it the HTML
  characters and U+2028, U+2029.  The strings are valid UTF-8, as all text of gRPC requests is.
\<close>

definition json_escape_byte :: "char \<Rightarrow> string" where
  "json_escape_byte c =
     (let b = byte_of c
      in if b = 34 then [CHR 0x5C, CHR 0x22]
         else if b = 92 then [CHR 0x5C, CHR 0x5C]
         else if b = 8 then [CHR 0x5C, CHR ''b'']
         else if b = 9 then [CHR 0x5C, CHR ''t'']
         else if b = 10 then [CHR 0x5C, CHR ''n'']
         else if b = 12 then [CHR 0x5C, CHR ''f'']
         else if b = 13 then [CHR 0x5C, CHR ''r'']
         else if b < 32 \<or> b \<in> {38, 60, 62}
           then CHR 0x5C # ''u00'' @ [hex_digit (b div 16), hex_digit (b mod 16)]
         else [c])"

fun json_escape :: "string \<Rightarrow> string" where
  "json_escape [] = []"
| "json_escape (c # cs) =
     (if byte_of c = 226 \<and> take 1 cs = [CHR 0x80] \<and> take 1 (drop 1 cs) \<in> {[CHR 0xA8], [CHR 0xA9]}
      then CHR 0x5C # ''u202'' @ [hex_digit (byte_of (cs ! 1) mod 16)] @ json_escape (drop 2 cs)
      else json_escape_byte c @ json_escape cs)"

definition json_text :: "string \<Rightarrow> string" where
  "json_text s = CHR 0x22 # json_escape s @ [CHR 0x22]"

definition json_strings :: "string list \<Rightarrow> string" where
  "json_strings ss = ''['' @ join '','' (map json_text ss) @ '']''"

text \<open>
  Decimal.UnmarshalJSON gets the raw text of the value and strips the quotes if there is something
  between them; the text of a bool, an array or an object is never a number.
\<close>

fun decode_decimal :: "(decimal \<Rightarrow> 's \<Rightarrow> 's) \<Rightarrow> 's decoder" where
  "decode_decimal upd JNull s = (s, True)"
| "decode_decimal upd (JNumber lit) s =
     (case Decimal_NewFromString lit of Inl e \<Rightarrow> (s, False) | Inr d \<Rightarrow> (upd d s, True))"
| "decode_decimal upd (JString x) s =
     (case Decimal_NewFromString (if x = [] then json_text [] else json_escape x) of
        Inl e \<Rightarrow> (s, False) | Inr d \<Rightarrow> (upd d s, True))"
| "decode_decimal upd _ s = (s, False)"

definition bytes_of :: "string \<Rightarrow> 8 word list" where
  "bytes_of s = map (\<lambda>c. of_nat (byte_of c)) s"

definition text_of :: "8 word list \<Rightarrow> string" where
  "text_of bs = map (\<lambda>b. char_of (unat b)) bs"

lemma map_of_AList_update [simp]: "map_of (AList.update k v m) = (map_of m)(k \<mapsto> v)"
  by (simp add: update_conv')

end
