(* ===== verification/Binance.thy ===== *)
theory Binance
  imports Broker Vault Crypto Http_Text
begin

text \<open>
  internal/broker/binance/client.go and models.go: the Binance client.  A result of the sum type
  is Go's pair of a value and an error; \<^term>\<open>None\<close> is a panic of the decimal library.
\<close>

section \<open>Payloads (models.go)\<close>

record RawBookTicker =
  rb_Symbol :: string
  rb_BidPrice :: string
  rb_BidQty :: string
  rb_AskPrice :: string
  rb_AskQty :: string

record ExchangeInfoFilter =
  ef_FilterType :: string
  ef_MinQty :: string
  ef_MaxQty :: string
  ef_StepSize :: string
  ef_MinNotional :: string

record ExchangeInfoSymbol =
  es_Symbol :: string
  es_Status :: string
  es_BaseAsset :: string
  es_QuoteAsset :: string
  es_Filters :: "ExchangeInfoFilter list"

record ExchangeInfoResponse =
  ei_Symbols :: "ExchangeInfoSymbol list"

record OrderResponse =
  os_Symbol :: string
  os_OrderID :: int
  os_ClientOrderID :: string
  os_TransactTime :: int
  os_Price :: string
  os_OrigQty :: string
  os_ExecutedQty :: string
  os_CummulativeQuoteQty :: string
  os_Status :: string
  os_TimeInForce :: string
  os_Type :: string
  os_Side :: string
  os_Code :: int
  os_Msg :: string

record AccountBalance =
  ab_Asset :: string
  ab_Free :: string
  ab_Locked :: string

record AccountResponse =
  ac_MakerCommission :: int
  ac_TakerCommission :: int
  ac_BuyerCommission :: int
  ac_SellerCommission :: int
  ac_CanTrade :: bool
  ac_CanWithdraw :: bool
  ac_CanDeposit :: bool
  ac_UpdateTime :: int
  ac_AccountType :: string
  ac_Balances :: "AccountBalance list"
  ac_Code :: int
  ac_Msg :: string

definition zero_RawBookTicker :: RawBookTicker where
  "zero_RawBookTicker =
     \<lparr>rb_Symbol = [], rb_BidPrice = [], rb_BidQty = [], rb_AskPrice = [], rb_AskQty = []\<rparr>"

definition RawBookTicker_json :: "RawBookTicker decoder" where
  "RawBookTicker_json = decode_struct
     [(''symbol'', decode_string (\<lambda>x s. s\<lparr>rb_Symbol := x\<rparr>)),
      (''bidPrice'', decode_string (\<lambda>x s. s\<lparr>rb_BidPrice := x\<rparr>)),
      (''bidQty'', decode_string (\<lambda>x s. s\<lparr>rb_BidQty := x\<rparr>)),
      (''askPrice'', decode_string (\<lambda>x s. s\<lparr>rb_AskPrice := x\<rparr>)),
      (''askQty'', decode_string (\<lambda>x s. s\<lparr>rb_AskQty := x\<rparr>))]"

definition zero_ExchangeInfoFilter :: ExchangeInfoFilter where
  "zero_ExchangeInfoFilter =
     \<lparr>ef_FilterType = [], ef_MinQty = [], ef_MaxQty = [], ef_StepSize = [], ef_MinNotional = []\<rparr>"

definition ExchangeInfoFilter_json :: "ExchangeInfoFilter decoder" where
  "ExchangeInfoFilter_json = decode_struct
     [(''filterType'', decode_string (\<lambda>x s. s\<lparr>ef_FilterType := x\<rparr>)),
      (''minQty'', decode_string (\<lambda>x s. s\<lparr>ef_MinQty := x\<rparr>)),
      (''maxQty'', decode_string (\<lambda>x s. s\<lparr>ef_MaxQty := x\<rparr>)),
      (''stepSize'', decode_string (\<lambda>x s. s\<lparr>ef_StepSize := x\<rparr>)),
      (''minNotional'', decode_string (\<lambda>x s. s\<lparr>ef_MinNotional := x\<rparr>))]"

definition zero_ExchangeInfoSymbol :: ExchangeInfoSymbol where
  "zero_ExchangeInfoSymbol =
     \<lparr>es_Symbol = [], es_Status = [], es_BaseAsset = [], es_QuoteAsset = [], es_Filters = []\<rparr>"

definition ExchangeInfoSymbol_json :: "ExchangeInfoSymbol decoder" where
  "ExchangeInfoSymbol_json = decode_struct
     [(''symbol'', decode_string (\<lambda>x s. s\<lparr>es_Symbol := x\<rparr>)),
      (''status'', decode_string (\<lambda>x s. s\<lparr>es_Status := x\<rparr>)),
      (''baseAsset'', decode_string (\<lambda>x s. s\<lparr>es_BaseAsset := x\<rparr>)),
      (''quoteAsset'', decode_string (\<lambda>x s. s\<lparr>es_QuoteAsset := x\<rparr>)),
      (''filters'', decode_array ExchangeInfoFilter_json zero_ExchangeInfoFilter
         (\<lambda>xs s. s\<lparr>es_Filters := xs\<rparr>))]"

definition ExchangeInfoResponse_json :: "ExchangeInfoResponse decoder" where
  "ExchangeInfoResponse_json = decode_struct
     [(''symbols'', decode_array ExchangeInfoSymbol_json zero_ExchangeInfoSymbol
         (\<lambda>xs s. s\<lparr>ei_Symbols := xs\<rparr>))]"

definition zero_OrderResponse :: OrderResponse where
  "zero_OrderResponse = \<lparr>os_Symbol = [], os_OrderID = 0, os_ClientOrderID = [], os_TransactTime = 0,
     os_Price = [], os_OrigQty = [], os_ExecutedQty = [], os_CummulativeQuoteQty = [], os_Status = [],
     os_TimeInForce = [], os_Type = [], os_Side = [], os_Code = 0, os_Msg = []\<rparr>"

definition OrderResponse_json :: "OrderResponse decoder" where
  "OrderResponse_json = decode_struct
     [(''symbol'', decode_string (\<lambda>x s. s\<lparr>os_Symbol := x\<rparr>)),
      (''orderId'', decode_int64 (\<lambda>x s. s\<lparr>os_OrderID := x\<rparr>)),
      (''clientOrderId'', decode_string (\<lambda>x s. s\<lparr>os_ClientOrderID := x\<rparr>)),
      (''transactTime'', decode_int64 (\<lambda>x s. s\<lparr>os_TransactTime := x\<rparr>)),
      (''price'', decode_string (\<lambda>x s. s\<lparr>os_Price := x\<rparr>)),
      (''origQty'', decode_string (\<lambda>x s. s\<lparr>os_OrigQty := x\<rparr>)),
      (''executedQty'', decode_string (\<lambda>x s. s\<lparr>os_ExecutedQty := x\<rparr>)),
      (''cummulativeQuoteQty'', decode_string (\<lambda>x s. s\<lparr>os_CummulativeQuoteQty := x\<rparr>)),
      (''status'', decode_string (\<lambda>x s. s\<lparr>os_Status := x\<rparr>)),
      (''timeInForce'', decode_string (\<lambda>x s. s\<lparr>os_TimeInForce := x\<rparr>)),
      (''type'', decode_string (\<lambda>x s. s\<lparr>os_Type := x\<rparr>)),
      (''side'', decode_string (\<lambda>x s. s\<lparr>os_Side := x\<rparr>)),
      (''code'', decode_int64 (\<lambda>x s. s\<lparr>os_Code := x\<rparr>)),
      (''msg'', decode_string (\<lambda>x s. s\<lparr>os_Msg := x\<rparr>))]"

definition AccountBalance_json :: "AccountBalance decoder" where
  "AccountBalance_json = decode_struct
     [(''asset'', decode_string (\<lambda>x s. s\<lparr>ab_Asset := x\<rparr>)),
      (''free'', decode_string (\<lambda>x s. s\<lparr>ab_Free := x\<rparr>)),
      (''locked'', decode_string (\<lambda>x s. s\<lparr>ab_Locked := x\<rparr>))]"

definition zero_AccountResponse :: AccountResponse where
  "zero_AccountResponse = \<lparr>ac_MakerCommission = 0, ac_TakerCommission = 0, ac_BuyerCommission = 0,
     ac_SellerCommission = 0, ac_CanTrade = False, ac_CanWithdraw = False, ac_CanDeposit = False,
     ac_UpdateTime = 0, ac_AccountType = [], ac_Balances = [], ac_Code = 0, ac_Msg = []\<rparr>"

definition AccountResponse_json :: "AccountResponse decoder" where
  "AccountResponse_json = decode_struct
     [(''makerCommission'', decode_int64 (\<lambda>x s. s\<lparr>ac_MakerCommission := x\<rparr>)),
      (''takerCommission'', decode_int64 (\<lambda>x s. s\<lparr>ac_TakerCommission := x\<rparr>)),
      (''buyerCommission'', decode_int64 (\<lambda>x s. s\<lparr>ac_BuyerCommission := x\<rparr>)),
      (''sellerCommission'', decode_int64 (\<lambda>x s. s\<lparr>ac_SellerCommission := x\<rparr>)),
      (''canTrade'', decode_bool (\<lambda>x s. s\<lparr>ac_CanTrade := x\<rparr>)),
      (''canWithdraw'', decode_bool (\<lambda>x s. s\<lparr>ac_CanWithdraw := x\<rparr>)),
      (''canDeposit'', decode_bool (\<lambda>x s. s\<lparr>ac_CanDeposit := x\<rparr>)),
      (''updateTime'', decode_int64 (\<lambda>x s. s\<lparr>ac_UpdateTime := x\<rparr>)),
      (''accountType'', decode_string (\<lambda>x s. s\<lparr>ac_AccountType := x\<rparr>)),
      (''balances'', decode_array AccountBalance_json \<lparr>ab_Asset = [], ab_Free = [], ab_Locked = []\<rparr>
         (\<lambda>xs s. s\<lparr>ac_Balances := xs\<rparr>)),
      (''code'', decode_int64 (\<lambda>x s. s\<lparr>ac_Code := x\<rparr>)),
      (''msg'', decode_string (\<lambda>x s. s\<lparr>ac_Msg := x\<rparr>))]"

section \<open>Quantities and statuses\<close>

definition mapOrderStatus :: "string \<Rightarrow> string" where
  "mapOrderStatus binanceStatus =
     (let u = to_upper binanceStatus
      in if u = ''NEW'' then StatusSubmitted
         else if u = ''PARTIALLY_FILLED'' then StatusPartial
         else if u = ''FILLED'' then StatusFilled
         else if u = ''CANCELED'' \<or> u = ''EXPIRED'' then StatusCanceled
         else if u = ''REJECTED'' then StatusRejected
         else StatusSubmitted)"

definition step_decimals :: "string \<Rightarrow> nat" where
  "step_decimals stepStr =
     (case find_index (\<lambda>c. c = CHR ''.'') stepStr of
        None \<Rightarrow> 0
      | Some idx \<Rightarrow>
          (let trimmed = trim_right CHR ''0'' (drop (Suc idx) stepStr)
           in if length trimmed = 0 then length (drop (Suc idx) stepStr) else length trimmed))"

definition TruncateToStepSize :: "decimal \<Rightarrow> decimal \<Rightarrow> (decimal \<times> string) option" where
  "TruncateToStepSize qty stepSize =
     (if Decimal_LessThanOrEqual stepSize Decimal_Zero then Some (qty, Decimal_String qty)
      else (case Decimal_Div qty stepSize of
              None \<Rightarrow> None
            | Some q \<Rightarrow>
                (case Decimal_Mul (Decimal_Floor q) stepSize of
                   None \<Rightarrow> None
                 | Some quantized \<Rightarrow>
                     Some (quantized,
                       Decimal_StringFixed quantized (int (step_decimals (Decimal_String stepSize)))))))"

definition RequireFromString :: "string \<Rightarrow> decimal option" where
  "RequireFromString s = (case Decimal_NewFromString s of Inl e \<Rightarrow> None | Inr d \<Rightarrow> Some d)"

definition GetDefaultStepSize :: "string \<Rightarrow> decimal option" where
  "GetDefaultStepSize symbol =
     (let s = to_upper (trim_space symbol)
      in if s = ''BTCUSDT'' then RequireFromString ''0.00001000''
         else if s = ''ETHUSDT'' then RequireFromString ''0.00010000''
         else if s = ''SOLUSDT'' then RequireFromString ''0.01000000''
         else if s = ''BNBUSDT'' then RequireFromString ''0.00100000''
         else if s = ''DOGEUSDT'' then RequireFromString ''1.00000000''
         else if s = ''ADAUSDT'' \<or> s = ''XRPUSDT'' then RequireFromString ''0.10000000''
         else RequireFromString ''0.00010000'')"

definition parseBookTicker :: "RawBookTicker \<Rightarrow> (broker_error + BookTicker) option" where
  "parseBookTicker raw =
     (case Decimal_NewFromString (rb_BidPrice raw) of
        Inl e \<Rightarrow> Some (Inl (BrokerError ''invalid bid price''))
      | Inr bidPrice \<Rightarrow>
     (case Decimal_NewFromString (rb_BidQty raw) of
        Inl e \<Rightarrow> Some (Inl (BrokerError ''invalid bid qty''))
      | Inr bidQty \<Rightarrow>
     (case Decimal_NewFromString (rb_AskPrice raw) of
        Inl e \<Rightarrow> Some (Inl (BrokerError ''invalid ask price''))
      | Inr askPrice \<Rightarrow>
     (case Decimal_NewFromString (rb_AskQty raw) of
        Inl e \<Rightarrow> Some (Inl (BrokerError ''invalid ask qty''))
      | Inr askQty \<Rightarrow>
     (case Decimal_Div (Decimal_Add bidPrice askPrice) (Decimal_NewFromInt 2) of
        None \<Rightarrow> None
      | Some midPrice \<Rightarrow>
          Some (Inr \<lparr>bt_Symbol = rb_Symbol raw, bt_BidPrice = bidPrice, bt_BidQty = bidQty,
                     bt_AskPrice = askPrice, bt_AskQty = askQty, bt_MidPrice = midPrice\<rparr>))))))"

section \<open>The client\<close>

record binanceClient =
  bn_baseURL :: string
  bn_recvWindow :: int
  bn_httpTimeout :: int

text \<open>An HTTP client is its time limit, as for the vault.\<close>

definition NewClientWithHTTPClient :: "string \<Rightarrow> int \<Rightarrow> int option \<Rightarrow> binanceClient" where
  "NewClientWithHTTPClient baseURL recvWindow httpClient = \<lparr>
     bn_baseURL = trim_right CHR ''/'' (if baseURL = [] then ''https://api.binance.com'' else baseURL),
     bn_recvWindow = (if recvWindow \<le> 0 then 5000 else recvWindow),
     bn_httpTimeout = (case httpClient of None \<Rightarrow> 10 * 10 ^ 9 | Some timeout \<Rightarrow> timeout)\<rparr>"

definition NewClient :: "string \<Rightarrow> int \<Rightarrow> int \<Rightarrow> binanceClient" where
  "NewClient baseURL recvWindow timeout =
     NewClientWithHTTPClient baseURL recvWindow (Some (if timeout \<le> 0 then 10 * 10 ^ 9 else timeout))"

definition SignHMAC :: "8 word list \<Rightarrow> 8 word list \<Rightarrow> string" where
  "SignHMAC payload secret = hex (Hmac_Sha256 secret payload)"

definition rate_limited :: "http_response \<Rightarrow> bool" where
  "rate_limited resp \<longleftrightarrow> rs_StatusCode resp = 429 \<or> rs_StatusCode resp = 418"

definition get_request :: "string \<Rightarrow> (string \<times> string) list \<Rightarrow> http_request" where
  "get_request url headers = \<lparr>hr_method = ''GET'', hr_url = url, hr_headers = headers, hr_body = None\<rparr>"

text \<open>The tickers of a list answer: one that does not parse is skipped.\<close>

fun collect_tickers :: "RawBookTicker list \<Rightarrow> (string \<times> BookTicker) list \<Rightarrow> (string \<times> BookTicker) list option" where
  "collect_tickers [] result = Some result"
| "collect_tickers (raw # rawList) result =
     (case parseBookTicker raw of
        None \<Rightarrow> None
      | Some (Inl e) \<Rightarrow> collect_tickers rawList result
      | Some (Inr ticker) \<Rightarrow> collect_tickers rawList (AList.update (bt_Symbol ticker) ticker result))"

definition decode_tickers :: "(RawBookTicker list) decoder" where
  "decode_tickers = decode_array RawBookTicker_json zero_RawBookTicker (\<lambda>xs _. xs)"

text \<open>What GetBookTickers makes of the response; \<open>single\<close> says that it asked for one symbol.\<close>

definition ticker_answer ::
  "bool \<Rightarrow> http_error + http_response \<Rightarrow> (broker_error + (string \<times> BookTicker) list) prog" where
  "ticker_answer single res =
     (case res of
        Inl e \<Rightarrow> Ret (Inl (BrokerError ''binance bookTicker request failed''))
      | Inr resp \<Rightarrow>
          if rate_limited resp then Ret (Inl ErrRateLimited)
          else if \<not> hb_complete (rs_Body resp) then Ret (Inl (BrokerError ''failed to read response body''))
          else if rs_StatusCode resp \<noteq> 200 then Ret (Inl (BrokerError ''binance bookTicker returned status''))
          else if single then
            (case unmarshal RawBookTicker_json zero_RawBookTicker (rs_Body resp) of
               None \<Rightarrow> Ret (Inl (BrokerError ''failed to unmarshal single bookTicker''))
             | Some raw \<Rightarrow>
                 or_panic (parseBookTicker raw) (\<lambda>parsed. case parsed of
                   Inl e \<Rightarrow> Ret (Inl e)
                 | Inr ticker \<Rightarrow> Ret (Inr [(bt_Symbol ticker, ticker)])))
          else
            (case unmarshal decode_tickers [] (rs_Body resp) of
               None \<Rightarrow> Ret (Inl (BrokerError ''failed to unmarshal bookTicker list''))
             | Some rawList \<Rightarrow> or_panic (collect_tickers rawList []) (\<lambda>result. Ret (Inr result))))"

definition ticker_request :: "binanceClient \<Rightarrow> string list \<Rightarrow> call" where
  "ticker_request c symbols = CBinance (get_request
     (if length symbols = 1
      then bn_baseURL c @ ''/api/v3/ticker/bookTicker?symbol='' @ QueryEscape (symbols ! 0)
      else bn_baseURL c @ ''/api/v3/ticker/bookTicker?symbols='' @ QueryEscape (json_strings symbols)) [])"

definition GetBookTickers ::
  "binanceClient \<Rightarrow> string list \<Rightarrow> (broker_error + (string \<times> BookTicker) list) prog" where
  "GetBookTickers c symbols =
     (if symbols = [] then Ret (Inr [])
      else c_http (ticker_request c symbols) (ticker_answer (length symbols = 1)))"

definition trading_symbols :: "ExchangeInfoSymbol list \<Rightarrow> string set" where
  "trading_symbols ss =
     set (map (\<lambda>s. to_upper (es_Symbol s)) (filter (\<lambda>s. equal_fold (es_Status s) ''TRADING'') ss))"

definition ValidateSymbols ::
  "binanceClient \<Rightarrow> string list \<Rightarrow> (broker_error + (string \<times> bool) list) prog" where
  "ValidateSymbols c symbols =
     (if symbols = [] then Ret (Inr [])
      else
        c_http (CBinance (get_request (bn_baseURL c @ ''/api/v3/exchangeInfo'') [])) (\<lambda>res. case res of
          Inl e \<Rightarrow> Ret (Inl (BrokerError ''binance exchangeInfo request failed''))
        | Inr resp \<Rightarrow>
            if rate_limited resp then Ret (Inl ErrRateLimited)
            else (case decode_first ExchangeInfoResponse_json \<lparr>ei_Symbols = []\<rparr> (rs_Body resp) of
                    None \<Rightarrow> Ret (Inl (BrokerError ''failed to decode exchangeInfo''))
                  | Some info \<Rightarrow>
                      Ret (Inr (foldl (\<lambda>result s.
                          AList.update s (to_upper s \<in> trading_symbols (ei_Symbols info)) result)
                        (foldl (\<lambda>result s. AList.update s False result) [] symbols) symbols)))))"

text \<open>
  Reading the credentials: both slices, a nil one having length 0.  Then Zero is deferred, so it
  runs however the function ends.
\<close>

definition load_slice :: "nat option \<Rightarrow> (8 word list \<Rightarrow> 'a prog) \<Rightarrow> 'a prog" where
  "load_slice s k = (case s of None \<Rightarrow> k [] | Some a \<Rightarrow> c_load a k)"

definition with_credentials ::
  "nat option \<Rightarrow> string \<Rightarrow> (8 word list \<Rightarrow> 8 word list \<Rightarrow> (broker_error + 'a) prog) \<Rightarrow> (broker_error + 'a) prog"
where
  "with_credentials creds missing body =
     (case creds of
        None \<Rightarrow> Ret (Inl (BrokerError missing))
      | Some p \<Rightarrow>
          c_get_creds p (\<lambda>(key, sec).
          load_slice key (\<lambda>apiKey.
          load_slice sec (\<lambda>apiSecret.
            if apiKey = [] \<or> apiSecret = [] then Ret (Inl (BrokerError missing))
            else pdefer (body apiKey apiSecret) (Zero creds)))))"

definition or_zero :: "dec_error + decimal \<Rightarrow> decimal" where
  "or_zero x = (case x of Inl e \<Rightarrow> Decimal_Unset | Inr d \<Rightarrow> d)"

definition order_result :: "OrderResponse \<Rightarrow> OrderResult option" where
  "order_result ordResp =
     (let executedQty = or_zero (Decimal_NewFromString (os_ExecutedQty ordResp));
          cumQuoteQty = or_zero (Decimal_NewFromString (os_CummulativeQuoteQty ordResp));
          avgPrice = (if Decimal_GreaterThan executedQty Decimal_Zero
                      then Decimal_Div cumQuoteQty executedQty else Some Decimal_Unset)
      in case avgPrice of
           None \<Rightarrow> None
         | Some avg \<Rightarrow>
             Some \<lparr>or_ProviderOrderID = int_string (os_OrderID ordResp),
                   or_Status = mapOrderStatus (os_Status ordResp),
                   or_ExecutedQuantity = executedQty,
                   or_CumulativeQuoteQuantity = cumQuoteQty,
                   or_AveragePrice = avg\<rparr>)"

text \<open>What PlaceMarketOrder makes of the response.\<close>

definition order_answer :: "http_error + http_response \<Rightarrow> (broker_error + OrderResult) prog" where
  "order_answer res =
     (case res of
        Inl e \<Rightarrow> Ret (Inl (BrokerError ''binance order request failed''))
      | Inr resp \<Rightarrow>
          if \<not> hb_complete (rs_Body resp) then Ret (Inl (BrokerError ''failed to read order response''))
          else if rate_limited resp then Ret (Inl ErrRateLimited)
          else (case unmarshal OrderResponse_json zero_OrderResponse (rs_Body resp) of
                  None \<Rightarrow> Ret (Inl (BrokerError ''failed to unmarshal order response''))
                | Some ordResp \<Rightarrow>
                    if rs_StatusCode resp \<noteq> 200 then Ret (Inl ErrOrderRejected)
                    else or_panic (order_result ordResp) (\<lambda>r. Ret (Inr r))))"

definition order_params :: "binanceClient \<Rightarrow> MarketOrderRequest \<Rightarrow> string \<Rightarrow> nat \<Rightarrow> url_values" where
  "order_params c orderReq qtyStr now =
     [(''symbol'', to_upper (mo_Symbol orderReq)),
      (''side'', to_upper (mo_Side orderReq)),
      (''type'', ''MARKET''),
      (''quantity'', qtyStr),
      (''timestamp'', int_string (int (now div 1000000))),
      (''recvWindow'', int_string (bn_recvWindow c))]
     @ (if mo_ClientOrderID orderReq \<noteq> [] then [(''newClientOrderId'', mo_ClientOrderID orderReq)] else [])"

definition signed_url :: "binanceClient \<Rightarrow> string \<Rightarrow> url_values \<Rightarrow> 8 word list \<Rightarrow> string" where
  "signed_url c path params secret =
     (let queryString = values_Encode params
      in bn_baseURL c @ path @ ''?'' @ queryString @ ''&signature='' @ SignHMAC (bytes_of queryString) secret)"

definition order_request :: "binanceClient \<Rightarrow> url_values \<Rightarrow> 8 word list \<Rightarrow> 8 word list \<Rightarrow> http_request" where
  "order_request c params apiKey apiSecret = \<lparr>
     hr_method = ''POST'',
     hr_url = signed_url c ''/api/v3/order'' params apiSecret,
     hr_headers = [(''X-MBX-APIKEY'', text_of apiKey)],
     hr_body = None\<rparr>"

definition PlaceMarketOrder ::
  "binanceClient \<Rightarrow> nat option \<Rightarrow> MarketOrderRequest \<Rightarrow> (broker_error + OrderResult) prog" where
  "PlaceMarketOrder c creds orderReq =
     with_credentials creds ''missing broker credentials for order placement'' (\<lambda>apiKey apiSecret.
       if Decimal_LessThanOrEqual (mo_Quantity orderReq) Decimal_Zero then Ret (Inl ErrInvalidQuantity)
       else
         or_panic (GetDefaultStepSize (mo_Symbol orderReq)) (\<lambda>stepSize.
         or_panic (TruncateToStepSize (mo_Quantity orderReq) stepSize) (\<lambda>(quantizedQty, qtyStr).
           if Decimal_LessThanOrEqual quantizedQty Decimal_Zero then Ret (Inl ErrInvalidQuantity)
           else
             c_now (\<lambda>now.
             c_http (CBinance (order_request c (order_params c orderReq qtyStr now) apiKey apiSecret))
               order_answer))))"

fun collect_balances :: "AccountBalance list \<Rightarrow> (string \<times> decimal) list \<Rightarrow> (string \<times> decimal) list" where
  "collect_balances [] result = result"
| "collect_balances (b # bs) result =
     (case Decimal_NewFromString (ab_Free b) of
        Inl e \<Rightarrow> collect_balances bs result
      | Inr free \<Rightarrow> collect_balances bs (AList.update (ab_Asset b) free result))"

definition balance_answer :: "http_error + http_response \<Rightarrow> (broker_error + (string \<times> decimal) list) prog" where
  "balance_answer res =
     (case res of
        Inl e \<Rightarrow> Ret (Inl (BrokerError ''binance account request failed''))
      | Inr resp \<Rightarrow>
          if rate_limited resp then Ret (Inl ErrRateLimited)
          else if \<not> hb_complete (rs_Body resp) then Ret (Inl (BrokerError ''failed to read account response''))
          else if rs_StatusCode resp \<noteq> 200 then Ret (Inl (BrokerError ''binance account returned status''))
          else (case unmarshal AccountResponse_json zero_AccountResponse (rs_Body resp) of
                  None \<Rightarrow> Ret (Inl (BrokerError ''failed to unmarshal account response''))
                | Some accResp \<Rightarrow> Ret (Inr (collect_balances (ac_Balances accResp) []))))"

definition GetAccountBalances ::
  "binanceClient \<Rightarrow> nat option \<Rightarrow> (broker_error + (string \<times> decimal) list) prog" where
  "GetAccountBalances c creds =
     with_credentials creds ''missing broker credentials for balance check'' (\<lambda>apiKey apiSecret.
       c_now (\<lambda>now.
         let params = [(''timestamp'', int_string (int (now div 1000000))),
                       (''recvWindow'', int_string (bn_recvWindow c))]
         in c_http (CBinance (get_request (signed_url c ''/api/v3/account'' params apiSecret)
                      [(''X-MBX-APIKEY'', text_of apiKey)])) balance_answer))"

end
