(* ===== verification/Cache.thy ===== *)
theory Cache
  imports Prog Http_Text
begin

text \<open>
  internal/cache: quotes in Redis under two keys, a fresh one that lives seconds and a stale one
  that lives a day.  An entry is stored as the JSON of a CachedQuote, in which decimal.Decimal
  prints as a quoted number and reads a quoted or plain number (decimal.go, MarshalJSON and
  UnmarshalJSON).
\<close>

record CachedQuote =
  cq_Symbol :: string
  cq_Price :: decimal
  cq_Timestamp :: int
  cq_IsStaleCache :: bool

record redisQuotesCache =
  qc_freshTTL :: nat
  qc_staleTTL :: nat

definition NewRedisQuotesCache :: "int \<Rightarrow> int \<Rightarrow> redisQuotesCache" where
  "NewRedisQuotesCache freshTTL staleTTL = \<lparr>
     qc_freshTTL = (if freshTTL \<le> 0 then 5 * 10 ^ 9 else nat freshTTL),
     qc_staleTTL = (if staleTTL \<le> 0 then 24 * 3600 * 10 ^ 9 else nat staleTTL)\<rparr>"

text \<open>
  What the cache relies on in its store: of several writes in one batch the last one to a key counts,
  and an entry is there until its lifetime is over.
\<close>

locale expiring_store =
  fixes fetch :: "nat \<Rightarrow> 's \<Rightarrow> 'k \<Rightarrow> 'v option" and store :: "nat \<Rightarrow> ('k \<times> 'v \<times> nat) list \<Rightarrow> 's \<Rightarrow> 's"
  assumes store_Nil: "store t [] s = s"
    and fetch_last: "fetch now (store t (es @ [(k, v, ttl)]) s) k' =
      (if k' = k then if now < t + ttl then Some v else None else fetch now (store t es s) k')"
begin

lemma fetch_other: "k \<notin> fst ` set es \<Longrightarrow> fetch now (store t es s) k = fetch now s k"
  by (induction es rule: rev_induct) (auto simp: store_Nil fetch_last)

lemma fetch_stored:
  assumes "k \<in> fst ` set es" and "\<And>v ttl. (k, v, ttl) \<in> set es \<Longrightarrow> P v ttl"
  shows "\<exists>v ttl. P v ttl \<and> fetch now (store t es s) k = (if now < t + ttl then Some v else None)"
  using assms
proof (induction es rule: rev_induct)
  case (snoc x es)
  obtain k' v ttl where x: "x = (k', v, ttl)" by (cases x)
  show ?case
  proof (cases "k' = k")
    case True
    with x snoc.prems(2) [of v ttl] show ?thesis by (auto simp: fetch_last)
  next
    case False
    have "\<exists>v ttl. P v ttl \<and> fetch now (store t es s) k = (if now < t + ttl then Some v else None)"
      by (rule snoc.IH) (use snoc.prems False x in auto)
    with False x show ?thesis by (simp add: fetch_last)
  qed
qed simp

end

interpretation redis: expiring_store redis_get redis_set
  by unfold_locales (simp_all add: redis_set_def)

definition freshKey :: "string \<Rightarrow> string \<Rightarrow> string" where
  "freshKey provider symbol = ''pregao:quotes:'' @ to_upper provider @ '':'' @ to_upper symbol"

definition staleKey :: "string \<Rightarrow> string \<Rightarrow> string" where
  "staleKey provider symbol = ''pregao:quotes:stale:'' @ to_upper provider @ '':'' @ to_upper symbol"

definition CachedQuote_json :: "CachedQuote decoder" where
  "CachedQuote_json = decode_struct
     [(''symbol'', decode_string (\<lambda>x s. s\<lparr>cq_Symbol := x\<rparr>)),
      (''price'', decode_decimal (\<lambda>x s. s\<lparr>cq_Price := x\<rparr>)),
      (''timestamp'', decode_int64 (\<lambda>x s. s\<lparr>cq_Timestamp := x\<rparr>)),
      (''is_stale_cache'', decode_bool (\<lambda>x s. s\<lparr>cq_IsStaleCache := x\<rparr>))]"

definition marshal_quote :: "CachedQuote \<Rightarrow> json" where
  "marshal_quote q = JObject
     [(''symbol'', JString (cq_Symbol q)),
      (''price'', JString (Decimal_String (cq_Price q))),
      (''timestamp'', JNumber (int_string (cq_Timestamp q))),
      (''is_stale_cache'', JBool (cq_IsStaleCache q))]"

definition unmarshal_quote :: "json \<Rightarrow> CachedQuote option" where
  "unmarshal_quote v = decoded CachedQuote_json
     \<lparr>cq_Symbol = [], cq_Price = Decimal_Unset, cq_Timestamp = 0, cq_IsStaleCache = False\<rparr> v"

text \<open>The values of an MGET, in the order of the symbols: those that hold a quote, and the rest.\<close>

fun collect_hits ::
  "(string \<times> json option) list \<Rightarrow> (string \<times> CachedQuote) list \<times> string list
    \<Rightarrow> (string \<times> CachedQuote) list \<times> string list" where
  "collect_hits [] (hits, misses) = (hits, misses)"
| "collect_hits ((symbol, res) # rs) (hits, misses) =
     (case res of
        None \<Rightarrow> collect_hits rs (hits, misses @ [symbol])
      | Some v \<Rightarrow>
          (case unmarshal_quote v of
             None \<Rightarrow> collect_hits rs (hits, misses @ [symbol])
           | Some q \<Rightarrow> collect_hits rs (AList.update symbol (q\<lparr>cq_IsStaleCache := False\<rparr>) hits, misses)))"

text \<open>The result: hits, misses and the error.\<close>

definition Cache_GetQuotes ::
  "string \<Rightarrow> string list \<Rightarrow> ((string \<times> CachedQuote) list \<times> string list \<times> string option) prog" where
  "Cache_GetQuotes provider symbols =
     (if symbols = [] then Ret ([], [], None)
      else c_mget (map (freshKey provider) symbols) (\<lambda>results. case results of
             Inl e \<Rightarrow> Ret ([], symbols, Some e)
           | Inr vals \<Rightarrow>
               (case collect_hits (zip symbols vals) ([], []) of (hits, misses) \<Rightarrow> Ret (hits, misses, None))))"

definition quote_entries ::
  "redisQuotesCache \<Rightarrow> string \<Rightarrow> int \<Rightarrow> string \<times> decimal \<Rightarrow> (string \<times> json \<times> nat) list" where
  "quote_entries c provider timestamp = (\<lambda>(symbol, price).
     let bytes = marshal_quote \<lparr>cq_Symbol = symbol, cq_Price = price, cq_Timestamp = timestamp,
                                cq_IsStaleCache = False\<rparr>
     in [(freshKey provider symbol, bytes, qc_freshTTL c), (staleKey provider symbol, bytes, qc_staleTTL c)])"

definition Cache_SetQuotes ::
  "redisQuotesCache \<Rightarrow> string \<Rightarrow> (string \<times> decimal) list \<Rightarrow> int \<Rightarrow> string option prog" where
  "Cache_SetQuotes c provider quotes timestamp =
     (if quotes = [] then Ret None
      else c_ack (CRedisSet (concat (map (quote_entries c provider timestamp) quotes))) Ret)"

fun collect_stale :: "(string \<times> json option) list \<Rightarrow> (string \<times> CachedQuote) list \<Rightarrow> (string \<times> CachedQuote) list" where
  "collect_stale [] result = result"
| "collect_stale ((symbol, res) # rs) result =
     (case res of
        None \<Rightarrow> collect_stale rs result
      | Some v \<Rightarrow>
          (case unmarshal_quote v of
             None \<Rightarrow> collect_stale rs result
           | Some q \<Rightarrow> collect_stale rs (AList.update symbol (q\<lparr>cq_IsStaleCache := True\<rparr>) result)))"

definition Cache_GetStaleQuotes ::
  "string \<Rightarrow> string list \<Rightarrow> (string + (string \<times> CachedQuote) list) prog" where
  "Cache_GetStaleQuotes provider symbols =
     (if symbols = [] then Ret (Inr [])
      else c_mget (map (staleKey provider) symbols) (\<lambda>results. case results of
             Inl e \<Rightarrow> Ret (Inl e)
           | Inr vals \<Rightarrow> Ret (Inr (collect_stale (zip symbols vals) []))))"

text \<open>GetStaleQuote: the three ways it fails, and the quote.\<close>

datatype cache_error = ErrCacheMiss | StaleReadFailed string | StaleNotJson

definition Cache_GetStaleQuote :: "string \<Rightarrow> string \<Rightarrow> (cache_error + CachedQuote) prog" where
  "Cache_GetStaleQuote provider symbol =
     c_mget [staleKey provider symbol] (\<lambda>results. case results of
       Inl e \<Rightarrow> Ret (Inl (StaleReadFailed e))
     | Inr vals \<Rightarrow>
         (case vals of
            [Some v] \<Rightarrow>
              (case unmarshal_quote v of
                 None \<Rightarrow> Ret (Inl StaleNotJson)
               | Some q \<Rightarrow> Ret (Inr (q\<lparr>cq_IsStaleCache := True\<rparr>)))
          | _ \<Rightarrow> Ret (Inl ErrCacheMiss)))"

end
