(* ===== verification/Service.thy ===== *)
theory Service
  imports Worker Binance Cache
begin

text \<open>
  internal/service/service.go: the four gRPC handlers.  A handler returns a response or a gRPC
  status; the message of a status is the constant format text of the code, without the values
  formatted into it.  Every error path of the Go code is a branch here.
\<close>

datatype code = InvalidArgument | FailedPrecondition | Internal | Unavailable | Aborted
  | CanceledCode | DeadlineExceededCode

datatype status = Status code string

section \<open>The server\<close>

text \<open>
  The clients and repositories are held as interfaces; of them the handlers see only the
  configuration of the concrete ones, and whether those that main may leave nil are present: the
  repositories without a database connection, the Livro client, the fill processor.
\<close>

record PregaoServer =
  sv_defaultBroker :: Broker
  sv_cache :: redisQuotesCache
  sv_brokerClient :: binanceClient
  sv_vaultClient :: openBaoTransitClient
  sv_credentialsRepo :: bool
  sv_ordersRepo :: bool
  sv_livroClient :: bool
  sv_fillProcessor :: "fillProcessor option"
  sv_reservationWait :: nat
  sv_reservationPoll :: nat

record ServerParams =
  sp_DefaultBroker :: Broker
  sp_Cache :: redisQuotesCache
  sp_BrokerClient :: binanceClient
  sp_VaultClient :: openBaoTransitClient
  sp_CredentialsRepo :: bool
  sp_OrdersRepo :: bool
  sp_LivroClient :: bool
  sp_FillProcessor :: "fillProcessor option"

definition defaultReservationWait :: nat where
  "defaultReservationWait = 30 * 10 ^ 9"

definition defaultReservationPoll :: nat where
  "defaultReservationPoll = 100 * 10 ^ 6"

definition NewPregaoServer :: "ServerParams \<Rightarrow> PregaoServer" where
  "NewPregaoServer params = \<lparr>
     sv_defaultBroker = (if sp_DefaultBroker params = BROKER_UNSPECIFIED then DefaultBroker
                         else sp_DefaultBroker params),
     sv_cache = sp_Cache params,
     sv_brokerClient = sp_BrokerClient params,
     sv_vaultClient = sp_VaultClient params,
     sv_credentialsRepo = sp_CredentialsRepo params,
     sv_ordersRepo = sp_OrdersRepo params,
     sv_livroClient = sp_LivroClient params,
     sv_fillProcessor = sp_FillProcessor params,
     sv_reservationWait = defaultReservationWait,
     sv_reservationPoll = defaultReservationPoll\<rparr>"

text \<open>The provider of a request: the one it names, or the server's default.\<close>

definition resolve_provider :: "PregaoServer \<Rightarrow> string \<Rightarrow> string" where
  "resolve_provider s provider =
     (let b = ParseBroker (to_upper (trim_space provider))
      in ProviderName (if b = BROKER_UNSPECIFIED then sv_defaultBroker s else b))"

section \<open>Market data\<close>

record Quote =
  qt_Symbol :: string
  qt_Price :: string
  qt_Timestamp :: int
  qt_IsStaleCache :: bool

fun clean_symbols :: "string list \<Rightarrow> string list \<Rightarrow> string list" where
  "clean_symbols [] seen = seen"
| "clean_symbols (s # syms) seen =
     (let sClean = to_upper (trim_space s)
      in if sClean = [] \<or> sClean \<in> set seen then clean_symbols syms seen
         else clean_symbols syms (seen @ [sClean]))"

definition cached_quote :: "bool \<Rightarrow> CachedQuote \<Rightarrow> Quote" where
  "cached_quote stale q =
     \<lparr>qt_Symbol = cq_Symbol q, qt_Price = Decimal_String (cq_Price q), qt_Timestamp = cq_Timestamp q,
      qt_IsStaleCache = stale\<rparr>"

definition ticker_quote :: "int \<Rightarrow> BookTicker \<Rightarrow> Quote" where
  "ticker_quote nowUnix t =
     \<lparr>qt_Symbol = bt_Symbol t, qt_Price = Decimal_String (bt_MidPrice t), qt_Timestamp = nowUnix,
      qt_IsStaleCache = False\<rparr>"

text \<open>Writing the entries of one map into another.\<close>

definition put_all :: "('v \<Rightarrow> Quote) \<Rightarrow> (string \<times> 'v) list \<Rightarrow> (string \<times> Quote) list \<Rightarrow> (string \<times> Quote) list" where
  "put_all f kvs m = foldl (\<lambda>m (symbol, v). AList.update symbol (f v) m) m kvs"

definition GetQuotes :: "PregaoServer \<Rightarrow> string list \<Rightarrow> string \<Rightarrow> ((string \<times> Quote) list) prog" where
  "GetQuotes s symbols reqProvider =
     (if symbols = [] then Ret []
      else
        let provider = resolve_provider s reqProvider
        in pbind (Cache_GetQuotes provider (clean_symbols symbols [])) (\<lambda>(hits, misses, err).
           let resultQuotes = put_all (cached_quote False) hits []
           in if misses = [] then Ret resultQuotes
              else pbind (GetBookTickers (sv_brokerClient s) misses) (\<lambda>fetched. case fetched of
                Inr tickers \<Rightarrow>
                  c_now (\<lambda>now.
                    let nowUnix = int (now div 10 ^ 9);
                        resultQuotes = put_all (ticker_quote nowUnix) tickers resultQuotes;
                        quotesToCache = map (\<lambda>(symbol, t). (symbol, bt_MidPrice t)) tickers
                    in pbind (Cache_SetQuotes (sv_cache s) provider quotesToCache nowUnix) (\<lambda>err.
                       Ret resultQuotes))
              | Inl brokerErr \<Rightarrow>
                  pbind (Cache_GetStaleQuotes provider misses) (\<lambda>stale. case stale of
                    Inr staleQuotes \<Rightarrow> Ret (put_all (cached_quote True) staleQuotes resultQuotes)
                  | Inl staleErr \<Rightarrow> Ret resultQuotes))))"

definition ValidateTickers :: "PregaoServer \<Rightarrow> string list \<Rightarrow> (status + (string \<times> bool) list) prog" where
  "ValidateTickers s symbols =
     (if symbols = [] then Ret (Inr [])
      else pbind (ValidateSymbols (sv_brokerClient s) symbols) (\<lambda>res. case res of
             Inl e \<Rightarrow> Ret (Inl (Status Unavailable ''failed to validate tickers with broker''))
           | Inr validMap \<Rightarrow> Ret (Inr validMap)))"

section \<open>Trade execution\<close>

text \<open>The side is a proto3 enum, so any number can arrive: SELL is 1, all others count as BUY.\<close>

record ExecuteTradeRequest =
  tr_TradeIntentId :: string
  tr_TenantId :: string
  tr_UserId :: string
  tr_Provider :: string
  tr_Symbol :: string
  tr_Side :: int
  tr_Quantity :: string
  tr_IdempotencyKey :: string
  tr_PortfolioId :: string
  tr_LivroHoldId :: string

record ExecuteTradeResponse =
  ts_ProviderOrderId :: string
  ts_Status :: string

definition FromContextError :: "ctx_error \<Rightarrow> status" where
  "FromContextError err =
     (case err of Canceled \<Rightarrow> Status CanceledCode ''context canceled''
      | DeadlineExceeded \<Rightarrow> Status DeadlineExceededCode ''context deadline exceeded'')"

text \<open>The order recorded for the trade of a reservation that was refused.\<close>

definition existing_order :: "BrokerOrder \<Rightarrow> (repo_error + BrokerOrder) prog" where
  "existing_order order =
     pbind (GetOrderByIntentID (bo_TradeIntentID order)) (\<lambda>existing.
       if existing = Inl ErrOrderNotFound \<and> bo_IdempotencyKey order \<noteq> []
       then GetOrderByIdempotencyKey (bo_TenantID order) (bo_IdempotencyKey order)
       else Ret existing)"

text \<open>
  The switch on it: an error or the order of a duplicate ends the loop, a reservation that is
  PENDING, or gone in the meantime, does not.
\<close>

definition switch_existing :: "repo_error + BrokerOrder \<Rightarrow> (status + BrokerOrder option) option" where
  "switch_existing existing =
     (case existing of
        Inl e \<Rightarrow>
          if e = ErrOrderNotFound then None
          else Some (Inl (Status Internal ''database error loading existing order''))
      | Inr ex \<Rightarrow> if bo_Status ex \<noteq> StatusPending then Some (Inr (Some ex)) else None)"

text \<open>The deadline, then the wait for the next pass.\<close>

definition wait_turn :: "PregaoServer \<Rightarrow> nat \<Rightarrow> BrokerOrder
    \<Rightarrow> ((status + BrokerOrder option) \<times> BrokerOrder) prog \<Rightarrow> ((status + BrokerOrder option) \<times> BrokerOrder) prog" where
  "wait_turn s deadline order again =
     c_now (\<lambda>now.
       if \<not> now < deadline
       then Ret (Inl (Status Aborted ''trade intent is still being executed by another request''), order)
       else c_wait (sv_reservationPoll s) (\<lambda>done. case done of
         Some err \<Rightarrow> Ret (Inl (FromContextError err), order)
       | None \<Rightarrow> again))"

text \<open>
  The loop of reserveOrder, with the struct ReserveOrder fills in.  The fuel only makes the
  definition total: \<open>reserve_fuel\<close> passes never run out (see \<open>Reservation\<close>).
\<close>

fun reserve_loop ::
  "nat \<Rightarrow> PregaoServer \<Rightarrow> nat \<Rightarrow> BrokerOrder \<Rightarrow> ((status + BrokerOrder option) \<times> BrokerOrder) prog" where
  "reserve_loop 0 s deadline order = Halt OutOfFuel"
| "reserve_loop (Suc fuel) s deadline order =
     not_nil (sv_ordersRepo s) (pbind (ReserveOrder order) (\<lambda>(reserved, order). case reserved of
       Inl e \<Rightarrow> Ret (Inl (Status Internal ''database error reserving trade execution''), order)
     | Inr reserved \<Rightarrow>
         if reserved then Ret (Inr None, order)
         else pbind (existing_order order) (\<lambda>existing. case switch_existing existing of
                Some res \<Rightarrow> Ret (res, order)
              | None \<Rightarrow> wait_turn s deadline order (reserve_loop fuel s deadline order))))"

definition reserve_fuel :: "PregaoServer \<Rightarrow> nat" where
  "reserve_fuel s = sv_reservationWait s div sv_reservationPoll s + 2"

definition reserveOrder ::
  "PregaoServer \<Rightarrow> BrokerOrder \<Rightarrow> ((status + BrokerOrder option) \<times> BrokerOrder) prog" where
  "reserveOrder s order =
     c_now (\<lambda>now. reserve_loop (reserve_fuel s) s (now + sv_reservationWait s) order)"

definition releaseReservation :: "BrokerOrder \<Rightarrow> unit prog" where
  "releaseReservation order = pbind (ReleaseOrder (bo_ID order)) (\<lambda>_. Ret ())"

text \<open>Steps 2 and 3: the credentials of the tenant, decrypted.\<close>

definition load_credentials ::
  "PregaoServer \<Rightarrow> string \<Rightarrow> string \<Rightarrow> string \<Rightarrow> string \<Rightarrow> string \<Rightarrow> (status + nat) prog" where
  "load_credentials s tenant provider missing failed undecrypted =
     not_nil (sv_credentialsRepo s) (pbind (GetCredentials tenant provider) (\<lambda>cred. case cred of
       Inl e \<Rightarrow>
         Ret (Inl (if e = ErrCredentialsNotFound then Status FailedPrecondition missing
                   else Status Internal failed))
     | Inr cred \<Rightarrow>
         pbind (DecryptCredentials (sv_vaultClient s) (bc_APIKeyCiphertext cred) (bc_APISecretCiphertext cred))
           (\<lambda>creds. case creds of
              Inl e \<Rightarrow> Ret (Inl (Status Internal undecrypted))
            | Inr p \<Rightarrow> Ret (Inr p))))"

text \<open>Step 4.\<close>

definition dispatch_order :: "PregaoServer \<Rightarrow> nat \<Rightarrow> MarketOrderRequest \<Rightarrow> (status + OrderResult) prog" where
  "dispatch_order s creds orderReq =
     pbind (PlaceMarketOrder (sv_brokerClient s) (Some creds) orderReq) (\<lambda>res. case res of
       Inl e \<Rightarrow> Ret (Inl (Status Unavailable ''broker rejected order execution''))
     | Inr orderResult \<Rightarrow> Ret (Inr orderResult))"

text \<open>Steps 5 and 6: the broker's answer is recorded, and an immediate fill settled.\<close>

definition fill_event ::
  "string \<Rightarrow> ExecuteTradeRequest \<Rightarrow> string \<Rightarrow> string \<Rightarrow> OrderResult \<Rightarrow> FillEvent" where
  "fill_event provider req sideStr orderStatus orderResult = \<lparr>
     fe_Provider = provider,
     fe_ProviderOrderID = or_ProviderOrderID orderResult,
     fe_Symbol = to_upper (tr_Symbol req),
     fe_Side = sideStr,
     fe_Status = orderStatus,
     fe_ExecutedQuantity = or_ExecutedQuantity orderResult,
     fe_FillPrice = or_AveragePrice orderResult\<rparr>"

definition settle_order ::
  "PregaoServer \<Rightarrow> ExecuteTradeRequest \<Rightarrow> string \<Rightarrow> string \<Rightarrow> BrokerOrder \<Rightarrow> OrderResult
    \<Rightarrow> (status + ExecuteTradeResponse) prog" where
  "settle_order s req provider sideStr order orderResult =
     (let orderStatus = (if or_Status orderResult \<noteq> [] then or_Status orderResult else StatusSubmitted);
          filledQty = (if sv_fillProcessor s = None then or_ExecutedQuantity orderResult else Decimal_Zero);
          avgPrice = (if sv_fillProcessor s = None then or_AveragePrice orderResult else Decimal_Zero);
          resp = \<lparr>ts_ProviderOrderId = or_ProviderOrderID orderResult, ts_Status = orderStatus\<rparr>
      in pbind (ConfirmOrder (bo_ID order) (or_ProviderOrderID orderResult) orderStatus filledQty avgPrice) (\<lambda>_.
         case sv_fillProcessor s of
           None \<Rightarrow> Ret (Inr resp)
         | Some fp \<Rightarrow>
             if Decimal_IsPositive (or_ExecutedQuantity orderResult)
             then pbind (ProcessFill fp (fill_event provider req sideStr orderStatus orderResult)) (\<lambda>_. Ret (Inr resp))
             else Ret (Inr resp)))"

text \<open>
  Once the reservation is held: the release is deferred until the broker has accepted the order,
  and Zero from the moment there are plaintext credentials; deferred calls run last first.
\<close>

definition execute_reserved ::
  "PregaoServer \<Rightarrow> ExecuteTradeRequest \<Rightarrow> string \<Rightarrow> string \<Rightarrow> decimal \<Rightarrow> BrokerOrder
    \<Rightarrow> (status + ExecuteTradeResponse) prog" where
  "execute_reserved s req provider sideStr qty order =
     pbind (pguard (load_credentials s (tr_TenantId req) provider
              ''broker credentials not found for tenant'' ''database error loading broker credentials''
              ''cryptographic transit decryption failed'')
            (releaseReservation order)) (\<lambda>creds. case creds of
       Inl st \<Rightarrow> Ret (Inl st)
     | Inr p \<Rightarrow>
         pbind (pguard (pguard
             (dispatch_order s p \<lparr>mo_Symbol = to_upper (tr_Symbol req), mo_Side = sideStr,
                mo_Quantity = qty, mo_ClientOrderID = tr_TradeIntentId req\<rparr>)
             (Zero (Some p))) (releaseReservation order)) (\<lambda>res. case res of
           Inl st \<Rightarrow> Ret (Inl st)
         | Inr orderResult \<Rightarrow>
             pdefer (settle_order s req provider sideStr order orderResult) (Zero (Some p))))"

definition new_order ::
  "ExecuteTradeRequest \<Rightarrow> uuid \<Rightarrow> uuid \<Rightarrow> decimal \<Rightarrow> string \<Rightarrow> string \<Rightarrow> BrokerOrder" where
  "new_order req u intent qty provider sideStr = \<lparr>
     bo_ID = u,
     bo_TradeIntentID = intent,
     bo_TenantID = tr_TenantId req,
     bo_UserID = tr_UserId req,
     bo_Provider = provider,
     bo_ProviderOrderID = [],
     bo_Symbol = to_upper (tr_Symbol req),
     bo_Side = sideStr,
     bo_TargetQuantity = qty,
     bo_Status = StatusPending,
     bo_FilledQuantity = Decimal_Unset,
     bo_AverageFillPrice = Decimal_Unset,
     bo_IdempotencyKey = tr_IdempotencyKey req,
     bo_PortfolioID = tr_PortfolioId req,
     bo_LivroHoldID = tr_LivroHoldId req,
     bo_CreatedAt = 0,
     bo_UpdatedAt = 0\<rparr>"

text \<open>The checks in front: the first thing wrong with a request, or its intent and quantity.\<close>

definition validate_trade :: "ExecuteTradeRequest \<Rightarrow> status + (uuid \<times> decimal)" where
  "validate_trade req =
     (if trim_space (tr_TradeIntentId req) = [] then Inl (Status InvalidArgument ''trade_intent_id is required'')
      else if trim_space (tr_TenantId req) = [] then Inl (Status InvalidArgument ''tenant_id is required'')
      else if trim_space (tr_UserId req) = [] then Inl (Status InvalidArgument ''user_id is required'')
      else if trim_space (tr_Symbol req) = [] then Inl (Status InvalidArgument ''symbol is required'')
      else if trim_space (tr_Quantity req) = [] then Inl (Status InvalidArgument ''quantity is required'')
      else (case uuid_Parse (tr_TradeIntentId req) of
              None \<Rightarrow> Inl (Status InvalidArgument ''invalid trade_intent_id UUID format'')
            | Some intent \<Rightarrow>
                (case Decimal_NewFromString (tr_Quantity req) of
                   Inl e \<Rightarrow> Inl (Status InvalidArgument ''invalid quantity: must be a positive decimal'')
                 | Inr qty \<Rightarrow>
                     if Decimal_LessThanOrEqual qty Decimal_Zero
                     then Inl (Status InvalidArgument ''invalid quantity: must be a positive decimal'')
                     else Inr (intent, qty))))"

definition ExecuteTrade :: "PregaoServer \<Rightarrow> ExecuteTradeRequest \<Rightarrow> (status + ExecuteTradeResponse) prog" where
  "ExecuteTrade s req =
     (case validate_trade req of
        Inl st \<Rightarrow> Ret (Inl st)
      | Inr (intent, qty) \<Rightarrow>
          let provider = resolve_provider s (tr_Provider req);
              sideStr = (if tr_Side req = 1 then SideSell else SideBuy)
          in c_uuid (\<lambda>u.
             pbind (reserveOrder s (new_order req u intent qty provider sideStr)) (\<lambda>(res, order). case res of
               Inl st \<Rightarrow> Ret (Inl st)
             | Inr (Some existing) \<Rightarrow>
                 Ret (Inr \<lparr>ts_ProviderOrderId = bo_ProviderOrderID existing, ts_Status = bo_Status existing\<rparr>)
             | Inr None \<Rightarrow> execute_reserved s req provider sideStr qty order)))"

section \<open>Reconciliation\<close>

record SyncBrokerBalancesRequest =
  br_TenantId :: string
  br_UserId :: string
  br_Provider :: string

record SyncBrokerBalancesResponse =
  bs_InSync :: bool
  bs_NetFiatAdjustment :: string

fun fiat_balance :: "string list \<Rightarrow> (string \<times> decimal) list \<Rightarrow> decimal" where
  "fiat_balance [] balances = Decimal_Zero"
| "fiat_balance (asset # assets) balances =
     (case map_of balances asset of
        Some bal \<Rightarrow> if Decimal_GreaterThan bal Decimal_Zero then bal else fiat_balance assets balances
      | None \<Rightarrow> fiat_balance assets balances)"

definition ledger_balance :: "PregaoServer \<Rightarrow> SyncBrokerBalancesRequest \<Rightarrow> decimal prog" where
  "ledger_balance s req =
     (if \<not> sv_livroClient s then Ret Decimal_Zero
      else
        pbind (if trim_space (br_UserId req) = []
               then pbind (GetOrCreateBrokerAccount (br_TenantId req)) (\<lambda>acc. case acc of
                      Inl e \<Rightarrow> Ret [] | Inr clearingAccID \<Rightarrow> Ret clearingAccID)
               else Ret (trim_space (br_UserId req))) (\<lambda>accountID.
        if accountID = [] then Ret Decimal_Zero
        else pbind (GetBalance accountID) (\<lambda>lBal. case lBal of
               Inl e \<Rightarrow> Ret Decimal_Zero | Inr lBal \<Rightarrow> Ret lBal)))"

definition reconcile ::
  "PregaoServer \<Rightarrow> SyncBrokerBalancesRequest \<Rightarrow> nat \<Rightarrow> (status + SyncBrokerBalancesResponse) prog" where
  "reconcile s req creds =
     pbind (GetAccountBalances (sv_brokerClient s) (Some creds)) (\<lambda>balances. case balances of
       Inl e \<Rightarrow> Ret (Inl (Status Unavailable ''failed to fetch broker balances''))
     | Inr balances \<Rightarrow>
         let brokerFiatBal = fiat_balance [''USDT'', ''USD'', ''BUSD'', ''USDC''] balances
         in pbind (ledger_balance s req) (\<lambda>ledgerBal.
            let netAdjustment = Decimal_Sub brokerFiatBal ledgerBal
            in Ret (Inr \<lparr>bs_InSync = Decimal_IsZero netAdjustment,
                         bs_NetFiatAdjustment = Decimal_StringFixed netAdjustment 4\<rparr>)))"

definition SyncBrokerBalances ::
  "PregaoServer \<Rightarrow> SyncBrokerBalancesRequest \<Rightarrow> (status + SyncBrokerBalancesResponse) prog" where
  "SyncBrokerBalances s req =
     (if trim_space (br_TenantId req) = [] then Ret (Inl (Status InvalidArgument ''tenant_id is required''))
      else
        pbind (load_credentials s (br_TenantId req) (resolve_provider s (br_Provider req))
                 ''broker credentials not configured for tenant'' ''database error''
                 ''failed to decrypt broker credentials'') (\<lambda>creds. case creds of
          Inl st \<Rightarrow> Ret (Inl st)
        | Inr p \<Rightarrow> pdefer (reconcile s req p) (Zero (Some p))))"

end
