(* ===== verification/Decimal_Text.thy ===== *)
theory Decimal_Text
  imports Decimal
begin

text \<open>
  Decimals as text: what \<open>String\<close> and \<open>StringFixed\<close> print, \<open>NewFromString\<close> reads back.  The
  service sends every amount as text, to the broker, to Livro and Ativos and to PostgreSQL, so
  these lemmas carry the exactness of the arithmetic across the wire.
\<close>

section \<open>Printing and parsing\<close>

definition is_digit :: "char \<Rightarrow> bool" where
  "is_digit c \<longleftrightarrow> 48 \<le> byte_of c \<and> byte_of c \<le> 57"

definition dnum :: "string \<Rightarrow> nat" where
  "dnum s = foldl (\<lambda>acc c. acc * 10 + (byte_of c - 48)) 0 s"

abbreviation digits :: "string \<Rightarrow> bool" where
  "digits s \<equiv> list_all is_digit s"

lemma is_digit_neq [simp]:
  "is_digit c \<Longrightarrow> c \<noteq> CHR ''.''" "is_digit c \<Longrightarrow> c \<noteq> CHR ''-''" "is_digit c \<Longrightarrow> c \<noteq> CHR ''+''"
  "is_digit c \<Longrightarrow> c \<noteq> CHR ''E''" "is_digit c \<Longrightarrow> c \<noteq> CHR ''e''"
  by (auto simp: is_digit_def byte_of_def)

lemma byte_of_digit_char [simp]: "n < 10 \<Longrightarrow> byte_of (digit_char n) = 48 + n"
  by (simp add: digit_char_def)

lemma is_digit_digit_char [simp]: "n < 10 \<Longrightarrow> is_digit (digit_char n)"
  by (simp add: is_digit_def)

lemma foldl_digits: "foldl (\<lambda>acc c. acc * 10 + (byte_of c - 48)) a s = a * 10 ^ length s + dnum s"
proof (induction s arbitrary: a)
  case Nil
  then show ?case by (simp add: dnum_def)
next
  case (Cons c s)
  show ?case
    using Cons [of "a * 10 + (byte_of c - 48)"] Cons [of "byte_of c - 48"]
    by (simp add: dnum_def algebra_simps)
qed

lemma dnum_Nil [simp]: "dnum [] = 0"
  by (simp add: dnum_def)

lemma dnum_Cons: "dnum (c # s) = (byte_of c - 48) * 10 ^ length s + dnum s"
  using foldl_digits [of "byte_of c - 48" s] by (simp add: dnum_def)

lemma dnum_append: "dnum (s @ t) = dnum s * 10 ^ length t + dnum t"
  by (induction s) (simp_all add: dnum_Cons power_add algebra_simps)

lemma dnum_zeros [simp]: "dnum (replicate k CHR ''0'') = 0"
  by (induction k) (simp_all add: dnum_Cons byte_of_def)

lemma digits_val_eq: "digits s \<Longrightarrow> digits_val a s = Some (a * 10 ^ length s + dnum s)"
proof (induction s arbitrary: a)
  case Nil
  then show ?case by simp
next
  case (Cons c s)
  then have "48 \<le> byte_of c" and "byte_of c \<le> 57" and d: "digits s"
    by (simp_all add: is_digit_def [of c])
  then obtain k where "byte_of c = 48 + k" and "k \<le> 9"
    by (intro that [of "byte_of c - 48"]) simp_all
  then show ?case
    using Cons.IH [OF d] by (simp add: digit_val_def dnum_Cons algebra_simps)
qed

lemma digits_val_Some: "digits_val a s = Some v \<Longrightarrow> digits s"
  by (induction s arbitrary: a)
    (auto simp: digit_val_def is_digit_def split: option.splits if_splits)

lemma dnum_less: "digits s \<Longrightarrow> dnum s < 10 ^ length s"
proof (induction s)
  case Nil
  then show ?case by simp
next
  case (Cons c s)
  then have "byte_of c - 48 \<le> 9" and "dnum s < 10 ^ length s"
    by (auto simp: is_digit_def)
  then have "(byte_of c - 48) * 10 ^ length s \<le> 9 * 10 ^ length s"
    by (intro mult_right_mono) simp_all
  with \<open>dnum s < 10 ^ length s\<close> show ?case
    unfolding dnum_Cons length_Cons power_Suc by linarith
qed

lemma digits_nat_digits [simp]: "digits (nat_digits n)"
proof (induction n rule: nat_digits.induct)
  case (1 n)
  then show ?case by (subst nat_digits.simps) simp
qed

lemma dnum_nat_digits [simp]: "dnum (nat_digits n) = n"
proof (induction n rule: nat_digits.induct)
  case (1 n)
  then show ?case
    by (subst nat_digits.simps) (auto simp: dnum_append dnum_Cons)
qed

lemma nat_digits_nonempty [simp]: "nat_digits n \<noteq> []"
  by (subst nat_digits.simps) simp

text \<open>
  A printed decimal: sign, integer part, and a fraction unless it is empty.
\<close>

definition fixed_text :: "bool \<Rightarrow> string \<Rightarrow> string \<Rightarrow> string" where
  "fixed_text neg ip fp = (if neg then ''-'' else []) @ ip @ (if fp = [] then [] else ''.'' @ fp)"

lemma find_index_None: "find_index p s = None \<longleftrightarrow> list_all (\<lambda>c. \<not> p c) s"
  by (induction s) auto

lemma find_index_append: "list_all (\<lambda>c. \<not> p c) s \<Longrightarrow> p c \<Longrightarrow> find_index p (s @ c # t) = Some (length s)"
  by (induction s) auto

lemma digits_imp: "digits s \<Longrightarrow> (\<And>c. is_digit c \<Longrightarrow> p c) \<Longrightarrow> list_all p s"
  by (auto simp: list_all_iff)

lemma set_string_digits:
  assumes "digits s" and "s \<noteq> []"
  shows "set_string s = Some (int (dnum s))" and "set_string (CHR ''-'' # s) = Some (- int (dnum s))"
proof -
  obtain c cs where s: "s = c # cs"
    using assms(2) by (cases s) simp_all
  with assms(1) have c: "is_digit c" by simp
  have v: "digits_val 0 s = Some (dnum s)"
    using digits_val_eq [OF assms(1), of 0] by simp
  show "set_string s = Some (int (dnum s))"
    using v c unfolding s by (simp del: digits_val.simps)
  show "set_string (CHR ''-'' # s) = Some (- int (dnum s))"
    using v assms(2) by (simp del: digits_val.simps)
qed

lemma digits_val_bound: "digits_val 0 cs = Some k \<Longrightarrow> int k < 10 ^ length cs"
proof -
  assume k: "digits_val 0 cs = Some k"
  then have d: "digits cs" by (rule digits_val_Some)
  with k have "k = dnum cs" by (simp add: digits_val_eq)
  with dnum_less [OF d] have "int k < int (10 ^ length cs)"
    by (simp only: of_nat_less_iff)
  then show ?thesis by simp
qed

lemma set_string_bound:
  assumes "set_string s = Some v"
  shows "\<bar>v\<bar> < 10 ^ length s"
proof (cases s)
  case Nil
  with assms show ?thesis by simp
next
  case (Cons c cs)
  have up: "(10 :: int) ^ length cs \<le> 10 ^ length s"
    using Cons by simp
  consider k where "v = - int k" "digits_val 0 cs = Some k"
    | k where "v = int k" "digits_val 0 cs = Some k"
    | k where "v = int k" "digits_val 0 s = Some k"
    using assms Cons by (auto split: if_splits simp del: digits_val.simps)
  then show ?thesis
  proof cases
    case 1
    with digits_val_bound [of cs k] up show ?thesis by linarith
  next
    case 2
    with digits_val_bound [of cs k] up show ?thesis by linarith
  next
    case 3
    with digits_val_bound [of s k] show ?thesis by linarith
  qed
qed

lemma parse_coef_eq: "parse_coef s = set_string s"
proof (cases "length s \<le> 18")
  case False
  then show ?thesis by (simp add: parse_coef_def)
next
  case True
  have "\<bar>v\<bar> < 9223372036854775808" if "set_string s = Some v" for v
  proof -
    have "\<bar>v\<bar> < 10 ^ length s" using that by (rule set_string_bound)
    also have "\<dots> \<le> 10 ^ 18" using True by (simp add: power_increasing del: power_numeral)
    finally show ?thesis by simp
  qed
  then show ?thesis
    using True by (auto simp: parse_coef_def parse_int_def split: option.splits)
qed

lemma find_no_dot: "digits s \<Longrightarrow> list_all (\<lambda>c. c \<noteq> CHR ''.'') s"
  and find_no_exponent: "digits s \<Longrightarrow> list_all (\<lambda>c. \<not> (c = CHR ''E'' \<or> c = CHR ''e'')) s"
  by (auto simp: list_all_iff)

lemma set_string_signed:
  assumes "digits s" and "s \<noteq> []"
  shows "set_string ((if neg then ''-'' else []) @ s) = Some (if neg then - int (dnum s) else int (dnum s))"
  using set_string_digits [OF assms] by simp

lemma parse_mantissa_fixed:
  assumes "digits ip" and "digits fp"
  shows "parse_mantissa (fixed_text neg ip fp) =
    Inr ((if neg then ''-'' else []) @ ip @ fp, - int (length fp))"
proof (cases "fp = []")
  case True
  have "find_index (\<lambda>c. c = CHR ''.'') (fixed_text neg ip fp) = None"
    using True find_no_dot [OF assms(1)] by (simp add: fixed_text_def find_index_None)
  with True show ?thesis
    by (simp add: parse_mantissa_def fixed_text_def)
next
  case False
  let ?pre = "(if neg then ''-'' else []) @ ip"
  have "find_index (\<lambda>c. c = CHR ''.'') (?pre @ CHR ''.'' # fp) = Some (length ?pre)"
    using find_no_dot [OF assms(1)] by (intro find_index_append) simp_all
  moreover have "find_index (\<lambda>c. c = CHR ''.'') fp = None"
    using find_no_dot [OF assms(2)] by (simp add: find_index_None)
  moreover have "fixed_text neg ip fp = ?pre @ CHR ''.'' # fp"
    using False by (simp add: fixed_text_def)
  ultimately show ?thesis
    by (simp add: parse_mantissa_def Let_def)
qed

lemma NewFromString_fixed:
  assumes "digits ip" and "digits fp" and "ip \<noteq> []" and "length fp \<le> 2147483648"
  shows "Decimal_NewFromString (fixed_text neg ip fp) =
    Inr \<lparr>coef = (if neg then - int (dnum (ip @ fp)) else int (dnum (ip @ fp))), expo = - int (length fp)\<rparr>"
proof -
  have "find_index (\<lambda>c. c = CHR ''E'' \<or> c = CHR ''e'') (fixed_text neg ip fp) = None"
    using find_no_exponent [OF assms(1)] find_no_exponent [OF assms(2)]
    by (simp add: fixed_text_def find_index_None)
  moreover have "set_string ((if neg then ''-'' else []) @ ip @ fp) =
      Some (if neg then - int (dnum (ip @ fp)) else int (dnum (ip @ fp)))"
    using assms by (intro set_string_signed) simp_all
  ultimately show ?thesis
    using assms(4)
    by (simp add: Decimal_NewFromString_def Decimal_finish_def parse_mantissa_fixed [OF assms(1,2)]
        parse_coef_eq)
qed

lemma trim_right_split: "\<exists>k. s = trim_right c s @ replicate k c"
proof -
  have "rev s = takeWhile (\<lambda>x. x = c) (rev s) @ dropWhile (\<lambda>x. x = c) (rev s)"
    by simp
  moreover have "takeWhile (\<lambda>x. x = c) (rev s) = replicate (length (takeWhile (\<lambda>x. x = c) (rev s))) c"
    by (metis (full_types) replicate_length_same set_takeWhileD)
  ultimately show ?thesis
    unfolding trim_right_def by (metis rev_append rev_replicate rev_rev_ident)
qed

text \<open>What \<open>Decimal_string\<close> prints for a decimal with a fraction.\<close>

lemma Decimal_string_fixed:
  assumes "expo d < 0"
  obtains ip fp k where "Decimal_string trim d = fixed_text (coef d < 0) ip fp"
    and "digits ip" and "digits fp" and "ip \<noteq> []"
    and "length fp + k = nat (- expo d)" and "dnum (ip @ fp) * 10 ^ k = nat \<bar>coef d\<bar>"
    and "\<not> trim \<Longrightarrow> k = 0"
proof -
  define str where "str = nat_digits (nat \<bar>coef d\<bar>)"
  define n where "n = nat (- expo d)"
  define ip where "ip = (if length str > n then take (length str - n) str else ''0'')"
  define f where "f = (if length str > n then drop (length str - n) str
    else replicate (n - length str) CHR ''0'' @ str)"
  define fp where "fp = (if trim then trim_zeros f else f)"
  obtain k where k: "f = fp @ replicate k CHR ''0''" and k0: "\<not> trim \<Longrightarrow> k = 0"
    using trim_right_split [of f "CHR ''0''"] unfolding fp_def trim_zeros_def
    by (cases trim) (metis append_Nil2 replicate_0)+
  have pair: "(if length str > n then (take (length str - n) str, drop (length str - n) str)
      else (''0'', replicate (n - length str) CHR ''0'' @ str)) = (ip, f)"
    by (simp add: ip_def f_def)
  have shown: "Decimal_string trim d = fixed_text (coef d < 0) ip fp"
    using assms unfolding Decimal_string_def Let_def str_def [symmetric] n_def [symmetric] pair
      fp_def [symmetric] prod.case
    by (simp add: fixed_text_def fp_def)
  have str: "digits str" "dnum str = nat \<bar>coef d\<bar>"
    by (simp_all add: str_def)
  have zero: "is_digit CHR ''0''"
    by (simp add: is_digit_def byte_of_def)
  have "digits ip \<and> digits f \<and> ip \<noteq> [] \<and> length f = n \<and> dnum (ip @ f) = dnum str"
  proof (cases "length str > n")
    case True
    then have "digits (take (length str - n) str)" and "digits (drop (length str - n) str)"
      using str(1) by (auto simp: list_all_iff dest: in_set_takeD in_set_dropD)
    moreover have "str \<noteq> []"
      by (simp add: str_def)
    ultimately show ?thesis
      using True by (simp add: ip_def f_def)
  next
    case False
    then show ?thesis
      using str(1) zero by (auto simp: ip_def f_def list_all_iff dnum_append dnum_Cons byte_of_def)
  qed
  then show thesis
    using k str(2) by (intro that [OF shown, of k]) (auto simp: n_def dnum_append power_add algebra_simps k0)
qed

lemma dval_scaled:
  assumes "coef d' * 10 ^ k = coef d" and "expo d' = expo d + int k"
  shows "dval d' = dval d"
  unfolding dval_def assms(2) assms(1) [symmetric]
  by (simp add: pow10_add power_int_of_nat)

lemma int_string_fixed: "int_string v = fixed_text (v < 0) (nat_digits (nat \<bar>v\<bar>)) []"
  by (simp add: int_string_def fixed_text_def)

lemma string_roundtrip:
  assumes "in32 (expo d)"
  shows "\<exists>d'. Decimal_NewFromString (Decimal_string trim d) = Inr d' \<and> dval d' = dval d"
proof (cases "expo d \<ge> 0")
  case True
  define v where "v = coef (Decimal_rescale d 0)"
  have "Decimal_NewFromString (int_string v) = Inr \<lparr>coef = v, expo = 0\<rparr>"
    unfolding int_string_fixed by (subst NewFromString_fixed) simp_all
  moreover have "dval \<lparr>coef = v, expo = 0\<rparr> = dval (Decimal_rescale d 0)"
    by (simp add: dval_def v_def)
  ultimately show ?thesis
    using True by (simp add: Decimal_string_def v_def dec_simps)
next
  case False
  then have "expo d < 0" by simp
  then obtain ip fp k where shown: "Decimal_string trim d = fixed_text (coef d < 0) ip fp"
    and dig: "digits ip" "digits fp" "ip \<noteq> []"
    and len: "length fp + k = nat (- expo d)" and num: "dnum (ip @ fp) * 10 ^ k = nat \<bar>coef d\<bar>"
    by (rule Decimal_string_fixed)
  have le: "length fp \<le> 2147483648"
    using len assms unfolding in32_def by linarith
  have "int (dnum (ip @ fp)) * 10 ^ k = \<bar>coef d\<bar>"
    using num by (metis abs_ge_zero int_nat_eq of_nat_mult of_nat_numeral of_nat_power)
  then have "(if coef d < 0 then - int (dnum (ip @ fp)) else int (dnum (ip @ fp))) * 10 ^ k = coef d"
    by auto
  moreover have "- int (length fp) = expo d + int k"
    using len \<open>expo d < 0\<close> by linarith
  ultimately show ?thesis
    unfolding shown NewFromString_fixed [OF dig le]
    by (intro exI conjI, simp) (rule dval_scaled [where k = k]; simp)
qed

lemma string_exact:
  assumes "in32 (expo d)" and "expo d \<le> 0"
  shows "Decimal_NewFromString (Decimal_string False d) = Inr d"
proof (cases "expo d = 0")
  case True
  then have "Decimal_string False d = int_string (coef d)"
    by (simp add: Decimal_string_def Decimal_rescale_def)
  moreover have "Decimal_NewFromString (int_string (coef d)) = Inr \<lparr>coef = coef d, expo = 0\<rparr>"
    unfolding int_string_fixed by (subst NewFromString_fixed) simp_all
  ultimately show ?thesis
    using True by (cases d) simp
next
  case False
  with assms(2) have "expo d < 0" by simp
  then obtain ip fp k where shown: "Decimal_string False d = fixed_text (coef d < 0) ip fp"
    and dig: "digits ip" "digits fp" "ip \<noteq> []"
    and len: "length fp + k = nat (- expo d)" and num: "dnum (ip @ fp) * 10 ^ k = nat \<bar>coef d\<bar>"
    and k: "k = 0"
    by (rule Decimal_string_fixed [where trim = False]) blast
  have le: "length fp \<le> 2147483648"
    using len assms unfolding in32_def by linarith
  have "int (dnum (ip @ fp)) = \<bar>coef d\<bar>" and "- int (length fp) = expo d"
    using num len k \<open>expo d < 0\<close> by simp_all
  then show ?thesis
    using NewFromString_fixed [OF dig le] unfolding shown by (cases d) auto
qed

lemma StringFixed_parse:
  assumes "0 \<le> p" and "p < 2147483648"
  shows "Decimal_NewFromString (Decimal_StringFixed d p) = Inr (Decimal_Round d p)"
proof -
  have "Decimal_Round d p = \<lparr>coef = round_away (dval d * 10 powi p), expo = - p\<rparr>"
    using assms by (intro Round_eq) (simp_all add: in32_def)
  then show ?thesis
    using assms unfolding Decimal_StringFixed_def by (intro string_exact) (simp_all add: in32_def)
qed

section \<open>The wire format\<close>

definition decimal_of_text :: "string \<Rightarrow> decimal option" where
  "decimal_of_text s = (case Decimal_NewFromString s of Inl _ \<Rightarrow> None | Inr d \<Rightarrow> Some d)"

definition same_number :: "decimal \<Rightarrow> decimal \<Rightarrow> bool" where
  "same_number x y \<longleftrightarrow> dval x = dval y"

text \<open>\<open>String\<close> is a faithful text form of every decimal whose exponent is an int32.\<close>

interpretation amount: wire_codec Decimal_String decimal_of_text "\<lambda>d. in32 (expo d)" same_number
proof unfold_locales
  fix d :: decimal
  assume "in32 (expo d)"
  then show "\<exists>y. decimal_of_text (Decimal_String d) = Some y \<and> same_number y d"
    using string_roundtrip [of d True]
    by (auto simp: decimal_of_text_def same_number_def Decimal_String_def)
qed (simp_all add: same_number_def)

end
