(* ===== verification/Float_Text.thy ===== *)
theory Float_Text
  imports Decimal_Text
begin

text \<open>
  The numbers of a JSON document that Go decodes into an interface{}: strconv.ParseFloat reads the
  literal as a float64, rounding to the nearest with ties to even, and encoding/json prints it back
  with the fewest digits that still read as the same float64.  A finite float64 is a sign and
  \<open>fl_mant * 2 ^ fl_exp\<close>, the mantissa below 2 ^ 53 and at least 2 ^ 52 unless the exponent is the
  least one, - 1074.
\<close>

record float64 =
  fl_neg :: bool
  fl_mant :: nat
  fl_exp :: int

section \<open>Reading\<close>

text \<open>A literal of the JSON grammar: its sign, and the digits and power of ten of its magnitude.\<close>

definition number_parts :: "string \<Rightarrow> (bool \<times> nat \<times> int) option" where
  "number_parts lit =
     (let (mant, ex) = (case find_index (\<lambda>c. c = CHR ''E'' \<or> c = CHR ''e'') lit of
            None \<Rightarrow> (lit, Some 0)
          | Some i \<Rightarrow> (take i lit, set_string (drop (Suc i) lit)));
          (digs, scale) = (case find_index (\<lambda>c. c = CHR ''.'') mant of
            None \<Rightarrow> (mant, 0)
          | Some i \<Rightarrow> (take i mant @ drop (Suc i) mant, length (drop (Suc i) mant)))
      in case (set_string digs, ex) of
           (Some c, Some e) \<Rightarrow> Some (take 1 lit = ''-'', nat \<bar>c\<bar>, e - int scale)
         | _ \<Rightarrow> None)"

fun bit_count :: "nat \<Rightarrow> nat" where
  "bit_count n = (if n = 0 then 0 else Suc (bit_count (n div 2)))"

declare bit_count.simps [simp del]

definition div_even :: "nat \<Rightarrow> nat \<Rightarrow> nat" where
  "div_even p q =
     (let d = p div q; r = p mod q in if 2 * r > q \<or> (2 * r = q \<and> odd d) then d + 1 else d)"

text \<open>The fraction p / q in units of 2 ^ e.\<close>

definition in_units :: "nat \<Rightarrow> nat \<Rightarrow> int \<Rightarrow> nat \<times> nat" where
  "in_units p q e = (p * 2 ^ nat (- e), q * 2 ^ nat e)"

definition float_exponent :: "nat \<Rightarrow> nat \<Rightarrow> int" where
  "float_exponent p q =
     (let b = int (bit_count p) - int (bit_count q) - 53;
          (a, d) = in_units p q b
      in max (- 1074) (if a div d \<ge> 2 ^ 53 then b + 1 else b))"

definition nearest_float :: "nat \<Rightarrow> nat \<Rightarrow> nat \<times> int" where
  "nearest_float p q =
     (if p = 0 then (0, - 1074)
      else
        let e = float_exponent p q;
            (a, d) = in_units p q e;
            m = div_even a d
        in if m = 2 ^ 53 then (2 ^ 52, e + 1) else (m, e))"

text \<open>strconv.ParseFloat; a magnitude that rounds to 2 ^ 1024 or more is a range error.\<close>

definition ParseFloat :: "string \<Rightarrow> float64 option" where
  "ParseFloat lit =
     (case number_parts lit of
        None \<Rightarrow> None
      | Some (neg, c, e) \<Rightarrow>
          (case nearest_float (c * 10 ^ nat e) (10 ^ nat (- e)) of
             (m, x) \<Rightarrow> if x > 971 then None else Some \<lparr>fl_neg = neg, fl_mant = m, fl_exp = x\<rparr>))"

section \<open>Printing\<close>

fun leading_zeros :: "nat \<Rightarrow> nat \<Rightarrow> nat \<Rightarrow> nat" where
  "leading_zeros 0 p q = 0"
| "leading_zeros (Suc fuel) p q = (if q \<le> 10 * p then 0 else Suc (leading_zeros fuel (10 * p) q))"

text \<open>
  The k with 10 ^ (k - 1) \<le> p / q < 10 ^ k.  The least float64 is above 10 ^ (- 324).
\<close>

definition decimal_point :: "nat \<Rightarrow> nat \<Rightarrow> int" where
  "decimal_point p q =
     (if q \<le> p then int (length (nat_digits (p div q))) else - int (leading_zeros 330 p q))"

text \<open>
  The candidate of n digits for a float64 with mantissa m and exponent e: the nearer of the two
  decimals around it that read back as it.  The decimals that read back lie between the middles
  to the neighbours, in units of 2 ^ (e - 2), and these count when the mantissa is even.
\<close>

definition digits_candidate :: "nat \<Rightarrow> int \<Rightarrow> int \<Rightarrow> nat \<Rightarrow> nat option" where
  "digits_candidate m e k n =
     (let ten = 10 ^ nat (int n - k); two = 2 ^ nat (e - 2);
          y = 10 ^ nat (k - int n) * 2 ^ nat (2 - e);
          x = 4 * m * two * ten;
          xl = (4 * m - (if m = 2 ^ 52 \<and> e > - 1074 then 1 else 2)) * two * ten;
          xu = (4 * m + 2) * two * ten;
          inside = (\<lambda>c. if even m then xl \<le> c * y \<and> c * y \<le> xu else xl < c * y \<and> c * y < xu);
          lo = x div y; hi = lo + 1; r = x mod y
      in if inside lo \<and> (\<not> inside hi \<or> 2 * r < y \<or> (2 * r = y \<and> even lo)) then Some lo
         else if inside hi then Some hi else None)"

fun shortest_digits :: "nat \<Rightarrow> nat \<Rightarrow> nat \<Rightarrow> int \<Rightarrow> int \<Rightarrow> nat \<times> nat" where
  "shortest_digits 0 n m e k = (0, n)"
| "shortest_digits (Suc fuel) n m e k =
     (case digits_candidate m e k n of
        Some c \<Rightarrow> (c, n)
      | None \<Rightarrow> shortest_digits fuel (Suc n) m e k)"

text \<open>The digits without trailing zeros, and the position of the decimal point before them.\<close>

definition float_digits :: "nat \<Rightarrow> int \<Rightarrow> string \<times> int" where
  "float_digits m e =
     (let k = decimal_point (m * 2 ^ nat e) (2 ^ nat (- e));
          (c, n) = shortest_digits 17 1 m e k;
          ds = nat_digits c
      in (trim_zeros ds, k + int (length ds) - int n))"

text \<open>strconv.FormatFloat with the formats 'f' and 'e' and precision - 1.\<close>

definition format_f :: "string \<Rightarrow> int \<Rightarrow> string" where
  "format_f ds dp =
     (let n = nat dp;
          ip = (if dp > 0 then take n ds @ replicate (n - length ds) CHR ''0'' else ''0'');
          fp = replicate (nat (- dp)) CHR ''0'' @ drop n ds
      in if int (length ds) > dp then ip @ ''.'' @ fp else ip)"

definition format_e :: "string \<Rightarrow> int \<Rightarrow> string" where
  "format_e ds dp =
     (let x = dp - 1;
          ex = nat_digits (nat \<bar>x\<bar>)
      in take 1 ds @ (if length ds > 1 then ''.'' @ drop 1 ds else []) @ ''e''
           @ (if x < 0 then ''-'' else ''+'') @ (if length ex < 2 then ''0'' @ ex else ex))"

text \<open>
  The encoder of encoding/json: format 'f' unless the magnitude is below 1e-6 or from 1e21 on, and
  e-09 becomes e-9.
\<close>

definition format_float :: "float64 \<Rightarrow> string" where
  "format_float f =
     (if fl_neg f then ''-'' else []) @
     (if fl_mant f = 0 then ''0''
      else case float_digits (fl_mant f) (fl_exp f) of
        (ds, dp) \<Rightarrow>
          if dp < - 5 \<or> dp > 21
          then (let t = format_e ds dp; n = length t
                in if n \<ge> 4 \<and> t ! (n - 4) = CHR ''e'' \<and> t ! (n - 3) = CHR ''-'' \<and> t ! (n - 2) = CHR ''0''
                   then take (n - 2) t @ drop (n - 1) t else t)
          else format_f ds dp)"

text \<open>A number literal after decoding to an interface{} and encoding again.\<close>

definition renumber :: "string \<Rightarrow> string option" where
  "renumber lit = map_option format_float (ParseFloat lit)"

section \<open>Integers below 2 ^ 53\<close>

text \<open>An integer of less than 54 bits is a float64, and its decimal text is what is printed.\<close>

lemma bit_count_bounds: "0 < n \<Longrightarrow> 2 ^ (bit_count n - 1) \<le> n \<and> n < 2 ^ bit_count n \<and> 0 < bit_count n"
proof (induction n rule: bit_count.induct)
  case (1 n)
  show ?case
  proof (cases "n div 2 = 0")
    case True
    with 1(2) have "n = 1" by auto
    then show ?thesis by (simp add: bit_count.simps)
  next
    case False
    with 1 have IH: "2 ^ (bit_count (n div 2) - 1) \<le> n div 2" "n div 2 < 2 ^ bit_count (n div 2)"
      "0 < bit_count (n div 2)" by auto
    obtain b where b: "bit_count (n div 2) = Suc b" using IH(3) by (cases "bit_count (n div 2)") auto
    have "bit_count n = Suc (Suc b)" using 1(2) b by (subst bit_count.simps) simp
    with IH b show ?thesis by auto
  qed
qed

lemma bit_count_1 [simp]: "bit_count (Suc 0) = 1"
  by (simp add: bit_count.simps)

lemma bit_count_le: "0 < n \<Longrightarrow> n < 2 ^ k \<Longrightarrow> bit_count n \<le> k"
proof -
  assume n: "0 < n" "n < 2 ^ k"
  with bit_count_bounds [of n] have "(2 :: nat) ^ (bit_count n - 1) < 2 ^ k" by linarith
  then have "bit_count n - 1 < k" by simp
  then show ?thesis by simp
qed

lemma nearest_float_int:
  assumes "0 < p" and "p < 2 ^ 53"
  shows "\<exists>j \<le> 52. nearest_float p 1 = (p * 2 ^ j, - int j)"
proof -
  let ?L = "bit_count p"
  have L: "0 < ?L" "?L \<le> 53" using bit_count_bounds [OF assms(1)] bit_count_le [OF assms] by auto
  have e: "nat (54 - int ?L) = 54 - ?L" using L by linarith
  have "(2 :: nat) ^ 53 = 2 ^ (?L - 1) * 2 ^ (54 - ?L)"
    using L by (simp flip: power_add)
  also have "\<dots> \<le> p * 2 ^ (54 - ?L)" using bit_count_bounds [OF assms(1)] by simp
  finally have big: "2 ^ 53 \<le> p * 2 ^ (54 - ?L)" .
  have "p * 2 ^ (53 - ?L) < 2 ^ ?L * 2 ^ (53 - ?L)" using bit_count_bounds [OF assms(1)] by simp
  also have "\<dots> = 2 ^ 53" using L by (simp flip: power_add)
  finally have small: "p * 2 ^ (53 - ?L) < 2 ^ 53" .
  have f: "float_exponent p 1 = - int (53 - ?L)"
    using L big by (simp add: float_exponent_def in_units_def e Let_def of_nat_diff)
  have "nearest_float p 1 = (p * 2 ^ (53 - ?L), - int (53 - ?L))"
    using assms(1) f small by (simp add: nearest_float_def in_units_def div_even_def Let_def)
  with L show ?thesis by (intro exI [of _ "53 - ?L"]) auto
qed

lemma nat_digits_shift:
  assumes "0 < c"
  shows "nat_digits (c * 10 ^ i) = nat_digits c @ replicate i CHR ''0''"
proof (induction i)
  case (Suc i)
  have "nat_digits (c * 10 ^ Suc i) = nat_digits (c * 10 ^ i) @ [digit_char 0]"
    using assms by (subst nat_digits.simps) simp
  then show ?case using Suc by (simp add: digit_char_def char_of_eval replicate_append_same)
qed simp

lemma length_nat_digits_le: "0 < k \<Longrightarrow> n < 10 ^ k \<Longrightarrow> length (nat_digits n) \<le> k"
proof (induction k arbitrary: n)
  case (Suc k)
  show ?case
  proof (cases "n < 10")
    case True
    then show ?thesis by (simp add: nat_digits.simps)
  next
    case False
    then have "0 < k" using Suc.prems by (cases k) auto
    moreover have "n div 10 < 10 ^ k" using Suc.prems by auto
    ultimately have "length (nat_digits (n div 10)) \<le> k" by (rule Suc.IH)
    then show ?thesis using False by (subst nat_digits.simps) simp
  qed
qed simp

text \<open>With 2 ^ (j + 2) \<ge> 4 units to 1, only the integer itself reads back.\<close>

text \<open>A multiple of a large unit within two of p units is p units.\<close>

lemma window_exact:
  fixes c :: nat
  assumes "4 \<le> W" and "d \<le> 2" and "p * W - d \<le> c * (u * W)" and "c * (u * W) \<le> p * W + 2"
  shows "c * u = p"
proof (rule ccontr)
  assume "c * u \<noteq> p"
  then consider "c * u + 1 \<le> p" | "p + 1 \<le> c * u" by linarith
  then show False
  proof cases
    case 1
    then have "(c * u + 1) * W \<le> p * W" by (rule mult_right_mono) simp
    with assms show False by (simp add: algebra_simps)
  next
    case 2
    then have "(p + 1) * W \<le> (c * u) * W" by (rule mult_right_mono) simp
    with assms show False by (simp add: algebra_simps)
  qed
qed

lemma int_candidate:
  assumes "0 < p" and "n \<le> k"
  shows "digits_candidate (p * 2 ^ j) (- int j) (int k) n =
    (if 10 ^ (k - n) dvd p then Some (p div 10 ^ (k - n)) else None)"
proof -
  define W :: nat where "W = 2 ^ (j + 2)"
  define u :: nat where "u = 10 ^ (k - n)"
  define d where "d = (if p * 2 ^ j = 2 ^ 52 \<and> - int j > - 1074 then 1 else 2 :: nat)"
  have W: "4 \<le> W" and u: "0 < u" and d: "1 \<le> d" "d \<le> 2"
    by (simp_all add: W_def u_def d_def)
  have x: "4 * (p * 2 ^ j) = p * W" by (simp add: W_def)
  have "1 * W \<le> p * W" using assms(1) by (intro mult_right_mono) auto
  with W have pos: "2 < p * W" by linarith
  define inside where "inside c \<longleftrightarrow> (if even (p * 2 ^ j) then p * W - d \<le> c * (u * W) \<and> c * (u * W) \<le> p * W + 2
    else p * W - d < c * (u * W) \<and> c * (u * W) < p * W + 2)" for c
  have inside: "inside c \<longleftrightarrow> c * u = p" for c
  proof
    assume "inside c"
    then have "p * W - d \<le> c * (u * W)" "c * (u * W) \<le> p * W + 2"
      unfolding inside_def by (auto split: if_splits)
    with W d show "c * u = p" by (intro window_exact)
  next
    assume "c * u = p"
    then have eq: "c * (u * W) = p * W" by (simp flip: mult.assoc)
    have "p * W - d < p * W" using pos d by linarith
    then show "inside c" unfolding inside_def eq by simp
  qed
  have lo: "p * W div (u * W) = p div u" using W by simp
  have e: "nat (int n - int k) = 0" "nat (int k - int n) = k - n" "nat (- int j - 2) = 0"
    "nat (2 - - int j) = j + 2"
    using assms(2) by auto
  have "digits_candidate (p * 2 ^ j) (- int j) (int k) n =
     (let lo = p div u; hi = lo + 1; r = (p * W) mod (u * W)
      in if inside lo \<and> (\<not> inside hi \<or> 2 * r < u * W \<or> (2 * r = u * W \<and> even lo)) then Some lo
         else if inside hi then Some hi else None)"
    unfolding digits_candidate_def e inside_def Let_def power_0 mult_1_right x
      distrib_right [of "p * 2 ^ j"] lo [symmetric] diff_mult_distrib
    by (simp only: u_def [symmetric] W_def [symmetric] d_def [symmetric] x lo)
  moreover have "inside (p div u) \<longleftrightarrow> u dvd p"
    unfolding inside by (metis dvd_div_mult_self dvd_triv_right)
  moreover have "\<not> inside (p div u + 1)"
  proof
    assume "inside (p div u + 1)"
    then have eq: "(p div u + 1) * u = p" unfolding inside .
    then have "u dvd p" by (metis dvd_triv_right)
    then have "p div u * u = p" by simp
    with eq u show False by (simp add: algebra_simps)
  qed
  ultimately show ?thesis by (simp add: u_def Let_def)
qed

lemma shortest_int:
  assumes "0 < p" and "n \<le> k" and "k < n + fuel"
  shows "\<exists>n' \<le> k. shortest_digits fuel n (p * 2 ^ j) (- int j) (int k) = (p div 10 ^ (k - n'), n') \<and> 10 ^ (k - n') dvd p"
  using assms(2,3)
proof (induction fuel arbitrary: n)
  case (Suc fuel)
  show ?case
  proof (cases "10 ^ (k - n) dvd p")
    case True
    then show ?thesis using Suc.prems int_candidate [OF assms(1) Suc.prems(1), of j] by auto
  next
    case False
    then have "n \<noteq> k" by auto
    with Suc.prems Suc.IH [of "Suc n"] False int_candidate [OF assms(1) Suc.prems(1), of j] show ?thesis by simp
  qed
qed simp

lemma format_float_int:
  assumes "0 < p" and "p < 2 ^ 53" and "j \<le> 52"
  shows "format_float \<lparr>fl_neg = neg, fl_mant = p * 2 ^ j, fl_exp = - int j\<rparr> =
    (if neg then ''-'' else []) @ nat_digits p"
proof -
  let ?k = "length (nat_digits p)"
  have "p < 10 ^ 16" using assms(2) by (rule less_trans) simp
  then have k: "?k \<le> 16" "0 < ?k" using length_nat_digits_le [of 16 p] by auto
  have dp: "decimal_point (p * 2 ^ j * 2 ^ nat (- int j)) (2 ^ nat (- (- int j))) = int ?k"
    using assms(1) by (simp add: decimal_point_def)
  obtain n where n: "n \<le> ?k" "shortest_digits 17 1 (p * 2 ^ j) (- int j) (int ?k) = (p div 10 ^ (?k - n), n)"
    "10 ^ (?k - n) dvd p"
    using shortest_int [OF assms(1), of 1 ?k 17 j] k by auto
  let ?ds = "nat_digits (p div 10 ^ (?k - n))"
  obtain c where c: "p = c * 10 ^ (?k - n)" using n(3) by (metis dvd_div_mult_self)
  with assms(1) have "0 < c" by (cases "c = 0") auto
  have "p div 10 ^ (?k - n) = c" using c by (metis nonzero_mult_div_cancel_right power_not_zero zero_neq_numeral)
  then have ds: "nat_digits p = ?ds @ replicate (?k - n) CHR ''0''"
    using c nat_digits_shift [OF \<open>0 < c\<close>] by metis
  then have len: "length ?ds = n"
    using n(1) by (metis add_diff_cancel_right' diff_diff_cancel length_append length_replicate)
  obtain i where i: "?ds = trim_zeros ?ds @ replicate i CHR ''0''"
    using trim_right_split unfolding trim_zeros_def by blast
  let ?t = "trim_zeros ?ds"
  have t: "nat_digits p = ?t @ replicate (?k - length ?t) CHR ''0''"
  proof -
    have "nat_digits p = ?t @ replicate (i + (?k - n)) CHR ''0''"
      by (subst ds, subst i) (simp add: replicate_add)
    moreover from arg_cong [OF this, of length] have "i + (?k - n) = ?k - length ?t" by simp
    ultimately show ?thesis by simp
  qed
  have le: "length ?t \<le> ?k" using arg_cong [OF t, of length] by simp
  have fd: "float_digits (p * 2 ^ j) (- int j) = (?t, int ?k)"
    unfolding float_digits_def dp Let_def n(2) prod.case len by simp
  have "format_f ?t (int ?k) = nat_digits p"
    using le k t by (simp add: format_f_def)
  then show ?thesis
    using assms(1) k unfolding format_float_def by (simp add: fd)
qed

lemma number_parts_int: "number_parts (int_string v) = Some (v < 0, nat \<bar>v\<bar>, 0)"
proof -
  have d: "digits (nat_digits (nat \<bar>v\<bar>))" by simp
  have "find_index (\<lambda>c. c = CHR ''E'' \<or> c = CHR ''e'') (int_string v) = None"
    "find_index (\<lambda>c. c = CHR ''.'') (int_string v) = None"
    using find_no_exponent [OF d] find_no_dot [OF d]
    by (simp_all add: int_string_fixed fixed_text_def find_index_None)
  moreover have "set_string (int_string v) = Some v"
    using set_string_signed [OF d, of "v < 0"] by (simp add: int_string_fixed fixed_text_def)
  moreover have "take 1 (int_string v) = ''-'' \<longleftrightarrow> v < 0"
  proof (cases "v < 0")
    case False
    obtain a as where a: "nat_digits (nat v) = a # as" by (cases "nat_digits (nat v)") auto
    with d False have "is_digit a" by simp
    then show ?thesis using False a by (auto simp: int_string_def)
  qed (simp add: int_string_def)
  ultimately show ?thesis by (simp add: number_parts_def)
qed

lemma renumber_int:
  assumes "\<bar>v\<bar> < 2 ^ 53"
  shows "renumber (int_string v) = Some (int_string v)"
proof (cases "v = 0")
  case True
  then show ?thesis
    using number_parts_int [of 0]
    by (simp add: renumber_def ParseFloat_def nearest_float_def format_float_def int_string_def nat_digits.simps
        digit_char_def char_of_eval)
next
  case False
  let ?p = "nat \<bar>v\<bar>"
  have p: "0 < ?p" "?p < 2 ^ 53" using False assms by auto
  obtain j where j: "j \<le> 52" "nearest_float ?p 1 = (?p * 2 ^ j, - int j)"
    using nearest_float_int [OF p] by blast
  then have "ParseFloat (int_string v) = Some \<lparr>fl_neg = v < 0, fl_mant = ?p * 2 ^ j, fl_exp = - int j\<rparr>"
    by (simp add: ParseFloat_def number_parts_int)
  moreover have "int_string v = (if v < 0 then ''-'' else []) @ nat_digits ?p"
    by (simp add: int_string_fixed fixed_text_def)
  ultimately show ?thesis
    using format_float_int [OF p j(1), of "v < 0"] by (simp only: renumber_def option.map)
qed

end
