(* ===== verification/Webhook.thy ===== *)
theory Webhook
  imports Worker Http_Text Float_Text
begin

text \<open>
  internal/webhook/handler.go: execution reports arriving over HTTP.  The payload is decoded into a
  map[string]interface{}, encoded again, and decoded into a FillEvent or into the execution report
  of Binance; the event then goes to ProcessFill.  A reply is the status code and the body, of
  http.Error with its constant format text and the newline it appends.
\<close>

section \<open>Payloads\<close>

record RawBinanceExecutionReport =
  rp_EventType :: string
  rp_EventTime :: int
  rp_Symbol :: string
  rp_ClientOrderID :: string
  rp_Side :: string
  rp_OrderType :: string
  rp_OriginalQuantity :: string
  rp_Price :: string
  rp_ExecutionType :: string
  rp_OrderStatus :: string
  rp_OrderID :: int
  rp_LastExecutedQuantity :: string
  rp_CumulativeFilledQty :: string
  rp_LastExecutedPrice :: string
  rp_CumulativeQuoteQuantity :: string

definition zero_report :: RawBinanceExecutionReport where
  "zero_report = \<lparr>rp_EventType = [], rp_EventTime = 0, rp_Symbol = [], rp_ClientOrderID = [],
     rp_Side = [], rp_OrderType = [], rp_OriginalQuantity = [], rp_Price = [], rp_ExecutionType = [],
     rp_OrderStatus = [], rp_OrderID = 0, rp_LastExecutedQuantity = [], rp_CumulativeFilledQty = [],
     rp_LastExecutedPrice = [], rp_CumulativeQuoteQuantity = []\<rparr>"

definition report_fields :: "RawBinanceExecutionReport fields" where
  "report_fields =
     [(''e'', decode_string (\<lambda>x s. s\<lparr>rp_EventType := x\<rparr>)),
      (''E'', decode_int64 (\<lambda>x s. s\<lparr>rp_EventTime := x\<rparr>)),
      (''s'', decode_string (\<lambda>x s. s\<lparr>rp_Symbol := x\<rparr>)),
      (''c'', decode_string (\<lambda>x s. s\<lparr>rp_ClientOrderID := x\<rparr>)),
      (''S'', decode_string (\<lambda>x s. s\<lparr>rp_Side := x\<rparr>)),
      (''o'', decode_string (\<lambda>x s. s\<lparr>rp_OrderType := x\<rparr>)),
      (''q'', decode_string (\<lambda>x s. s\<lparr>rp_OriginalQuantity := x\<rparr>)),
      (''p'', decode_string (\<lambda>x s. s\<lparr>rp_Price := x\<rparr>)),
      (''x'', decode_string (\<lambda>x s. s\<lparr>rp_ExecutionType := x\<rparr>)),
      (''X'', decode_string (\<lambda>x s. s\<lparr>rp_OrderStatus := x\<rparr>)),
      (''i'', decode_int64 (\<lambda>x s. s\<lparr>rp_OrderID := x\<rparr>)),
      (''l'', decode_string (\<lambda>x s. s\<lparr>rp_LastExecutedQuantity := x\<rparr>)),
      (''z'', decode_string (\<lambda>x s. s\<lparr>rp_CumulativeFilledQty := x\<rparr>)),
      (''L'', decode_string (\<lambda>x s. s\<lparr>rp_LastExecutedPrice := x\<rparr>)),
      (''Z'', decode_string (\<lambda>x s. s\<lparr>rp_CumulativeQuoteQuantity := x\<rparr>))]"

definition RawBinanceExecutionReport_json :: "RawBinanceExecutionReport decoder" where
  "RawBinanceExecutionReport_json = decode_struct report_fields"

definition zero_FillEvent :: FillEvent where
  "zero_FillEvent = \<lparr>fe_Provider = [], fe_ProviderOrderID = [], fe_Symbol = [], fe_Side = [],
     fe_Status = [], fe_ExecutedQuantity = Decimal_Unset, fe_FillPrice = Decimal_Unset\<rparr>"

definition event_fields :: "FillEvent fields" where
  "event_fields =
     [(''provider'', decode_string (\<lambda>x s. s\<lparr>fe_Provider := x\<rparr>)),
      (''provider_order_id'', decode_string (\<lambda>x s. s\<lparr>fe_ProviderOrderID := x\<rparr>)),
      (''symbol'', decode_string (\<lambda>x s. s\<lparr>fe_Symbol := x\<rparr>)),
      (''side'', decode_string (\<lambda>x s. s\<lparr>fe_Side := x\<rparr>)),
      (''status'', decode_string (\<lambda>x s. s\<lparr>fe_Status := x\<rparr>)),
      (''executed_quantity'', decode_decimal (\<lambda>x s. s\<lparr>fe_ExecutedQuantity := x\<rparr>)),
      (''fill_price'', decode_decimal (\<lambda>x s. s\<lparr>fe_FillPrice := x\<rparr>))]"

definition FillEvent_json :: "FillEvent decoder" where
  "FillEvent_json = decode_struct event_fields"

section \<open>The generic map\<close>

text \<open>
  A Go map decoded from an object: the last value of a repeated key counts; encoded, its keys are
  in order.
\<close>

definition go_map :: "(string \<times> json) list \<Rightarrow> (string \<times> json) list" where
  "go_map kvs = sort_key fst (fold (\<lambda>(k, v). AList.update k v) kvs [])"

text \<open>
  A value decoded into an interface{} and encoded again; a number that float64 cannot hold fails
  the decoding.
\<close>

fun generic :: "json \<Rightarrow> json option"
  and generic_list :: "json list \<Rightarrow> json list option"
  and generic_members :: "(string \<times> json) list \<Rightarrow> (string \<times> json) list option"
where
  "generic JNull = Some JNull"
| "generic (JBool b) = Some (JBool b)"
| "generic (JNumber lit) = map_option JNumber (renumber lit)"
| "generic (JString s) = Some (JString s)"
| "generic (JArray vs) = map_option JArray (generic_list vs)"
| "generic (JObject ms) = map_option (\<lambda>kvs. JObject (go_map kvs)) (generic_members ms)"
| "generic_list [] = Some []"
| "generic_list (v # vs) =
     (case generic v of None \<Rightarrow> None | Some x \<Rightarrow> map_option (Cons x) (generic_list vs))"
| "generic_members [] = Some []"
| "generic_members ((k, v) # ms) =
     (case generic v of None \<Rightarrow> None | Some x \<Rightarrow> map_option (Cons (k, x)) (generic_members ms))"

text \<open>
  Decode into the map: null leaves it nil.  A JSON text that is not an object or null, or that is
  no JSON, is an error.
\<close>

definition decode_map :: "http_body \<Rightarrow> (string \<times> json) list option" where
  "decode_map b =
     (case hb_value b of
        Some (JObject ms) \<Rightarrow> map_option go_map (generic_members ms)
      | Some JNull \<Rightarrow> Some []
      | _ \<Rightarrow> None)"

section \<open>The server\<close>

record Server =
  ws_processor :: fillProcessor

definition NewServer :: "fillProcessor \<Rightarrow> Server" where
  "NewServer processor = \<lparr>ws_processor = processor\<rparr>"

record webhook_reply =
  wr_Code :: nat
  wr_Body :: string

definition http_Error :: "string \<Rightarrow> nat \<Rightarrow> webhook_reply" where
  "http_Error msg code = \<lparr>wr_Code = code, wr_Body = msg @ [CHR 0x0A]\<rparr>"

definition status_body :: "string \<Rightarrow> string" where
  "status_body s = ''{'' @ json_text ''status'' @ '':'' @ json_text s @ ''}''"

definition handleHealthCheck :: "webhook_reply prog" where
  "handleHealthCheck = Ret \<lparr>wr_Code = 200, wr_Body = status_body ''OK''\<rparr>"

definition is_fill :: "RawBinanceExecutionReport \<Rightarrow> bool" where
  "is_fill r \<longleftrightarrow> \<not> (rp_ExecutionType r \<noteq> ''TRADE'' \<and> rp_OrderStatus r \<noteq> ''FILLED'' \<and>
     rp_OrderStatus r \<noteq> ''PARTIALLY_FILLED'')"

text \<open>The quantity of a report: of the last execution, else cumulative.\<close>

definition report_quantity :: "RawBinanceExecutionReport \<Rightarrow> decimal option" where
  "report_quantity r =
     (let cumulative = (case Decimal_NewFromString (rp_CumulativeFilledQty r) of
            Inl e \<Rightarrow> None | Inr q \<Rightarrow> Some q)
      in case Decimal_NewFromString (rp_LastExecutedQuantity r) of
           Inl e \<Rightarrow> cumulative
         | Inr q \<Rightarrow> if Decimal_IsZero q then cumulative else Some q)"

text \<open>The price: of the last execution, else the cumulative quote by the quantity; Div can panic.\<close>

definition report_price :: "RawBinanceExecutionReport \<Rightarrow> decimal \<Rightarrow> decimal option" where
  "report_price r lastQty =
     (let last = (case Decimal_NewFromString (rp_LastExecutedPrice r) of
            Inl e \<Rightarrow> Decimal_Unset | Inr p \<Rightarrow> p)
      in if Decimal_IsZero last
         then (case Decimal_NewFromString (rp_CumulativeQuoteQuantity r) of
                 Inl e \<Rightarrow> Some last
               | Inr cumQuote \<Rightarrow>
                   if Decimal_GreaterThan lastQty Decimal_Zero then Decimal_Div cumQuote lastQty
                   else Some last)
         else Some last)"

definition report_event :: "RawBinanceExecutionReport \<Rightarrow> decimal \<Rightarrow> decimal \<Rightarrow> FillEvent" where
  "report_event r lastQty lastPrice = \<lparr>
     fe_Provider = ''BINANCE'',
     fe_ProviderOrderID = int_string (rp_OrderID r),
     fe_Symbol = rp_Symbol r,
     fe_Side = rp_Side r,
     fe_Status = rp_OrderStatus r,
     fe_ExecutedQuantity = lastQty,
     fe_FillPrice = lastPrice\<rparr>"

definition process_event :: "Server \<Rightarrow> FillEvent \<Rightarrow> webhook_reply prog" where
  "process_event s event =
     pbind (ProcessFill (ws_processor s) event) (\<lambda>res. case res of
       Inl e \<Rightarrow> Ret (http_Error ''fill processing failed'' 500)
     | Inr _ \<Rightarrow> Ret \<lparr>wr_Code = 200, wr_Body = status_body ''PROCESSED''\<rparr>)"

definition handleBinanceOrderWebhook :: "Server \<Rightarrow> string \<Rightarrow> http_body \<Rightarrow> webhook_reply prog" where
  "handleBinanceOrderWebhook s method body =
     (if method \<noteq> ''POST'' then Ret (http_Error ''method not allowed'' 405)
      else (case decode_map body of
        None \<Rightarrow> Ret (http_Error ''invalid json payload'' 400)
      | Some rawMap \<Rightarrow>
          if map_of rawMap ''provider_order_id'' \<noteq> None then
            (case decoded FillEvent_json zero_FillEvent (JObject rawMap) of
               None \<Rightarrow> Ret (http_Error ''invalid fill event payload'' 400)
             | Some event \<Rightarrow> process_event s event)
          else if map_of rawMap ''e'' \<noteq> None then
            (case decoded RawBinanceExecutionReport_json zero_report (JObject rawMap) of
               None \<Rightarrow> Ret (http_Error ''invalid binance execution report'' 400)
             | Some report \<Rightarrow>
                 if \<not> is_fill report then Ret \<lparr>wr_Code = 200, wr_Body = status_body ''ignored''\<rparr>
                 else (case report_quantity report of
                   None \<Rightarrow> Ret (http_Error ''invalid execution quantity'' 400)
                 | Some lastQty \<Rightarrow>
                     or_panic (report_price report lastQty) (\<lambda>lastPrice.
                       process_event s (report_event report lastQty lastPrice))))
          else Ret (http_Error ''unrecognized webhook payload format'' 400)))"

text \<open>The routes of the mux; http.ServeMux answers 404 on every other path.\<close>

definition RegisterRoutes :: "Server \<Rightarrow> string \<Rightarrow> string \<Rightarrow> http_body \<Rightarrow> webhook_reply prog" where
  "RegisterRoutes s path method body =
     (if path = ''/healthz'' then handleHealthCheck
      else if path = ''/webhooks/binance/order'' then handleBinanceOrderWebhook s method body
      else Ret (http_Error ''404 page not found'' 404))"

end
