(* ===== verification/Prog_Rules.thy ===== *)
theory Prog_Rules
  imports Prog
begin

text \<open>
  Reasoning about programs.  \<open>wp\<close> is the weakest precondition of the run alone, with the rules for
  sequencing and deferred calls.  \<open>calls_in\<close> bounds the calls a program can make, whatever the
  replies.  \<open>obeys\<close> runs a protocol automaton along every branch of a program: the calls a state
  allows, the state after each reply, and the states in which the program may return or stop.
\<close>

section \<open>Weakest preconditions\<close>

definition wp :: "env \<Rightarrow> 'a prog \<Rightarrow> ('a outcome \<Rightarrow> world \<Rightarrow> bool) \<Rightarrow> world \<Rightarrow> bool" where
  "wp e p Q w = (case exec e p w of (r, w') \<Rightarrow> Q r w')"

lemma wp_Ret [prog_simps]: "wp e (Ret a) Q w = Q (Done a) w"
  by (simp add: wp_def)

lemma wp_Halt [prog_simps]: "wp e (Halt h) Q w = Q (Stopped h) w"
  by (simp add: wp_def)

lemma wp_Call: "wp e (Call c k) Q w = (case handle e c w of (r, w') \<Rightarrow> wp e (k r) Q w')"
  by (simp add: wp_def split: prod.split)

lemma wp_pbind [prog_simps]:
  "wp e (pbind p f) Q w =
     wp e p (\<lambda>r w'. case r of Done a \<Rightarrow> wp e (f a) Q w' | Stopped h \<Rightarrow> Q (Stopped h) w') w"
  by (simp add: wp_def exec_pbind split: prod.split outcome.split)

lemma wp_mono: "wp e p Q w \<Longrightarrow> (\<And>r w'. Q r w' \<Longrightarrow> R r w') \<Longrightarrow> wp e p R w"
  by (auto simp: wp_def split: prod.splits)

lemma wp_pbindI:
  assumes "wp e p R w"
    and "\<And>a w'. R (Done a) w' \<Longrightarrow> wp e (f a) Q w'"
    and "\<And>h w'. R (Stopped h) w' \<Longrightarrow> Q (Stopped h) w'"
  shows "wp e (pbind p f) Q w"
  unfolding wp_pbind using assms(1) by (rule wp_mono) (auto split: outcome.split intro: assms(2,3))

text \<open>A deferred program runs after a return and after a panic, not after a stop of the model.\<close>

lemma wp_pdefer [prog_simps]:
  "wp e (pdefer p d) Q w =
     wp e p (\<lambda>r w'. case r of
         Done a \<Rightarrow> wp e d (\<lambda>r' w''. case r' of Done _ \<Rightarrow> Q (Done a) w'' | Stopped h \<Rightarrow> Q (Stopped h) w'') w'
       | Stopped h \<Rightarrow>
           if h = Panicked
           then wp e d (\<lambda>r' w''. case r' of Done _ \<Rightarrow> Q (Stopped h) w'' | Stopped h' \<Rightarrow> Q (Stopped h') w'') w'
           else Q (Stopped h) w') w"
proof (induction p arbitrary: w)
  case (Call c k)
  then show ?case by (simp add: wp_Call split: prod.split)
qed (auto simp: prog_simps split: outcome.split)

lemma wp_pguard [prog_simps]:
  "wp e (pguard p d) Q w =
     wp e p (\<lambda>r w'. case r of
         Done (Inr a) \<Rightarrow> Q (Done (Inr a)) w'
       | Done (Inl x) \<Rightarrow>
           wp e d (\<lambda>r' w''. case r' of Done _ \<Rightarrow> Q (Done (Inl x)) w'' | Stopped h \<Rightarrow> Q (Stopped h) w'') w'
       | Stopped h \<Rightarrow>
           if h = Panicked
           then wp e d (\<lambda>r' w''. case r' of Done _ \<Rightarrow> Q (Stopped h) w'' | Stopped h' \<Rightarrow> Q (Stopped h') w'') w'
           else Q (Stopped h) w') w"
proof (induction p arbitrary: w)
  case (Call c k)
  then show ?case by (simp add: wp_Call split: prod.split)
qed (auto simp: prog_simps split: outcome.split sum.split)

lemma wp_or_panic [prog_simps]:
  "wp e (or_panic x k) Q w = (case x of None \<Rightarrow> Q (Stopped Panicked) w | Some v \<Rightarrow> wp e (k v) Q w)"
  by (simp add: or_panic_def prog_simps split: option.split)

section \<open>The calls of a program\<close>

text \<open>The replies a call can get; the others are excluded by Go's types.\<close>

fun typed :: "call \<Rightarrow> reply \<Rightarrow> bool" where
  "typed CNow r \<longleftrightarrow> (\<exists>t. r = RTime t)"
| "typed CNewUUID r \<longleftrightarrow> (\<exists>u. r = RUuid u)"
| "typed (CExec st) r \<longleftrightarrow> (\<exists>x. r = RExec x)"
| "typed (CQueryOrder q) r \<longleftrightarrow> (\<exists>x. r = ROrder x)"
| "typed (CQueryCred t p) r \<longleftrightarrow> (\<exists>x. r = RCred x)"
| "typed (CWait n) r \<longleftrightarrow> (\<exists>x. r = RWait x)"
| "typed (CAlloc bs) r \<longleftrightarrow> (\<exists>a. r = RAddress a)"
| "typed (CLoad a) r \<longleftrightarrow> (\<exists>bs. r = RBytes bs)"
| "typed (CWipe a) r \<longleftrightarrow> r = RUnit"
| "typed (CNewCreds c) r \<longleftrightarrow> (\<exists>a. r = RAddress a)"
| "typed (CGetCreds p) r \<longleftrightarrow> (\<exists>c. r = RCreds c)"
| "typed (CSetCreds p c) r \<longleftrightarrow> r = RUnit"
| "typed (CVault q) r \<longleftrightarrow> (\<exists>x. r = RHttp x)"
| "typed (CBinance q) r \<longleftrightarrow> (\<exists>x. r = RHttp x)"
| "typed (CCaptureHold q) r \<longleftrightarrow> (\<exists>x. r = RAck x)"
| "typed (CCredit q) r \<longleftrightarrow> (\<exists>x. r = RAck x)"
| "typed (CGetBalance a) r \<longleftrightarrow> (\<exists>x. r = RText x)"
| "typed (CInitAccount q) r \<longleftrightarrow> (\<exists>x. r = RAccount x)"
| "typed (CGetAccount q) r \<longleftrightarrow> (\<exists>x. r = RAccount x)"
| "typed (CSyncExecution q) r \<longleftrightarrow> (\<exists>x. r = RAck x)"
| "typed (CRedisMGet ks) r \<longleftrightarrow> (\<exists>x. r = RValues x)"
| "typed (CRedisSet es) r \<longleftrightarrow> (\<exists>x. r = RAck x)"

lemma handle_typed: "typed c (fst (handle e c w))"
  by (cases c) (auto simp: handle_def split: prod.split db_outcome.split option.split)

lemma handle_typed_pair: "handle e c w = (r, w') \<Longrightarrow> typed c r"
  using handle_typed [of c e w] by simp

text \<open>The program makes only calls in S, and ends with a result or a panic.\<close>

primrec calls_in :: "(call \<Rightarrow> bool) \<Rightarrow> 'a prog \<Rightarrow> bool" where
  "calls_in S (Ret a) = True"
| "calls_in S (Halt h) = (h = Panicked)"
| "calls_in S (Call c k) = (S c \<and> (\<forall>r. typed c r \<longrightarrow> calls_in S (k r)))"

lemma calls_in_pbind: "calls_in S p \<Longrightarrow> (\<And>a. calls_in S (f a)) \<Longrightarrow> calls_in S (pbind p f)"
  by (induction p) auto

lemma calls_in_pdefer: "calls_in S p \<Longrightarrow> calls_in S d \<Longrightarrow> calls_in S (pdefer p d)"
  by (induction p) (auto intro: calls_in_pbind)

lemma calls_in_pguard: "calls_in S p \<Longrightarrow> calls_in S d \<Longrightarrow> calls_in S (pguard p d)"
  by (induction p) (auto intro: calls_in_pbind split: sum.split)

lemma calls_in_or_panic: "(\<And>v. calls_in S (k v)) \<Longrightarrow> calls_in S (or_panic x k)"
  by (simp add: or_panic_def split: option.split)

lemma calls_in_typed:
  "S CNow \<Longrightarrow> (\<And>x. calls_in S (k1 x)) \<Longrightarrow> calls_in S (c_now k1)"
  "S CNewUUID \<Longrightarrow> (\<And>x. calls_in S (k2 x)) \<Longrightarrow> calls_in S (c_uuid k2)"
  "S (CExec st) \<Longrightarrow> (\<And>x. calls_in S (k3 x)) \<Longrightarrow> calls_in S (c_exec st k3)"
  "S (CQueryOrder q) \<Longrightarrow> (\<And>x. calls_in S (k4 x)) \<Longrightarrow> calls_in S (c_query_order q k4)"
  "S (CQueryCred t u) \<Longrightarrow> (\<And>x. calls_in S (k5 x)) \<Longrightarrow> calls_in S (c_query_cred t u k5)"
  "S (CWait n) \<Longrightarrow> (\<And>x. calls_in S (k6 x)) \<Longrightarrow> calls_in S (c_wait n k6)"
  "S (CAlloc bs) \<Longrightarrow> (\<And>x. calls_in S (k7 x)) \<Longrightarrow> calls_in S (c_alloc bs k7)"
  "S (CLoad a) \<Longrightarrow> (\<And>x. calls_in S (k8 x)) \<Longrightarrow> calls_in S (c_load a k8)"
  "S (CWipe a) \<Longrightarrow> calls_in S p \<Longrightarrow> calls_in S (c_wipe a p)"
  "S (CNewCreds cr) \<Longrightarrow> (\<And>x. calls_in S (k9 x)) \<Longrightarrow> calls_in S (c_new_creds cr k9)"
  "S (CGetCreds a) \<Longrightarrow> (\<And>x. calls_in S (k10 x)) \<Longrightarrow> calls_in S (c_get_creds a k10)"
  "S (CSetCreds a cr) \<Longrightarrow> calls_in S p \<Longrightarrow> calls_in S (c_set_creds a cr p)"
  "S h \<Longrightarrow> (\<And>r. typed h r \<Longrightarrow> \<exists>x. r = RHttp x) \<Longrightarrow> (\<And>x. calls_in S (k11 x)) \<Longrightarrow> calls_in S (c_http h k11)"
  "S h \<Longrightarrow> (\<And>r. typed h r \<Longrightarrow> \<exists>x. r = RAck x) \<Longrightarrow> (\<And>x. calls_in S (k12 x)) \<Longrightarrow> calls_in S (c_ack h k12)"
  "S (CGetBalance t) \<Longrightarrow> (\<And>x. calls_in S (k13 x)) \<Longrightarrow> calls_in S (c_balance t k13)"
  "S h \<Longrightarrow> (\<And>r. typed h r \<Longrightarrow> \<exists>x. r = RAccount x) \<Longrightarrow> (\<And>x. calls_in S (k14 x)) \<Longrightarrow> calls_in S (c_account h k14)"
  "S (CRedisMGet ks) \<Longrightarrow> (\<And>x. calls_in S (k15 x)) \<Longrightarrow> calls_in S (c_mget ks k15)"
  by (fastforce simp: call_defs split: reply.split)+

lemmas calls_in_intros = calls_in_pbind calls_in_pdefer calls_in_pguard calls_in_or_panic calls_in_typed

lemma calls_in_mono: "calls_in S p \<Longrightarrow> (\<And>c. S c \<Longrightarrow> T c) \<Longrightarrow> calls_in T p"
  by (induction p) auto

text \<open>What every call of a program keeps, its run keeps.\<close>

lemma wp_calls_in:
  assumes "calls_in S p" and "I w"
    and "\<And>c w. S c \<Longrightarrow> I w \<Longrightarrow> I (snd (handle e c w))"
  shows "wp e p (\<lambda>r w'. I w') w"
  using assms(1,2)
proof (induction p arbitrary: w)
  case (Call c k)
  obtain r w' where h: "handle e c w = (r, w')" by fastforce
  have "I w'" using assms(3) [of c w] Call.prems h by simp
  with Call.IH [OF rangeI, of r w'] Call.prems h handle_typed [of c e w] show ?case by (simp add: wp_Call)
qed (simp_all add: prog_simps)

text \<open>The calls a run makes, with their replies.\<close>

definition new_calls :: "env \<Rightarrow> 'a prog \<Rightarrow> world \<Rightarrow> (call \<times> reply) list" where
  "new_calls e p w = drop (length (w_trace w)) (w_trace (snd (exec e p w)))"

lemma new_calls_simps [simp]:
  "new_calls e (Ret a) w = []"
  "new_calls e (Halt h) w = []"
  "new_calls e (Call c k) w =
     (c, fst (handle e c w)) # new_calls e (k (fst (handle e c w))) (snd (handle e c w))"
proof -
  obtain r w' where h: "handle e c w = (r, w')" by fastforce
  obtain l where "w_trace (snd (exec e (k r) w')) = w_trace w' @ l" using exec_trace by blast
  with handle_trace [OF h] h
  show "new_calls e (Call c k) w =
     (c, fst (handle e c w)) # new_calls e (k (fst (handle e c w))) (snd (handle e c w))"
    by (simp add: new_calls_def)
qed (simp_all add: new_calls_def)

lemma new_calls_in: "calls_in S p \<Longrightarrow> (c, r) \<in> set (new_calls e p w) \<Longrightarrow> S c"
proof (induction p arbitrary: w)
  case (Call c' k)
  have "calls_in S (k (fst (handle e c' w)))" using Call.prems(1) handle_typed [of c' e w] by simp
  with Call.IH [OF rangeI this, of "snd (handle e c' w)"] Call.prems show ?case by auto
qed simp_all

primrec finished :: "'a outcome \<Rightarrow> bool" where
  "finished (Done a) = True"
| "finished (Stopped h) = (h = Panicked)"

lemma calls_in_ends: "calls_in S p \<Longrightarrow> finished (fst (exec e p w))"
proof (induction p arbitrary: w)
  case (Call c k)
  obtain r w' where h: "handle e c w = (r, w')" by fastforce
  then have "calls_in S (k r)" using Call.prems handle_typed_pair by auto
  with Call.IH [OF rangeI this, of w'] h show ?case by simp
qed simp_all

section \<open>Protocols\<close>

primrec obeys ::
  "('q \<Rightarrow> call \<Rightarrow> (reply \<Rightarrow> 'q) option) \<Rightarrow> ('q \<Rightarrow> 'a \<Rightarrow> bool) \<Rightarrow> ('q \<Rightarrow> halt \<Rightarrow> bool) \<Rightarrow> 'a prog \<Rightarrow> 'q \<Rightarrow> bool"
where
  "obeys \<delta> F H (Ret a) q = F q a"
| "obeys \<delta> F H (Halt h) q = H q h"
| "obeys \<delta> F H (Call c k) q = (case \<delta> q c of
     None \<Rightarrow> False | Some f \<Rightarrow> \<forall>r. typed c r \<longrightarrow> obeys \<delta> F H (k r) (f r))"

lemma obeys_mono:
  "obeys \<delta> F H p q \<Longrightarrow> (\<And>q a. F q a \<Longrightarrow> F' q a) \<Longrightarrow> (\<And>q h. H q h \<Longrightarrow> H' q h) \<Longrightarrow> obeys \<delta> F' H' p q"
  by (induction p arbitrary: q) (auto split: option.splits)

lemma obeys_not_nil: "obeys \<delta> F H p q \<Longrightarrow> H q Panicked \<Longrightarrow> obeys \<delta> F H (not_nil b p) q"
  by simp

lemma obeys_pbind:
  assumes "obeys \<delta> G H p q" and "\<And>q a. G q a \<Longrightarrow> obeys \<delta> F H (f a) q"
  shows "obeys \<delta> F H (pbind p f) q"
  using assms(1) by (induction p arbitrary: q) (auto intro: assms(2) split: option.splits)

lemma obeys_pguard:
  assumes "obeys \<delta> G K p q"
    and "\<And>q a. G q (Inr a) \<Longrightarrow> F q (Inr a)"
    and "\<And>q x. G q (Inl x) \<Longrightarrow> obeys \<delta> (\<lambda>q _. F q (Inl x)) H d q"
    and "\<And>q. K q Panicked \<Longrightarrow> obeys \<delta> (\<lambda>q _. H q Panicked) H d q"
    and "\<And>q h. K q h \<Longrightarrow> h \<noteq> Panicked \<Longrightarrow> H q h"
  shows "obeys \<delta> F H (pguard p d) q"
  using assms(1)
proof (induction p arbitrary: q)
  case (Ret x)
  then show ?case
    by (cases x) (auto intro!: obeys_pbind [OF assms(3)] assms(2))
next
  case (Halt h)
  then show ?case
    by (auto intro!: obeys_pbind [OF assms(4)] assms(5))
next
  case (Call c k)
  then show ?case by (auto split: option.splits)
qed

lemma obeys_pdefer:
  assumes "obeys \<delta> G K p q"
    and "\<And>q a. G q a \<Longrightarrow> obeys \<delta> (\<lambda>q _. F q a) H d q"
    and "\<And>q. K q Panicked \<Longrightarrow> obeys \<delta> (\<lambda>q _. H q Panicked) H d q"
    and "\<And>q h. K q h \<Longrightarrow> h \<noteq> Panicked \<Longrightarrow> H q h"
  shows "obeys \<delta> F H (pdefer p d) q"
  using assms(1)
proof (induction p arbitrary: q)
  case (Ret x)
  then show ?case by (auto intro!: obeys_pbind [OF assms(2)])
next
  case (Halt h)
  then show ?case by (auto intro!: obeys_pbind [OF assms(3)] assms(4))
next
  case (Call c k)
  then show ?case by (auto split: option.splits)
qed

text \<open>A program whose calls leave the state where it is.\<close>

lemma obeys_stays:
  assumes "calls_in S p" and "\<And>c. S c \<Longrightarrow> \<delta> q c = Some (\<lambda>_. q)"
    and "\<And>a. F q a" and "H q Panicked"
  shows "obeys \<delta> F H p q"
  using assms(1) by (induction p) (auto simp: assms(2,3,4))

text \<open>The states a protocol goes through along a trace.\<close>

fun follow :: "('q \<Rightarrow> call \<Rightarrow> (reply \<Rightarrow> 'q) option) \<Rightarrow> 'q \<Rightarrow> (call \<times> reply) list \<Rightarrow> 'q option" where
  "follow \<delta> q [] = Some q"
| "follow \<delta> q ((c, r) # cs) = (case \<delta> q c of None \<Rightarrow> None | Some f \<Rightarrow> follow \<delta> (f r) cs)"

lemma obeys_exec:
  assumes "obeys \<delta> F H p q"
  shows "\<exists>q'. follow \<delta> q (new_calls e p w) = Some q' \<and>
    (case fst (exec e p w) of Done a \<Rightarrow> F q' a | Stopped h \<Rightarrow> H q' h)"
  using assms
proof (induction p arbitrary: q w)
  case (Call c k)
  obtain r w' where h: "handle e c w = (r, w')" by fastforce
  from Call.prems handle_typed [of c e w] h obtain f where f: "\<delta> q c = Some f" and ok: "obeys \<delta> F H (k r) (f r)"
    by (auto split: option.splits)
  from Call.IH [OF rangeI ok, of w'] f h show ?case by simp
qed simp_all

section \<open>Results\<close>

text \<open>Whatever the replies, a result of the program satisfies F.\<close>

definition returns :: "('a \<Rightarrow> bool) \<Rightarrow> 'a prog \<Rightarrow> bool" where
  "returns F p = obeys (\<lambda>_ _. Some (\<lambda>_. ())) (\<lambda>_. F) (\<lambda>_ _. True) p ()"

lemma returns_simps [simp]:
  "returns F (Ret a) = F a" "returns F (Halt h)"
  "returns F (Call c k) = (\<forall>r. typed c r \<longrightarrow> returns F (k r))"
  by (simp_all add: returns_def)

lemma returns_pbind: "(\<And>a. returns F (f a)) \<Longrightarrow> returns F (pbind p f)"
  by (induction p) simp_all

lemma returns_exec: "returns F p \<Longrightarrow> wp e p (\<lambda>r w'. case r of Done a \<Rightarrow> F a | Stopped h \<Rightarrow> True) w"
  using obeys_exec [of "\<lambda>_ _. Some (\<lambda>_. ())" "\<lambda>_. F" "\<lambda>_ _. True" p "()" e w]
  by (auto simp: returns_def wp_def split: prod.split outcome.splits)

section \<open>Results and calls\<close>

text \<open>The program ends with F for the calls it has made, after the calls q.\<close>

definition traced :: "((call \<times> reply) list \<Rightarrow> 'a outcome \<Rightarrow> bool) \<Rightarrow> 'a prog \<Rightarrow> (call \<times> reply) list \<Rightarrow> bool" where
  "traced F = obeys (\<lambda>q c. Some (\<lambda>r. q @ [(c, r)])) (\<lambda>q a. F q (Done a)) (\<lambda>q h. F q (Stopped h))"

lemma traced_simps [simp]:
  "traced F (Ret a) q = F q (Done a)" "traced F (Halt h) q = F q (Stopped h)"
  "traced F (Call c k) q = (\<forall>r. typed c r \<longrightarrow> traced F (k r) (q @ [(c, r)]))"
  by (simp_all add: traced_def)

lemma traced_pbind:
  assumes "traced G p q" and "\<And>q a. G q (Done a) \<Longrightarrow> traced F (f a) q"
    and "\<And>q h. G q (Stopped h) \<Longrightarrow> F q (Stopped h)"
  shows "traced F (pbind p f) q"
  using assms(1) by (induction p arbitrary: q) (auto intro: assms(2,3))

lemma traced_or_panic: "(\<And>v. x = Some v \<Longrightarrow> traced F (k v) q) \<Longrightarrow> (x = None \<Longrightarrow> F q (Stopped Panicked)) \<Longrightarrow>
    traced F (or_panic x k) q"
  by (simp add: or_panic_def split: option.split)

lemma follow_trace: "follow (\<lambda>q c. Some (\<lambda>r. q @ [(c, r)])) q l = Some (q @ l)"
  by (induction l arbitrary: q) auto

lemma traced_exec: "traced F p [] \<Longrightarrow> F (new_calls e p w) (fst (exec e p w))"
  using obeys_exec [of "\<lambda>q c. Some (\<lambda>r. q @ [(c, r)])" _ _ p "[]" e w]
  by (fastforce simp: traced_def follow_trace split: outcome.splits)

end
