(* ===== verification/Footprints.thy ===== *)
theory Footprints
  imports Service Webhook Prog_Rules
begin

text \<open>
  What each operation touches.  The calls are sorted into kinds, and every operation is bounded by
  the kinds of call it can make on any branch; the arguments about reservations, about the memory
  of the credentials and about the tables read off these bounds what an operation leaves alone.
\<close>

datatype kind =
    KTime | KMemory | KReserve | KSettle | KFill | KSave | KRead | KVault | KMarketData | KOrder
  | KLedger | KCache

fun call_kind :: "call \<Rightarrow> kind" where
  "call_kind CNow = KTime"
| "call_kind CNewUUID = KTime"
| "call_kind (CWait n) = KTime"
| "call_kind (CExec st) =
     (case st of InsertOrder _ \<Rightarrow> KReserve | ConfirmStmt _ _ _ _ _ _ \<Rightarrow> KSettle | DeleteStmt _ _ \<Rightarrow> KReserve
      | FillStmt _ _ _ _ _ \<Rightarrow> KFill | UpsertCred _ \<Rightarrow> KSave)"
| "call_kind (CQueryOrder q) = KRead"
| "call_kind (CQueryCred t p) = KRead"
| "call_kind (CAlloc bs) = KMemory"
| "call_kind (CLoad a) = KMemory"
| "call_kind (CWipe a) = KMemory"
| "call_kind (CNewCreds c) = KMemory"
| "call_kind (CGetCreds p) = KMemory"
| "call_kind (CSetCreds p c) = KMemory"
| "call_kind (CVault r) = KVault"
| "call_kind (CBinance r) = (if hr_method r = ''POST'' then KOrder else KMarketData)"
| "call_kind (CCaptureHold r) = KLedger"
| "call_kind (CCredit r) = KLedger"
| "call_kind (CGetBalance a) = KLedger"
| "call_kind (CInitAccount r) = KLedger"
| "call_kind (CGetAccount r) = KLedger"
| "call_kind (CSyncExecution r) = KLedger"
| "call_kind (CRedisMGet ks) = KCache"
| "call_kind (CRedisSet es) = KCache"

definition uses :: "kind set \<Rightarrow> 'a prog \<Rightarrow> bool" where
  "uses K = calls_in (\<lambda>c. call_kind c \<in> K)"

lemma uses_mono: "uses K p \<Longrightarrow> K \<subseteq> L \<Longrightarrow> uses L p"
  by (auto simp: uses_def elim: calls_in_mono)

lemma uses_Ret [simp]: "uses K (Ret a)" "uses K (Halt Panicked)"
  by (simp_all add: uses_def)

lemma uses_seq:
  "uses K p \<Longrightarrow> (\<And>a. uses K (f a)) \<Longrightarrow> uses K (pbind p f)"
  "uses K p \<Longrightarrow> uses K d \<Longrightarrow> uses K (pdefer p d)"
  "uses K p' \<Longrightarrow> uses K d \<Longrightarrow> uses K (pguard p' d)"
  "(\<And>v. uses K (k v)) \<Longrightarrow> uses K (or_panic x k)"
  by (simp_all add: uses_def calls_in_pbind calls_in_pdefer calls_in_pguard calls_in_or_panic)

lemma uses_typed:
  "KTime \<in> K \<Longrightarrow> (\<And>x. uses K (k1 x)) \<Longrightarrow> uses K (c_now k1)"
  "KTime \<in> K \<Longrightarrow> (\<And>x. uses K (k2 x)) \<Longrightarrow> uses K (c_uuid k2)"
  "KTime \<in> K \<Longrightarrow> (\<And>x. uses K (k6 x)) \<Longrightarrow> uses K (c_wait n k6)"
  "call_kind (CExec st) \<in> K \<Longrightarrow> (\<And>x. uses K (k3 x)) \<Longrightarrow> uses K (c_exec st k3)"
  "KRead \<in> K \<Longrightarrow> (\<And>x. uses K (k4 x)) \<Longrightarrow> uses K (c_query_order q k4)"
  "KRead \<in> K \<Longrightarrow> (\<And>x. uses K (k5 x)) \<Longrightarrow> uses K (c_query_cred t u k5)"
  "KMemory \<in> K \<Longrightarrow> (\<And>x. uses K (k7 x)) \<Longrightarrow> uses K (c_alloc bs k7)"
  "KMemory \<in> K \<Longrightarrow> (\<And>x. uses K (k8 x)) \<Longrightarrow> uses K (c_load a k8)"
  "KMemory \<in> K \<Longrightarrow> uses K p \<Longrightarrow> uses K (c_wipe a p)"
  "KMemory \<in> K \<Longrightarrow> (\<And>x. uses K (k9 x)) \<Longrightarrow> uses K (c_new_creds cr k9)"
  "KMemory \<in> K \<Longrightarrow> (\<And>x. uses K (k10 x)) \<Longrightarrow> uses K (c_get_creds a k10)"
  "KMemory \<in> K \<Longrightarrow> uses K p \<Longrightarrow> uses K (c_set_creds a cr p)"
  "call_kind h \<in> K \<Longrightarrow> (\<And>r. typed h r \<Longrightarrow> \<exists>x. r = RHttp x) \<Longrightarrow> (\<And>x. uses K (k11 x)) \<Longrightarrow> uses K (c_http h k11)"
  "call_kind h \<in> K \<Longrightarrow> (\<And>r. typed h r \<Longrightarrow> \<exists>x. r = RAck x) \<Longrightarrow> (\<And>x. uses K (k12 x)) \<Longrightarrow> uses K (c_ack h k12)"
  "KLedger \<in> K \<Longrightarrow> (\<And>x. uses K (k13 x)) \<Longrightarrow> uses K (c_balance t k13)"
  "call_kind h \<in> K \<Longrightarrow> (\<And>r. typed h r \<Longrightarrow> \<exists>x. r = RAccount x) \<Longrightarrow> (\<And>x. uses K (k14 x)) \<Longrightarrow> uses K (c_account h k14)"
  "KCache \<in> K \<Longrightarrow> (\<And>x. uses K (k15 x)) \<Longrightarrow> uses K (c_mget ks k15)"
  by (simp_all add: uses_def calls_in_typed)

lemmas uses_intros = uses_seq uses_typed

text \<open>A program that makes no statement leaves the tables alone, and ends with a result or a panic.\<close>

definition changes_tables :: "kind set" where
  "changes_tables = {KReserve, KSettle, KFill, KSave}"

lemma uses_tables:
  assumes "uses K p" and "K \<inter> changes_tables = {}"
  shows "wp e p (\<lambda>r w'. w_db w' = w_db w) w"
proof (rule wp_calls_in [OF assms(1) [unfolded uses_def], where I = "\<lambda>w'. w_db w' = w_db w"])
  fix c and w' :: world
  assume c: "call_kind c \<in> K" and "w_db w' = w_db w"
  have "c \<noteq> CExec st" for st
    using c assms(2) by (cases st) (auto simp: changes_tables_def)
  with handle_db [of e c w'] \<open>w_db w' = w_db w\<close> show "w_db (snd (handle e c w')) = w_db w" by auto
qed simp

lemma uses_ends: "uses K p \<Longrightarrow> wp e p (\<lambda>r w'. finished r) w"
  using calls_in_ends [of _ p e w] by (auto simp: uses_def wp_def split: prod.split)

lemma uses_frame:
  "uses K p \<Longrightarrow> K \<inter> changes_tables = {} \<Longrightarrow>
     wp e p (\<lambda>r w'. w_db w' = w_db w \<and> finished r) w"
  using uses_tables [of K p e w] uses_ends [of K p e w] by (auto simp: wp_def split: prod.splits)

lemma get_request_method [simp]: "hr_method (get_request url hs) = ''GET''"
  by (simp add: get_request_def)

lemma order_request_method [simp]: "hr_method (order_request c params key sec) = ''POST''"
  by (simp add: order_request_def)

section \<open>Vault\<close>

lemma Zero_uses: "uses {KMemory} (Zero ptr)"
  by (auto simp: Zero_def intro!: uses_intros split: option.split prod.split)

lemma Decrypt_uses: "uses {KMemory, KVault} (Decrypt c ct)"
  by (auto simp: Decrypt_def intro!: uses_intros split: option.split prod.split sum.split)

lemma decrypt_each_uses: "uses {KMemory, KVault} (decrypt_each c k s)"
  by (auto simp: decrypt_each_def intro!: uses_intros Decrypt_uses split: sum.split)

lemma DecryptCredentials_uses: "uses {KMemory, KVault} (DecryptCredentials c k s)"
  by (auto simp: DecryptCredentials_def intro!: uses_intros decrypt_each_uses
      split: option.split prod.split)

section \<open>Broker\<close>

lemma load_slice_uses: "(\<And>x. uses K (k x)) \<Longrightarrow> KMemory \<in> K \<Longrightarrow> uses K (load_slice s k)"
  by (auto simp: load_slice_def intro!: uses_intros split: option.split)

lemma with_credentials_uses:
  assumes "\<And>x y. uses K (body x y)" and "KMemory \<in> K"
  shows "uses K (with_credentials creds m body)"
proof -
  have "uses K (Zero creds)" using uses_mono [OF Zero_uses] assms(2) by blast
  with assms show ?thesis
    by (auto simp: with_credentials_def intro!: uses_intros load_slice_uses split: option.split)
qed

lemma order_answer_uses: "uses K (order_answer res)"
  by (auto simp: order_answer_def intro!: uses_intros split: option.split sum.split)

lemma balance_answer_uses: "uses K (balance_answer res)"
  by (auto simp: balance_answer_def split: option.split sum.split)

lemma PlaceMarketOrder_uses: "uses {KMemory, KTime, KOrder} (PlaceMarketOrder c creds r)"
  by (auto simp: PlaceMarketOrder_def intro!: with_credentials_uses uses_intros order_answer_uses
      split: prod.split)

lemma GetAccountBalances_uses: "uses {KMemory, KTime, KMarketData} (GetAccountBalances c creds)"
  by (auto simp: GetAccountBalances_def Let_def intro!: with_credentials_uses uses_intros balance_answer_uses)

lemma ticker_answer_uses: "uses K (ticker_answer single res)"
  by (auto simp: ticker_answer_def intro!: uses_intros split: option.split sum.split)

lemma GetBookTickers_uses: "uses {KMarketData} (GetBookTickers c symbols)"
  by (auto simp: GetBookTickers_def ticker_request_def intro!: uses_intros ticker_answer_uses)

lemma ValidateSymbols_uses: "uses {KMarketData} (ValidateSymbols c symbols)"
  by (auto simp: ValidateSymbols_def intro!: uses_intros split: option.split sum.split)

section \<open>Ledger, worker, cache\<close>

lemma GetOrCreateBrokerAccount_uses: "uses {KLedger} (GetOrCreateBrokerAccount t)"
  by (auto simp: GetOrCreateBrokerAccount_def Let_def intro!: uses_intros split: option.split sum.split)

lemma GetBalance_uses: "uses {KLedger} (GetBalance a)"
  by (auto simp: GetBalance_def intro!: uses_intros split: sum.split)

lemma settle_uses: "uses {KLedger} (settle p order event v q st)"
  by (auto simp: settle_def SyncBrokerExecution_def CaptureHold_def Credit_def
      intro!: uses_intros GetOrCreateBrokerAccount_uses split: option.split sum.split)

lemma ProcessFill_uses: "uses {KRead, KLedger, KFill} (ProcessFill p event)"
  by (auto simp: ProcessFill_def apply_fill_def GetOrderByProviderOrderID_def UpdateOrderFill_def Let_def
      intro!: uses_intros uses_mono [OF settle_uses] split: sum.split)

lemma Cache_uses:
  "uses {KCache} (Cache_GetQuotes p ss)" "uses {KCache} (Cache_SetQuotes c p qs t)"
  "uses {KCache} (Cache_GetStaleQuotes p ss)" "uses {KCache} (Cache_GetStaleQuote p sy)"
  by (auto simp: Cache_GetQuotes_def Cache_SetQuotes_def Cache_GetStaleQuotes_def Cache_GetStaleQuote_def
      intro!: uses_intros split: option.split sum.split prod.split list.split)

section \<open>Handlers\<close>

lemma load_credentials_uses: "uses {KRead, KMemory, KVault} (load_credentials s tenant provider a b c)"
  by (auto simp: load_credentials_def GetCredentials_def
      intro!: uses_intros uses_mono [OF DecryptCredentials_uses] split: option.split sum.split)

lemma dispatch_order_uses: "uses {KMemory, KTime, KOrder} (dispatch_order s p r)"
  by (auto simp: dispatch_order_def intro!: uses_seq PlaceMarketOrder_uses split: sum.split)

lemma settle_order_uses: "uses {KSettle, KRead, KLedger, KFill} (settle_order s req pr sd ord res)"
  by (auto simp: settle_order_def ConfirmOrder_def Let_def
      intro!: uses_intros uses_mono [OF ProcessFill_uses] split: option.split sum.split)

lemma ledger_balance_uses: "uses {KLedger} (ledger_balance s req)"
  by (auto simp: ledger_balance_def intro!: uses_seq(1) GetOrCreateBrokerAccount_uses GetBalance_uses
      split: sum.split)

lemma SyncBrokerBalances_uses:
  "uses {KRead, KMemory, KVault, KTime, KMarketData, KLedger} (SyncBrokerBalances s req)"
  by (auto simp: SyncBrokerBalances_def reconcile_def Let_def
      intro!: uses_seq(1) uses_seq(2) uses_mono [OF load_credentials_uses]
        uses_mono [OF GetAccountBalances_uses] uses_mono [OF ledger_balance_uses] uses_mono [OF Zero_uses]
      split: sum.split)

lemma GetQuotes_uses: "uses {KCache, KMarketData, KTime} (GetQuotes s symbols provider)"
  by (auto simp: GetQuotes_def Let_def
      intro!: uses_seq(1) uses_typed uses_mono [OF Cache_uses(1)] uses_mono [OF Cache_uses(2)]
        uses_mono [OF Cache_uses(3)] uses_mono [OF GetBookTickers_uses]
      split: sum.split)

lemma ValidateTickers_uses: "uses {KMarketData} (ValidateTickers s symbols)"
  by (auto simp: ValidateTickers_def intro!: uses_seq(1) ValidateSymbols_uses split: sum.split)

lemma handleBinanceOrderWebhook_uses: "uses {KRead, KLedger, KFill} (handleBinanceOrderWebhook s method body)"
proof -
  have "uses {KRead, KLedger, KFill} (process_event s event)" for event
    by (auto simp: process_event_def intro!: uses_seq(1) ProcessFill_uses split: sum.split)
  then show ?thesis
    by (auto simp: handleBinanceOrderWebhook_def intro!: uses_seq(4) split: option.split)
qed

lemma releaseReservation_uses: "uses {KReserve} (releaseReservation ord)"
  by (auto simp: releaseReservation_def ReleaseOrder_def intro!: uses_intros split: sum.split)

end
