(* ===== verification/Quantities.thy ===== *)
theory Quantities
  imports Footprints Decimal_Text
begin

text \<open>
  The quantity of an order: what TruncateToStepSize computes, as rational numbers.  The quotient
  is rounded to 16 digits before it is cut down, so the result is the largest multiple of the step
  up to the quantity exactly when that quotient has no more digits, and can exceed it by half a
  unit of the 16th digit of a step otherwise.
\<close>

section \<open>The default steps\<close>

definition step_of :: "nat \<Rightarrow> decimal \<Rightarrow> bool" where
  "step_of j s \<longleftrightarrow> dval s = 1 / 10 ^ j \<and> small_expo s \<and> step_decimals (Decimal_String s) = j"

lemma step_of_literals:
  "step_of 5 \<lparr>coef = 1000, expo = -8\<rparr>" "step_of 4 \<lparr>coef = 10000, expo = -8\<rparr>"
  "step_of 2 \<lparr>coef = 1000000, expo = -8\<rparr>" "step_of 3 \<lparr>coef = 100000, expo = -8\<rparr>"
  "step_of 0 \<lparr>coef = 100000000, expo = -8\<rparr>" "step_of 1 \<lparr>coef = 10000000, expo = -8\<rparr>"
  by (simp_all add: step_of_def dval_def small_expo_def power_int_minus_divide step_decimals_def dec_eval)

lemma require_literals:
  "RequireFromString ''0.00001000'' = Some \<lparr>coef = 1000, expo = -8\<rparr>"
  "RequireFromString ''0.00010000'' = Some \<lparr>coef = 10000, expo = -8\<rparr>"
  "RequireFromString ''0.01000000'' = Some \<lparr>coef = 1000000, expo = -8\<rparr>"
  "RequireFromString ''0.00100000'' = Some \<lparr>coef = 100000, expo = -8\<rparr>"
  "RequireFromString ''1.00000000'' = Some \<lparr>coef = 100000000, expo = -8\<rparr>"
  "RequireFromString ''0.10000000'' = Some \<lparr>coef = 10000000, expo = -8\<rparr>"
  by (simp_all add: RequireFromString_def parse_eval)

lemma default_step: "\<exists>s j. GetDefaultStepSize symbol = Some s \<and> step_of j s \<and> j \<le> 5"
proof -
  have "GetDefaultStepSize symbol \<in> Some ` {\<lparr>coef = 1000, expo = -8\<rparr>, \<lparr>coef = 10000, expo = -8\<rparr>,
      \<lparr>coef = 1000000, expo = -8\<rparr>, \<lparr>coef = 100000, expo = -8\<rparr>, \<lparr>coef = 100000000, expo = -8\<rparr>,
      \<lparr>coef = 10000000, expo = -8\<rparr>}"
    unfolding GetDefaultStepSize_def Let_def require_literals by (simp split: if_split)
  then show ?thesis using step_of_literals
    by (elim imageE insertE emptyE) force+
qed

section \<open>The truncated quantity\<close>

lemma dval_places: "dval \<lparr>coef = c, expo = - int n\<rparr> = of_int c / 10 ^ n"
  by (simp add: dval_def power_int_minus_divide)

text \<open>The quotient as the code has it: rounded to 16 digits.\<close>

definition rounded16 :: "rat \<Rightarrow> rat" where
  "rounded16 x = of_int (round_away (x * 10 ^ 16)) / 10 ^ 16"

lemma rounded16_bound: "\<bar>rounded16 x - x\<bar> \<le> 1 / (2 * 10 ^ 16)"
  unfolding rounded16_def by (rule scaled_bound) (rule round_away_bound)

lemma rounded16_exact: "x * 10 ^ 16 = of_int n \<Longrightarrow> rounded16 x = x"
  by (simp add: rounded16_def)

lemma Truncate_value:
  assumes "step_of j s" and "small_expo q"
  shows "\<exists>z. TruncateToStepSize q s = Some (z, Decimal_StringFixed z (int j)) \<and>
    dval z = of_int \<lfloor>rounded16 (dval q * 10 ^ j)\<rfloor> / 10 ^ j"
proof -
  have s: "dval s = 1 / 10 ^ j" "small_expo s" "step_decimals (Decimal_String s) = j"
    using assms(1) by (simp_all add: step_of_def)
  then have pos: "0 < dval s" and nz: "coef s \<noteq> 0" by (auto simp: dval_def)
  define d :: decimal where "d = \<lparr>coef = round_away (dval q / dval s * 10 ^ 16), expo = - 16\<rparr>"
  have div: "Decimal_Div q s = Some d"
    unfolding d_def by (rule Div_eq [OF nz assms(2) s(2)])
  have dv: "dval d = rounded16 (dval q * 10 ^ j)"
    using dval_places [of _ 16] by (simp add: d_def rounded16_def s(1))
  have e: "expo (Decimal_Floor d) = 0" by (simp add: Decimal_Floor_def d_def)
  obtain z where mul: "Decimal_Mul (Decimal_Floor d) s = Some z"
    using s(2) e by (cases "Decimal_Mul (Decimal_Floor d) s")
      (auto simp: Decimal_Mul_def Let_def small_expo_def split: if_splits)
  have "dval z = of_int \<lfloor>rounded16 (dval q * 10 ^ j)\<rfloor> / 10 ^ j"
    using dval_Mul [OF mul] dv s(1) by (simp add: dec_simps)
  moreover have "\<not> Decimal_LessThanOrEqual s Decimal_Zero"
    using pos by (simp add: dec_simps)
  ultimately show ?thesis
    by (simp add: TruncateToStepSize_def div mul s(3))
qed

text \<open>The text sent is the quantity, because it is a multiple of the step.\<close>

lemma fixed_multiple:
  assumes "dval z = of_int n / 10 ^ j" and "j \<le> 5"
  shows "\<exists>d. Decimal_NewFromString (Decimal_StringFixed z (int j)) = Inr d \<and> dval d = dval z"
proof -
  have "Decimal_NewFromString (Decimal_StringFixed z (int j)) = Inr (Decimal_Round z (int j))"
    using assms(2) by (intro StringFixed_parse) auto
  moreover have "Decimal_Round z (int j) = \<lparr>coef = round_away (dval z * 10 powi int j), expo = - int j\<rparr>"
    using assms(2) by (intro Round_eq) (auto simp: in32_def)
  moreover have "dval z * 10 powi int j = of_int n"
    using assms(1) by simp
  ultimately show ?thesis
    by (simp add: dval_places assms(1))
qed

text \<open>A quantity of at most 16 fractional digits has an exact quotient by every default step.\<close>

lemma sixteen_digits:
  assumes "- 16 \<le> expo q"
  shows "\<exists>n. dval q * 10 ^ j * 10 ^ 16 = (of_int n :: rat)"
proof -
  have "dval q * 10 ^ j * 10 ^ 16 = of_int (coef q) * (10 powi expo q * 10 powi int (j + 16))"
    unfolding dval_def power_int_of_nat power_add by (simp only: mult.assoc)
  also have "\<dots> = of_int (coef q * 10 ^ nat (expo q + int (j + 16)))"
    using assms by (simp add: of_int_pow10 flip: pow10_add)
  finally show ?thesis by blast
qed

lemma floor_multiple_bounds:
  fixes x :: rat
  shows "of_int \<lfloor>x * 10 ^ j\<rfloor> / 10 ^ j \<le> x" and "x < of_int \<lfloor>x * 10 ^ j\<rfloor> / 10 ^ j + 1 / 10 ^ j"
proof -
  have p: "(0 :: rat) < 10 ^ j" by simp
  show "of_int \<lfloor>x * 10 ^ j\<rfloor> / 10 ^ j \<le> x"
    using of_int_floor_le [of "x * 10 ^ j"] p by (simp add: divide_le_eq)
  show "x < of_int \<lfloor>x * 10 ^ j\<rfloor> / 10 ^ j + 1 / 10 ^ j"
    using floor_correct [of "x * 10 ^ j"] p by (simp add: field_simps)
qed

section \<open>Properties\<close>

text \<open>C8: TruncateToStepSize cuts a quantity of at most 16 fractional digits down to the largest
  multiple of the symbol's step that does not exceed it, and the text it returns for the request
  parses to exactly that multiple.\<close>

theorem truncate_correct:
  assumes "GetDefaultStepSize symbol = Some s" and "small_expo q" and "- 16 \<le> expo q"
  shows "\<exists>z txt d n. TruncateToStepSize q s = Some (z, txt) \<and> dval z = of_int n * dval s \<and>
    dval z \<le> dval q \<and> dval q < dval z + dval s \<and>
    Decimal_NewFromString txt = Inr d \<and> dval d = dval z"
proof -
  obtain j where j: "step_of j s" "j \<le> 5" using default_step [of symbol] assms(1) by auto
  then have s: "dval s = 1 / 10 ^ j" by (simp add: step_of_def)
  let ?n = "\<lfloor>dval q * 10 ^ j\<rfloor>"
  have "rounded16 (dval q * 10 ^ j) = dval q * 10 ^ j"
    using sixteen_digits [OF assms(3), of j] rounded16_exact by blast
  with Truncate_value [OF j(1) assms(2)] obtain z where
    z: "TruncateToStepSize q s = Some (z, Decimal_StringFixed z (int j))" "dval z = of_int ?n / 10 ^ j"
    by auto
  obtain d where "Decimal_NewFromString (Decimal_StringFixed z (int j)) = Inr d" "dval d = dval z"
    using fixed_multiple [OF z(2) j(2)] by blast
  moreover have "dval z = of_int ?n * dval s" by (simp add: z(2) s)
  moreover have "dval z \<le> dval q" "dval q < dval z + dval s"
    unfolding s z(2) by (rule floor_multiple_bounds)+
  ultimately show ?thesis using z(1) by blast
qed

theorem truncate_correct_witness:
  "\<exists>z txt d n. TruncateToStepSize \<lparr>coef = 12345, expo = -8\<rparr> \<lparr>coef = 1000, expo = -8\<rparr> = Some (z, txt) \<and>
    dval z = of_int n * dval \<lparr>coef = 1000, expo = -8\<rparr> \<and> dval z \<le> dval \<lparr>coef = 12345, expo = -8\<rparr> \<and>
    dval \<lparr>coef = 12345, expo = -8\<rparr> < dval z + dval \<lparr>coef = 1000, expo = -8\<rparr> \<and>
    Decimal_NewFromString txt = Inr d \<and> dval d = dval z"
proof (rule truncate_correct)
  show "GetDefaultStepSize ''BTCUSDT'' = Some \<lparr>coef = 1000, expo = -8\<rparr>"
    by (simp add: GetDefaultStepSize_def to_upper_def str_eval trim_eval require_literals)
qed (simp_all add: small_expo_def)

text \<open>C9: Whatever the number of digits of the quantity, TruncateToStepSize succeeds, and the result
  exceeds the quantity by at most half a unit of the 16th digit of a step and falls short of it by
  less than a step and that half unit.\<close>

theorem truncate_bounds:
  assumes "GetDefaultStepSize symbol = Some s" and "small_expo q"
  shows "\<exists>z txt n. TruncateToStepSize q s = Some (z, txt) \<and> dval z = of_int n * dval s \<and>
    dval z \<le> dval q + dval s / (2 * 10 ^ 16) \<and> dval q - dval s - dval s / (2 * 10 ^ 16) < dval z"
proof -
  obtain j where j: "step_of j s" using default_step [of symbol] assms(1) by auto
  then have s: "dval s = 1 / 10 ^ j" by (simp add: step_of_def)
  let ?x = "rounded16 (dval q * 10 ^ j)"
  obtain z where z: "TruncateToStepSize q s = Some (z, Decimal_StringFixed z (int j))"
    "dval z = of_int \<lfloor>?x\<rfloor> / 10 ^ j"
    using Truncate_value [OF j assms(2)] by blast
  have p: "(0 :: rat) < 10 ^ j" by simp
  have lo: "of_int \<lfloor>?x\<rfloor> \<le> dval q * 10 ^ j + 1 / (2 * 10 ^ 16)"
    and hi: "dval q * 10 ^ j - 1 - 1 / (2 * 10 ^ 16) < of_int \<lfloor>?x\<rfloor>"
    using rounded16_bound [of "dval q * 10 ^ j"] floor_correct [of ?x] by linarith+
  have "dval z \<le> (dval q * 10 ^ j + 1 / (2 * 10 ^ 16)) / 10 ^ j"
    unfolding z(2) using lo p by (intro divide_right_mono) simp_all
  then have "dval z \<le> dval q + dval s / (2 * 10 ^ 16)"
    by (simp add: s add_divide_distrib)
  moreover have "(dval q * 10 ^ j - 1 - 1 / (2 * 10 ^ 16)) / 10 ^ j < dval z"
    unfolding z(2) using hi p by (rule divide_strict_right_mono)
  then have "dval q - dval s - dval s / (2 * 10 ^ 16) < dval z"
    by (simp add: s diff_divide_distrib)
  moreover have "dval z = of_int \<lfloor>?x\<rfloor> * dval s" by (simp add: z(2) s)
  ultimately show ?thesis using z(1) by blast
qed

theorem truncate_bounds_witness:
  "\<exists>z txt n. TruncateToStepSize \<lparr>coef = 1, expo = -30\<rparr> \<lparr>coef = 10000, expo = -8\<rparr> = Some (z, txt) \<and>
    dval z = of_int n * dval \<lparr>coef = 10000, expo = -8\<rparr> \<and>
    dval z \<le> dval \<lparr>coef = 1, expo = -30\<rparr> + dval \<lparr>coef = 10000, expo = -8\<rparr> / (2 * 10 ^ 16) \<and>
    dval \<lparr>coef = 1, expo = -30\<rparr> - dval \<lparr>coef = 10000, expo = -8\<rparr>
      - dval \<lparr>coef = 10000, expo = -8\<rparr> / (2 * 10 ^ 16) < dval z"
proof (rule truncate_bounds)
  show "GetDefaultStepSize ''ETHUSDT'' = Some \<lparr>coef = 10000, expo = -8\<rparr>"
    by (simp add: GetDefaultStepSize_def to_upper_def str_eval trim_eval require_literals)
qed (simp_all add: small_expo_def)


section \<open>The order that is sent\<close>

text \<open>What an order call of PlaceMarketOrder carries.\<close>

definition order_call_for :: "binanceClient \<Rightarrow> MarketOrderRequest \<Rightarrow> call \<Rightarrow> bool" where
  "order_call_for c r call \<longleftrightarrow> (\<exists>now txt key sec z step.
     call = CBinance (order_request c (order_params c r txt now) key sec) \<and>
     GetDefaultStepSize (mo_Symbol r) = Some step \<and>
     TruncateToStepSize (mo_Quantity r) step = Some (z, txt) \<and> 0 < dval z \<and> 0 < dval (mo_Quantity r))"

definition once :: "(call \<Rightarrow> bool) \<Rightarrow> bool \<Rightarrow> call \<Rightarrow> (reply \<Rightarrow> bool) option" where
  "once P sent c =
     (if call_kind c = KOrder then (if \<not> sent \<and> P c then Some (\<lambda>_. True) else None)
      else Some (\<lambda>_. sent))"

lemma once_other: "call_kind c \<noteq> KOrder \<Longrightarrow> once P sent c = Some (\<lambda>_. sent)"
  by (simp add: once_def)

lemma follow_once:
  "follow (once P) sent cs = Some q \<Longrightarrow>
     (sent \<longrightarrow> (\<forall>(c, r) \<in> set cs. call_kind c \<noteq> KOrder)) \<and>
     length (filter (\<lambda>(c, r). call_kind c = KOrder) cs) \<le> 1 \<and>
     (\<forall>(c, r) \<in> set cs. call_kind c = KOrder \<longrightarrow> P c)"
proof (induction cs arbitrary: sent)
  case (Cons x cs)
  obtain c r where x: "x = (c, r)" by (cases x)
  from Cons.prems obtain f where f: "once P sent c = Some f" and rest: "follow (once P) (f r) cs = Some q"
    by (auto simp: x split: option.splits)
  show ?case
  proof (cases "call_kind c = KOrder")
    case True
    with f have "\<not> sent" "P c" "f r" by (auto simp: once_def split: if_splits)
    with Cons.IH [OF rest] True show ?thesis by (auto simp: x filter_empty_conv)
  next
    case False
    with f have "f r = sent" by (auto simp: once_def)
    with Cons.IH [OF rest] False show ?thesis by (auto simp: x)
  qed
qed simp

lemma uses_once: "uses K p \<Longrightarrow> KOrder \<notin> K \<Longrightarrow> (\<And>a. F q a) \<Longrightarrow> (\<And>h. H q h) \<Longrightarrow> obeys (once P) F H p q"
  unfolding uses_def by (erule obeys_stays) (auto intro: once_other)

lemma with_credentials_once:
  assumes "\<And>x y. obeys (once P) (\<lambda>_ _. True) (\<lambda>_ _. True) (body x y) False"
  shows "obeys (once P) (\<lambda>_ _. True) (\<lambda>_ _. True) (with_credentials creds m body) False"
proof -
  have "obeys (once P) (\<lambda>_ _. True) (\<lambda>_ _. True) (pdefer (body x y) (Zero creds)) False" for x y
    by (rule obeys_pdefer [OF assms]) (auto intro: uses_once [OF Zero_uses])
  then show ?thesis
    by (auto simp: with_credentials_def load_slice_def call_defs once_other split: option.split reply.split)
qed

lemma PlaceMarketOrder_once:
  "obeys (once (order_call_for c r)) (\<lambda>_ _. True) (\<lambda>_ _. True) (PlaceMarketOrder c creds r) False"
  unfolding PlaceMarketOrder_def
proof (rule with_credentials_once)
  fix key sec
  have ans: "obeys (once P) (\<lambda>_ _. True) (\<lambda>_ _. True) (order_answer x) q" for P x q
    by (rule uses_once [OF order_answer_uses [of "{}"]]) simp_all
  have "obeys (once (order_call_for c r)) (\<lambda>_ _. True) (\<lambda>_ _. True)
      (c_now (\<lambda>now. c_http (CBinance (order_request c (order_params c r t now) key sec)) order_answer)) False"
    if "GetDefaultStepSize (mo_Symbol r) = Some step" "TruncateToStepSize (mo_Quantity r) step = Some (z, t)"
      "0 < dval z" "0 < dval (mo_Quantity r)" for step z t
  proof -
    have "order_call_for c r (CBinance (order_request c (order_params c r t now) key sec))" for now
      unfolding order_call_for_def using that by blast
    then show ?thesis
      by (auto simp: c_now_def c_http_def once_def ans split: reply.split)
  qed
  then show "obeys (once (order_call_for c r)) (\<lambda>_ _. True) (\<lambda>_ _. True)
      (if Decimal_LessThanOrEqual (mo_Quantity r) Decimal_Zero then Ret (Inl ErrInvalidQuantity)
       else or_panic (GetDefaultStepSize (mo_Symbol r)) (\<lambda>stepSize.
         or_panic (TruncateToStepSize (mo_Quantity r) stepSize) (\<lambda>(quantizedQty, qtyStr).
           if Decimal_LessThanOrEqual quantizedQty Decimal_Zero then Ret (Inl ErrInvalidQuantity)
           else c_now (\<lambda>now. c_http (CBinance (order_request c (order_params c r qtyStr now) key sec))
                  order_answer)))) False"
    by (auto simp: or_panic_def dec_simps simp del: dval_gr_0 dval_less_0 split: option.split)
qed


end
