(* ===== verification/Trade_Safety.thy ===== *)
theory Trade_Safety
  imports Footprints
begin

text \<open>
  At most one accepted broker order for a trade, however requests interleave and whatever fails.

  Every request to the service is a thread; all of them share one PostgreSQL.  A thread that
  executes a trade follows a protocol: it must have inserted the reservation of its trade before
  it may send an order to the broker, it deletes only a reservation it holds, and neither once
  the broker has accepted an order.  \<open>protocol\<close> is that automaton, \<open>ExecuteTrade_obeys\<close> says that
  the handler follows it on every branch, and \<open>good\<close> is the invariant that ties the states of the
  threads to the rows of the table.
\<close>

section \<open>Requests as threads\<close>

datatype request =
    TradeRequest PregaoServer ExecuteTradeRequest
  | FillRequest fillProcessor FillEvent
  | BalancesRequest PregaoServer SyncBrokerBalancesRequest
  | QuotesRequest PregaoServer "string list" string
  | TickersRequest PregaoServer "string list"
  | CredentialsRequest BrokerCredential
  | WebhookRequest Server string http_body

primrec serve :: "request \<Rightarrow> unit prog" where
  "serve (TradeRequest s req) = pbind (ExecuteTrade s req) (\<lambda>_. Ret ())"
| "serve (FillRequest p event) = pbind (ProcessFill p event) (\<lambda>_. Ret ())"
| "serve (BalancesRequest s req) = pbind (SyncBrokerBalances s req) (\<lambda>_. Ret ())"
| "serve (QuotesRequest s symbols provider) = pbind (GetQuotes s symbols provider) (\<lambda>_. Ret ())"
| "serve (TickersRequest s symbols) = pbind (ValidateTickers s symbols) (\<lambda>_. Ret ())"
| "serve (CredentialsRequest cred) = pbind (SaveCredentials cred) (\<lambda>_. Ret ())"
| "serve (WebhookRequest s method body) = pbind (handleBinanceOrderWebhook s method body) (\<lambda>_. Ret ())"

definition serving :: "(nat \<Rightarrow> request) \<Rightarrow> unit sys \<Rightarrow> bool" where
  "serving reqs s \<longleftrightarrow>
     tables_ok (w_db (s_world s)) \<and> s_log s = [] \<and> (\<forall>i. s_threads s i = serve (reqs i))"

text \<open>Two requests for the same trade: the same intent, or the same tenant and non-empty key.\<close>

fun same_trade :: "request \<Rightarrow> request \<Rightarrow> bool" where
  "same_trade (TradeRequest _ a) (TradeRequest _ b) \<longleftrightarrow>
     uuid_Parse (tr_TradeIntentId a) = uuid_Parse (tr_TradeIntentId b) \<or>
     (tr_TenantId a = tr_TenantId b \<and> tr_IdempotencyKey a = tr_IdempotencyKey b \<and> tr_IdempotencyKey a \<noteq> [])"
| "same_trade _ _ = False"

text \<open>An order the broker has accepted: the reply on which PlaceMarketOrder succeeds.\<close>

definition accepted :: "call \<Rightarrow> reply \<Rightarrow> bool" where
  "accepted c r \<longleftrightarrow> call_kind c = KOrder \<and>
     (case r of RHttp x \<Rightarrow> (case order_answer x of Ret (Inr _) \<Rightarrow> True | _ \<Rightarrow> False) | _ \<Rightarrow> False)"

section \<open>The protocol of a trade\<close>

type_synonym trade_key = "uuid \<times> string \<times> string"

definition row_for :: "trade_key \<Rightarrow> order_row \<Rightarrow> bool" where
  "row_for k r \<longleftrightarrow> (case k of (u, tenant, key) \<Rightarrow>
     c_trade_intent_id r = u \<and> c_tenant_id r = tenant \<and> c_idempotency_key r = Some key)"

definition stored_for :: "trade_key \<Rightarrow> order_row \<Rightarrow> bool" where
  "stored_for k r \<longleftrightarrow> (case k of (u, tenant, key) \<Rightarrow>
     c_trade_intent_id r = u \<and> c_tenant_id r = varchar 64 tenant \<and>
     c_idempotency_key r = Some (varchar 128 key))"

datatype claim = Free | Held uuid | Sent uuid

definition protocol :: "trade_key \<Rightarrow> claim \<Rightarrow> call \<Rightarrow> (reply \<Rightarrow> claim) option" where
  "protocol k q c =
     (case call_kind c of
        KReserve \<Rightarrow>
          (case q of
             Free \<Rightarrow>
               (case c of
                  CExec (InsertOrder r) \<Rightarrow>
                    if row_for k r then Some (\<lambda>x. if x = RExec (Inr 1) then Held (c_id r) else Free) else None
                | _ \<Rightarrow> None)
           | Held i \<Rightarrow>
               (case c of
                  CExec (DeleteStmt j st) \<Rightarrow> if j = i then Some (\<lambda>_. Free) else None
                | _ \<Rightarrow> None)
           | Sent i \<Rightarrow> None)
      | KOrder \<Rightarrow> (case q of Held i \<Rightarrow> Some (\<lambda>x. if accepted c x then Sent i else q) | _ \<Rightarrow> None)
      | _ \<Rightarrow> Some (\<lambda>_. q))"

lemma protocol_other:
  "call_kind c \<noteq> KReserve \<Longrightarrow> call_kind c \<noteq> KOrder \<Longrightarrow> protocol k q c = Some (\<lambda>_. q)"
  by (simp add: protocol_def split: kind.split)

lemma protocol_insert:
  "protocol k Free (CExec (InsertOrder r)) =
     (if row_for k r then Some (\<lambda>x. if x = RExec (Inr 1) then Held (c_id r) else Free) else None)"
  by (simp add: protocol_def)

lemma protocol_delete:
  "protocol k (Held i) (CExec (DeleteStmt j st)) = (if j = i then Some (\<lambda>_. Free) else None)"
  by (simp add: protocol_def)

lemma protocol_order:
  "call_kind c = KOrder \<Longrightarrow> protocol k (Held i) c = Some (\<lambda>x. if accepted c x then Sent i else Held i)"
  by (simp add: protocol_def)

lemma uses_obeys:
  assumes "uses K p" and "KReserve \<notin> K" and "KOrder \<notin> K" and "\<And>a. F q a" and "\<And>h. H q h"
  shows "obeys (protocol k) F H p q"
  using assms(1) unfolding uses_def
  by (rule obeys_stays) (use assms(2-5) in \<open>auto intro: protocol_other\<close>)

text \<open>Zero never panics.\<close>

lemma Zero_obeys:
  "F q () \<Longrightarrow> H q BadReply \<Longrightarrow> obeys (protocol k) F H (Zero ptr) q"
  by (auto simp: Zero_def call_defs protocol_other split: option.split prod.split reply.split)

section \<open>Every operation follows the protocol\<close>

abbreviation any :: "'q \<Rightarrow> 'a \<Rightarrow> bool" where
  "any \<equiv> \<lambda>_ _. True"

definition order_key :: "BrokerOrder \<Rightarrow> trade_key" where
  "order_key ord = (bo_TradeIntentID ord, bo_TenantID ord, bo_IdempotencyKey ord)"

lemma row_for_order: "row_for (order_key ord) (row_of_order ord)"
  by (simp add: row_for_def order_key_def)

text \<open>A reservation is held exactly when ReserveOrder and reserveOrder say so.\<close>

definition held_if :: "bool \<Rightarrow> BrokerOrder \<Rightarrow> claim \<Rightarrow> bool" where
  "held_if b ord q \<longleftrightarrow> q = (if b then Held (bo_ID ord) else Free)"

lemma ReserveOrder_obeys:
  assumes "order_key ord = k"
  shows "obeys (protocol k)
    (\<lambda>q x. order_key (snd x) = k \<and> held_if (fst x = Inr True) (snd x) q) any
    (ReserveOrder ord) Free"
  using assms
  by (auto simp: ReserveOrder_def stamp_order_def call_defs Let_def protocol_other protocol_insert row_for_def order_key_def
      held_if_def split: reply.split sum.split)

lemma existing_order_uses: "uses {KRead} (existing_order ord)"
  by (auto simp: existing_order_def GetOrderByIntentID_def GetOrderByIdempotencyKey_def
      intro!: uses_seq(1) uses_typed)

lemma reserve_loop_obeys:
  "order_key ord = k \<Longrightarrow> obeys (protocol k)
    (\<lambda>q x. held_if (fst x = Inr None) (snd x) q) any
    (reserve_loop n s deadline ord) Free"
proof (induction n arbitrary: ord k)
  case 0
  then show ?case by simp
next
  case (Suc n)
  have "obeys (protocol k) (\<lambda>q x. held_if (fst x = Inr None) (snd x) q) any
      (pbind (existing_order ord') (\<lambda>existing. case switch_existing existing of
         Some res \<Rightarrow> Ret (res, ord')
       | None \<Rightarrow> wait_turn s deadline ord' (reserve_loop n s deadline ord'))) Free"
    if "order_key ord' = k" for ord' k
    by (rule obeys_pbind [where G = "\<lambda>q _. q = Free", OF uses_obeys [OF existing_order_uses]])
      (use that in \<open>auto simp: switch_existing_def wait_turn_def call_defs protocol_other held_if_def [of False]
        intro!: Suc.IH split: sum.split option.split reply.split\<close>)
  note blocked = this
  show ?case
    unfolding reserve_loop.simps
    by (rule obeys_not_nil, rule obeys_pbind [OF ReserveOrder_obeys [OF Suc.prems]])
      (auto simp: held_if_def [of False] held_if_def [of True] blocked split: sum.split)
qed

lemma reserveOrder_obeys:
  "order_key ord = k \<Longrightarrow> obeys (protocol k)
    (\<lambda>q x. held_if (fst x = Inr None) (snd x) q) any (reserveOrder s ord) Free"
  by (auto simp: reserveOrder_def call_defs protocol_other intro: reserve_loop_obeys split: reply.split)

lemma releaseReservation_obeys:
  "obeys (protocol k) any any (releaseReservation ord) (Held (bo_ID ord))"
  by (auto simp: releaseReservation_def ReleaseOrder_def call_defs protocol_delete
      split: reply.split sum.split)

definition sent_if :: "uuid \<Rightarrow> claim \<Rightarrow> 'e + 'a \<Rightarrow> bool" where
  "sent_if i q res \<longleftrightarrow> q = (case res of Inl _ \<Rightarrow> Held i | Inr _ \<Rightarrow> Sent i)"

text \<open>A stop after the broker has accepted the order is not a panic.\<close>

definition held_at_panic :: "uuid \<Rightarrow> claim \<Rightarrow> halt \<Rightarrow> bool" where
  "held_at_panic i q h \<longleftrightarrow> (h = Panicked \<longrightarrow> q = Held i)"

lemma order_answer_cases:
  "(\<exists>res. order_answer x = Ret (Inr res)) \<or> (\<exists>err. order_answer x = Ret (Inl err)) \<or>
   order_answer x = Halt Panicked"
  by (auto simp: order_answer_def or_panic_def split: sum.split option.split)

lemma order_answer_obeys:
  assumes "call_kind c = KOrder"
  shows "obeys (protocol k) (sent_if i) (held_at_panic i) (c_http c order_answer) (Held i)"
proof -
  have "obeys (protocol k) (sent_if i) (held_at_panic i) (order_answer x)
      (if accepted c (RHttp x) then Sent i else Held i)" for x
    using order_answer_cases [of x] assms
    by (auto simp: accepted_def sent_if_def held_at_panic_def)
  note http = this
  have "obeys (protocol k) (sent_if i) (held_at_panic i)
      (case r of RHttp x \<Rightarrow> order_answer x | _ \<Rightarrow> Halt BadReply) (if accepted c r then Sent i else Held i)" for r
    by (cases r) (simp_all add: http, simp_all add: accepted_def held_at_panic_def)
  then show ?thesis
    unfolding c_http_def obeys.simps protocol_order [OF assms] option.case by blast
qed

lemma with_credentials_obeys:
  assumes "\<And>x y. obeys (protocol k) (sent_if i) (held_at_panic i) (body x y) (Held i)"
  shows "obeys (protocol k) (sent_if i) (held_at_panic i) (with_credentials creds m body) (Held i)"
proof -
  have "obeys (protocol k) (sent_if i) (held_at_panic i) (pdefer (body x y) (Zero creds)) (Held i)" for x y
    by (rule obeys_pdefer [OF assms]) (auto intro!: Zero_obeys simp: held_at_panic_def)
  then show ?thesis
    by (auto simp: with_credentials_def load_slice_def call_defs protocol_other sent_if_def held_at_panic_def
        split: option.split reply.split)
qed

lemma PlaceMarketOrder_obeys:
  "obeys (protocol k) (sent_if i) (held_at_panic i) (PlaceMarketOrder c creds r) (Held i)"
proof -
  have now: "obeys (protocol k) (sent_if i) (held_at_panic i) (c_now f) (Held i)"
    if "\<And>t. obeys (protocol k) (sent_if i) (held_at_panic i) (f t) (Held i)" for f
    using that by (auto simp: c_now_def protocol_other held_at_panic_def split: reply.split)
  show ?thesis
    unfolding PlaceMarketOrder_def
    by (rule with_credentials_obeys)
      (auto simp: or_panic_def sent_if_def held_at_panic_def intro!: now order_answer_obeys
        split: option.split)
qed

lemma dispatch_order_obeys:
  "obeys (protocol k) (sent_if i) (held_at_panic i) (dispatch_order s p r) (Held i)"
  unfolding dispatch_order_def
  by (rule obeys_pbind [OF PlaceMarketOrder_obeys]) (auto simp: sent_if_def split: sum.splits)

lemma execute_reserved_obeys:
  "obeys (protocol k) any any (execute_reserved s req provider side qty ord) (Held (bo_ID ord))"
proof -
  let ?i = "bo_ID ord"
  have load: "obeys (protocol k) (\<lambda>q a. case a of Inl _ \<Rightarrow> True | Inr _ \<Rightarrow> q = Held ?i) any
      (pguard (load_credentials s t provider x y z) (releaseReservation ord)) (Held ?i)" for t x y z
    by (rule obeys_pguard [where G = "\<lambda>q _. q = Held ?i" and K = "\<lambda>q _. q = Held ?i"])
      (auto intro!: uses_obeys [OF load_credentials_uses] obeys_mono [OF releaseReservation_obeys])
  have zeroed: "obeys (protocol k) (sent_if ?i) (held_at_panic ?i)
      (pguard (dispatch_order s p r) (Zero (Some p))) (Held ?i)" for p r
    by (rule obeys_pguard [OF dispatch_order_obeys])
      (auto intro!: Zero_obeys simp: held_at_panic_def sent_if_def)
  have dispatch: "obeys (protocol k) any any
      (pguard (pguard (dispatch_order s p r) (Zero (Some p))) (releaseReservation ord)) (Held ?i)" for p r
    by (rule obeys_pguard [OF zeroed])
      (auto simp: sent_if_def held_at_panic_def intro!: obeys_mono [OF releaseReservation_obeys])
  have settled: "obeys (protocol k) any any (pdefer (settle_order s req pr sd ord res) (Zero (Some p))) q"
    for pr sd res p q
    by (rule uses_obeys [of "{KSettle, KRead, KLedger, KFill, KMemory}"])
      (auto intro!: uses_seq uses_mono [OF settle_order_uses] uses_mono [OF Zero_uses])
  show ?thesis
    unfolding execute_reserved_def
    by (rule obeys_pbind [OF load]) (auto intro!: obeys_pbind [OF dispatch] settled split: sum.split)
qed

definition trade_key_of :: "ExecuteTradeRequest \<Rightarrow> trade_key" where
  "trade_key_of req =
     ((case uuid_Parse (tr_TradeIntentId req) of Some u \<Rightarrow> u | None \<Rightarrow> uuid_Nil),
      tr_TenantId req, tr_IdempotencyKey req)"

lemma validate_trade_intent:
  "validate_trade req = Inr (u, qty) \<Longrightarrow> uuid_Parse (tr_TradeIntentId req) = Some u"
  by (auto simp: validate_trade_def split: if_splits option.splits sum.splits)

lemma ExecuteTrade_obeys: "obeys (protocol (trade_key_of req)) any any (ExecuteTrade s req) Free"
proof (cases "validate_trade req")
  case (Inl st)
  then show ?thesis by (simp add: ExecuteTrade_def)
next
  case (Inr v)
  obtain u qty where v: "v = (u, qty)" by (cases v)
  have key: "order_key (new_order req x u qty pr sd) = trade_key_of req" for x pr sd
    using validate_trade_intent [of req u qty] Inr v
    by (simp add: order_key_def new_order_def trade_key_of_def)
  have "obeys (protocol (trade_key_of req)) any any
      (pbind (reserveOrder s (new_order req x u qty pr sd)) (\<lambda>(res, ord). case res of
          Inl st \<Rightarrow> Ret (Inl st)
        | Inr (Some ex) \<Rightarrow> Ret (Inr (f ex))
        | Inr None \<Rightarrow> execute_reserved s req pr sd qty ord)) Free" for x pr sd f
    by (rule obeys_pbind [OF reserveOrder_obeys [OF key]])
      (auto simp: held_if_def intro: execute_reserved_obeys split: sum.split option.split)
  with Inr v show ?thesis
    by (auto simp: ExecuteTrade_def Let_def c_uuid_def protocol_other split: reply.split)
qed

lemma SaveCredentials_uses: "uses {KTime, KSave} (SaveCredentials cred)"
  by (auto simp: SaveCredentials_def intro!: uses_seq uses_typed split: sum.split)

definition request_key :: "request \<Rightarrow> trade_key" where
  "request_key q = (case q of TradeRequest s req \<Rightarrow> trade_key_of req | _ \<Rightarrow> (uuid_Nil, [], []))"

lemma serve_obeys: "obeys (protocol (request_key q)) any any (serve q) Free"
proof (cases q)
  case (TradeRequest s req)
  then show ?thesis
    by (auto simp: request_key_def intro: obeys_pbind [OF ExecuteTrade_obeys])
qed (auto intro!: obeys_pbind [OF uses_obeys, where G = any] ProcessFill_uses SyncBrokerBalances_uses
      GetQuotes_uses ValidateTickers_uses SaveCredentials_uses handleBinanceOrderWebhook_uses)

section \<open>Rows that stay\<close>

definition has_row :: "trade_key \<Rightarrow> uuid \<Rightarrow> order_row list \<Rightarrow> bool" where
  "has_row k i t \<longleftrightarrow> (\<exists>r \<in> set t. c_id r = i \<and> stored_for k r)"

lemma update_orders_has_row:
  assumes "\<And>r. c_id (f r) = c_id r \<and> stored_for k (f r) = stored_for k r"
  shows "has_row k i (snd (update_orders p fits f t)) = has_row k i t"
  using assms by (auto simp: has_row_def update_orders_def)

lemma stored_for_updates [simp]:
  "stored_for k (c_provider_order_id_update f1 r) = stored_for k r"
  "stored_for k (c_status_update f2 r) = stored_for k r"
  "stored_for k (c_filled_quantity_update f3 r) = stored_for k r"
  "stored_for k (c_average_fill_price_update f4 r) = stored_for k r"
  "stored_for k (c_updated_at_update f5 r) = stored_for k r"
  by (simp_all add: stored_for_def split: prod.split)

lemma run_stmt_has_row:
  assumes "\<And>st'. st \<noteq> DeleteStmt i st'" and "has_row k i (t_orders db)"
  shows "has_row k i (t_orders (snd (run_stmt now st db)))"
proof (cases st)
  case (InsertOrder r)
  with assms(2) show ?thesis by (auto simp: insert_order_def has_row_def)
next
  case (ConfirmStmt a b c d x f)
  with assms(2) show ?thesis
    by (simp add: confirm_orders_def split_beta) (subst update_orders_has_row, simp_all)
next
  case (DeleteStmt j st')
  with assms show ?thesis by (fastforce simp: delete_orders_def has_row_def Let_def)
next
  case (FillStmt a b c d x)
  with assms(2) show ?thesis
    by (simp add: fill_orders_def split_beta) (subst update_orders_has_row, simp_all)
next
  case (UpsertCred c)
  with assms(2) show ?thesis by (simp add: split_beta)
qed

lemma handle_has_row:
  assumes "\<And>st'. c \<noteq> CExec (DeleteStmt i st')" and "has_row k i (t_orders (w_db w))"
  shows "has_row k i (t_orders (w_db (snd (handle e c w))))"
  using handle_db [of e c w] assms run_stmt_has_row by metis

text \<open>An insert that reports a row has put it there, and no row had its id.\<close>

lemma handle_insert:
  assumes "fst (handle e (CExec (InsertOrder r)) w) = RExec (Inr 1)"
  shows "\<forall>s \<in> set (t_orders (w_db w)). c_id s \<noteq> c_id r"
    and "t_orders (w_db (snd (handle e (CExec (InsertOrder r)) w))) = t_orders (w_db w) @ [stored_row r]"
  using assms
  by (auto simp: handle_def insert_order_def list_ex_iff order_clash_def
      split: prod.splits db_outcome.splits if_splits)

lemma stored_for_row: "row_for k r \<Longrightarrow> stored_for k (stored_row r)"
  by (auto simp: row_for_def stored_for_def)

text \<open>Two rows for one trade clash.\<close>

fun same_key :: "trade_key \<Rightarrow> trade_key \<Rightarrow> bool" where
  "same_key (u, tenant, key) (u', tenant', key') \<longleftrightarrow>
     u = u' \<or> (tenant = tenant' \<and> key = key' \<and> key \<noteq> [])"

lemma same_key_clash:
  "stored_for k r \<Longrightarrow> stored_for k' s \<Longrightarrow> same_key k k' \<Longrightarrow> order_clash r s"
  by (cases k; cases k') (auto simp: stored_for_def order_clash_def)

lemma same_trade_key: "same_trade a b \<Longrightarrow> same_key (request_key a) (request_key b)"
  by (cases a; cases b) (auto simp: request_key_def trade_key_of_def)

section \<open>The invariant\<close>

definition claimed :: "claim \<Rightarrow> uuid option" where
  "claimed q = (case q of Free \<Rightarrow> None | Held i \<Rightarrow> Some i | Sent i \<Rightarrow> Some i)"

lemma claimed_simps [simp]:
  "claimed Free = None" "claimed (Held i) = Some i" "claimed (Sent i) = Some i"
  by (simp_all add: claimed_def)

definition acceptances :: "nat \<Rightarrow> (nat \<times> call \<times> reply) list \<Rightarrow> nat" where
  "acceptances i es = length (filter (\<lambda>(j, c, r). j = i \<and> accepted c r) es)"

text \<open>
  Q gives the state of every thread: the row of a claim is in the table, no two threads claim one
  row, and a thread has sent its order exactly when the broker has accepted one from it.
\<close>

definition good :: "(nat \<Rightarrow> trade_key) \<Rightarrow> (nat \<Rightarrow> claim) \<Rightarrow> unit sys \<Rightarrow> bool" where
  "good K Q s \<longleftrightarrow>
     tables_ok (w_db (s_world s)) \<and>
     (\<forall>i. obeys (protocol (K i)) any any (s_threads s i) (Q i)) \<and>
     (\<forall>i u. claimed (Q i) = Some u \<longrightarrow> has_row (K i) u (t_orders (w_db (s_world s)))) \<and>
     (\<forall>i j u. claimed (Q i) = Some u \<longrightarrow> claimed (Q j) = Some u \<longrightarrow> i = j) \<and>
     (\<forall>i. acceptances i (s_log s) = (case Q i of Sent _ \<Rightarrow> 1 | _ \<Rightarrow> 0))"

lemma acceptances_append:
  "acceptances i (es @ [(j, c, r)]) = acceptances i es + (if j = i \<and> accepted c r then 1 else 0)"
  by (simp add: acceptances_def)

text \<open>What one step of the protocol does to the claim of the thread that makes it.\<close>

lemma protocol_step:
  assumes "protocol k q c = Some f"
  shows "(f x = q \<and> \<not> accepted c x \<and> (\<forall>i st. c \<noteq> CExec (DeleteStmt i st)))
    \<or> (\<exists>i. q = Held i \<and> f x = Sent i \<and> accepted c x \<and> (\<forall>i st. c \<noteq> CExec (DeleteStmt i st)))
    \<or> (\<exists>r. q = Free \<and> c = CExec (InsertOrder r) \<and> row_for k r \<and> x = RExec (Inr 1) \<and> f x = Held (c_id r)
         \<and> \<not> accepted c x)
    \<or> (\<exists>i st. q = Held i \<and> c = CExec (DeleteStmt i st) \<and> f x = Free \<and> \<not> accepted c x)"
  using assms
  by (auto simp: protocol_def accepted_def split: kind.splits claim.splits call.splits stmt.splits if_splits)

text \<open>A reservation that was inserted has an id no other thread holds, and its row is there.\<close>

lemma good_insert:
  assumes "good K Q s" and "handle e (CExec (InsertOrder r)) (s_world s) = (RExec (Inr 1), w')"
    and "row_for (K i) r"
  shows "claimed (Q j) \<noteq> Some (c_id r)" and "has_row (K i) (c_id r) (t_orders (w_db w'))"
proof -
  have new: "\<forall>x \<in> set (t_orders (w_db (s_world s))). c_id x \<noteq> c_id r"
    "t_orders (w_db w') = t_orders (w_db (s_world s)) @ [stored_row r]"
    using handle_insert [of e r "s_world s"] assms(2) by simp_all
  show "claimed (Q j) \<noteq> Some (c_id r)"
    using assms(1) new(1) unfolding good_def has_row_def by metis
  show "has_row (K i) (c_id r) (t_orders (w_db w'))"
    using assms(3) by (simp add: new(2) has_row_def stored_for_row)
qed

lemma good_step:
  assumes "good K Q s" and "sys_step e s t"
  shows "\<exists>Q'. good K Q' t"
proof -
  obtain i c k x w' where th: "s_threads s i = Call c k" and h: "handle e c (s_world s) = (x, w')"
    and t: "t = s\<lparr>s_world := w', s_threads := (s_threads s)(i := k x), s_log := s_log s @ [(i, c, x)]\<rparr>"
    using assms(2) by (rule sys_step_cases) blast
  let ?t = "t_orders (w_db (s_world s))" and ?t' = "t_orders (w_db w')"
  have "obeys (protocol (K i)) any any (Call c k) (Q i)"
    using assms(1) th unfolding good_def by metis
  then obtain f where f: "protocol (K i) (Q i) c = Some f"
    and next_ok: "obeys (protocol (K i)) any any (k x) (f x)"
    using handle_typed [of c e "s_world s"] h by (auto split: option.splits)
  have tab: "tables_ok (w_db w')"
    using assms(1) h handle_tables_ok [of "s_world s" e c] by (simp add: good_def)
  have obey: "\<forall>j. obeys (protocol (K j)) any any (s_threads t j) ((Q(i := f x)) j)"
    using assms(1) next_ok by (simp add: good_def t)
  have rows: "has_row k' u ?t \<Longrightarrow> (\<And>st'. c \<noteq> CExec (DeleteStmt u st')) \<Longrightarrow> has_row k' u ?t'" for k' u
    using handle_has_row [of c u k' "s_world s" e] h by simp
  have old_rows: "\<And>j u. claimed (Q j) = Some u \<Longrightarrow> has_row (K j) u ?t"
    and apart: "\<And>j l u. claimed (Q j) = Some u \<Longrightarrow> claimed (Q l) = Some u \<Longrightarrow> j = l"
    and acc: "\<And>j. acceptances j (s_log s) = (case Q j of Sent _ \<Rightarrow> 1 | _ \<Rightarrow> 0)"
    using assms(1) by (auto simp: good_def)
  consider
      (stay) "f x = Q i" "\<not> accepted c x" "\<forall>u st. c \<noteq> CExec (DeleteStmt u st)"
    | (send) u where "Q i = Held u" "f x = Sent u" "accepted c x" "\<forall>u st. c \<noteq> CExec (DeleteStmt u st)"
    | (take) r where "Q i = Free" "c = CExec (InsertOrder r)" "row_for (K i) r" "x = RExec (Inr 1)"
        "f x = Held (c_id r)" "\<not> accepted c x"
    | (release) u st where "Q i = Held u" "c = CExec (DeleteStmt u st)" "f x = Free" "\<not> accepted c x"
    using protocol_step [OF f, of x] by blast
  then have "good K (Q(i := f x)) t"
  proof cases
    case stay
    then have "Q(i := f x) = Q" by simp
    with stay obey tab show ?thesis
      by (auto simp: good_def t acceptances_append acc intro: rows old_rows apart)
  next
    case send
    have same: "claimed ((Q(i := f x)) j) = claimed (Q j)" for j using send by simp
    from send obey tab show ?thesis
      unfolding good_def same
      by (auto simp: t acceptances_append acc intro: rows old_rows apart)
  next
    case take
    note taken = good_insert [OF assms(1) h [unfolded take(2,4)] take(3)]
    have "has_row (K j) u ?t'" if "claimed (Q j) = Some u" for j u
      using that take(2) by (intro rows old_rows) auto
    with taken take obey tab show ?thesis
      by (auto simp: good_def t acceptances_append acc intro: apart)
  next
    case release
    have other: "u' \<noteq> u" if "j \<noteq> i" "claimed (Q j) = Some u'" for j u'
      using apart [of j u' i] that release(1) by auto
    have "has_row (K j) u' ?t'" if "j \<noteq> i" "claimed (Q j) = Some u'" for j u'
      using that other release(2) by (intro rows old_rows) auto
    with release obey tab show ?thesis
      by (auto simp: good_def t acceptances_append acc intro: apart)
  qed
  then show ?thesis by blast
qed

definition safe :: "(nat \<Rightarrow> request) \<Rightarrow> unit sys \<Rightarrow> bool" where
  "safe reqs s \<longleftrightarrow> (\<exists>Q. good (\<lambda>i. request_key (reqs i)) Q s)"

interpretation service: invariant_system "serving reqs" "sys_step e" "safe reqs" for reqs e
proof unfold_locales
  fix s
  assume "serving reqs s"
  then have "good (\<lambda>i. request_key (reqs i)) (\<lambda>_. Free) s"
    by (simp add: serving_def good_def acceptances_def serve_obeys)
  then show "safe reqs s" by (auto simp: safe_def)
next
  fix s t
  assume "safe reqs s" and "sys_step e s t"
  then show "safe reqs t" unfolding safe_def using good_step by blast
qed

section \<open>Consequences\<close>

lemma filter_one_index:
  assumes "length (filter P xs) \<le> 1" and "m < length xs" and "n < length xs" and "P (xs ! m)" and "P (xs ! n)"
  shows "m = n"
proof (rule ccontr)
  assume "m \<noteq> n"
  then have "card {m, n} = 2" by simp
  moreover have "{m, n} \<subseteq> {l. l < length xs \<and> P (xs ! l)}" using assms by auto
  ultimately have "2 \<le> card {l. l < length xs \<and> P (xs ! l)}" by (metis card_mono finite_Collect_conjI finite_Collect_less_nat)
  with assms(1) show False by (simp add: length_filter_conv_card)
qed

text \<open>A thread with an accepted order has sent it, and keeps its row.\<close>

lemma accepted_sent:
  assumes "good K Q s" and "m < length (s_log s)" and "s_log s ! m = (i, c, r)" and "accepted c r"
  shows "\<exists>u. Q i = Sent u \<and> has_row (K i) u (t_orders (w_db (s_world s)))"
proof -
  have "(i, c, r) \<in> set (filter (\<lambda>(j, c, r). j = i \<and> accepted c r) (s_log s))"
    using assms(3,4) nth_mem [OF assms(2)] by simp
  then have "acceptances i (s_log s) \<noteq> 0"
    unfolding acceptances_def by (metis length_0_conv length_pos_if_in_set less_not_refl list.size(3))
  with assms(1) obtain u where "Q i = Sent u"
    by (auto simp: good_def split: claim.splits)
  with assms(1) show ?thesis by (auto simp: good_def)
qed

lemma one_acceptance:
  assumes "safe reqs s"
    and "m < length (s_log s)" and "s_log s ! m = (i, c, r)" and "accepted c r"
    and "n < length (s_log s)" and "s_log s ! n = (j, c', r')" and "accepted c' r'"
    and "same_trade (reqs i) (reqs j)"
  shows "m = n"
proof -
  obtain Q where Q: "good (\<lambda>i. request_key (reqs i)) Q s" using assms(1) by (auto simp: safe_def)
  obtain u v where u: "Q i = Sent u" "has_row (request_key (reqs i)) u (t_orders (w_db (s_world s)))"
    and v: "Q j = Sent v" "has_row (request_key (reqs j)) v (t_orders (w_db (s_world s)))"
    using accepted_sent [OF Q assms(2-4)] accepted_sent [OF Q assms(5-7)] by blast
  from u(2) v(2) obtain a b where
    ab: "a \<in> set (t_orders (w_db (s_world s)))" "c_id a = u" "stored_for (request_key (reqs i)) a"
    "b \<in> set (t_orders (w_db (s_world s)))" "c_id b = v" "stored_for (request_key (reqs j)) b"
    by (auto simp: has_row_def)
  have "order_clash a b"
    using ab(3,6) same_trade_key [OF assms(8)] by (rule same_key_clash)
  moreover have "clash_free order_clash (t_orders (w_db (s_world s)))"
    using Q by (simp add: good_def tables_ok_def)
  ultimately have "a = b" using order_table.same_row ab(1,4) by metis
  with ab have "claimed (Q j) = Some u" using v(1) by simp
  with Q u(1) have "i = j" by (auto simp: good_def)
  have "acceptances i (s_log s) = 1"
    using Q u(1) by (simp add: good_def)
  then have "length (filter (\<lambda>(l, c, r). l = i \<and> accepted c r) (s_log s)) \<le> 1"
    by (simp add: acceptances_def)
  then show ?thesis
    by (rule filter_one_index) (use assms \<open>i = j\<close> in auto)
qed

end
