(* ===== verification/Scenario.thy ===== *)
theory Scenario
  imports Trade_Safety
begin

text \<open>
  One concrete trade, run through the whole program: a market order for 0.5 BTCUSDT on an empty
  order table, with the credentials of its tenant stored, OpenBao answering the batch request and
  Binance filling the order at once at a price of 10.  The theorems are applied to it, and to
  variations of it.
\<close>

section \<open>The request and the server\<close>

definition demo_client :: binanceClient where
  "demo_client = NewClientWithHTTPClient ''https://api.binance.com/'' 0 None"

definition demo_server :: PregaoServer where
  "demo_server = NewPregaoServer \<lparr>
     sp_DefaultBroker = BROKER_UNSPECIFIED,
     sp_Cache = NewRedisQuotesCache 0 0,
     sp_BrokerClient = demo_client,
     sp_VaultClient = NewTransitClient ''http://bao:8200/'' ''token'' [] 0,
     sp_CredentialsRepo = True, sp_OrdersRepo = True, sp_LivroClient = True,
     sp_FillProcessor = Some \<lparr>fp_ordersRepo = True, fp_livroClient = True, fp_ativosClient = False\<rparr>\<rparr>"

definition demo_req :: ExecuteTradeRequest where
  "demo_req = \<lparr>
     tr_TradeIntentId = ''00000000-0000-0000-0000-0000000000aa'',
     tr_TenantId = ''t1'', tr_UserId = ''u1'', tr_Provider = '' binance'', tr_Symbol = ''btcusdt'',
     tr_Side = 0, tr_Quantity = ''0.5'', tr_IdempotencyKey = ''k1'', tr_PortfolioId = [], tr_LivroHoldId = []\<rparr>"

definition demo_intent :: uuid where
  "demo_intent = replicate 15 0 @ [170]"

lemma demo_validate: "validate_trade demo_req = Inr (demo_intent, \<lparr>coef = 5, expo = -1\<rparr>)"
proof -
  have trims: "trim_space (tr_TradeIntentId demo_req) \<noteq> []" "trim_space (tr_TenantId demo_req) \<noteq> []"
    "trim_space (tr_UserId demo_req) \<noteq> []" "trim_space (tr_Symbol demo_req) \<noteq> []"
    "trim_space (tr_Quantity demo_req) \<noteq> []"
    by (simp_all add: demo_req_def trim_eval)
  have "uuid_Parse (tr_TradeIntentId demo_req) = Some demo_intent" by code_simp
  moreover have "Decimal_NewFromString (tr_Quantity demo_req) = Inr \<lparr>coef = 5, expo = -1\<rparr>" by code_simp
  moreover have "\<not> Decimal_LessThanOrEqual \<lparr>coef = 5, expo = -1\<rparr> Decimal_Zero" by code_simp
  ultimately show ?thesis by (simp add: validate_trade_def trims)
qed

lemma demo_provider: "resolve_provider demo_server '' binance'' = ''BINANCE''"
  by (simp add: resolve_provider_def ParseBroker_def ProviderName_def to_upper_def str_eval trim_eval)

lemma demo_step: "GetDefaultStepSize ''BTCUSDT'' = Some \<lparr>coef = 1000, expo = -8\<rparr>"
  by code_simp

lemma demo_qty: "TruncateToStepSize \<lparr>coef = 5, expo = -1\<rparr> \<lparr>coef = 1000, expo = -8\<rparr> =
   Some (\<lparr>coef = 50000000, expo = -8\<rparr>, ''0.50000'')"
  by (simp add: TruncateToStepSize_def dec_eval step_decimals_def)

section \<open>What the services answer\<close>

definition demo_vault_body :: json where
  "demo_vault_body = JObject [(''data'', JObject [(''batch_results'', JArray
     [JObject [(''plaintext'', JString ''a2V5'')], JObject [(''plaintext'', JString ''c2Vj'')]])])]"

definition demo_order_body :: json where
  "demo_order_body = JObject
     [(''symbol'', JString ''BTCUSDT''), (''orderId'', JNumber ''28''),
      (''executedQty'', JString ''0.50000''), (''cummulativeQuoteQty'', JString ''5.00000000''),
      (''status'', JString ''FILLED'')]"

definition demo_response :: "json \<Rightarrow> http_error + http_response" where
  "demo_response v = Inr \<lparr>rs_StatusCode = 200,
     rs_Body = \<lparr>hb_complete = True, hb_value = Some v, hb_trailing = False\<rparr>\<rparr>"

lemma demo_batch: "batch_results (demo_response demo_vault_body) = Some (''a2V5'', ''c2Vj'')"
  by code_simp

lemma demo_key: "b64_DecodeString ''a2V5'' = ([107, 101, 121], True)"
  by code_simp

lemma demo_sec: "b64_DecodeString ''c2Vj'' = ([115, 101, 99], True)"
  by code_simp

lemma demo_unmarshal: "unmarshal OrderResponse_json zero_OrderResponse
    \<lparr>hb_complete = True, hb_value = Some demo_order_body, hb_trailing = False\<rparr> =
    Some (zero_OrderResponse\<lparr>os_Symbol := ''BTCUSDT'', os_OrderID := 28, os_ExecutedQty := ''0.50000'',
      os_CummulativeQuoteQty := ''5.00000000'', os_Status := ''FILLED''\<rparr>)"
  by code_simp

definition demo_env :: env where
  "demo_env = \<lparr>
     e_db = (\<lambda>_. DbUp),
     e_uuid = (\<lambda>n. replicate 15 0 @ [of_nat (Suc n)]),
     e_latency = (\<lambda>_. 1),
     e_wait = (\<lambda>_. None),
     e_http = (\<lambda>_ c. case c of CVault _ \<Rightarrow> demo_response demo_vault_body | _ \<Rightarrow> demo_response demo_order_body),
     e_ack = (\<lambda>_ _. None),
     e_balance = (\<lambda>_ _. Inr ''0''),
     e_account = (\<lambda>_ _. Inr (Some ''clearing'')),
     e_redis = (\<lambda>_. None)\<rparr>"

definition demo_cred :: BrokerCredential where
  "demo_cred = \<lparr>bc_ID = replicate 15 0 @ [255], bc_TenantID = ''t1'', bc_Provider = ''BINANCE'',
     bc_APIKeyCiphertext = ''vault:k'', bc_APISecretCiphertext = ''vault:s'', bc_CreatedAt = 1\<rparr>"

definition demo_world :: world where
  "demo_world = \<lparr>w_db = \<lparr>t_orders = [], t_creds = [demo_cred]\<rparr>, w_clock = 1000, w_tick = 0,
     w_heap = [], w_creds = [], w_redis = [], w_trace = []\<rparr>"

lemma demo_req_simps:
  "tr_TenantId demo_req = ''t1''" "tr_UserId demo_req = ''u1''" "tr_Provider demo_req = '' binance''"
  "tr_Symbol demo_req = ''btcusdt''" "tr_Side demo_req = 0" "tr_IdempotencyKey demo_req = ''k1''"
  "tr_PortfolioId demo_req = []" "tr_LivroHoldId demo_req = []"
  "tr_TradeIntentId demo_req = ''00000000-0000-0000-0000-0000000000aa''"
  by (simp_all add: demo_req_def)

lemma demo_upper: "to_upper ''btcusdt'' = ''BTCUSDT''"
  by (simp add: to_upper_def str_eval)

definition demo_result :: OrderResult where
  "demo_result = \<lparr>or_ProviderOrderID = ''28'', or_Status = ''FILLED'', or_ExecutedQuantity = \<lparr>coef = 50000, expo = -5\<rparr>,
     or_CumulativeQuoteQuantity = \<lparr>coef = 500000000, expo = -8\<rparr>,
     or_AveragePrice = \<lparr>coef = 100000000000000000, expo = -16\<rparr>\<rparr>"

lemma demo_answer: "order_answer (demo_response demo_order_body) = Ret (Inr demo_result)"
proof -
  have "Decimal_NewFromString ''0.50000'' = Inr \<lparr>coef = 50000, expo = -5\<rparr>" by (simp add: parse_eval)
  moreover have "Decimal_NewFromString ''5.00000000'' = Inr \<lparr>coef = 500000000, expo = -8\<rparr>" by (simp add: parse_eval)
  moreover have "mapOrderStatus ''FILLED'' = ''FILLED''" by code_simp
  moreover have "Decimal_GreaterThan \<lparr>coef = 50000, expo = -5\<rparr> Decimal_Zero" by (simp add: dec_eval)
  moreover have "Decimal_Div \<lparr>coef = 500000000, expo = -8\<rparr> \<lparr>coef = 50000, expo = -5\<rparr> =
      Some \<lparr>coef = 100000000000000000, expo = -16\<rparr>"
    by (simp add: dec_eval)
  moreover have "int_string 28 = ''28''" by (simp add: dec_eval)
  ultimately have "order_result (zero_OrderResponse\<lparr>os_Symbol := ''BTCUSDT'', os_OrderID := 28,
      os_ExecutedQty := ''0.50000'', os_CummulativeQuoteQty := ''5.00000000'', os_Status := ''FILLED''\<rparr>) =
    Some demo_result"
    by (simp add: order_result_def or_zero_def zero_OrderResponse_def demo_result_def)
  then show ?thesis
    by (simp add: order_answer_def demo_response_def rate_limited_def demo_unmarshal or_panic_def)
qed

definition demo_row :: order_row where
  "demo_row = \<lparr>c_id = replicate 15 0 @ [1], c_trade_intent_id = demo_intent, c_tenant_id = ''t1'',
     c_user_id = ''u1'', c_provider = ''BINANCE'', c_provider_order_id = None, c_symbol = ''BTCUSDT'',
     c_side = ''BUY'', c_target_quantity = \<lparr>coef = 5, expo = -1\<rparr>, c_status = ''PENDING'',
     c_filled_quantity = Decimal_Unset, c_average_fill_price = Decimal_Unset,
     c_idempotency_key = Some ''k1'', c_portfolio_id = Some [], c_livro_hold_id = Some [],
     c_created_at = 1002, c_updated_at = 1002\<rparr>"

lemma demo_row_ok: "row_ok demo_row"
  by (simp add: row_ok_def demo_row_def varchar_ok_def option_ok_def numeric_ok_def numeric_def dec_eval)

lemma demo_stored: "stored_row demo_row = demo_row\<lparr>c_target_quantity := \<lparr>coef = 50000000, expo = -8\<rparr>,
   c_filled_quantity := \<lparr>coef = 0, expo = -8\<rparr>, c_average_fill_price := \<lparr>coef = 0, expo = -4\<rparr>\<rparr>"
  by (simp add: stored_row_def demo_row_def varchar_def numeric_def dec_eval)

lemma demo_order_row: "row_of_order (new_order demo_req (replicate 15 0 @ [1]) demo_intent
    \<lparr>coef = 5, expo = -1\<rparr> ''BINANCE'' ''BUY''\<lparr>bo_CreatedAt := 1002, bo_UpdatedAt := 1002, bo_Status := ''PENDING''\<rparr>) = demo_row"
  by (simp add: row_of_order_def new_order_def demo_row_def demo_req_simps demo_upper)

abbreviation "demo_id \<equiv> replicate 15 0 @ [1 :: 8 word]"

lemma demo_order_id: "new_order demo_req u i q p d = \<lparr>bo_ID = u, bo_TradeIntentID = i, bo_TenantID = ''t1'', bo_UserID = ''u1'',
   bo_Provider = p, bo_ProviderOrderID = [], bo_Symbol = ''BTCUSDT'', bo_Side = d, bo_TargetQuantity = q,
     bo_Status = StatusPending, bo_FilledQuantity = Decimal_Unset, bo_AverageFillPrice = Decimal_Unset,
     bo_IdempotencyKey = ''k1'', bo_PortfolioID = [], bo_LivroHoldID = [], bo_CreatedAt = 0, bo_UpdatedAt = 0\<rparr>"
  by (simp add: new_order_def demo_req_simps demo_upper)

lemma demo_id_not_nil: "demo_id \<noteq> uuid_Nil"
  by (simp add: uuid_Nil_def numeral_eq_Suc)

lemma demo_row_of: "row_of_order \<lparr>bo_ID = demo_id, bo_TradeIntentID = demo_intent, bo_TenantID = ''t1'', bo_UserID = ''u1'',
   bo_Provider = ''BINANCE'', bo_ProviderOrderID = [], bo_Symbol = ''BTCUSDT'', bo_Side = SideBuy,
   bo_TargetQuantity = \<lparr>coef = 5, expo = - 1\<rparr>,
     bo_Status = StatusPending, bo_FilledQuantity = Decimal_Unset, bo_AverageFillPrice = Decimal_Unset,
     bo_IdempotencyKey = ''k1'', bo_PortfolioID = [], bo_LivroHoldID = [], bo_CreatedAt = 1002, bo_UpdatedAt = 1002\<rparr> = demo_row"
  by (simp add: row_of_order_def demo_row_def StatusPending_def SideBuy_def)

definition demo_world1 where
 "demo_world1 = \<lparr>w_db = \<lparr>t_orders = [stored_row demo_row], t_creds = [demo_cred]\<rparr>, w_clock = 1004, w_tick = 4,
    w_heap = [], w_creds = [], w_redis = [],
    w_trace = [(CNewUUID, RUuid demo_id), (CNow, RTime 1001), (CNow, RTime 1002), (CExec (InsertOrder demo_row), RExec (Inr 1))]\<rparr>"

lemma demo_server_simps: "sv_credentialsRepo demo_server" "sv_ordersRepo demo_server"
  "sv_fillProcessor demo_server = Some \<lparr>fp_ordersRepo = True, fp_livroClient = True, fp_ativosClient = False\<rparr>" "sv_livroClient demo_server"
  by (simp_all add: demo_server_def NewPregaoServer_def)

section \<open>The run, step by step\<close>

lemma demo_reserve: "exec demo_env (reserveOrder demo_server (new_order demo_req demo_id demo_intent \<lparr>coef = 5, expo = -1\<rparr> ''BINANCE'' SideBuy))
   (demo_world\<lparr>w_clock := 1001, w_tick := 1, w_trace := [(CNewUUID, RUuid demo_id)]\<rparr>) =
   (Done (Inr None, (new_order demo_req demo_id demo_intent \<lparr>coef = 5, expo = -1\<rparr> ''BINANCE'' SideBuy)\<lparr>bo_CreatedAt := 1002, bo_UpdatedAt := 1002\<rparr>),
     demo_world1)"
  by (simp add: reserveOrder_def call_defs handle_def demo_env_def demo_world_def numeral_2_eq_2
      reserve_fuel_def ReserveOrder_def stamp_order_def exec_pbind Let_def insert_order_def
      demo_order_id demo_id_not_nil demo_row_of demo_row_ok demo_world1_def demo_server_simps)

lemmas run_simps = exec_pbind call_defs handle_def demo_env_def Let_def or_panic_def

lemma demo_load: "exec demo_env (pguard (load_credentials demo_server ''t1'' ''BINANCE'' m1 m2 m3) d)
   \<lparr>w_db = \<lparr>t_orders = t, t_creds = [demo_cred]\<rparr>, w_clock = n, w_tick = m, w_heap = [], w_creds = [], w_redis = [], w_trace = tr\<rparr> =
   (Done (Inr 0), \<lparr>w_db = \<lparr>t_orders = t, t_creds = [demo_cred]\<rparr>, w_clock = n + 5, w_tick = m + 5,
      w_heap = [[107, 101, 121], [115, 101, 99]], w_creds = [(Some 0, Some 1)], w_redis = [],
     w_trace = tr @ [(CQueryCred ''t1'' ''BINANCE'', RCred (Inr (Some demo_cred))),
       (CVault (transit_request (sv_vaultClient demo_server) (batch_json ''vault:k'' ''vault:s'')), RHttp (demo_response demo_vault_body)),
       (CAlloc [107, 101, 121], RAddress 0), (CAlloc [115, 101, 99], RAddress 1), (CNewCreds (Some 0, Some 1), RAddress 0)]\<rparr>)"
  by (simp add: load_credentials_def GetCredentials_def DecryptCredentials_def run_simps
      query_cred_def demo_cred_def demo_batch demo_key demo_sec demo_server_simps)

definition "demo_order_call t = CBinance (order_request demo_client (order_params demo_client
   \<lparr>mo_Symbol = ''BTCUSDT'', mo_Side = SideBuy, mo_Quantity = \<lparr>coef = 5, expo = -1\<rparr>,
    mo_ClientOrderID = ''00000000-0000-0000-0000-0000000000aa''\<rparr> ''0.50000'' t) [107, 101, 121] [115, 101, 99])"

lemma demo_broker: "sv_brokerClient demo_server = demo_client"
  by (simp add: demo_server_def NewPregaoServer_def)

lemma demo_dispatch: "exec demo_env (pguard (pguard (dispatch_order demo_server 0 \<lparr>mo_Symbol = ''BTCUSDT'', mo_Side = SideBuy, mo_Quantity = \<lparr>coef = 5, expo = -1\<rparr>,
    mo_ClientOrderID = ''00000000-0000-0000-0000-0000000000aa''\<rparr>) z) d)
   \<lparr>w_db = db, w_clock = n, w_tick = m,
      w_heap = [[107, 101, 121], [115, 101, 99]], w_creds = [(Some 0, Some 1)], w_redis = [], w_trace = tr\<rparr> =
   (Done (Inr demo_result), \<lparr>w_db = db, w_clock = n + 11, w_tick = m + 11,
      w_heap = [[0, 0, 0], [0, 0, 0]], w_creds = [(None, None)], w_redis = [],
     w_trace = tr @ [(CGetCreds 0, RCreds (Some 0, Some 1)), (CLoad 0, RBytes [107, 101, 121]), (CLoad 1, RBytes [115, 101, 99]),
       (CNow, RTime (n + 3)), (demo_order_call (n + 3), RHttp (demo_response demo_order_body)),
       (CGetCreds 0, RCreds (Some 0, Some 1)), (CWipe 0, RUnit), (CSetCreds 0 (None, Some 1), RUnit),
       (CGetCreds 0, RCreds (None, Some 1)), (CWipe 1, RUnit), (CSetCreds 0 (None, None), RUnit)]\<rparr>)"
proof -
  have "\<not> Decimal_LessThanOrEqual \<lparr>coef = 5, expo = -1\<rparr> Decimal_Zero" "\<not> Decimal_LessThanOrEqual \<lparr>coef = 50000000, expo = -8\<rparr> Decimal_Zero"
    by (simp_all add: dec_eval)
  then show ?thesis
    by (simp add: dispatch_order_def PlaceMarketOrder_def with_credentials_def load_slice_def run_simps
        demo_step demo_qty demo_answer demo_order_call_def demo_broker Zero_def wipe_def numeral_3_eq_3)
qed

definition demo_done :: order_row where
  "demo_done = demo_row\<lparr>c_provider_order_id := Some ''28'', c_status := ''FILLED'',
     c_target_quantity := \<lparr>coef = 50000000, expo = -8\<rparr>,
     c_filled_quantity := \<lparr>coef = 50000000, expo = -8\<rparr>, c_average_fill_price := \<lparr>coef = 100000, expo = -4\<rparr>\<rparr>"

lemma demo_numeric:
  "numeric_ok 28 8 Decimal_Zero" "numeric_ok 28 4 Decimal_Zero"
  "numeric 8 Decimal_Zero = \<lparr>coef = 0, expo = -8\<rparr>" "numeric 4 Decimal_Zero = \<lparr>coef = 0, expo = -4\<rparr>"
  "numeric_ok 28 8 \<lparr>coef = 50000000, expo = -8\<rparr>" "numeric_ok 28 4 \<lparr>coef = 100000000000000000, expo = -16\<rparr>"
  "numeric 8 \<lparr>coef = 50000000, expo = -8\<rparr> = \<lparr>coef = 50000000, expo = -8\<rparr>"
  "numeric 4 \<lparr>coef = 100000000000000000, expo = -16\<rparr> = \<lparr>coef = 100000, expo = -4\<rparr>"
  by (simp_all add: numeric_ok_def numeric_def dec_eval)

lemma demo_decimals:
   "\<not> Decimal_LessThanOrEqual \<lparr>coef = 50000, expo = -5\<rparr> Decimal_Zero"
   "\<not> Decimal_LessThanOrEqual \<lparr>coef = 100000000000000000, expo = -16\<rparr> Decimal_Zero"
   "Decimal_IsPositive \<lparr>coef = 50000, expo = -5\<rparr>"
   "Decimal_Mul \<lparr>coef = 50000, expo = -5\<rparr> \<lparr>coef = 100000000000000000, expo = -16\<rparr> = Some \<lparr>coef = 5000000000000000000000, expo = -21\<rparr>"
   "Decimal_Add \<lparr>coef = 0, expo = -8\<rparr> \<lparr>coef = 50000, expo = -5\<rparr> = \<lparr>coef = 50000000, expo = -8\<rparr>"
   "Decimal_IsZero \<lparr>coef = 0, expo = -8\<rparr>"
  by (simp_all add: dec_eval)

lemma demo_fold: "equal_fold ''FILLED'' ''FILLED''" "equal_fold ''BUY'' ''BUY''"
  by (simp_all add: equal_fold_def)

lemma demo_settle:
  assumes "bo_ID ord = demo_id"
  shows "\<exists>w'. exec demo_env (pdefer (settle_order demo_server demo_req ''BINANCE'' SideBuy ord demo_result) (Zero (Some 0)))
   \<lparr>w_db = \<lparr>t_orders = [stored_row demo_row], t_creds = [demo_cred]\<rparr>, w_clock = n, w_tick = m,
      w_heap = [[0, 0, 0], [0, 0, 0]], w_creds = [(None, None)], w_redis = [], w_trace = tr\<rparr> =
   (Done (Inr \<lparr>ts_ProviderOrderId = ''28'', ts_Status = ''FILLED''\<rparr>), w') \<and>
   t_orders (w_db w') = [demo_done\<lparr>c_updated_at := n + 4\<rparr>] \<and> w_heap w' = [[0, 0, 0], [0, 0, 0]] \<and> w_creds w' = [(None, None)]
   \<and> take (length tr) (w_trace w') = tr"
  using assms unfolding demo_stored
  by (simp add: settle_order_def demo_server_simps demo_result_def ConfirmOrder_def ProcessFill_def
      apply_fill_def GetOrderByProviderOrderID_def new_average_def new_status_def settle_def
      GetOrCreateBrokerAccount_def CaptureHold_def UpdateOrderFill_def run_simps confirm_orders_def
      update_orders_def fill_orders_def query_order_def demo_row_def demo_numeric demo_decimals
      demo_fold fill_event_def scanOrder_def order_of_row_def null_text_def status_defs SideBuy_def
      SideSell_def varchar_ok_def varchar_def Zero_def demo_done_def)

lemma demo_start:
  "handle demo_env CNewUUID demo_world =
     (RUuid demo_id, demo_world\<lparr>w_clock := 1001, w_tick := 1, w_trace := [(CNewUUID, RUuid demo_id)]\<rparr>)"
  by (simp add: handle_def demo_env_def demo_world_def)

definition demo_trace :: "(call \<times> reply) list" where
  "demo_trace =
    [(CNewUUID, RUuid demo_id), (CNow, RTime 1001), (CNow, RTime 1002),
     (CExec (InsertOrder demo_row), RExec (Inr 1)),
     (CQueryCred ''t1'' ''BINANCE'', RCred (Inr (Some demo_cred))),
     (CVault (transit_request (sv_vaultClient demo_server) (batch_json ''vault:k'' ''vault:s'')),
      RHttp (demo_response demo_vault_body)),
     (CAlloc [107, 101, 121], RAddress 0), (CAlloc [115, 101, 99], RAddress 1),
     (CNewCreds (Some 0, Some 1), RAddress 0), (CGetCreds 0, RCreds (Some 0, Some 1)),
     (CLoad 0, RBytes [107, 101, 121]), (CLoad 1, RBytes [115, 101, 99]), (CNow, RTime 1012),
     (demo_order_call 1012, RHttp (demo_response demo_order_body)),
     (CGetCreds 0, RCreds (Some 0, Some 1)), (CWipe 0, RUnit), (CSetCreds 0 (None, Some 1), RUnit),
     (CGetCreds 0, RCreds (None, Some 1)), (CWipe 1, RUnit), (CSetCreds 0 (None, None), RUnit)]"

lemma demo_dispatched:
  "exec demo_env (ExecuteTrade demo_server demo_req) demo_world =
   exec demo_env (pdefer (settle_order demo_server demo_req ''BINANCE'' SideBuy
       ((new_order demo_req demo_id demo_intent \<lparr>coef = 5, expo = -1\<rparr> ''BINANCE'' SideBuy)
         \<lparr>bo_CreatedAt := 1002, bo_UpdatedAt := 1002\<rparr>) demo_result) (Zero (Some 0)))
     \<lparr>w_db = \<lparr>t_orders = [stored_row demo_row], t_creds = [demo_cred]\<rparr>, w_clock = 1020, w_tick = 20,
      w_heap = [[0, 0, 0], [0, 0, 0]], w_creds = [(None, None)], w_redis = [], w_trace = demo_trace\<rparr>"
  by (simp add: ExecuteTrade_def demo_validate demo_req_simps demo_provider Let_def c_uuid_def demo_start
    exec_pbind demo_reserve demo_world1_def execute_reserved_def demo_load demo_upper demo_dispatch
    demo_trace_def del: One_nat_def)

lemma demo_run:
  "\<exists>w'. exec demo_env (ExecuteTrade demo_server demo_req) demo_world =
      (Done (Inr \<lparr>ts_ProviderOrderId = ''28'', ts_Status = ''FILLED''\<rparr>), w') \<and>
    t_orders (w_db w') = [demo_done\<lparr>c_updated_at := 1024\<rparr>] \<and>
    w_heap w' = [[0, 0, 0], [0, 0, 0]] \<and> w_creds w' = [(None, None)] \<and> take 20 (w_trace w') = demo_trace"
proof -
  let ?ord = "(new_order demo_req demo_id demo_intent \<lparr>coef = 5, expo = -1\<rparr> ''BINANCE'' SideBuy)
    \<lparr>bo_CreatedAt := 1002, bo_UpdatedAt := 1002\<rparr>"
  have "length demo_trace = 20" by (simp add: demo_trace_def)
  moreover have "bo_ID ?ord = demo_id" by (simp add: new_order_def)
  ultimately show ?thesis
    using demo_settle [of ?ord 1020 20 demo_trace] by (simp add: demo_dispatched)
qed

section \<open>The same trade as a thread\<close>

definition demo_sys :: "unit sys" where
  "demo_sys = \<lparr>s_world = demo_world, s_threads = (\<lambda>_. serve (TradeRequest demo_server demo_req)), s_log = []\<rparr>"

lemma demo_tables_ok: "tables_ok (w_db demo_world)"
  by (simp add: tables_ok_def clash_free_def demo_world_def)

lemma demo_serving: "serving (\<lambda>_. TradeRequest demo_server demo_req) demo_sys"
  by (simp add: serving_def demo_sys_def demo_tables_ok)

lemma demo_accepted: "accepted (demo_order_call t) (RHttp (demo_response demo_order_body))"
  by (simp add: accepted_def demo_order_call_def demo_answer)

lemma demo_reaches:
  "\<exists>s. reachable (serving (\<lambda>_. TradeRequest demo_server demo_req)) (sys_step demo_env) s \<and>
     13 < length (s_log s) \<and>
     s_log s ! 13 = (0, demo_order_call 1012, RHttp (demo_response demo_order_body))"
proof -
  obtain w where w: "snd (exec demo_env (serve (TradeRequest demo_server demo_req)) demo_world) = w"
    "take 20 (w_trace w) = demo_trace"
    using demo_run by (auto simp: exec_pbind)
  have "length demo_trace = 20" by (simp add: demo_trace_def)
  with w(2) have len: "20 \<le> length (w_trace w)" by (metis length_take min.absorb_iff2)
  have "w_trace w ! 13 = demo_trace ! 13" using nth_take [of 13 20 "w_trace w"] w(2) by simp
  then have nth: "w_trace w ! 13 = (demo_order_call 1012, RHttp (demo_response demo_order_body))"
    by (simp add: demo_trace_def)
  have th: "s_threads demo_sys 0 = serve (TradeRequest demo_server demo_req)"
    and start: "s_world demo_sys = demo_world" "s_log demo_sys = []" "w_trace demo_world = []"
    by (simp_all only: demo_sys_def sys.simps demo_world_def world.simps)
  obtain n where "s_log (run_schedule demo_env (replicate n 0) demo_sys) = s_log demo_sys @
      map (\<lambda>cr. (0, cr)) (drop (length (w_trace (s_world demo_sys)))
        (w_trace (snd (exec demo_env (serve (TradeRequest demo_server demo_req)) (s_world demo_sys)))))"
    using exec_schedule [OF th, of demo_env] by blast
  then have n: "s_log (run_schedule demo_env (replicate n 0) demo_sys) = map (\<lambda>cr. (0, cr)) (w_trace w)"
    by (simp only: start w(1) list.size drop_0 append_Nil)
  show ?thesis
  proof (intro exI conjI)
    show "reachable (serving (\<lambda>_. TradeRequest demo_server demo_req)) (sys_step demo_env)
        (run_schedule demo_env (replicate n 0) demo_sys)"
      by (rule reachable_schedule, rule reachable.start, rule demo_serving)
  qed (use n nth len in simp_all)
qed

end
