(* ===== verification/Reservation.thy ===== *)
theory Reservation
  imports Scenario
begin

text \<open>
  What ExecuteTrade does to the order table when it runs alone: it ends, a duplicate gets the order
  already recorded, a failed trade leaves no reservation behind, and a reservation held by another
  request is waited for and then given up.
\<close>

section \<open>Validation\<close>

lemma dval_pos_iff [simp]: "Decimal_LessThanOrEqual d Decimal_Zero \<longleftrightarrow> \<not> 0 < dval d"
  by (auto simp: dec_simps not_less simp del: dval_gr_0)

lemma validate_trade_Inr:
  "validate_trade req = Inr (u, q) \<longleftrightarrow>
     trim_space (tr_TradeIntentId req) \<noteq> [] \<and> trim_space (tr_TenantId req) \<noteq> [] \<and>
     trim_space (tr_UserId req) \<noteq> [] \<and> trim_space (tr_Symbol req) \<noteq> [] \<and> trim_space (tr_Quantity req) \<noteq> [] \<and>
     uuid_Parse (tr_TradeIntentId req) = Some u \<and> Decimal_NewFromString (tr_Quantity req) = Inr q \<and> 0 < dval q"
  by (auto simp: validate_trade_def simp del: dval_gr_0 split: option.split sum.split)

lemma validate_trade_Inl: "validate_trade req = Inl st \<Longrightarrow> \<exists>m. st = Status InvalidArgument m"
  by (auto simp: validate_trade_def split: if_splits option.splits sum.splits)

section \<open>The loop of reserveOrder ends\<close>

text \<open>The clock never goes back, and a wait that is not cut short lasts its time.\<close>

lemma handle_clock: "handle e c w = (r, w') \<Longrightarrow> w_clock w \<le> w_clock w'"
  by (cases c) (auto simp: handle_def split: prod.splits db_outcome.splits option.splits)

lemma handle_now: "handle e CNow w = (r, w') \<Longrightarrow> r = RTime (w_clock w)"
  by (auto simp: handle_def)

lemma handle_wait: "handle e (CWait n) w = (RWait None, w') \<Longrightarrow> w_clock w + n \<le> w_clock w'"
  by (auto simp: handle_def split: option.splits)

lemma wp_CallI: "(\<And>r w'. handle e c w = (r, w') \<Longrightarrow> wp e (k r) Q w') \<Longrightarrow> wp e (Call c k) Q w"
  by (simp add: wp_Call split: prod.split)

lemma wp_c_nowI:
  assumes "\<And>w'. w_clock w \<le> w_clock w' \<Longrightarrow> wp e (k (w_clock w)) Q w'"
  shows "wp e (c_now k) Q w"
  unfolding c_now_def
proof (rule wp_CallI)
  fix r w'
  assume h: "handle e CNow w = (r, w')"
  show "wp e (case r of RTime x \<Rightarrow> k x | _ \<Rightarrow> Halt BadReply) Q w'"
    unfolding handle_now [OF h] using assms [OF handle_clock [OF h]] by simp
qed

lemma wp_c_uuidI:
  assumes "\<And>u w'. wp e (k u) Q w'"
  shows "wp e (c_uuid k) Q w"
  unfolding c_uuid_def
proof (rule wp_CallI)
  fix r w'
  assume "handle e CNewUUID w = (r, w')"
  then obtain u where "r = RUuid u" using handle_typed_pair by fastforce
  with assms show "wp e (case r of RUuid x \<Rightarrow> k x | _ \<Rightarrow> Halt BadReply) Q w'" by simp
qed

lemma wp_c_waitI:
  assumes "\<And>w'. w_clock w + n \<le> w_clock w' \<Longrightarrow> wp e (k None) Q w'"
    and "\<And>x w'. w_clock w \<le> w_clock w' \<Longrightarrow> wp e (k (Some x)) Q w'"
  shows "wp e (c_wait n k) Q w"
  unfolding c_wait_def
proof (rule wp_CallI)
  fix r w'
  assume h: "handle e (CWait n) w = (r, w')"
  then obtain z where z: "r = RWait z" using handle_typed_pair by fastforce
  with h show "wp e (case r of RWait x \<Rightarrow> k x | _ \<Rightarrow> Halt BadReply) Q w'"
    by (cases z) (auto intro: assms handle_wait handle_clock)
qed

definition ends_by :: "nat \<Rightarrow> 'a outcome \<Rightarrow> world \<Rightarrow> bool" where
  "ends_by t r w' \<longleftrightarrow> finished r \<and> t \<le> w_clock w'"

lemma calls_in_clock: "calls_in S p \<Longrightarrow> wp e p (ends_by (w_clock w)) w"
proof (induction p arbitrary: w)
  case (Call c k)
  show ?case
  proof (rule wp_CallI)
    fix r w'
    assume h: "handle e c w = (r, w')"
    with Call.prems have "calls_in S (k r)" using handle_typed_pair by auto
    from Call.IH [OF rangeI this, of w'] handle_clock [OF h] show "wp e (k r) (ends_by (w_clock w)) w'"
      by (auto simp: ends_by_def elim: wp_mono)
  qed
qed (simp_all add: prog_simps ends_by_def)

lemma uses_clock: "uses K p \<Longrightarrow> wp e p (ends_by (w_clock w)) w"
  unfolding uses_def by (rule calls_in_clock)

lemma wp_seq_uses:
  assumes "uses K p" and "\<And>a w'. w_clock w \<le> w_clock w' \<Longrightarrow> wp e (f a) Q w'" and "\<And>w'. Q (Stopped Panicked) w'"
  shows "wp e (pbind p f) Q w"
  by (rule wp_pbindI [OF uses_clock [OF assms(1)]]) (auto simp: ends_by_def assms(2,3))

lemma ReserveOrder_uses: "uses {KTime, KReserve} (ReserveOrder ord)"
  by (auto simp: ReserveOrder_def Let_def intro!: uses_seq uses_typed split: sum.split)

text \<open>Before the deadline the next pass starts a poll interval later.\<close>

lemma wait_turn_ends:
  assumes "\<And>w'. w_clock w < deadline \<Longrightarrow> w_clock w + sv_reservationPoll s \<le> w_clock w' \<Longrightarrow> wp e again (\<lambda>r _. finished r) w'"
  shows "wp e (wait_turn s deadline ord again) (\<lambda>r _. finished r) w"
  unfolding wait_turn_def
  by (rule wp_c_nowI, cases "w_clock w < deadline")
    (auto simp: prog_simps intro!: wp_c_waitI assms)

text \<open>Every pass but the first comes a poll interval later, so the deadline is met before the fuel is out.\<close>

lemma reserve_loop_ends:
  assumes "0 < sv_reservationPoll s" and "0 < n" and "deadline \<le> w_clock w + (n - 1) * sv_reservationPoll s"
  shows "wp e (reserve_loop n s deadline ord) (\<lambda>r _. finished r) w"
  using assms(2,3)
proof (induction n arbitrary: ord w)
  case (Suc n)
  have later: "wp e (wait_turn s deadline ord' (reserve_loop n s deadline ord')) (\<lambda>r _. finished r) w'"
    if "w_clock w \<le> w_clock w'" for ord' w'
  proof (rule wait_turn_ends)
    fix w2 :: world
    assume "w_clock w' < deadline" and w2: "w_clock w' + sv_reservationPoll s \<le> w_clock w2"
    with Suc.prems(2) that have n: "0 < n" by (cases n) auto
    then have "(Suc n - 1) * sv_reservationPoll s = sv_reservationPoll s + (n - 1) * sv_reservationPoll s"
      by (cases n) auto
    with Suc.prems(2) that w2 have "deadline \<le> w_clock w2 + (n - 1) * sv_reservationPoll s" by linarith
    with n show "wp e (reserve_loop n s deadline ord') (\<lambda>r _. finished r) w2" by (rule Suc.IH)
  qed
  have blocked: "wp e (pbind (existing_order ord') (\<lambda>existing. case switch_existing existing of
      Some res \<Rightarrow> Ret (res, ord') | None \<Rightarrow> wait_turn s deadline ord' (reserve_loop n s deadline ord'))) (\<lambda>r _. finished r) w'"
    if "w_clock w \<le> w_clock w'" for ord' w'
    by (rule wp_seq_uses [OF existing_order_uses]) (use that in \<open>auto simp: prog_simps intro: later split: option.split\<close>)
  have "wp e (pbind (ReserveOrder ord) (\<lambda>(reserved, ord). case reserved of
       Inl e \<Rightarrow> Ret (Inl (Status Internal ''database error reserving trade execution''), ord)
     | Inr reserved \<Rightarrow>
         if reserved then Ret (Inr None, ord)
         else pbind (existing_order ord) (\<lambda>existing. case switch_existing existing of
                Some res \<Rightarrow> Ret (res, ord)
              | None \<Rightarrow> wait_turn s deadline ord (reserve_loop n s deadline ord)))) (\<lambda>r _. finished r) w"
    by (rule wp_seq_uses [OF ReserveOrder_uses])
      (auto simp: wp_Ret blocked split: sum.split prod.split)
  then show ?case by (simp add: prog_simps)
qed simp

lemma fuel_covers_wait:
  assumes "0 < sv_reservationPoll s"
  shows "sv_reservationWait s \<le> (reserve_fuel s - 1) * sv_reservationPoll s"
proof -
  let ?p = "sv_reservationPoll s"
  have "sv_reservationWait s = ?p * (sv_reservationWait s div ?p) + sv_reservationWait s mod ?p" by simp
  moreover have "sv_reservationWait s mod ?p < ?p" using assms by simp
  moreover have "(reserve_fuel s - 1) * ?p = ?p * (sv_reservationWait s div ?p) + ?p"
    by (simp add: reserve_fuel_def algebra_simps)
  ultimately show ?thesis by linarith
qed

lemma reserveOrder_ends:
  assumes "0 < sv_reservationPoll s"
  shows "wp e (reserveOrder s ord) (\<lambda>r _. finished r) w"
  unfolding reserveOrder_def
  by (rule wp_c_nowI, rule reserve_loop_ends [OF assms])
    (use fuel_covers_wait [OF assms] in \<open>auto simp: reserve_fuel_def\<close>)

lemma execute_reserved_uses:
  "uses {KReserve, KRead, KMemory, KVault, KTime, KOrder, KSettle, KLedger, KFill} (execute_reserved s req pr sd q ord)"
  by (auto simp: execute_reserved_def intro!: uses_seq(1) uses_seq(2) uses_seq(3)
      uses_mono [OF load_credentials_uses] uses_mono [OF dispatch_order_uses] uses_mono [OF settle_order_uses]
      uses_mono [OF Zero_uses] uses_mono [OF releaseReservation_uses] split: sum.split)

lemma ExecuteTrade_ends:
  assumes "0 < sv_reservationPoll s"
  shows "wp e (ExecuteTrade s req) (\<lambda>r _. finished r) w"
proof (cases "validate_trade req")
  case (Inr v)
  have "wp e (pbind (reserveOrder s ord) (\<lambda>(res, order). case res of
               Inl st \<Rightarrow> Ret (Inl st)
             | Inr (Some existing) \<Rightarrow> Ret (Inr (f existing))
             | Inr None \<Rightarrow> execute_reserved s req pr sd qty order)) (\<lambda>r _. finished r) w1" for ord f pr sd qty w1
    by (rule wp_pbindI [OF reserveOrder_ends [OF assms]])
      (auto simp: prog_simps split: sum.split option.split intro: wp_mono [OF uses_ends [OF execute_reserved_uses]])
  then show ?thesis
    by (auto simp: Inr ExecuteTrade_def Let_def split: prod.split intro!: wp_c_uuidI)
qed (simp add: ExecuteTrade_def prog_simps)

section \<open>One pass with the database up\<close>

definition db_up :: "env \<Rightarrow> bool" where
  "db_up e \<longleftrightarrow> (\<forall>n. e_db e n = DbUp)"

text \<open>The calls made between two worlds are of the kinds K.\<close>

definition made :: "kind set \<Rightarrow> world \<Rightarrow> world \<Rightarrow> bool" where
  "made K w w' \<longleftrightarrow> (\<exists>l. w_trace w' = w_trace w @ l \<and> list_all (\<lambda>(c, _). call_kind c \<in> K) l)"

lemma made_refl [simp]: "made K w w"
  by (simp add: made_def)

lemma made_trans: "made K w w1 \<Longrightarrow> made K w1 w2 \<Longrightarrow> made K w w2"
  unfolding made_def by (elim exE conjE) (simp add: list_all_append)

lemma handle_made: "handle e c w = (r, w') \<Longrightarrow> call_kind c \<in> K \<Longrightarrow> made K w w'"
  by (auto simp: made_def dest: handle_trace)

text \<open>What a pass leaves behind: a table, a later clock, more calls.\<close>

definition after :: "kind set \<Rightarrow> tables \<Rightarrow> world \<Rightarrow> world \<Rightarrow> bool" where
  "after K db w w' \<longleftrightarrow> w_db w' = db \<and> w_clock w \<le> w_clock w' \<and> made K w w'"

lemma after_trans: "after K d w w1 \<Longrightarrow> after K d' w1 w2 \<Longrightarrow> after K d' w w2"
  by (auto simp: after_def intro: made_trans)

lemma after_refl [simp]: "after K (w_db w) w w"
  by (simp add: after_def)

lemma handle_after:
  "handle e c w = (r, w') \<Longrightarrow> call_kind c \<in> K \<Longrightarrow> (\<And>st. c \<noteq> CExec st) \<Longrightarrow> after K (w_db w) w w'"
  using handle_db [of e c w] by (auto simp: after_def intro: handle_made handle_clock)

lemma wp_now_after:
  assumes "KTime \<in> K" and "\<And>w'. after K (w_db w) w w' \<Longrightarrow> wp e (k (w_clock w)) Q w'"
  shows "wp e (c_now k) Q w"
  unfolding c_now_def
proof (rule wp_CallI)
  fix r w'
  assume h: "handle e CNow w = (r, w')"
  have "after K (w_db w) w w'" using h assms(1) by (auto intro: handle_after)
  then show "wp e (case r of RTime x \<Rightarrow> k x | _ \<Rightarrow> Halt BadReply) Q w'"
    unfolding handle_now [OF h] using assms(2) by simp
qed

lemma wp_uuid_after:
  assumes "KTime \<in> K" and "\<And>u w'. after K (w_db w) w w' \<Longrightarrow> wp e (k u) Q w'"
  shows "wp e (c_uuid k) Q w"
  unfolding c_uuid_def
proof (rule wp_CallI)
  fix r w'
  assume h: "handle e CNewUUID w = (r, w')"
  have "after K (w_db w) w w'" using h assms(1) by (auto intro: handle_after)
  moreover obtain u where "r = RUuid u" using handle_typed_pair [OF h] by auto
  ultimately show "wp e (case r of RUuid x \<Rightarrow> k x | _ \<Rightarrow> Halt BadReply) Q w'" using assms(2) by simp
qed

lemma wp_wait_after:
  assumes "KTime \<in> K"
    and "\<And>w'. after K (w_db w) w w' \<Longrightarrow> w_clock w + n \<le> w_clock w' \<Longrightarrow> wp e (k None) Q w'"
    and "\<And>x t w'. e_wait e t = Some x \<Longrightarrow> after K (w_db w) w w' \<Longrightarrow> wp e (k (Some x)) Q w'"
  shows "wp e (c_wait n k) Q w"
  unfolding c_wait_def
proof (rule wp_CallI)
  fix r w'
  assume h: "handle e (CWait n) w = (r, w')"
  have a: "after K (w_db w) w w'" using h assms(1) by (auto intro: handle_after)
  obtain z where z: "r = RWait z" using handle_typed_pair [OF h] by auto
  have z': "z = e_wait e (w_tick w)" using h z by (auto simp: handle_def split: option.splits)
  from h z a show "wp e (case r of RWait x \<Rightarrow> k x | _ \<Rightarrow> Halt BadReply) Q w'"
    by (cases z) (auto simp: z' intro: assms(2,3) handle_wait)
qed

lemma wp_query_order_after:
  assumes "db_up e" and "KRead \<in> K"
    and "\<And>w'. after K (w_db w) w w' \<Longrightarrow> wp e (k (Inr (query_order q (t_orders (w_db w))))) Q w'"
  shows "wp e (c_query_order q k) Q w"
  unfolding c_query_order_def
proof (rule wp_CallI)
  fix r w'
  assume h: "handle e (CQueryOrder q) w = (r, w')"
  have "after K (w_db w) w w'" using h assms(2) by (auto intro: handle_after)
  moreover have "r = ROrder (Inr (query_order q (t_orders (w_db w))))"
    using h assms(1) by (auto simp: handle_def db_up_def)
  ultimately show "wp e (case r of ROrder x \<Rightarrow> k x | _ \<Rightarrow> Halt BadReply) Q w'" using assms(3) by simp
qed

lemma wp_exec_after:
  assumes "db_up e" and "call_kind (CExec st) \<in> K" and "run_stmt (w_clock w) st (w_db w) = (res, db)"
    and "\<And>w'. after K db w w' \<Longrightarrow> wp e (k res) Q w'"
  shows "wp e (c_exec st k) Q w"
  unfolding c_exec_def
proof (rule wp_CallI)
  fix r w'
  assume h: "handle e (CExec st) w = (r, w')"
  then have r: "r = RExec res" and "w_db w' = db"
    using assms(1,3) by (auto simp: handle_def db_up_def)
  with handle_clock [OF h] handle_made [OF h assms(2)] have "after K db w w'"
    by (simp add: after_def)
  with assms(4) r show "wp e (case r of RExec x \<Rightarrow> k x | _ \<Rightarrow> Halt BadReply) Q w'" by simp
qed

text \<open>ReserveOrder stamps the order and tries to insert it.\<close>

definition unstamped :: "BrokerOrder \<Rightarrow> BrokerOrder" where
  "unstamped ord = ord\<lparr>bo_ID := uuid_Nil, bo_CreatedAt := 0, bo_UpdatedAt := 0, bo_Status := StatusPending\<rparr>"

definition stamped :: "BrokerOrder \<Rightarrow> BrokerOrder \<Rightarrow> bool" where
  "stamped ord ord' \<longleftrightarrow> unstamped ord = unstamped ord' \<and> bo_Status ord' = StatusPending"

lemma stamped_trans: "stamped a b \<Longrightarrow> stamped b c \<Longrightarrow> stamped a c"
  by (simp add: stamped_def)

lemma unstamped_simps:
  "bo_TradeIntentID (unstamped ord) = bo_TradeIntentID ord" "bo_TenantID (unstamped ord) = bo_TenantID ord"
  "bo_IdempotencyKey (unstamped ord) = bo_IdempotencyKey ord"
  by (simp_all add: unstamped_def)

lemma stamped_key:
  assumes "stamped a b"
  shows "bo_TradeIntentID b = bo_TradeIntentID a" "bo_TenantID b = bo_TenantID a"
    "bo_IdempotencyKey b = bo_IdempotencyKey a" "bo_Status b = StatusPending"
  using assms unstamped_simps [of a] unstamped_simps [of b] by (simp_all add: stamped_def)

lemma stamp_stamped: "stamped ord (stamp_order now (ord\<lparr>bo_ID := i\<rparr>))" "stamped ord (stamp_order now ord)"
  by (simp_all add: stamped_def unstamped_def stamp_order_def)

definition insertable :: "BrokerOrder \<Rightarrow> bool" where
  "insertable ord \<longleftrightarrow> row_ok (row_of_order (unstamped ord))"

lemma row_ok_unstamped: "bo_Status ord = StatusPending \<Longrightarrow> row_ok (row_of_order (unstamped ord)) = row_ok (row_of_order ord)"
  by (simp add: unstamped_def row_ok_def row_of_order_def)

lemma stamped_insertable:
  "stamped ord ord' \<Longrightarrow> insertable ord' = insertable ord"
  "stamped ord ord' \<Longrightarrow> row_ok (row_of_order ord') = insertable ord"
  using row_ok_unstamped [of ord'] by (simp_all add: stamped_def insertable_def)

abbreviation reserving :: "kind set" where
  "reserving \<equiv> {KTime, KReserve, KRead}"

lemma insert_up:
  assumes "db_up e" and "stamped ord0 ord"
    and "\<And>res t w'. insert_order (row_of_order ord) (t_orders (w_db w)) = (res, t) \<Longrightarrow>
       after reserving ((w_db w)\<lparr>t_orders := t\<rparr>) w w' \<Longrightarrow>
       wp e (f (case res of Inl x \<Rightarrow> Inl (DbError x) | Inr n \<Rightarrow> Inr (n = 1), ord)) Q w'"
  shows "wp e (pbind (c_exec (InsertOrder (row_of_order ord)) (\<lambda>res. case res of
      Inl x \<Rightarrow> Ret (Inl (DbError x), ord) | Inr rows \<Rightarrow> Ret (Inr (rows = 1), ord))) f) Q w"
proof -
  obtain res t where ins: "insert_order (row_of_order ord) (t_orders (w_db w)) = (res, t)" by fastforce
  show ?thesis
    unfolding wp_pbind
  proof (rule wp_exec_after [OF assms(1)])
    show "run_stmt (w_clock w) (InsertOrder (row_of_order ord)) (w_db w) = (res, (w_db w)\<lparr>t_orders := t\<rparr>)"
      by (simp add: ins)
    fix w'
    assume "after reserving ((w_db w)\<lparr>t_orders := t\<rparr>) w w'"
    from assms(3) [OF ins this]
    show "wp e (case res of Inl x \<Rightarrow> Ret (Inl (DbError x), ord) | Inr rows \<Rightarrow> Ret (Inr (rows = 1), ord))
      (\<lambda>r w'. case r of Done a \<Rightarrow> wp e (f a) Q w' | Stopped h \<Rightarrow> Q (Stopped h) w') w'"
      by (cases res) (simp_all add: wp_Ret)
  qed simp
qed

lemma ReserveOrder_up:
  assumes "db_up e"
    and "\<And>ord' res t w'. stamped ord ord' \<Longrightarrow> insert_order (row_of_order ord') (t_orders (w_db w)) = (res, t) \<Longrightarrow>
       after reserving ((w_db w)\<lparr>t_orders := t\<rparr>) w w' \<Longrightarrow>
       wp e (f (case res of Inl x \<Rightarrow> Inl (DbError x) | Inr n \<Rightarrow> Inr (n = 1), ord')) Q w'"
  shows "wp e (pbind (ReserveOrder ord) f) Q w"
proof -
  let ?g = "\<lambda>ord. c_now (\<lambda>now. c_exec (InsertOrder (row_of_order (stamp_order now ord))) (\<lambda>res. case res of
      Inl x \<Rightarrow> Ret (Inl (DbError x), stamp_order now ord) | Inr rows \<Rightarrow> Ret (Inr (rows = 1), stamp_order now ord)))"
  have now: "pbind (c_now k) f = c_now (\<lambda>now. pbind (k now) f)" for k :: "nat \<Rightarrow> ((repo_error + bool) \<times> BrokerOrder) prog"
    unfolding c_now_def by (auto intro!: ext split: reply.split)
  have go: "wp e (pbind (?g o') f) Q w1"
    if w1: "after reserving (w_db w) w w1" and o': "\<And>now. stamped ord (stamp_order now o')" for o' w1
    unfolding now
  proof (rule wp_now_after [where K = reserving])
    fix w2
    assume w2: "after reserving (w_db w1) w1 w2"
    show "wp e (pbind (c_exec (InsertOrder (row_of_order (stamp_order (w_clock w1) o'))) (\<lambda>res. case res of
      Inl x \<Rightarrow> Ret (Inl (DbError x), stamp_order (w_clock w1) o')
    | Inr rows \<Rightarrow> Ret (Inr (rows = 1), stamp_order (w_clock w1) o'))) f) Q w2"
    proof (rule insert_up [OF assms(1) o'])
      fix res t w'
      assume ins: "insert_order (row_of_order (stamp_order (w_clock w1) o')) (t_orders (w_db w2)) = (res, t)"
        and w': "after reserving ((w_db w2)\<lparr>t_orders := t\<rparr>) w2 w'"
      have db: "w_db w2 = w_db w" using w1 w2 by (simp add: after_def)
      have "after reserving ((w_db w)\<lparr>t_orders := t\<rparr>) w w'"
        using w1 w2 w' unfolding db by (blast intro: after_trans)
      with ins o' show "wp e (f (case res of Inl x \<Rightarrow> Inl (DbError x) | Inr n \<Rightarrow> Inr (n = 1),
          stamp_order (w_clock w1) o')) Q w'"
        unfolding db by (intro assms(2))
    qed
  qed simp
  show ?thesis
  proof (cases "bo_ID ord = uuid_Nil")
    case True
    then have "pbind (ReserveOrder ord) f = c_uuid (\<lambda>u. pbind (?g (ord\<lparr>bo_ID := u\<rparr>)) f)"
      unfolding ReserveOrder_def Let_def c_uuid_def by (auto intro!: ext split: reply.split)
    then show ?thesis
      by (auto intro!: wp_uuid_after [where K = reserving] go stamp_stamped)
  next
    case False
    then show ?thesis
      using go [of w ord] stamp_stamped(2) by (simp add: ReserveOrder_def Let_def)
  qed
qed


section \<open>The order recorded for a trade\<close>

definition recorded_order :: "uuid \<Rightarrow> string \<Rightarrow> string \<Rightarrow> order_row list \<Rightarrow> order_row option" where
  "recorded_order intent tenant key t =
     (case query_order (ByIntent intent) t of
        Some r \<Rightarrow> Some r
      | None \<Rightarrow> if key \<noteq> [] then query_order (ByKey tenant key) t else None)"

lemma existing_order_up:
  assumes "db_up e"
    and "\<And>w'. after reserving (w_db w) w w' \<Longrightarrow>
      wp e (f (scanOrder (Inr (recorded_order (bo_TradeIntentID ord) (bo_TenantID ord) (bo_IdempotencyKey ord)
        (t_orders (w_db w)))))) Q w'"
  shows "wp e (pbind (existing_order ord) f) Q w"
proof -
  let ?t = "t_orders (w_db w)"
  have key: "wp e (pbind (if x = Inl ErrOrderNotFound \<and> bo_IdempotencyKey ord \<noteq> []
       then GetOrderByIdempotencyKey (bo_TenantID ord) (bo_IdempotencyKey ord) else Ret x) f) Q w1"
    if x: "x = scanOrder (Inr (query_order (ByIntent (bo_TradeIntentID ord)) ?t))"
      and w1: "after reserving (w_db w) w w1" for x w1
  proof (cases "x = Inl ErrOrderNotFound \<and> bo_IdempotencyKey ord \<noteq> []")
    case True
    then have rec: "recorded_order (bo_TradeIntentID ord) (bo_TenantID ord) (bo_IdempotencyKey ord) ?t =
        query_order (ByKey (bo_TenantID ord) (bo_IdempotencyKey ord)) (t_orders (w_db w1))"
      using x w1 by (auto simp: recorded_order_def scanOrder_def after_def split: option.splits)
    have db: "w_db w1 = w_db w" using w1 by (simp add: after_def)
    show ?thesis
      unfolding if_P [OF True] GetOrderByIdempotencyKey_def wp_pbind
    proof (rule wp_query_order_after [OF assms(1), where K = reserving])
      fix w2
      assume "after reserving (w_db w1) w1 w2"
      with w1 have "after reserving (w_db w) w w2" unfolding db by (rule after_trans)
      from assms(2) [OF this, unfolded rec]
      show "wp e (Ret (scanOrder (Inr (query_order (ByKey (bo_TenantID ord) (bo_IdempotencyKey ord)) (t_orders (w_db w1))))))
          (\<lambda>r w'. case r of Done a \<Rightarrow> wp e (f a) Q w' | Stopped h \<Rightarrow> Q (Stopped h) w') w2"
        by (simp add: wp_Ret)
    qed simp
  next
    case False
    then have "x = scanOrder (Inr (recorded_order (bo_TradeIntentID ord) (bo_TenantID ord) (bo_IdempotencyKey ord) ?t))"
      using x by (auto simp: recorded_order_def scanOrder_def split: option.splits)
    with False w1 show ?thesis by (auto simp: assms(2))
  qed
  show ?thesis
    unfolding existing_order_def pbind_assoc GetOrderByIntentID_def wp_pbind [of e "c_query_order _ _"]
  proof (rule wp_query_order_after [OF assms(1), where K = reserving])
    fix w'
    assume "after reserving (w_db w) w w'"
    from key [OF refl this]
    show "wp e (Ret (scanOrder (Inr (query_order (ByIntent (bo_TradeIntentID ord)) ?t))))
       (\<lambda>r w'. case r of Done a \<Rightarrow> wp e (pbind (if a = Inl ErrOrderNotFound \<and> bo_IdempotencyKey ord \<noteq> []
          then GetOrderByIdempotencyKey (bo_TenantID ord) (bo_IdempotencyKey ord) else Ret a) f) Q w'
        | Stopped h \<Rightarrow> Q (Stopped h) w') w'"
      by (simp only: wp_Ret outcome.case)
  qed simp
qed

section \<open>The table around a reservation\<close>

definition reserve_post :: "order_row list \<Rightarrow> ((status + BrokerOrder option) \<times> BrokerOrder) outcome \<Rightarrow> world \<Rightarrow> bool" where
  "reserve_post t r w \<longleftrightarrow>
     (case r of
        Done (res, ord) \<Rightarrow>
          if res = Inr None
          then (\<exists>row. t_orders (w_db w) = t @ [row] \<and> c_id row = bo_ID ord \<and> c_status row = StatusPending \<and>
                  (\<forall>x \<in> set t. c_id x \<noteq> bo_ID ord))
          else t_orders (w_db w) = t
      | Stopped h \<Rightarrow> t_orders (w_db w) = t)"

lemma reserve_post_other:
  "res \<noteq> Inr None \<Longrightarrow> t_orders (w_db w) = t \<Longrightarrow> reserve_post t (Done (res, ord)) w"
  by (simp add: reserve_post_def)

lemma insert_outcomes:
  assumes "insert_order (row_of_order ord) t = (res, t')" and "bo_Status ord = StatusPending"
  shows "(res = Inr 1 \<and> t' = t @ [stored_row (row_of_order ord)] \<and> (\<forall>x \<in> set t. c_id x \<noteq> bo_ID ord))
    \<or> (res \<noteq> Inr 1 \<and> t' = t)"
  using assms by (auto simp: insert_order_row blocks_def list_ex_iff split: if_splits)

lemma reserve_loop_post:
  assumes "db_up e" and "t_orders (w_db w) = t"
  shows "wp e (reserve_loop n s deadline ord) (reserve_post t) w"
  using assms(2)
proof (induction n arbitrary: ord w)
  case 0
  then show ?case by (simp add: prog_simps reserve_post_def)
next
  case (Suc n)
  have turn: "wp e (wait_turn s deadline ord' (reserve_loop n s deadline ord')) (reserve_post t) w'"
    if "t_orders (w_db w') = t" for ord' w'
    unfolding wait_turn_def
    by (rule wp_now_after [where K = reserving])
      (use that Suc.IH in \<open>auto simp: wp_Ret after_def intro!: wp_wait_after [where K = reserving] reserve_post_other\<close>)
  have blocked: "wp e (pbind (existing_order ord') (\<lambda>existing. case switch_existing existing of
      Some res \<Rightarrow> Ret (res, ord') | None \<Rightarrow> wait_turn s deadline ord' (reserve_loop n s deadline ord'))) (reserve_post t) w'"
    if "t_orders (w_db w') = t" for ord' w'
    by (rule existing_order_up [OF assms(1)])
      (use that turn in \<open>auto simp: switch_existing_def wp_Ret after_def intro!: reserve_post_other
        split: sum.split option.split\<close>)
  have "wp e (pbind (ReserveOrder ord) (\<lambda>(reserved, ord). case reserved of
       Inl e \<Rightarrow> Ret (Inl (Status Internal ''database error reserving trade execution''), ord)
     | Inr reserved \<Rightarrow>
         if reserved then Ret (Inr None, ord)
         else pbind (existing_order ord) (\<lambda>existing. case switch_existing existing of
                Some res \<Rightarrow> Ret (res, ord)
              | None \<Rightarrow> wait_turn s deadline ord (reserve_loop n s deadline ord)))) (reserve_post t) w"
  proof (rule ReserveOrder_up [OF assms(1)])
    fix ord' res t' w'
    assume st: "stamped ord ord'" and ins: "insert_order (row_of_order ord') (t_orders (w_db w)) = (res, t')"
      and w': "after reserving ((w_db w)\<lparr>t_orders := t'\<rparr>) w w'"
    have t': "t_orders (w_db w') = t'" using w' by (simp add: after_def)
    have pending: "bo_Status ord' = StatusPending" using stamped_key(4) [OF st] .
    from insert_outcomes [OF ins pending] Suc.prems t'
    show "wp e (case (case res of Inl x \<Rightarrow> Inl (DbError x) | Inr n \<Rightarrow> Inr (n = 1), ord') of (reserved, ord) \<Rightarrow> (case reserved of
       Inl e \<Rightarrow> Ret (Inl (Status Internal ''database error reserving trade execution''), ord)
     | Inr reserved \<Rightarrow>
         if reserved then Ret (Inr None, ord)
         else pbind (existing_order ord) (\<lambda>existing. case switch_existing existing of
                Some res \<Rightarrow> Ret (res, ord)
              | None \<Rightarrow> wait_turn s deadline ord (reserve_loop n s deadline ord)))) (reserve_post t) w'"
      using pending blocked [of w' ord'] reserve_post_other [of "Inl x" w' t ord' for x]
      by (auto simp: wp_Ret reserve_post_def [of _ "Done (Inr None, _)"] split: sum.split)
  qed
  moreover have "reserve_post t (Stopped Panicked) w" using Suc.prems by (simp add: reserve_post_def)
  ultimately show ?case by (simp add: wp_Halt)
qed

lemma reserveOrder_post: "db_up e \<Longrightarrow> wp e (reserveOrder s ord) (reserve_post (t_orders (w_db w))) w"
  unfolding reserveOrder_def
  by (rule wp_now_after [where K = reserving]) (auto simp: after_def intro!: reserve_loop_post)

text \<open>The release takes the reservation out again.\<close>

definition without :: "uuid \<Rightarrow> order_row list \<Rightarrow> order_row list" where
  "without i t = filter (\<lambda>r. \<not> (c_id r = i \<and> c_status r = StatusPending)) t"

lemma release_up:
  assumes "db_up e" and "Q (Done ()) (without (bo_ID ord) (t_orders (w_db w)))"
  shows "wp e (releaseReservation ord) (\<lambda>r w'. Q r (t_orders (w_db w'))) w"
  unfolding releaseReservation_def ReleaseOrder_def wp_pbind
proof (rule wp_exec_after [OF assms(1), where K = UNIV])
  show "run_stmt (w_clock w) (DeleteStmt (bo_ID ord) StatusPending) (w_db w) =
     (fst (delete_orders (bo_ID ord) StatusPending (t_orders (w_db w))),
      (w_db w)\<lparr>t_orders := without (bo_ID ord) (t_orders (w_db w))\<rparr>)"
    by (simp add: delete_orders_def without_def Let_def)
qed (auto simp: wp_Ret after_def assms(2) delete_orders_def Let_def)

lemma settle_order_succeeds: "returns (\<lambda>x. \<exists>a. x = Inr a) (settle_order s req pr sd ord res)"
  by (auto simp: settle_order_def Let_def intro!: returns_pbind split: option.split)

lemma wp_pguardI:
  assumes "wp e p R w"
    and "\<And>a w'. R (Done (Inr a)) w' \<Longrightarrow> Q (Done (Inr a)) w'"
    and "\<And>x w'. R (Done (Inl x)) w' \<Longrightarrow>
      wp e d (\<lambda>r w''. case r of Done _ \<Rightarrow> Q (Done (Inl x)) w'' | Stopped h \<Rightarrow> Q (Stopped h) w'') w'"
    and "\<And>w'. R (Stopped Panicked) w' \<Longrightarrow>
      wp e d (\<lambda>r w''. case r of Done _ \<Rightarrow> Q (Stopped Panicked) w'' | Stopped h \<Rightarrow> Q (Stopped h) w'') w'"
    and "\<And>h w'. R (Stopped h) w' \<Longrightarrow> h \<noteq> Panicked \<Longrightarrow> Q (Stopped h) w'"
  shows "wp e (pguard p d) Q w"
  unfolding wp_pguard using assms(1)
proof (rule wp_mono)
  fix r :: "('a + 'b) outcome" and w' :: world
  assume R: "R r w'"
  consider a where "r = Done (Inr a)" | x where "r = Done (Inl x)" | "r = Stopped Panicked"
    | h where "r = Stopped h" "h \<noteq> Panicked"
    by (cases r) (metis old.sum.exhaust, blast)
  then show "case r of
      Done (Inl x) \<Rightarrow> wp e d (\<lambda>r' w''. case r' of Done _ \<Rightarrow> Q (Done (Inl x)) w'' | Stopped h \<Rightarrow> Q (Stopped h) w'') w'
    | Done (Inr a) \<Rightarrow> Q (Done (Inr a)) w'
    | Stopped h \<Rightarrow>
        if h = Panicked
        then wp e d (\<lambda>r' w''. case r' of Done _ \<Rightarrow> Q (Stopped h) w'' | Stopped h' \<Rightarrow> Q (Stopped h') w'') w'
        else Q (Stopped h) w'"
    using R by cases (simp_all only: outcome.case sum.case simp_thms if_True if_False assms(2-5))
qed

text \<open>A failed attempt, and a panic before the broker has answered, end in the release.\<close>

definition released_post :: "uuid \<Rightarrow> tables \<Rightarrow> (status + 'a) outcome \<Rightarrow> world \<Rightarrow> bool" where
  "released_post i db r w' \<longleftrightarrow> finished r \<and>
     (\<forall>st. r = Done (Inl st) \<longrightarrow> t_orders (w_db w') = without i (t_orders db)) \<and>
     (\<forall>a. r = Done (Inr a) \<longrightarrow> w_db w' = db)"

lemma guarded_release:
  fixes p :: "(status + 'a) prog"
  assumes "db_up e" and p: "wp e p (\<lambda>r w'. w_db w' = w_db w \<and> finished r) w"
  shows "wp e (pguard p (releaseReservation ord)) (released_post (bo_ID ord) (w_db w)) w"
proof (rule wp_pguardI [OF p])
  show "wp e (releaseReservation ord) (\<lambda>r w''. case r of
      Done _ \<Rightarrow> released_post (bo_ID ord) (w_db w) (Done (Inl st) :: (status + 'a) outcome) w''
    | Stopped h \<Rightarrow> released_post (bo_ID ord) (w_db w) (Stopped h :: (status + 'a) outcome) w'') w'"
    if "w_db w' = w_db w \<and> finished (Done (Inl st) :: (status + 'a) outcome)" for st and w' :: world
    using release_up [OF assms(1), of "\<lambda>r t. r = Done () \<and> t = without (bo_ID ord) (t_orders (w_db w))" ord w'] that
    by (auto simp: released_post_def elim!: wp_mono)
  show "wp e (releaseReservation ord) (\<lambda>r w''. case r of
      Done _ \<Rightarrow> released_post (bo_ID ord) (w_db w) (Stopped Panicked :: (status + 'a) outcome) w''
    | Stopped h \<Rightarrow> released_post (bo_ID ord) (w_db w) (Stopped h :: (status + 'a) outcome) w'') w'"
    for w' :: world
    using release_up [OF assms(1), of "\<lambda>r _. r = Done ()" ord w']
    by (auto simp: released_post_def elim!: wp_mono)
qed (auto simp: released_post_def)

lemma wp_frame_guard:
  assumes "wp e p (\<lambda>r w'. w_db w' = w_db w \<and> finished r) w" and "uses K d" and "K \<inter> changes_tables = {}"
  shows "wp e (pguard p d) (\<lambda>r w'. w_db w' = w_db w \<and> finished r) w"
  by (rule wp_pguardI [OF assms(1)])
    (auto intro!: wp_mono [OF uses_frame [OF assms(2,3)]] split: outcome.split)

lemma without_after_release:
  assumes "released_post i db r w'" and "r = Done (Inr a)"
  shows "w_db w' = db"
  using assms by (simp add: released_post_def)

text \<open>After the broker has accepted the order the handler answers with success.\<close>

lemma execute_reserved_post:
  assumes "db_up e"
  shows "wp e (execute_reserved s req pr sd q ord) (\<lambda>r w'. \<forall>st. r = Done (Inl st) \<longrightarrow>
    t_orders (w_db w') = without (bo_ID ord) (t_orders (w_db w))) w"
proof -
  let ?Q = "\<lambda>r (w' :: world). \<forall>st. r = Done (Inl st) \<longrightarrow> t_orders (w_db w') = without (bo_ID ord) (t_orders (w_db w))"
  have settled: "wp e (pdefer (settle_order s req pr sd ord res) (Zero (Some p))) ?Q w'" for res p w'
    unfolding wp_pdefer
    by (rule wp_mono [OF returns_exec [OF settle_order_succeeds]])
      (auto split: outcome.splits intro!: wp_mono [OF uses_ends [OF Zero_uses]])
  have dispatched: "wp e (pguard (pguard (dispatch_order s p mo) (Zero (Some p))) (releaseReservation ord))
      (released_post (bo_ID ord) (w_db w)) w'" if "w_db w' = w_db w" for p mo w'
  proof -
    have "wp e (pguard (dispatch_order s p mo) (Zero (Some p))) (\<lambda>r w2. w_db w2 = w_db w' \<and> finished r) w'"
      by (rule wp_frame_guard [OF uses_frame [OF dispatch_order_uses] Zero_uses]) (auto simp: changes_tables_def)
    from guarded_release [OF assms this, of ord] that show ?thesis by simp
  qed
  have loaded: "wp e (pguard (load_credentials s t pr a b c) (releaseReservation ord))
      (released_post (bo_ID ord) (w_db w)) w" for t a b c
    by (rule guarded_release [OF assms uses_frame [OF load_credentials_uses]]) (auto simp: changes_tables_def)
  show ?thesis
    unfolding execute_reserved_def
  proof (rule wp_pbindI [OF loaded])
    fix creds :: "status + nat" and w1 :: world
    assume l: "released_post (bo_ID ord) (w_db w) (Done creds) w1"
    show "wp e (case creds of Inl st \<Rightarrow> Ret (Inl st)
       | Inr p \<Rightarrow> pbind (pguard (pguard (dispatch_order s p
           \<lparr>mo_Symbol = to_upper (tr_Symbol req), mo_Side = sd, mo_Quantity = q, mo_ClientOrderID = tr_TradeIntentId req\<rparr>)
           (Zero (Some p))) (releaseReservation ord)) (\<lambda>res. case res of
             Inl st \<Rightarrow> Ret (Inl st)
           | Inr orderResult \<Rightarrow> pdefer (settle_order s req pr sd ord orderResult) (Zero (Some p)))) ?Q w1"
    proof (cases creds)
      case (Inl st)
      with l show ?thesis by (simp add: wp_Ret released_post_def)
    next
      case (Inr p)
      with l have db: "w_db w1 = w_db w" by (simp add: released_post_def)
      show ?thesis
        unfolding Inr sum.case
      proof (rule wp_pbindI [OF dispatched [OF db]])
        fix res :: "status + OrderResult" and w2 :: world
        assume "released_post (bo_ID ord) (w_db w) (Done res) w2"
        then show "wp e (case res of Inl st \<Rightarrow> Ret (Inl st)
          | Inr orderResult \<Rightarrow> pdefer (settle_order s req pr sd ord orderResult) (Zero (Some p))) ?Q w2"
          using settled by (cases res) (simp_all add: wp_Ret released_post_def)
      qed simp
    qed
  qed simp
qed

text \<open>So a request that fails leaves the table as it found it.\<close>

lemma failed_trade_table:
  assumes "db_up e"
  shows "wp e (ExecuteTrade s req) (\<lambda>r w'. \<forall>st. r = Done (Inl st) \<longrightarrow> t_orders (w_db w') = t_orders (w_db w)) w"
proof (cases "validate_trade req")
  case (Inl st)
  then show ?thesis by (simp add: ExecuteTrade_def wp_Ret)
next
  case (Inr v)
  let ?Q = "\<lambda>r (w' :: world). \<forall>st. r = Done (Inl st) \<longrightarrow> t_orders (w_db w') = t_orders (w_db w)"
  have "wp e (pbind (reserveOrder s ord) (\<lambda>(res, ord). case res of
         Inl st \<Rightarrow> Ret (Inl st)
       | Inr (Some ex) \<Rightarrow> Ret (Inr (f ex))
       | Inr None \<Rightarrow> execute_reserved s req pr sd q ord)) ?Q w1"
    if w1: "w_db w1 = w_db w" for ord f pr sd q w1
  proof (rule wp_pbindI [OF reserveOrder_post [OF assms]])
    fix a and w2 :: world
    assume p: "reserve_post (t_orders (w_db w1)) (Done a) w2"
    obtain res ord' where a: "a = (res, ord')" by (cases a)
    show "wp e (case a of (res, ord) \<Rightarrow> (case res of
         Inl st \<Rightarrow> Ret (Inl st)
       | Inr (Some ex) \<Rightarrow> Ret (Inr (f ex))
       | Inr None \<Rightarrow> execute_reserved s req pr sd q ord)) ?Q w2"
    proof (cases "res = Inr None")
      case True
      with p w1 a obtain row where row: "t_orders (w_db w2) = t_orders (w_db w) @ [row]" "c_id row = bo_ID ord'"
        "c_status row = StatusPending" "\<forall>x \<in> set (t_orders (w_db w)). c_id x \<noteq> bo_ID ord'"
        by (auto simp: reserve_post_def)
      then have "without (bo_ID ord') (t_orders (w_db w2)) = t_orders (w_db w)"
        by (auto simp: without_def intro!: filter_True)
      with execute_reserved_post [OF assms, of s req pr sd q ord' w2] show ?thesis by (simp add: a True)
    next
      case False
      with p w1 a have "t_orders (w_db w2) = t_orders (w_db w)" by (simp add: reserve_post_def)
      with False show ?thesis by (auto simp: a wp_Ret split: sum.split option.split)
    qed
  qed simp
  note run = this
  obtain u q where v: "v = (u, q)" by (cases v)
  show ?thesis
    unfolding ExecuteTrade_def Inr v sum.case prod.case Let_def
    by (rule wp_uuid_after [where K = reserving], simp, rule run, simp add: after_def)
qed


section \<open>A trade that is already recorded\<close>

lemma found_row: "List.find P xs = Some x \<Longrightarrow> x \<in> set xs \<and> P x"
  by (auto simp: find_Some_iff)

lemma recorded_blocks:
  assumes "recorded_order (bo_TradeIntentID ord) (bo_TenantID ord) (bo_IdempotencyKey ord) t = Some r"
    and "length (bo_TenantID ord) \<le> 64" and "length (bo_IdempotencyKey ord) \<le> 128"
  shows "r \<in> set t \<and> blocks r ord"
  using assms
  by (auto simp: recorded_order_def query_order_def blocks_def dest!: found_row split: option.splits if_splits)

lemma reserve_pass_blocked:
  assumes "db_up e" and "sv_ordersRepo s" and "insertable ord"
    and rec: "recorded_order (bo_TradeIntentID ord) (bo_TenantID ord) (bo_IdempotencyKey ord) (t_orders (w_db w)) = Some r"
    and "length (bo_TenantID ord) \<le> 64" and "length (bo_IdempotencyKey ord) \<le> 128"
    and go: "\<And>ord' w'. stamped ord ord' \<Longrightarrow> after reserving (w_db w) w w' \<Longrightarrow>
      wp e (case switch_existing (Inr (order_of_row r)) of
        Some res \<Rightarrow> Ret (res, ord') | None \<Rightarrow> wait_turn s deadline ord' (reserve_loop n s deadline ord')) Q w'"
  shows "wp e (reserve_loop (Suc n) s deadline ord) Q w"
  unfolding reserve_loop.simps if_P [OF assms(2)]
proof (rule ReserveOrder_up [OF assms(1)])
  fix ord' res t w1
  assume st: "stamped ord ord'" and ins: "insert_order (row_of_order ord') (t_orders (w_db w)) = (res, t)"
    and w1: "after reserving ((w_db w)\<lparr>t_orders := t\<rparr>) w w1"
  note key = stamped_key [OF st]
  have "list_ex (\<lambda>r. blocks r ord') (t_orders (w_db w))"
    using recorded_blocks [of ord' "t_orders (w_db w)" r] rec assms(5,6) by (auto simp: key list_ex_iff)
  then have res: "res = Inr 0" "t = t_orders (w_db w)"
    using ins assms(3) stamped_insertable [OF st] by (auto simp: insert_order_row)
  have db: "w_db w1 = w_db w" using w1 res(2) by (simp add: after_def)
  have a1: "after reserving (w_db w) w w1" using w1 res(2) by (simp add: after_def)
  have ex: "scanOrder (Inr (recorded_order (bo_TradeIntentID ord') (bo_TenantID ord') (bo_IdempotencyKey ord')
      (t_orders (w_db w)))) = Inr (order_of_row r)"
    by (simp add: key db rec scanOrder_def)
  show "wp e (case (case res of Inl x \<Rightarrow> Inl (DbError x) | Inr n \<Rightarrow> Inr (n = 1), ord') of (reserved, order) \<Rightarrow> (case reserved of
       Inl e \<Rightarrow> Ret (Inl (Status Internal ''database error reserving trade execution''), order)
     | Inr reserved \<Rightarrow>
         if reserved then Ret (Inr None, order)
         else pbind (existing_order order) (\<lambda>existing. case switch_existing existing of
                Some res \<Rightarrow> Ret (res, order)
              | None \<Rightarrow> wait_turn s deadline order (reserve_loop n s deadline order)))) Q w1"
    unfolding res(1) sum.case prod.case if_not_P [OF zero_neq_one] if_False
    by (rule existing_order_up [OF assms(1)])
      (use a1 db in \<open>auto simp: ex intro!: go [OF st] intro: after_trans\<close>)
qed

text \<open>A duplicate gets the recorded order.\<close>

lemma reserve_duplicate:
  assumes "db_up e" and "sv_ordersRepo s" and "insertable ord"
    and "recorded_order (bo_TradeIntentID ord) (bo_TenantID ord) (bo_IdempotencyKey ord) (t_orders (w_db w)) = Some r"
    and "length (bo_TenantID ord) \<le> 64" and "length (bo_IdempotencyKey ord) \<le> 128"
    and "c_status r \<noteq> StatusPending"
  shows "wp e (reserveOrder s ord) (\<lambda>r' w'. \<exists>ord'. r' = Done (Inr (Some (order_of_row r)), ord') \<and>
    after reserving (w_db w) w w') w"
  unfolding reserveOrder_def
proof (rule wp_now_after [where K = reserving])
  fix w1
  assume w1: "after reserving (w_db w) w w1"
  then have db: "w_db w1 = w_db w" by (simp add: after_def)
  have sw: "switch_existing (Inr (order_of_row r)) = Some (Inr (Some (order_of_row r)))"
    using assms(7) by (simp add: switch_existing_def order_of_row_def)
  show "wp e (reserve_loop (reserve_fuel s) s (w_clock w + sv_reservationWait s) ord)
      (\<lambda>r' w'. \<exists>ord'. r' = Done (Inr (Some (order_of_row r)), ord') \<and> after reserving (w_db w) w w') w1"
    unfolding reserve_fuel_def add_2_eq_Suc'
  proof (rule reserve_pass_blocked [where r = r, OF assms(1-3)])
    fix ord' w2
    assume "after reserving (w_db w1) w1 w2"
    with w1 have "after reserving (w_db w) w w2" unfolding db by (rule after_trans)
    then show "wp e (case switch_existing (Inr (order_of_row r)) of
        Some res \<Rightarrow> Ret (res, ord')
      | None \<Rightarrow> wait_turn s (w_clock w + sv_reservationWait s) ord'
          (reserve_loop (Suc (sv_reservationWait s div sv_reservationPoll s)) s (w_clock w + sv_reservationWait s) ord'))
      (\<lambda>r' w'. \<exists>ord'. r' = Done (Inr (Some (order_of_row r)), ord') \<and> after reserving (w_db w) w w') w2"
      by (simp add: sw wp_Ret)
  qed (use assms db in simp_all)
qed simp

text \<open>A reservation that stays is waited for until the deadline.\<close>

definition aborted :: status where
  "aborted = Status Aborted ''trade intent is still being executed by another request''"

text \<open>One wait: past the deadline the trade is aborted, before it the loop goes on a poll later.\<close>

lemma wait_turn_aborts:
  assumes "\<And>k. e_wait e k = None" and "after reserving db w w1" and "w_db w1 = db"
    and "\<And>w2. after reserving db w w2 \<Longrightarrow> deadline \<le> w_clock w2 \<Longrightarrow> Q (Done (Inl aborted, ord')) w2"
    and "\<And>w3. w_clock w1 < deadline \<Longrightarrow> after reserving db w w3 \<Longrightarrow>
      w_clock w1 + sv_reservationPoll s \<le> w_clock w3 \<Longrightarrow> wp e again Q w3"
  shows "wp e (wait_turn s deadline ord' again) Q w1"
  unfolding wait_turn_def
proof (rule wp_now_after [where K = reserving])
  fix w2
  assume w2: "after reserving (w_db w1) w1 w2"
  have a2: "after reserving db w w2" and c2: "w_clock w1 \<le> w_clock w2"
    using after_trans [OF assms(2) w2] w2 by (simp_all add: assms(3)) (simp add: after_def)
  have "wp e (c_wait (sv_reservationPoll s) (\<lambda>done. case done of
      Some err \<Rightarrow> Ret (Inl (FromContextError err), ord') | None \<Rightarrow> again)) Q w2" if "w_clock w1 < deadline"
  proof (rule wp_wait_after [where K = reserving])
    fix w3
    assume w3: "after reserving (w_db w2) w2 w3" "w_clock w2 + sv_reservationPoll s \<le> w_clock w3"
    have "w_db w2 = db" using a2 by (simp add: after_def)
    with a2 w3(1) have "after reserving db w w3" by (auto intro: after_trans)
    with that w3(2) c2 show "wp e (case None of Some err \<Rightarrow> Ret (Inl (FromContextError err), ord') | None \<Rightarrow> again) Q w3"
      by (simp add: assms(5))
  qed (simp_all add: assms(1))
  with a2 c2 show "wp e (if \<not> w_clock w1 < deadline
      then Ret (Inl (Status Aborted ''trade intent is still being executed by another request''), ord')
      else c_wait (sv_reservationPoll s) (\<lambda>done. case done of
        Some err \<Rightarrow> Ret (Inl (FromContextError err), ord') | None \<Rightarrow> again)) Q w2"
    using assms(4) by (simp add: wp_Ret aborted_def)
qed simp

lemma reserve_loop_aborts:
  assumes "db_up e" and "sv_ordersRepo s" and "\<And>k. e_wait e k = None" and "0 < sv_reservationPoll s"
    and "c_status r = StatusPending" and "0 < n" and "insertable ord"
    and "recorded_order (bo_TradeIntentID ord) (bo_TenantID ord) (bo_IdempotencyKey ord) (t_orders (w_db w)) = Some r"
    and "length (bo_TenantID ord) \<le> 64" and "length (bo_IdempotencyKey ord) \<le> 128"
    and "deadline \<le> w_clock w + (n - 1) * sv_reservationPoll s"
  shows "wp e (reserve_loop n s deadline ord) (\<lambda>r w'. \<exists>ord'. r = Done (Inl aborted, ord') \<and>
    after reserving (w_db w) w w' \<and> deadline \<le> w_clock w') w"
  using assms(6-)
proof (induction n arbitrary: ord w)
  case (Suc n)
  let ?Q = "\<lambda>r w'. \<exists>ord'. r = Done (Inl aborted, ord') \<and> after reserving (w_db w) w w' \<and> deadline \<le> w_clock w'"
  have sw: "switch_existing (Inr (order_of_row r)) = None"
    using assms(5) by (simp add: switch_existing_def order_of_row_def)
  show ?case
  proof (rule reserve_pass_blocked [where r = r, OF assms(1,2)])
    fix ord' w1
    assume st: "stamped ord ord'" and w1: "after reserving (w_db w) w w1"
    then have db1: "w_db w1 = w_db w" and c1: "w_clock w \<le> w_clock w1" by (simp_all add: after_def)
    note key = stamped_key [OF st] stamped_insertable [OF st]
    have "wp e (wait_turn s deadline ord' (reserve_loop n s deadline ord')) ?Q w1"
    proof (rule wait_turn_aborts [OF assms(3) w1 db1])
      fix w3
      assume early: "w_clock w1 < deadline" and a3: "after reserving (w_db w) w w3"
        and c3: "w_clock w1 + sv_reservationPoll s \<le> w_clock w3"
      have n: "0 < n" using early Suc.prems(6) c1 by (cases n) auto
      then have "(Suc n - 1) * sv_reservationPoll s = sv_reservationPoll s + (n - 1) * sv_reservationPoll s"
        by (cases n) auto
      with Suc.prems(6) c1 c3 have "deadline \<le> w_clock w3 + (n - 1) * sv_reservationPoll s" by simp
      moreover have db3: "w_db w3 = w_db w" using a3 by (simp add: after_def)
      ultimately have "wp e (reserve_loop n s deadline ord') (\<lambda>r w'. \<exists>ord'. r = Done (Inl aborted, ord') \<and>
          after reserving (w_db w3) w3 w' \<and> deadline \<le> w_clock w') w3"
        using n Suc.prems by (intro Suc.IH) (simp_all add: key)
      then show "wp e (reserve_loop n s deadline ord') ?Q w3"
        by (rule wp_mono) (use a3 db3 in \<open>auto intro: after_trans\<close>)
    qed simp
    then show "wp e (case switch_existing (Inr (order_of_row r)) of Some res \<Rightarrow> Ret (res, ord')
        | None \<Rightarrow> wait_turn s deadline ord' (reserve_loop n s deadline ord')) ?Q w1"
      by (simp add: sw)
  qed (use Suc.prems in simp_all)
qed simp


section \<open>The handler\<close>

lemma ExecuteTrade_reserves:
  assumes "validate_trade req = Inr (u, q)"
    and "\<And>i w'. after reserving (w_db w) w w' \<Longrightarrow>
      wp e (reserveOrder s (new_order req i u q (resolve_provider s (tr_Provider req))
          (if tr_Side req = 1 then SideSell else SideBuy)))
        (\<lambda>r w'. \<exists>x ord'. r = Done (x, ord') \<and> x \<noteq> Inr None \<and>
           Q (Done (case x of Inl st \<Rightarrow> Inl st
             | Inr (Some ex) \<Rightarrow> Inr \<lparr>ts_ProviderOrderId = bo_ProviderOrderID ex, ts_Status = bo_Status ex\<rparr>)) w') w'"
  shows "wp e (ExecuteTrade s req) Q w"
  unfolding ExecuteTrade_def assms(1) sum.case prod.case Let_def
proof (rule wp_uuid_after [where K = reserving])
  fix i w'
  assume "after reserving (w_db w) w w'"
  from assms(2) [OF this, of i]
  show "wp e (pbind (reserveOrder s (new_order req i u q (resolve_provider s (tr_Provider req))
          (if tr_Side req = 1 then SideSell else SideBuy))) (\<lambda>(res, order). case res of
               Inl st \<Rightarrow> Ret (Inl st)
             | Inr (Some existing) \<Rightarrow>
                 Ret (Inr \<lparr>ts_ProviderOrderId = bo_ProviderOrderID existing, ts_Status = bo_Status existing\<rparr>)
             | Inr None \<Rightarrow> execute_reserved s req (resolve_provider s (tr_Provider req))
                 (if tr_Side req = 1 then SideSell else SideBuy) q order)) Q w'"
    unfolding wp_pbind by (rule wp_mono) (auto simp: wp_Ret split: sum.split option.split)
qed simp

lemma new_order_simps:
  "bo_TradeIntentID (new_order req i u q p d) = u" "bo_TenantID (new_order req i u q p d) = tr_TenantId req"
  "bo_IdempotencyKey (new_order req i u q p d) = tr_IdempotencyKey req"
  "insertable (new_order req i u q p d) = insertable (new_order req j u q p d)"
  by (simp_all add: new_order_def insertable_def unstamped_def)

text \<open>The trade of a tenant without credentials.\<close>

definition demo_poor :: world where
  "demo_poor = demo_world\<lparr>w_db := \<lparr>t_orders = [], t_creds = []\<rparr>\<rparr>"

lemma demo_poor_reserve:
  "exec demo_env (reserveOrder demo_server (new_order demo_req demo_id demo_intent \<lparr>coef = 5, expo = -1\<rparr> ''BINANCE'' SideBuy))
    (demo_poor\<lparr>w_clock := 1001, w_tick := 1, w_trace := [(CNewUUID, RUuid demo_id)]\<rparr>) =
   (Done (Inr None, (new_order demo_req demo_id demo_intent \<lparr>coef = 5, expo = -1\<rparr> ''BINANCE'' SideBuy)
       \<lparr>bo_CreatedAt := 1002, bo_UpdatedAt := 1002\<rparr>),
     demo_world1\<lparr>w_db := \<lparr>t_orders = [stored_row demo_row], t_creds = []\<rparr>\<rparr>)"
  by (simp add: reserveOrder_def call_defs handle_def demo_env_def demo_world_def demo_poor_def numeral_2_eq_2
    reserve_fuel_def ReserveOrder_def stamp_order_def exec_pbind Let_def insert_order_def demo_order_id
    demo_id_not_nil demo_row_of demo_row_ok demo_world1_def demo_server_simps)

lemma demo_poor_run:
  "\<exists>w'. exec demo_env (ExecuteTrade demo_server demo_req) demo_poor =
     (Done (Inl (Status FailedPrecondition ''broker credentials not found for tenant'')), w')"
proof -
  have start: "handle demo_env CNewUUID demo_poor =
     (RUuid demo_id, demo_poor\<lparr>w_clock := 1001, w_tick := 1, w_trace := [(CNewUUID, RUuid demo_id)]\<rparr>)"
    by (simp add: handle_def demo_env_def demo_world_def demo_poor_def)
  have load: "\<exists>w'. exec demo_env (execute_reserved demo_server demo_req ''BINANCE'' SideBuy q ord)
      (demo_world1\<lparr>w_db := \<lparr>t_orders = [stored_row demo_row], t_creds = []\<rparr>\<rparr>) =
     (Done (Inl (Status FailedPrecondition ''broker credentials not found for tenant'')), w')" for q ord
    by (simp add: execute_reserved_def load_credentials_def GetCredentials_def releaseReservation_def ReleaseOrder_def
        run_simps query_cred_def demo_server_simps delete_orders_def demo_world1_def)
  show ?thesis
    using load
    by (simp add: ExecuteTrade_def demo_validate demo_req_simps demo_provider Let_def c_uuid_def start
        exec_pbind demo_poor_reserve del: One_nat_def)
qed

section \<open>Properties\<close>

text \<open>C5: ExecuteTrade ends for every environment: it returns or panics after finitely many calls,
  whatever the systems answer and however long other requests hold the reservation, and the loop
  of reserveOrder never runs out of the passes it is given.\<close>

theorem trade_terminates:
  assumes "0 < sv_reservationPoll s"
  shows "finished (fst (exec e (ExecuteTrade s req) w))"
  using ExecuteTrade_ends [OF assms, of e req w] by (simp add: wp_def split: prod.splits)

theorem trade_terminates_witness:
  "finished (fst (exec demo_env (ExecuteTrade demo_server demo_req) demo_world))"
  by (rule trade_terminates) (simp add: demo_server_def NewPregaoServer_def defaultReservationPoll_def)

text \<open>C6: A request is turned down with InvalidArgument, before any call is made, exactly when a
  required field is blank, the trade intent is no UUID, or the quantity is not a positive decimal.\<close>

theorem invalid_trade_rejected:
  "(\<exists>m. exec e (ExecuteTrade s req) w = (Done (Inl (Status InvalidArgument m)), w)) \<longleftrightarrow>
   \<not> (trim_space (tr_TradeIntentId req) \<noteq> [] \<and> trim_space (tr_TenantId req) \<noteq> [] \<and>
      trim_space (tr_UserId req) \<noteq> [] \<and> trim_space (tr_Symbol req) \<noteq> [] \<and> trim_space (tr_Quantity req) \<noteq> [] \<and>
      (\<exists>u. uuid_Parse (tr_TradeIntentId req) = Some u) \<and>
      (\<exists>q. Decimal_NewFromString (tr_Quantity req) = Inr q \<and> 0 < dval q))"
  (is "?L \<longleftrightarrow> \<not> ?valid")
proof (cases "validate_trade req")
  case (Inl st)
  then have "?L" using validate_trade_Inl [OF Inl] by (auto simp: ExecuteTrade_def)
  moreover have "\<not> ?valid" using validate_trade_Inr [of req] Inl by auto
  ultimately show ?thesis by blast
next
  case (Inr v)
  obtain u q where v: "v = (u, q)" by (cases v)
  have "?valid" using validate_trade_Inr [of req u q] Inr v by blast
  moreover have "new_calls e (ExecuteTrade s req) w \<noteq> []"
    by (simp add: ExecuteTrade_def Inr v c_uuid_def Let_def)
  then have "\<not> ?L" by (auto simp: new_calls_def)
  ultimately show ?thesis by blast
qed

text \<open>C2: A request for a trade that is already recorded gets the recorded provider order id and
  status back: nothing is written, and no credentials are loaded, nothing decrypted, sent to the
  broker or settled.  The trade is found by its intent, or by tenant and non-empty idempotency key.\<close>

theorem duplicate_returns_recorded:
  assumes "\<And>n. e_db e n = DbUp" and "sv_ordersRepo s" and "validate_trade req = Inr (u, q)"
    and "insertable (new_order req u u q (resolve_provider s (tr_Provider req)) (if tr_Side req = 1 then SideSell else SideBuy))"
    and "length (tr_TenantId req) \<le> 64" and "length (tr_IdempotencyKey req) \<le> 128"
    and "recorded_order u (tr_TenantId req) (tr_IdempotencyKey req) (t_orders (w_db w)) = Some r"
    and "c_status r \<noteq> StatusPending"
  shows "\<exists>w'. exec e (ExecuteTrade s req) w =
      (Done (Inr \<lparr>ts_ProviderOrderId = null_text (c_provider_order_id r), ts_Status = c_status r\<rparr>), w') \<and>
    w_db w' = w_db w \<and> made {KTime, KReserve, KRead} w w'"
proof -
  have up: "db_up e" using assms(1) by (simp add: db_up_def)
  let ?resp = "\<lparr>ts_ProviderOrderId = null_text (c_provider_order_id r), ts_Status = c_status r\<rparr>"
  have "wp e (ExecuteTrade s req) (\<lambda>x w'. x = Done (Inr ?resp) \<and> after reserving (w_db w) w w') w"
  proof (rule ExecuteTrade_reserves [OF assms(3)])
    fix i w1
    assume w1: "after reserving (w_db w) w w1"
    then have db: "w_db w1 = w_db w" by (simp add: after_def)
    let ?ord = "new_order req i u q (resolve_provider s (tr_Provider req)) (if tr_Side req = 1 then SideSell else SideBuy)"
    have "wp e (reserveOrder s ?ord) (\<lambda>r' w'. \<exists>ord'. r' = Done (Inr (Some (order_of_row r)), ord') \<and>
        after reserving (w_db w1) w1 w') w1"
      using assms(4-8) new_order_simps(4) [of req i u q _ _ u]
      by (intro reserve_duplicate [OF up assms(2)]) (simp_all add: new_order_simps(1-3) db)
    then show "wp e (reserveOrder s ?ord) (\<lambda>x w'. \<exists>y ord'. x = Done (y, ord') \<and> y \<noteq> Inr None \<and>
        Done (case y of Inl st \<Rightarrow> Inl st
             | Inr (Some ex) \<Rightarrow> Inr \<lparr>ts_ProviderOrderId = bo_ProviderOrderID ex, ts_Status = bo_Status ex\<rparr>) = Done (Inr ?resp) \<and>
        after reserving (w_db w) w w') w1"
      by (rule wp_mono) (use w1 db in \<open>auto simp: order_of_row_def intro: after_trans\<close>)
  qed
  then show ?thesis by (auto simp: wp_def after_def split: prod.splits)
qed

definition demo_again :: world where
  "demo_again = demo_world\<lparr>w_db := \<lparr>t_orders = [demo_done], t_creds = []\<rparr>\<rparr>"

definition demo_held :: world where
  "demo_held = demo_world\<lparr>w_db := \<lparr>t_orders = [demo_row], t_creds = []\<rparr>\<rparr>"

lemma demo_insertable: "insertable (new_order demo_req u demo_intent \<lparr>coef = 5, expo = -1\<rparr> ''BINANCE'' SideBuy)"
  using demo_row_ok
  by (simp add: insertable_def unstamped_def row_of_order_def new_order_def demo_req_simps demo_upper SideBuy_def
      demo_row_def row_ok_def StatusPending_def)

theorem duplicate_returns_recorded_witness:
  "\<exists>w'. exec demo_env (ExecuteTrade demo_server demo_req) demo_again =
      (Done (Inr \<lparr>ts_ProviderOrderId = null_text (c_provider_order_id demo_done), ts_Status = c_status demo_done\<rparr>), w') \<and>
    w_db w' = w_db demo_again \<and> made {KTime, KReserve, KRead} demo_again w'"
proof (rule duplicate_returns_recorded [OF _ demo_server_simps(2) demo_validate])
  show "recorded_order demo_intent (tr_TenantId demo_req) (tr_IdempotencyKey demo_req) (t_orders (w_db demo_again)) = Some demo_done"
    by (simp add: recorded_order_def query_order_def demo_again_def demo_done_def demo_row_def)
  show "c_status demo_done \<noteq> StatusPending" by (simp add: demo_done_def StatusPending_def)
qed (simp_all add: demo_env_def demo_req_simps demo_provider demo_insertable)

text \<open>C4: While another request holds the reservation of a trade, ExecuteTrade waits for at least
  the reservation wait and then fails with Aborted, having written nothing and called neither the
  vault nor the broker.\<close>

theorem held_reservation_aborts:
  assumes "\<And>n. e_db e n = DbUp" and "\<And>n. e_wait e n = None" and "sv_ordersRepo s" and "0 < sv_reservationPoll s"
    and "validate_trade req = Inr (u, q)"
    and "insertable (new_order req u u q (resolve_provider s (tr_Provider req)) (if tr_Side req = 1 then SideSell else SideBuy))"
    and "length (tr_TenantId req) \<le> 64" and "length (tr_IdempotencyKey req) \<le> 128"
    and "recorded_order u (tr_TenantId req) (tr_IdempotencyKey req) (t_orders (w_db w)) = Some r"
    and "c_status r = StatusPending"
  shows "\<exists>w'. exec e (ExecuteTrade s req) w =
      (Done (Inl (Status Aborted ''trade intent is still being executed by another request'')), w') \<and>
    w_clock w + sv_reservationWait s \<le> w_clock w' \<and> w_db w' = w_db w \<and> made {KTime, KReserve, KRead} w w'"
proof -
  have up: "db_up e" using assms(1) by (simp add: db_up_def)
  have "wp e (ExecuteTrade s req) (\<lambda>x w'. x = Done (Inl aborted) \<and> after reserving (w_db w) w w' \<and>
      w_clock w + sv_reservationWait s \<le> w_clock w') w"
  proof (rule ExecuteTrade_reserves [OF assms(5)])
    fix i w1
    assume w1: "after reserving (w_db w) w w1"
    then have db: "w_db w1 = w_db w" and c1: "w_clock w \<le> w_clock w1" by (simp_all add: after_def)
    let ?ord = "new_order req i u q (resolve_provider s (tr_Provider req)) (if tr_Side req = 1 then SideSell else SideBuy)"
    let ?d = "w_clock w1 + sv_reservationWait s"
    have "wp e (reserveOrder s ?ord) (\<lambda>r' w'. \<exists>ord'. r' = Done (Inl aborted, ord') \<and>
        after reserving (w_db w1) w1 w' \<and> ?d \<le> w_clock w') w1"
      unfolding reserveOrder_def
    proof (rule wp_now_after [where K = reserving])
      fix w2
      assume w2: "after reserving (w_db w1) w1 w2"
      then have db2: "w_db w2 = w_db w1" and c2: "w_clock w1 \<le> w_clock w2" by (simp_all add: after_def)
      have "wp e (reserve_loop (reserve_fuel s) s ?d ?ord) (\<lambda>r w'. \<exists>ord'. r = Done (Inl aborted, ord') \<and>
          after reserving (w_db w2) w2 w' \<and> ?d \<le> w_clock w') w2"
      proof (rule reserve_loop_aborts [OF up assms(3,2,4,10)])
        show "?d \<le> w_clock w2 + (reserve_fuel s - 1) * sv_reservationPoll s"
          using fuel_covers_wait [OF assms(4)] c2 by linarith
      qed (use assms new_order_simps(4) [of req i u q _ _ u] in \<open>simp_all add: new_order_simps(1-3) db db2 reserve_fuel_def\<close>)
      then show "wp e (reserve_loop (reserve_fuel s) s ?d ?ord) (\<lambda>r' w'. \<exists>ord'. r' = Done (Inl aborted, ord') \<and>
        after reserving (w_db w1) w1 w' \<and> ?d \<le> w_clock w') w2"
        by (rule wp_mono) (use w2 db2 in \<open>auto intro: after_trans\<close>)
    qed simp
    then show "wp e (reserveOrder s ?ord) (\<lambda>x w'. \<exists>y ord'. x = Done (y, ord') \<and> y \<noteq> Inr None \<and>
        Done (case y of Inl st \<Rightarrow> Inl st
             | Inr (Some ex) \<Rightarrow> Inr \<lparr>ts_ProviderOrderId = bo_ProviderOrderID ex, ts_Status = bo_Status ex\<rparr>) = Done (Inl aborted) \<and>
        after reserving (w_db w) w w' \<and> w_clock w + sv_reservationWait s \<le> w_clock w') w1"
      by (rule wp_mono) (use w1 db c1 in \<open>auto intro: after_trans\<close>)
  qed
  then show ?thesis by (auto simp: wp_def after_def aborted_def split: prod.splits)
qed

theorem held_reservation_aborts_witness:
  "\<exists>w'. exec demo_env (ExecuteTrade demo_server demo_req) demo_held =
      (Done (Inl (Status Aborted ''trade intent is still being executed by another request'')), w') \<and>
    w_clock demo_held + sv_reservationWait demo_server \<le> w_clock w' \<and> w_db w' = w_db demo_held \<and>
    made {KTime, KReserve, KRead} demo_held w'"
proof (rule held_reservation_aborts [OF _ _ demo_server_simps(2) _ demo_validate])
  show "recorded_order demo_intent (tr_TenantId demo_req) (tr_IdempotencyKey demo_req) (t_orders (w_db demo_held)) = Some demo_row"
    by (simp add: recorded_order_def query_order_def demo_held_def demo_row_def)
  show "c_status demo_row = StatusPending" by (simp add: demo_row_def StatusPending_def)
  show "0 < sv_reservationPoll demo_server"
    by (simp add: demo_server_def NewPregaoServer_def defaultReservationPoll_def)
qed (simp_all add: demo_env_def demo_req_simps demo_provider demo_insertable)




end
