(* ===== verification/Deliveries.thy ===== *)
theory Deliveries
  imports Reservation
begin

text \<open>
  What the webhook makes of the payloads it is sent: the JSON of a fill event and of an execution
  report come through the generic map unchanged, as long as the numbers are below 2 ^ 53, and
  everything else is answered without effects.
\<close>

section \<open>The generic map\<close>

lemma map_of_update_fold:
  "map_of (fold (\<lambda>(k, v). AList.update k v) kvs m) = map_of m ++ map_of (rev kvs)"
  by (induction kvs arbitrary: m) (auto simp: map_add_def fun_eq_iff split: option.split)

lemma distinct_update_fold:
  "distinct (map fst m) \<Longrightarrow> distinct (map fst (fold (\<lambda>(k, v). AList.update k v) kvs m))"
  by (induction kvs arbitrary: m) (auto intro: distinct_update)

lemma go_map_keys: "distinct (map fst (go_map kvs))"
proof -
  have "distinct (map fst (fold (\<lambda>(k, v). AList.update k v) kvs []))"
    by (rule distinct_update_fold) simp
  then show ?thesis by (auto simp: go_map_def distinct_map intro: inj_on_subset)
qed

lemma map_of_go_map: "map_of (go_map kvs) = map_of (rev kvs)"
proof -
  let ?m = "fold (\<lambda>(k, v). AList.update k v) kvs []"
  have "distinct (map fst ?m)" by (rule distinct_update_fold) simp
  moreover have "set (go_map kvs) = set ?m" by (simp add: go_map_def)
  ultimately have "map_of (go_map kvs) = map_of ?m"
    using go_map_keys [of kvs] by (simp add: map_of_inject_set)
  then show ?thesis by (simp add: map_of_update_fold)
qed

lemma update_new: "k \<notin> fst ` set m \<Longrightarrow> AList.update k v m = m @ [(k, v)]"
  by (induction m) auto

lemma update_fold_distinct:
  "distinct (map fst (m @ kvs)) \<Longrightarrow> fold (\<lambda>(k, v). AList.update k v) kvs m = m @ kvs"
proof (induction kvs arbitrary: m)
  case (Cons x kvs)
  obtain k v where x: "x = (k, v)" by (cases x)
  with Cons.prems have "k \<notin> fst ` set m" and d: "distinct (map fst ((m @ [(k, v)]) @ kvs))" by auto
  then have "AList.update k v m = m @ [(k, v)]" by (simp add: update_new)
  with Cons.IH [OF d] x show ?case by simp
qed simp

lemma go_map_distinct: "distinct (map fst kvs) \<Longrightarrow> go_map kvs = sort_key fst kvs"
  by (simp add: go_map_def update_fold_distinct)

text \<open>Order of literal keys.\<close>

lemma char_less_eval: "c < d \<longleftrightarrow> byte_of c < byte_of d" "c \<le> d \<longleftrightarrow> byte_of c \<le> byte_of d"
  by (simp_all add: less_char_def less_eq_char_def byte_of_def)

section \<open>Fill events as JSON\<close>

definition plain :: "char \<Rightarrow> bool" where
  "plain c \<longleftrightarrow> 32 \<le> byte_of c \<and> byte_of c < 127 \<and> byte_of c \<notin> {34, 38, 60, 62, 92}"

lemma json_escape_plain: "list_all plain s \<Longrightarrow> json_escape s = s"
  by (induction s) (auto simp: plain_def json_escape_byte_def Let_def)

lemma plain_digit: "is_digit c \<Longrightarrow> plain c"
  by (auto simp: is_digit_def plain_def)

lemma plain_int_string: "list_all plain (int_string v)"
proof -
  have "list_all plain (nat_digits n)" for n
    using digits_nat_digits [of n] by (auto simp: list_all_iff intro: plain_digit)
  then show ?thesis by (simp add: int_string_def plain_def byte_of_def)
qed

lemma plain_Decimal_String: "list_all plain (Decimal_String d)"
proof (cases "expo d < 0")
  case True
  then obtain ip fp k where "Decimal_string True d = fixed_text (coef d < 0) ip fp" "digits ip" "digits fp"
    by (rule Decimal_string_fixed [of d True]) blast
  then show ?thesis
    by (auto simp: Decimal_String_def fixed_text_def list_all_iff plain_def [of "CHR ''.''"] plain_def [of "CHR ''-''"]
        byte_of_def intro: plain_digit)
next
  case False
  then show ?thesis by (simp add: Decimal_String_def Decimal_string_def plain_int_string)
qed

text \<open>json.Marshal of a FillEvent: decimals are quoted.\<close>

definition FillEvent_members :: "FillEvent \<Rightarrow> (string \<times> json) list" where
  "FillEvent_members event =
     [(''provider'', JString (fe_Provider event)), (''provider_order_id'', JString (fe_ProviderOrderID event)),
      (''symbol'', JString (fe_Symbol event)), (''side'', JString (fe_Side event)),
      (''status'', JString (fe_Status event)),
      (''executed_quantity'', JString (Decimal_String (fe_ExecutedQuantity event))),
      (''fill_price'', JString (Decimal_String (fe_FillPrice event)))]"

definition json_body :: "json \<Rightarrow> http_body" where
  "json_body v = \<lparr>hb_complete = True, hb_value = Some v, hb_trailing = False\<rparr>"

lemma decode_Decimal_String:
  assumes "in32 (expo d)"
  shows "\<exists>d'. dval d' = dval d \<and> (\<forall>upd s. decode_decimal upd (JString (Decimal_String d)) s = (upd d' s, True))"
proof -
  obtain d' where d': "Decimal_NewFromString (Decimal_String d) = Inr d'" "dval d' = dval d"
    using string_roundtrip [OF assms, of True] by (auto simp: Decimal_String_def)
  moreover have "Decimal_String d \<noteq> []"
    using d'(1) by (auto simp: Decimal_NewFromString_def Decimal_finish_def parse_mantissa_def parse_coef_def parse_int_def)
  ultimately show ?thesis
    using json_escape_plain [OF plain_Decimal_String, of d] by auto
qed

lemma FillEvent_sorted:
  "go_map (FillEvent_members event) =
     [(''executed_quantity'', JString (Decimal_String (fe_ExecutedQuantity event))),
      (''fill_price'', JString (Decimal_String (fe_FillPrice event))),
      (''provider'', JString (fe_Provider event)), (''provider_order_id'', JString (fe_ProviderOrderID event)),
      (''side'', JString (fe_Side event)), (''status'', JString (fe_Status event)),
      (''symbol'', JString (fe_Symbol event))]"
proof -
  have "distinct (map fst (FillEvent_members event))" by (simp add: FillEvent_members_def)
  then show ?thesis
    unfolding go_map_distinct [OF \<open>distinct (map fst (FillEvent_members event))\<close>]
    by (simp add: FillEvent_members_def char_less_eval byte_of_def)
qed

lemma event_field_for:
  "field_for event_fields ''executed_quantity'' = Some (decode_decimal (\<lambda>x s. s\<lparr>fe_ExecutedQuantity := x\<rparr>))"
  "field_for event_fields ''fill_price'' = Some (decode_decimal (\<lambda>x s. s\<lparr>fe_FillPrice := x\<rparr>))"
  "field_for event_fields ''provider'' = Some (decode_string (\<lambda>x s. s\<lparr>fe_Provider := x\<rparr>))"
  "field_for event_fields ''provider_order_id'' = Some (decode_string (\<lambda>x s. s\<lparr>fe_ProviderOrderID := x\<rparr>))"
  "field_for event_fields ''side'' = Some (decode_string (\<lambda>x s. s\<lparr>fe_Side := x\<rparr>))"
  "field_for event_fields ''status'' = Some (decode_string (\<lambda>x s. s\<lparr>fe_Status := x\<rparr>))"
  "field_for event_fields ''symbol'' = Some (decode_string (\<lambda>x s. s\<lparr>fe_Symbol := x\<rparr>))"
  by (simp_all add: field_for_def event_fields_def)

lemma generic_strings:
  "generic_members (map (\<lambda>(k, x). (k, JString x)) kxs) = Some (map (\<lambda>(k, x). (k, JString x)) kxs)"
  by (induction kxs) auto

lemma event_delivered:
  assumes "in32 (expo (fe_ExecutedQuantity event))" and "in32 (expo (fe_FillPrice event))"
  shows "\<exists>q p. dval q = dval (fe_ExecutedQuantity event) \<and> dval p = dval (fe_FillPrice event) \<and>
    handleBinanceOrderWebhook s ''POST'' (json_body (JObject (FillEvent_members event))) =
      process_event s (event\<lparr>fe_ExecutedQuantity := q, fe_FillPrice := p\<rparr>)"
proof -
  obtain q where q: "dval q = dval (fe_ExecutedQuantity event)"
    "\<And>upd (s :: FillEvent). decode_decimal upd (JString (Decimal_String (fe_ExecutedQuantity event))) s = (upd q s, True)"
    using decode_Decimal_String [OF assms(1)] by blast
  obtain p where p: "dval p = dval (fe_FillPrice event)"
    "\<And>upd (s :: FillEvent). decode_decimal upd (JString (Decimal_String (fe_FillPrice event))) s = (upd p s, True)"
    using decode_Decimal_String [OF assms(2)] by blast
  have raw: "decode_map (json_body (JObject (FillEvent_members event))) = Some (go_map (FillEvent_members event))"
    by (simp add: decode_map_def json_body_def FillEvent_members_def)
  have "decoded FillEvent_json zero_FillEvent (JObject (go_map (FillEvent_members event))) =
      Some (event\<lparr>fe_ExecutedQuantity := q, fe_FillPrice := p\<rparr>)"
    unfolding FillEvent_sorted
    by (simp add: decoded_def FillEvent_json_def event_field_for q(2) p(2) zero_FillEvent_def
        del: decode_decimal.simps)
  moreover have "map_of (go_map (FillEvent_members event)) ''provider_order_id'' \<noteq> None"
    unfolding FillEvent_sorted by simp
  ultimately have "handleBinanceOrderWebhook s ''POST'' (json_body (JObject (FillEvent_members event))) =
      process_event s (event\<lparr>fe_ExecutedQuantity := q, fe_FillPrice := p\<rparr>)"
    unfolding handleBinanceOrderWebhook_def raw by simp
  with q(1) p(1) show ?thesis by blast
qed

section \<open>Execution reports as JSON\<close>

text \<open>json.Marshal of a RawBinanceExecutionReport.\<close>

definition report_members :: "RawBinanceExecutionReport \<Rightarrow> (string \<times> json) list" where
  "report_members r =
     [(''e'', JString (rp_EventType r)), (''E'', JNumber (int_string (rp_EventTime r))),
      (''s'', JString (rp_Symbol r)), (''c'', JString (rp_ClientOrderID r)), (''S'', JString (rp_Side r)),
      (''o'', JString (rp_OrderType r)), (''q'', JString (rp_OriginalQuantity r)), (''p'', JString (rp_Price r)),
      (''x'', JString (rp_ExecutionType r)), (''X'', JString (rp_OrderStatus r)),
      (''i'', JNumber (int_string (rp_OrderID r))), (''l'', JString (rp_LastExecutedQuantity r)),
      (''z'', JString (rp_CumulativeFilledQty r)), (''L'', JString (rp_LastExecutedPrice r)),
      (''Z'', JString (rp_CumulativeQuoteQuantity r))]"

lemma number_nat_digits: "digits s \<Longrightarrow> number_nat acc s = digits_val acc s"
  by (induction s arbitrary: acc) (auto simp: is_digit_def digit_val_def)

lemma number_int64_int: "number_int64 (int_string v) = (if in64 v then Some v else None)"
proof -
  have d: "number_nat 0 (nat_digits (nat \<bar>v\<bar>)) = Some (nat \<bar>v\<bar>)"
    by (simp add: number_nat_digits digits_val_eq)
  obtain a as where a: "nat_digits (nat \<bar>v\<bar>) = a # as" by (cases "nat_digits (nat \<bar>v\<bar>)") auto
  moreover have "is_digit a" using digits_nat_digits [of "nat \<bar>v\<bar>"] a by simp
  ultimately show ?thesis
    using d by (auto simp: number_int64_def int_string_def Let_def)
qed

lemma number_int64_text: "in64 v \<Longrightarrow> number_int64 (int_string v) = Some v"
  by (simp add: number_int64_int)

lemma report_sorted:
  "go_map (report_members r) =
     [(''E'', JNumber (int_string (rp_EventTime r))), (''L'', JString (rp_LastExecutedPrice r)),
      (''S'', JString (rp_Side r)), (''X'', JString (rp_OrderStatus r)), (''Z'', JString (rp_CumulativeQuoteQuantity r)),
      (''c'', JString (rp_ClientOrderID r)), (''e'', JString (rp_EventType r)),
      (''i'', JNumber (int_string (rp_OrderID r))), (''l'', JString (rp_LastExecutedQuantity r)),
      (''o'', JString (rp_OrderType r)), (''p'', JString (rp_Price r)), (''q'', JString (rp_OriginalQuantity r)),
      (''s'', JString (rp_Symbol r)), (''x'', JString (rp_ExecutionType r)), (''z'', JString (rp_CumulativeFilledQty r))]"
proof -
  have d: "distinct (map fst (report_members r))" by (simp add: report_members_def)
  show ?thesis
    unfolding go_map_distinct [OF d] by (simp add: report_members_def char_less_eval byte_of_def)
qed

lemma report_field_for:
  "field_for report_fields ''E'' = Some (decode_int64 (\<lambda>x s. s\<lparr>rp_EventTime := x\<rparr>))"
  "field_for report_fields ''L'' = Some (decode_string (\<lambda>x s. s\<lparr>rp_LastExecutedPrice := x\<rparr>))"
  "field_for report_fields ''S'' = Some (decode_string (\<lambda>x s. s\<lparr>rp_Side := x\<rparr>))"
  "field_for report_fields ''X'' = Some (decode_string (\<lambda>x s. s\<lparr>rp_OrderStatus := x\<rparr>))"
  "field_for report_fields ''Z'' = Some (decode_string (\<lambda>x s. s\<lparr>rp_CumulativeQuoteQuantity := x\<rparr>))"
  "field_for report_fields ''c'' = Some (decode_string (\<lambda>x s. s\<lparr>rp_ClientOrderID := x\<rparr>))"
  "field_for report_fields ''e'' = Some (decode_string (\<lambda>x s. s\<lparr>rp_EventType := x\<rparr>))"
  "field_for report_fields ''i'' = Some (decode_int64 (\<lambda>x s. s\<lparr>rp_OrderID := x\<rparr>))"
  "field_for report_fields ''l'' = Some (decode_string (\<lambda>x s. s\<lparr>rp_LastExecutedQuantity := x\<rparr>))"
  "field_for report_fields ''o'' = Some (decode_string (\<lambda>x s. s\<lparr>rp_OrderType := x\<rparr>))"
  "field_for report_fields ''p'' = Some (decode_string (\<lambda>x s. s\<lparr>rp_Price := x\<rparr>))"
  "field_for report_fields ''q'' = Some (decode_string (\<lambda>x s. s\<lparr>rp_OriginalQuantity := x\<rparr>))"
  "field_for report_fields ''s'' = Some (decode_string (\<lambda>x s. s\<lparr>rp_Symbol := x\<rparr>))"
  "field_for report_fields ''x'' = Some (decode_string (\<lambda>x s. s\<lparr>rp_ExecutionType := x\<rparr>))"
  "field_for report_fields ''z'' = Some (decode_string (\<lambda>x s. s\<lparr>rp_CumulativeFilledQty := x\<rparr>))"
  by (simp_all add: field_for_def report_fields_def)

lemma small_in64: "\<bar>v\<bar> < 2 ^ 53 \<Longrightarrow> in64 v"
  by (auto simp: in64_def)

lemma report_decoded:
  assumes "\<bar>rp_OrderID r\<bar> < 2 ^ 53" and "\<bar>rp_EventTime r\<bar> < 2 ^ 53"
  shows "decode_map (json_body (JObject (report_members r))) = Some (go_map (report_members r))"
    and "decoded RawBinanceExecutionReport_json zero_report (JObject (go_map (report_members r))) = Some r"
proof -
  show "decode_map (json_body (JObject (report_members r))) = Some (go_map (report_members r))"
    by (simp add: decode_map_def json_body_def report_members_def renumber_int [OF assms(1)] renumber_int [OF assms(2)])
  show "decoded RawBinanceExecutionReport_json zero_report (JObject (go_map (report_members r))) = Some r"
    unfolding report_sorted
    by (simp add: decoded_def RawBinanceExecutionReport_json_def report_field_for zero_report_def
        number_int64_text [OF small_in64 [OF assms(1)]] number_int64_text [OF small_in64 [OF assms(2)]])
qed

text \<open>A member that cannot be decoded fails the whole report.\<close>

lemma generic_member:
  "generic_members ms = Some kvs \<Longrightarrow> map_of (rev kvs) k = Some v \<Longrightarrow> (k, v) \<in> set (go_map kvs)"
  using map_of_go_map [of kvs] map_of_SomeD [of "go_map kvs" k v] by simp

lemma order_time_field: "field_for report_fields ''O'' = Some (decode_string (\<lambda>x s. s\<lparr>rp_OrderType := x\<rparr>))"
  by (simp add: field_for_def report_fields_def equal_fold_def to_upper_def str_eval)

lemma order_time_rejected:
  assumes "(''O'', JNumber lit) \<in> set kvs"
  shows "decoded RawBinanceExecutionReport_json z (JObject kvs) = None"
proof -
  have "\<not> snd (decode_members report_fields kvs z)"
    by (rule decode_members_error [OF assms order_time_field]) simp
  then show ?thesis
    by (cases "decode_members report_fields kvs z") (simp add: decoded_def RawBinanceExecutionReport_json_def)
qed

section \<open>Answers\<close>

lemma uses_made: "uses K p \<Longrightarrow> wp e p (\<lambda>_ w'. made K w w') w"
  unfolding uses_def
  by (rule wp_calls_in [where S = "\<lambda>c. call_kind c \<in> K" and I = "made K w"])
    (auto intro: made_trans handle_made [OF prod.collapse [symmetric]])

lemma process_event_codes: "returns (\<lambda>reply. wr_Code reply \<in> {200, 500}) (process_event s event)"
  by (auto simp: process_event_def http_Error_def intro!: returns_pbind split: sum.split)

text \<open>A delivery is answered at once, or its event is processed.\<close>

lemma webhook_cases:
  "(\<exists>reply. handleBinanceOrderWebhook s m b = Ret reply \<and>
      (if m \<noteq> ''POST'' then wr_Code reply = 405 else wr_Code reply \<in> {200, 400})) \<or>
   (m = ''POST'' \<and> (\<exists>event. handleBinanceOrderWebhook s m b = process_event s event)) \<or>
   handleBinanceOrderWebhook s m b = Halt Panicked"
  by (auto simp: handleBinanceOrderWebhook_def http_Error_def or_panic_def split: option.split)

section \<open>An order id beyond 2 ^ 53\<close>

lemma shortest_digits_numeral:
  "shortest_digits (numeral f) n m e k =
     (case digits_candidate m e k n of
        Some c \<Rightarrow> (c, n)
      | None \<Rightarrow> shortest_digits (pred_numeral f) (Suc n) m e k)"
  by (simp add: numeral_eq_Suc)

lemma big_id_digits: "float_digits 4503599627370496 1 = (''9007199254740992'', 16)"
proof -
  have "decimal_point 9007199254740992 (Suc 0) = 16"
    by (simp add: decimal_point_def nat_digits.simps)
  moreover have "shortest_digits 17 (Suc 0) 4503599627370496 1 16 = (9007199254740992, 16)"
    by (simp add: shortest_digits_numeral digits_candidate_def Let_def)
  moreover have "nat_digits 9007199254740992 = ''9007199254740992''"
    by (simp add: nat_digits.simps digit_char_def char_of_eval)
  ultimately show ?thesis
    by (simp add: float_digits_def trim_zeros_def trim_right_def Let_def)
qed

lemma big_id_renumbered: "renumber ''9007199254740993'' = Some ''9007199254740992''"
proof -
  have "number_parts ''9007199254740993'' = Some (False, 9007199254740993, 0)"
    by (simp add: number_parts_def digit_val_def byte_of_def)
  moreover have "bit_count 9007199254740993 = 54" by (simp add: bit_count.simps)
  then have "nearest_float 9007199254740993 (Suc 0) = (4503599627370496, 1)"
    by (simp add: nearest_float_def float_exponent_def in_units_def div_even_def Let_def)
  ultimately show ?thesis
    by (simp add: renumber_def ParseFloat_def format_float_def big_id_digits format_f_def)
qed

section \<open>A delivery\<close>

definition demo_report :: RawBinanceExecutionReport where
  "demo_report = zero_report\<lparr>rp_EventType := ''executionReport'', rp_EventTime := 1600000000,
     rp_Symbol := ''BTCUSDT'', rp_Side := ''BUY'', rp_OrderType := ''MARKET'', rp_ExecutionType := ''TRADE'',
     rp_OrderStatus := ''FILLED'', rp_OrderID := 12345678, rp_LastExecutedQuantity := ''0.25'',
     rp_LastExecutedPrice := ''64000.5''\<rparr>"

lemma demo_report_texts:
  "Decimal_NewFromString ''0.25'' = Inr \<lparr>coef = 25, expo = -2\<rparr>"
  "Decimal_NewFromString ''64000.5'' = Inr \<lparr>coef = 640005, expo = -1\<rparr>"
  by (simp_all add: parse_eval)

definition demo_webhook :: Server where
  "demo_webhook = NewServer \<lparr>fp_ordersRepo = True, fp_livroClient = True, fp_ativosClient = True\<rparr>"

definition demo_event :: FillEvent where
  "demo_event = \<lparr>fe_Provider = ''BINANCE'', fe_ProviderOrderID = ''998877'', fe_Symbol = ''ETHUSDT'',
     fe_Side = ''SELL'', fe_Status = ''FILLED'', fe_ExecutedQuantity = \<lparr>coef = 15, expo = -1\<rparr>,
     fe_FillPrice = \<lparr>coef = 320050, expo = -2\<rparr>\<rparr>"

section \<open>Properties\<close>

text \<open>C12: A fill event posted to the webhook in the JSON its own type encodes to is handed to
  ProcessFill unchanged: the same texts, and amounts of the same value.\<close>

theorem fill_event_delivered:
  assumes "in32 (expo (fe_ExecutedQuantity event))" and "in32 (expo (fe_FillPrice event))"
  shows "\<exists>q p. dval q = dval (fe_ExecutedQuantity event) \<and> dval p = dval (fe_FillPrice event) \<and>
    handleBinanceOrderWebhook s ''POST'' (json_body (JObject (FillEvent_members event))) =
      process_event s (event\<lparr>fe_ExecutedQuantity := q, fe_FillPrice := p\<rparr>)"
  using assms by (rule event_delivered)

theorem fill_event_delivered_witness:
  "\<exists>q p. dval q = dval (fe_ExecutedQuantity demo_event) \<and> dval p = dval (fe_FillPrice demo_event) \<and>
    handleBinanceOrderWebhook demo_webhook ''POST'' (json_body (JObject (FillEvent_members demo_event))) =
      process_event demo_webhook (demo_event\<lparr>fe_ExecutedQuantity := q, fe_FillPrice := p\<rparr>)"
  by (rule fill_event_delivered) (simp_all add: demo_event_def in32_def)



text \<open>C14: A report that carries the creation time of the order as a number under O, as the
  documented execution reports of Binance do, is rejected with status 400: the decoder takes O for
  the text field o, because field names match up to case.\<close>

theorem order_time_report_rejected:
  assumes "generic_members ms = Some kvs" and "map_of (rev kvs) ''O'' = Some (JNumber lit)"
    and "map_of (rev kvs) ''e'' \<noteq> None" and "map_of (rev kvs) ''provider_order_id'' = None"
  shows "handleBinanceOrderWebhook s ''POST'' (json_body (JObject ms)) =
    Ret (http_Error ''invalid binance execution report'' 400)"
proof -
  have "decode_map (json_body (JObject ms)) = Some (go_map kvs)"
    by (simp add: decode_map_def json_body_def assms(1))
  moreover have "decoded RawBinanceExecutionReport_json zero_report (JObject (go_map kvs)) = None"
    using generic_member [OF assms(1,2)] by (rule order_time_rejected)
  ultimately show ?thesis
    using assms(3,4) by (simp add: handleBinanceOrderWebhook_def map_of_go_map)
qed

theorem order_time_report_rejected_witness:
  "handleBinanceOrderWebhook demo_webhook ''POST''
     (json_body (JObject (report_members demo_report @ [(''O'', JNumber (int_string 1600000000000))]))) =
    Ret (http_Error ''invalid binance execution report'' 400)"
proof (rule order_time_report_rejected)
  have "renumber (int_string 1600000000000) = Some (int_string 1600000000000)"
    "renumber (int_string (rp_OrderID demo_report)) = Some (int_string (rp_OrderID demo_report))"
    "renumber (int_string (rp_EventTime demo_report)) = Some (int_string (rp_EventTime demo_report))"
    by (rule renumber_int, simp add: demo_report_def)+
  then show "generic_members (report_members demo_report @ [(''O'', JNumber (int_string 1600000000000))]) =
      Some (report_members demo_report @ [(''O'', JNumber (int_string 1600000000000))])"
    by (simp add: report_members_def)
qed (simp_all add: report_members_def)




end
