(* ===== verification/Lifecycle.thy ===== *)
theory Lifecycle
  imports Scenario
begin

text \<open>
  The life of the rows of broker_orders.  Every statement a handler can issue is \<open>lawful\<close>:
  reservations are inserted PENDING and without a broker order id, only PENDING rows are deleted,
  a confirmation turns a PENDING row into a recorded one, a fill sets FILLED or PARTIAL.  From
  this follow the well-formedness of every row in every reachable state, and that the table
  implements the small state machine \<open>trade_step\<close>.  The last section is about the end of the
  requests: under every fair schedule each of them is answered.
\<close>

section \<open>Columns\<close>

lemma varchar_idem [simp]: "varchar n (varchar n s) = varchar n s" "varchar_ok n (varchar n s)"
  by (simp_all add: varchar_def varchar_ok_def)

lemma numeric_idem [simp]: "n = 8 \<or> n = 4 \<Longrightarrow> numeric n (numeric n d) = numeric n d"
  by (auto simp: numeric_def Round_eq in32_def dval_def power_int_minus)

lemma numeric_ok_idem [simp]: "n = 8 \<or> n = 4 \<Longrightarrow> numeric_ok p n (numeric n d) = numeric_ok p n d"
  by (simp add: numeric_ok_def)

lemma option_varchar_idem [simp]:
  "map_option (varchar n) (map_option (varchar n) x) = map_option (varchar n) x"
  "option_ok (varchar_ok n) (map_option (varchar n) x)"
  by (simp_all add: option_ok_def option.map_comp comp_def split: option.split)

text \<open>A row whose values have the types of their columns: converting them again changes nothing.\<close>

definition row_typed :: "order_row \<Rightarrow> bool" where
  "row_typed r \<longleftrightarrow> row_ok r \<and> stored_row r = r"

lemma stored_row_typed: "row_ok r \<Longrightarrow> row_typed (stored_row r)"
  by (simp add: row_typed_def row_ok_def stored_row_def)

section \<open>Rows and their status\<close>

definition recorded_statuses :: "string set" where
  "recorded_statuses = {StatusSubmitted, StatusPartial, StatusFilled, StatusCanceled, StatusRejected}"

text \<open>A reservation is PENDING and has no broker order; a recorded order has one.\<close>

definition row_lives :: "order_row \<Rightarrow> bool" where
  "row_lives r \<longleftrightarrow>
     (c_status r = StatusPending \<and> c_provider_order_id r = None) \<or>
     (c_status r \<in> recorded_statuses \<and> c_provider_order_id r \<noteq> None)"

definition lawful :: "stmt \<Rightarrow> bool" where
  "lawful st =
     (case st of
        InsertOrder r \<Rightarrow> c_status r = StatusPending \<and> c_provider_order_id r = None
      | ConfirmStmt poid status fq ap i old \<Rightarrow> old = StatusPending \<and> status \<in> recorded_statuses
      | DeleteStmt i status \<Rightarrow> status = StatusPending
      | FillStmt status fq ap provider poid \<Rightarrow> status \<in> {StatusFilled, StatusPartial}
      | UpsertCred c \<Rightarrow> True)"

lemma recorded_varchar: "status \<in> recorded_statuses \<Longrightarrow> varchar 32 status = status \<and> varchar_ok 32 status"
  by (auto simp: recorded_statuses_def)

lemma pending_not_recorded: "StatusPending \<notin> recorded_statuses"
  by (auto simp: recorded_statuses_def status_defs)

lemma fill_statuses_recorded: "{StatusFilled, StatusPartial} \<subseteq> recorded_statuses"
  by (auto simp: recorded_statuses_def)

lemma update_orders_rows:
  assumes "\<And>r. r \<in> set t \<Longrightarrow> P r" and "\<And>r. p r \<Longrightarrow> fits \<Longrightarrow> P r \<Longrightarrow> P (f r)"
    and "r \<in> set (snd (update_orders p fits f t))"
  shows "P r"
  using assms by (auto simp: update_orders_def split: if_splits)

text \<open>What a lawful statement keeps of every row.\<close>

lemma stored_row_fixed:
  "stored_row r = r \<longleftrightarrow>
     varchar 64 (c_tenant_id r) = c_tenant_id r \<and> varchar 64 (c_user_id r) = c_user_id r \<and>
     varchar 32 (c_provider r) = c_provider r \<and>
     map_option (varchar 64) (c_provider_order_id r) = c_provider_order_id r \<and>
     varchar 32 (c_symbol r) = c_symbol r \<and> varchar 16 (c_side r) = c_side r \<and>
     numeric 8 (c_target_quantity r) = c_target_quantity r \<and> varchar 32 (c_status r) = c_status r \<and>
     numeric 8 (c_filled_quantity r) = c_filled_quantity r \<and>
     numeric 4 (c_average_fill_price r) = c_average_fill_price r \<and>
     map_option (varchar 128) (c_idempotency_key r) = c_idempotency_key r \<and>
     map_option (varchar 64) (c_portfolio_id r) = c_portfolio_id r \<and>
     map_option (varchar 64) (c_livro_hold_id r) = c_livro_hold_id r"
  by (cases r) (auto simp: stored_row_def)

lemma row_typed_updates:
  "row_typed r \<Longrightarrow> numeric_ok 28 8 fq \<Longrightarrow> numeric_ok 28 4 ap \<Longrightarrow> status \<in> recorded_statuses \<Longrightarrow>
     row_typed (r\<lparr>c_status := status, c_filled_quantity := numeric 8 fq,
                 c_average_fill_price := numeric 4 ap, c_updated_at := now\<rparr>)"
  "row_typed r \<Longrightarrow> numeric_ok 28 8 fq \<Longrightarrow> numeric_ok 28 4 ap \<Longrightarrow> status \<in> recorded_statuses \<Longrightarrow>
     row_typed (r\<lparr>c_provider_order_id := Some (varchar 64 poid), c_status := status,
                 c_filled_quantity := numeric 8 fq, c_average_fill_price := numeric 4 ap, c_updated_at := now\<rparr>)"
  using recorded_varchar [of status]
  by (simp_all add: row_typed_def row_ok_def stored_row_fixed option_ok_def)

definition row_sound :: "order_row \<Rightarrow> bool" where
  "row_sound r \<longleftrightarrow> row_typed r \<and> row_lives r"

lemma stored_row_sound:
  "row_ok r \<Longrightarrow> c_status r = StatusPending \<Longrightarrow> c_provider_order_id r = None \<Longrightarrow> row_sound (stored_row r)"
  by (simp add: row_sound_def stored_row_typed row_lives_def) (simp add: stored_row_def)

lemma run_stmt_sound:
  assumes "lawful st" and "\<And>r. r \<in> set (t_orders db) \<Longrightarrow> row_sound r"
    and "r \<in> set (t_orders (snd (run_stmt now st db)))"
  shows "row_sound r"
proof (cases st)
  case (InsertOrder r')
  with assms show ?thesis
    by (auto simp: insert_order_def lawful_def stored_row_sound split: if_splits)
next
  case (ConfirmStmt poid status fq ap i old)
  note st = ConfirmStmt
  have "r \<in> set (snd (confirm_orders now poid status fq ap i old (t_orders db)))"
    using assms(3) by (simp add: st split_beta)
  then show ?thesis
    unfolding confirm_orders_def
    by (rule update_orders_rows [where P = row_sound, rotated 2])
      (use assms(1,2) st pending_not_recorded in
        \<open>auto simp: lawful_def row_sound_def row_lives_def recorded_varchar row_typed_updates\<close>)
next
  case (DeleteStmt i status)
  with assms show ?thesis by (auto simp: delete_orders_def Let_def)
next
  case (FillStmt status fq ap provider poid)
  note st = FillStmt
  have rec: "status \<in> recorded_statuses"
    using assms(1) st fill_statuses_recorded by (auto simp: lawful_def)
  have "r \<in> set (snd (fill_orders now status fq ap provider poid (t_orders db)))"
    using assms(3) by (simp add: st split_beta)
  then show ?thesis
    unfolding fill_orders_def
    by (rule update_orders_rows [where P = row_sound, rotated 2])
      (use assms(2) rec in \<open>auto simp: row_sound_def row_lives_def recorded_varchar row_typed_updates\<close>)
next
  case (UpsertCred c)
  with assms show ?thesis by (simp add: split_beta)
qed

section \<open>Every request makes lawful statements\<close>

definition lawful_call :: "call \<Rightarrow> bool" where
  "lawful_call c \<longleftrightarrow> (case c of CExec st \<Rightarrow> lawful st | _ \<Rightarrow> True)"

text \<open>Every call is lawful, and a result satisfies F.\<close>

definition lawfully :: "('a \<Rightarrow> bool) \<Rightarrow> 'a prog \<Rightarrow> bool" where
  "lawfully F p = obeys (\<lambda>_ c. if lawful_call c then Some (\<lambda>_. ()) else None) (\<lambda>_. F) (\<lambda>_ _. True) p ()"

lemma lawfully_simps [simp]:
  "lawfully F (Ret a) = F a" "lawfully F (Halt h)"
  "lawfully F (Call c k) \<longleftrightarrow> lawful_call c \<and> (\<forall>r. typed c r \<longrightarrow> lawfully F (k r))"
  by (simp_all add: lawfully_def)

lemma lawful_call_simps [simp]:
  "lawful_call (CExec st) = lawful st" "lawful_call CNow" "lawful_call CNewUUID" "lawful_call (CWait n)"
  "lawful_call (CQueryOrder q)"
  by (simp_all add: lawful_call_def)

abbreviation lawfull :: "'a prog \<Rightarrow> bool" where
  "lawfull \<equiv> lawfully (\<lambda>_. True)"

lemma uses_lawfully: "uses K p \<Longrightarrow> K \<inter> changes_tables = {} \<Longrightarrow> lawfull p"
  unfolding uses_def
  by (induction p)
    (auto simp: lawful_call_def lawful_def changes_tables_def split: call.splits stmt.splits)

lemma lawfully_pbind: "lawfully G p \<Longrightarrow> (\<And>a. G a \<Longrightarrow> lawfully F (f a)) \<Longrightarrow> lawfully F (pbind p f)"
  by (induction p) auto

lemma lawfull_pbind: "lawfull p \<Longrightarrow> (\<And>a. lawfully F (f a)) \<Longrightarrow> lawfully F (pbind p f)"
  by (rule lawfully_pbind)

lemma lawfully_pdefer: "lawfully F p \<Longrightarrow> lawfull d \<Longrightarrow> lawfully F (pdefer p d)"
  by (induction p) (auto intro: lawfull_pbind)

lemma lawfully_pguard: "lawfully F p \<Longrightarrow> lawfull d \<Longrightarrow> lawfully F (pguard p d)"
  by (induction p) (auto intro: lawfull_pbind split: sum.split)

lemma lawfully_or_panic: "(\<And>v. x = Some v \<Longrightarrow> lawfully F (k v)) \<Longrightarrow> lawfully F (or_panic x k)"
  by (simp add: or_panic_def split: option.split)

lemma lawfully_typed:
  "(\<And>x. lawfully F (k1 x)) \<Longrightarrow> lawfully F (c_now k1)"
  "(\<And>x. lawfully F (k2 x)) \<Longrightarrow> lawfully F (c_uuid k2)"
  "lawful st \<Longrightarrow> (\<And>x. lawfully F (k3 x)) \<Longrightarrow> lawfully F (c_exec st k3)"
  "(\<And>x. lawfully F (k4 x)) \<Longrightarrow> lawfully F (c_query_order q k4)"
  "(\<And>x. lawfully F (k6 x)) \<Longrightarrow> lawfully F (c_wait n k6)"
  by (auto simp: call_defs split: reply.split)

lemmas lawfully_intros = lawfull_pbind lawfully_pdefer lawfully_pguard lawfully_or_panic lawfully_typed

lemma mapOrderStatus_recorded: "mapOrderStatus x \<in> recorded_statuses"
  by (simp add: mapOrderStatus_def recorded_statuses_def Let_def)

lemma ReserveOrder_lawfull: "lawfull (ReserveOrder ord)"
  by (auto simp: ReserveOrder_def Let_def lawful_def stamp_order_def row_of_order_def
      intro!: lawfully_intros split: sum.split)

lemma reserve_loop_lawfull: "lawfull (reserve_loop n s deadline ord)"
proof (induction n arbitrary: ord)
  case (Suc n)
  have "lawfull (existing_order ord')" for ord'
    by (rule uses_lawfully [OF existing_order_uses]) (simp add: changes_tables_def)
  with Suc show ?case
    by (auto simp: wait_turn_def intro!: lawfully_intros ReserveOrder_lawfull split: sum.split option.split)
qed simp

lemma releaseReservation_lawfull: "lawfull (releaseReservation ord)"
  by (auto simp: releaseReservation_def ReleaseOrder_def lawful_def intro!: lawfully_intros split: sum.split)

definition with_status :: "'e + OrderResult \<Rightarrow> bool" where
  "with_status res \<longleftrightarrow> (case res of Inl _ \<Rightarrow> True | Inr r \<Rightarrow> or_Status r \<in> recorded_statuses)"

lemma with_status_simps [simp]:
  "with_status (Inl e)" "with_status (Inr r) \<longleftrightarrow> or_Status r \<in> recorded_statuses"
  by (simp_all add: with_status_def)

lemma order_answer_status: "lawfully with_status (order_answer res)"
  by (auto simp: order_answer_def order_result_def Let_def mapOrderStatus_recorded
      intro!: lawfully_or_panic split: sum.split option.splits)

lemma Zero_lawfull: "lawfull (Zero ptr)"
  by (rule uses_lawfully [OF Zero_uses]) (simp add: changes_tables_def)

lemma with_credentials_status:
  assumes "\<And>x y. lawfully with_status (body x y)"
  shows "lawfully with_status (with_credentials creds m body)"
proof -
  have "lawfully with_status (pdefer (body x y) (Zero creds))" for x y
    by (intro lawfully_pdefer assms Zero_lawfull)
  then show ?thesis
    by (auto simp: with_credentials_def load_slice_def call_defs lawful_call_def split: option.split reply.split)
qed

lemma PlaceMarketOrder_status: "lawfully with_status (PlaceMarketOrder c creds r)"
proof -
  have "lawfully with_status (c_http (CBinance q) order_answer)" for q
    by (auto simp: call_defs lawful_call_def order_answer_status split: reply.split)
  then show ?thesis
    by (auto simp: PlaceMarketOrder_def intro!: with_credentials_status lawfully_intros)
qed

lemma dispatch_order_status: "lawfully with_status (dispatch_order s p r)"
  unfolding dispatch_order_def
  by (rule lawfully_pbind [OF PlaceMarketOrder_status]) (auto split: sum.splits)

lemma settle_lawfull: "lawfull (settle p order event v q st)"
  by (rule uses_lawfully [OF settle_uses]) (simp add: changes_tables_def)

lemma ProcessFill_lawfull: "lawfull (ProcessFill p event)"
  by (auto simp: ProcessFill_def apply_fill_def GetOrderByProviderOrderID_def UpdateOrderFill_def Let_def lawful_def new_status_def
      intro!: lawfully_intros settle_lawfull split: sum.split)

lemma settle_order_lawfull:
  "or_Status res \<in> recorded_statuses \<Longrightarrow> lawfull (settle_order s req pr sd ord res)"
  by (auto simp: settle_order_def ConfirmOrder_def Let_def lawful_def recorded_statuses_def
      intro!: lawfully_intros ProcessFill_lawfull split: sum.split option.split)

lemma load_credentials_lawfull: "lawfull (load_credentials s tenant provider a b c)"
  by (rule uses_lawfully [OF load_credentials_uses]) (simp add: changes_tables_def)

lemma execute_reserved_lawfull: "lawfull (execute_reserved s req pr sd qty ord)"
proof -
  have sent: "lawfully with_status (pguard (pguard (dispatch_order s p r) (Zero (Some p))) (releaseReservation ord))" for p r
    by (intro lawfully_pguard dispatch_order_status Zero_lawfull releaseReservation_lawfull)
  show ?thesis
    unfolding execute_reserved_def
    by (auto intro!: lawfull_pbind lawfully_pguard load_credentials_lawfull releaseReservation_lawfull
        lawfully_pbind [OF sent] lawfully_pdefer settle_order_lawfull Zero_lawfull split: sum.split)
qed

lemma ExecuteTrade_lawfull: "lawfull (ExecuteTrade s req)"
  by (auto simp: ExecuteTrade_def reserveOrder_def Let_def
      intro!: lawfully_intros reserve_loop_lawfull execute_reserved_lawfull split: sum.split option.split)

lemma serve_lawfull: "lawfull (serve q)"
proof (cases q)
  case (CredentialsRequest cred)
  then show ?thesis
    by (auto simp: SaveCredentials_def lawful_def intro!: lawfully_intros split: sum.split)
next
  case (WebhookRequest s m b)
  have "lawfull (process_event s event)" for event
    by (auto simp: process_event_def intro!: lawfully_intros ProcessFill_lawfull split: sum.split)
  with WebhookRequest show ?thesis
    by (auto simp: handleBinanceOrderWebhook_def intro!: lawfully_intros split: option.split)
qed (auto intro!: lawfull_pbind ExecuteTrade_lawfull ProcessFill_lawfull
      uses_lawfully [OF SyncBrokerBalances_uses] uses_lawfully [OF GetQuotes_uses]
      uses_lawfully [OF ValidateTickers_uses] simp: changes_tables_def)

section \<open>Every reachable table is well formed\<close>

abbreviation orders :: "'a sys \<Rightarrow> order_row list" where
  "orders s \<equiv> t_orders (w_db (s_world s))"

definition sound :: "unit sys \<Rightarrow> bool" where
  "sound s \<longleftrightarrow> tables_ok (w_db (s_world s)) \<and> list_all row_sound (orders s) \<and> (\<forall>i. lawfull (s_threads s i))"

text \<open>The requests have just arrived, over a table that is well formed.\<close>

definition arriving :: "(nat \<Rightarrow> request) \<Rightarrow> unit sys \<Rightarrow> bool" where
  "arriving reqs s \<longleftrightarrow> serving reqs s \<and> list_all row_sound (orders s)"

lemma sys_step_call:
  assumes "sys_step e s t"
  shows "\<exists>i c k r. s_threads s i = Call c k \<and> typed c r \<and> s_threads t = (s_threads s)(i := k r) \<and>
    s_world t = snd (handle e c (s_world s)) \<and> r = fst (handle e c (s_world s))"
proof -
  obtain i c k r w' where "s_threads s i = Call c k" and h: "handle e c (s_world s) = (r, w')"
    and "t = s\<lparr>s_world := w', s_threads := (s_threads s)(i := k r), s_log := s_log s @ [(i, c, r)]\<rparr>"
    using assms by (rule sys_step_cases) blast
  then show ?thesis
    by (intro exI [of _ i] exI [of _ c] exI [of _ k] exI [of _ r]) (simp add: handle_typed_pair [OF h])
qed

text \<open>A step leaves the tables alone or runs a lawful statement on them.\<close>

lemma sound_step_stmt:
  assumes "sound s" and "sys_step e s t"
  shows "w_db (s_world t) = w_db (s_world s) \<or>
    (\<exists>now st. lawful st \<and> w_db (s_world t) = snd (run_stmt now st (w_db (s_world s))))"
proof -
  obtain i c k where th: "s_threads s i = Call c k" and w: "s_world t = snd (handle e c (s_world s))"
    using sys_step_call [OF assms(2)] by blast
  from assms(1) have "lawfull (Call c k)"
    unfolding sound_def th [symmetric] by blast
  then have "lawful_call c" by simp
  with handle_db [of e c "s_world s"] w show ?thesis
    by (metis lawful_call_simps(1))
qed

lemma sound_step:
  assumes "sound s" and "sys_step e s t"
  shows "sound t"
proof -
  obtain i c k r where th: "s_threads s i = Call c k" "typed c r" "s_threads t = (s_threads s)(i := k r)"
    using sys_step_call [OF assms(2)] by blast
  from assms(1) have "lawfull (Call c k)"
    unfolding sound_def th(1) [symmetric] by blast
  with th assms(1) have "\<forall>j. lawfull (s_threads t j)"
    by (simp add: sound_def)
  moreover have "tables_ok (w_db (s_world t))"
    using sound_step_stmt [OF assms] assms(1) run_stmt_tables_ok by (auto simp: sound_def)
  moreover have "list_all row_sound (orders t)"
    using sound_step_stmt [OF assms] assms(1) run_stmt_sound by (fastforce simp: sound_def list_all_iff)
  ultimately show ?thesis by (simp add: sound_def)
qed

interpretation lifecycle: invariant_system "arriving reqs" "sys_step e" sound for reqs e
proof unfold_locales
  fix s
  assume "arriving reqs s"
  then show "sound s" by (simp add: arriving_def serving_def sound_def serve_lawfull)
qed (rule sound_step)

section \<open>The state machine of a trade\<close>

datatype phase = NoTrade | Reserved uuid | Recorded uuid string string

inductive trade_step :: "phase \<Rightarrow> phase \<Rightarrow> bool" where
  reserve: "trade_step NoTrade (Reserved i)"
| release: "trade_step (Reserved i) NoTrade"
| confirm: "status \<in> recorded_statuses \<Longrightarrow> trade_step (Reserved i) (Recorded i poid status)"
| fill: "status \<in> {StatusFilled, StatusPartial} \<Longrightarrow> trade_step (Recorded i poid old) (Recorded i poid status)"

inductive_cases trade_step_recorded: "trade_step (Recorded i poid status) q"

definition stays_or_steps :: "phase \<Rightarrow> phase \<Rightarrow> bool" where
  "stays_or_steps p q \<longleftrightarrow> p = q \<or> trade_step p q"

lemma stays [simp, intro]: "stays_or_steps p p"
  by (simp add: stays_or_steps_def)

lemma steps: "trade_step p q \<Longrightarrow> stays_or_steps p q"
  by (simp add: stays_or_steps_def)

definition phase_of :: "order_row \<Rightarrow> phase" where
  "phase_of r =
     (if c_status r = StatusPending then Reserved (c_id r)
      else Recorded (c_id r) (null_text (c_provider_order_id r)) (c_status r))"

text \<open>What the query for an intent finds in the table.\<close>

definition trade_phase :: "uuid \<Rightarrow> order_row list \<Rightarrow> phase" where
  "trade_phase u t = (case query_order (ByIntent u) t of None \<Rightarrow> NoTrade | Some r \<Rightarrow> phase_of r)"

lemma query_intent: "query_order (ByIntent u) t = List.find (\<lambda>r. c_trade_intent_id r = u) t"
proof -
  have "query_matches (ByIntent u) = (\<lambda>r. c_trade_intent_id r = u)" by (simp add: fun_eq_iff)
  then show ?thesis by (simp add: query_order_def)
qed

lemma find_map: "List.find P (map f xs) = map_option f (List.find (\<lambda>x. P (f x)) xs)"
  by (induction xs) auto

lemma find_append: "List.find P (xs @ ys) = (case List.find P xs of None \<Rightarrow> List.find P ys | Some x \<Rightarrow> Some x)"
  by (induction xs) auto

lemma find_in_set: "List.find P xs = Some x \<Longrightarrow> x \<in> set xs \<and> P x"
  by (induction xs) (auto split: if_splits)

text \<open>When the found element is the only candidate, deleting others does not change the result.\<close>

lemma find_filter:
  assumes "\<And>x y. x \<in> set xs \<Longrightarrow> y \<in> set xs \<Longrightarrow> P x \<Longrightarrow> P y \<Longrightarrow> x = y"
  shows "List.find P (filter q xs) =
    (case List.find P xs of None \<Rightarrow> None | Some x \<Rightarrow> if q x then Some x else None)"
  using assms
proof (induction xs)
  case (Cons x xs)
  have IH: "List.find P (filter q xs) =
      (case List.find P xs of None \<Rightarrow> None | Some x \<Rightarrow> if q x then Some x else None)"
    using Cons.prems by (intro Cons.IH) auto
  show ?case
  proof (cases "P x \<and> \<not> q x")
    case True
    then have "List.find P (filter q xs) = None"
      using Cons.prems [of x] by (auto simp: find_None_iff)
    with True show ?thesis by simp
  qed (auto simp: IH)
qed simp

lemma one_row_for_intent:
  "clash_free order_clash t \<Longrightarrow> r \<in> set t \<Longrightarrow> s \<in> set t \<Longrightarrow>
     c_trade_intent_id r = c_trade_intent_id s \<Longrightarrow> r = s"
  by (rule order_table.same_row) (simp_all add: order_clash_def)

lemma update_orders_phase:
  assumes "\<And>r. c_trade_intent_id (f r) = c_trade_intent_id r"
    and "\<And>r. r \<in> set t \<Longrightarrow> p r \<Longrightarrow> trade_step (phase_of r) (phase_of (f r))"
  shows "stays_or_steps (trade_phase u t) (trade_phase u (snd (update_orders p fits f t)))"
proof -
  let ?g = "\<lambda>r. if p r then f r else r"
  have same: "(\<lambda>x. c_trade_intent_id (?g x) = u) = (\<lambda>x. c_trade_intent_id x = u)"
    by (auto simp: assms(1))
  have "trade_phase u (map ?g t) =
      (case query_order (ByIntent u) t of None \<Rightarrow> NoTrade | Some r \<Rightarrow> phase_of (?g r))"
    unfolding trade_phase_def query_intent find_map same
    by (simp split: option.split)
  moreover have "stays_or_steps (phase_of r) (phase_of (?g r))" if "query_order (ByIntent u) t = Some r" for r
    using find_in_set [OF that [unfolded query_intent]] assms(2) by (auto intro: steps)
  ultimately have "stays_or_steps (trade_phase u t) (trade_phase u (map ?g t))"
    by (auto simp: trade_phase_def split: option.split)
  then show ?thesis by (simp add: update_orders_def)
qed

lemma confirm_orders_phase:
  assumes "status \<in> recorded_statuses"
  shows "stays_or_steps (trade_phase u t)
    (trade_phase u (snd (confirm_orders now poid status fq ap i StatusPending t)))"
  unfolding confirm_orders_def
  by (rule update_orders_phase)
    (use assms pending_not_recorded in \<open>auto simp: phase_of_def recorded_varchar intro!: trade_step.confirm\<close>)

lemma fill_orders_phase:
  assumes "status \<in> {StatusFilled, StatusPartial}" and "list_all row_sound t"
  shows "stays_or_steps (trade_phase u t)
    (trade_phase u (snd (fill_orders now status fq ap provider poid t)))"
  unfolding fill_orders_def
proof (rule update_orders_phase)
  fix r
  assume r: "r \<in> set t" "c_provider r = provider \<and> c_provider_order_id r = Some poid"
  then have "row_sound r" using assms(2) by (simp add: list_all_iff)
  with r have "c_status r \<noteq> StatusPending"
    using pending_not_recorded by (auto simp: row_sound_def row_lives_def)
  moreover have "varchar 32 status = status" "status \<noteq> StatusPending"
    using assms(1) by (auto simp: statuses_not_pending [symmetric] status_defs)
  ultimately show "trade_step (phase_of r) (phase_of (r\<lparr>c_status := varchar 32 status,
      c_filled_quantity := numeric 8 fq, c_average_fill_price := numeric 4 ap, c_updated_at := now\<rparr>))"
    using assms(1) by (simp add: phase_of_def trade_step.fill)
qed simp

lemma delete_orders_phase:
  assumes "clash_free order_clash t"
  shows "stays_or_steps (trade_phase u t) (trade_phase u (snd (delete_orders i StatusPending t)))"
proof -
  have "List.find (\<lambda>r. c_trade_intent_id r = u) (filter q t) =
      (case List.find (\<lambda>r. c_trade_intent_id r = u) t of None \<Rightarrow> None | Some x \<Rightarrow> if q x then Some x else None)" for q
    using assms one_row_for_intent by (intro find_filter) auto
  then show ?thesis
    by (auto simp: delete_orders_def Let_def trade_phase_def query_intent phase_of_def
        split: option.split intro!: steps trade_step.release)
qed

lemma insert_order_phase:
  assumes "c_status r = StatusPending"
  shows "stays_or_steps (trade_phase u t) (trade_phase u (snd (insert_order r t)))"
  using assms
  by (auto simp: insert_order_def trade_phase_def query_intent find_append phase_of_def
      split: option.split intro!: steps trade_step.reserve)

lemma run_stmt_phase:
  assumes "lawful st" and "tables_ok db" and "list_all row_sound (t_orders db)"
  shows "stays_or_steps (trade_phase u (t_orders db)) (trade_phase u (t_orders (snd (run_stmt now st db))))"
  using assms
  by (cases st) (simp_all add: lawful_def split_beta tables_ok_def insert_order_phase confirm_orders_phase
      delete_orders_phase fill_orders_phase)

lemma sound_step_phase:
  "sound s \<Longrightarrow> sys_step e s t \<Longrightarrow> stays_or_steps (trade_phase u (orders s)) (trade_phase u (orders t))"
  using sound_step_stmt [of s e t] run_stmt_phase by (fastforce simp: sound_def)

lemma reachable_phase:
  "reachable (arriving reqs) (sys_step e) s \<Longrightarrow> sys_step e s t \<Longrightarrow>
     stays_or_steps (trade_phase u (orders s)) (trade_phase u (orders t))"
  using sound_step_phase lifecycle.reachable_inv by blast

lemma recorded_stays:
  assumes "stays_or_steps (Recorded i poid status) q"
  shows "\<exists>status'. q = Recorded i poid status'"
  using assms by (auto simp: stays_or_steps_def elim: trade_step_recorded)

lemma reachable_later:
  assumes "(sys_step e)\<^sup>*\<^sup>* s t" and "reachable init (sys_step e) s"
  shows "reachable init (sys_step e) t"
  using assms by (induction rule: rtranclp_induct) (auto intro: reachable.follow)

lemma later_recorded:
  assumes "(sys_step e)\<^sup>*\<^sup>* s t" and "reachable (arriving reqs) (sys_step e) s"
    and "trade_phase u (orders s) = Recorded i poid status"
  shows "\<exists>status'. trade_phase u (orders t) = Recorded i poid status'"
  using assms
proof (induction rule: rtranclp_induct)
  case (step t t')
  then obtain status' where "trade_phase u (orders t) = Recorded i poid status'" by blast
  with reachable_phase [OF reachable_later [OF step.hyps(1) step.prems(1)] step.hyps(2), of u]
  show ?case by (auto dest: recorded_stays)
qed blast

section \<open>The trade of the scenario\<close>

abbreviation demo_requests :: "nat \<Rightarrow> request" where
  "demo_requests \<equiv> \<lambda>_. TradeRequest demo_server demo_req"

lemma demo_arriving: "arriving demo_requests demo_sys"
  using demo_serving by (simp add: arriving_def demo_sys_def demo_world_def)

lemma demo_thread: "s_threads demo_sys i = serve (TradeRequest demo_server demo_req)"
  by (simp add: demo_sys_def)

lemma reachable_arriving_serving:
  "reachable (arriving reqs) step s \<Longrightarrow> reachable (serving reqs) step s"
  by (induction rule: reachable.induct) (auto intro: reachable.intros simp: arriving_def)

lemma demo_recorded:
  "\<exists>s. reachable (arriving demo_requests) (sys_step demo_env) s \<and> (sys_step demo_env)\<^sup>*\<^sup>* demo_sys s \<and>
     orders s = [demo_done\<lparr>c_updated_at := 1024\<rparr>]"
proof -
  have th: "s_threads demo_sys 0 = serve (TradeRequest demo_server demo_req)"
    and start: "s_world demo_sys = demo_world"
    by (simp_all only: demo_sys_def sys.simps)
  obtain w where w: "t_orders (w_db w) = [demo_done\<lparr>c_updated_at := 1024\<rparr>]"
    "snd (exec demo_env (serve (TradeRequest demo_server demo_req)) demo_world) = w"
    using demo_run by (auto simp: exec_pbind)
  obtain n where n: "s_world (run_schedule demo_env (replicate n 0) demo_sys) = w"
    using exec_schedule [OF th, of demo_env] w(2) unfolding start by blast
  have steps: "(sys_step demo_env)\<^sup>*\<^sup>* s (run_schedule demo_env is s)" for "is" and s :: "unit sys"
  proof (induction "is" arbitrary: s)
    case (Cons i "is")
    from Cons.IH [of "move demo_env i s"] move_step [of demo_env i s] show ?case
      by (auto intro: converse_rtranclp_into_rtranclp)
  qed simp
  show ?thesis
    by (intro exI [of _ "run_schedule demo_env (replicate n 0) demo_sys"] conjI reachable_schedule
        reachable.start demo_arriving steps) (simp add: n w(1))
qed

section \<open>Properties\<close>



text \<open>C22: In every reachable state no two rows of broker_orders share a trade intent, or a tenant and
  a non-empty idempotency key, and no two rows of broker_credentials a tenant and a provider.\<close>

theorem keys_unique:
  assumes "reachable (serving reqs) (sys_step e) s"
  shows "sorted_wrt (\<lambda>r r'. c_id r \<noteq> c_id r' \<and> c_trade_intent_id r \<noteq> c_trade_intent_id r' \<and>
      (c_tenant_id r \<noteq> c_tenant_id r' \<or> c_idempotency_key r \<noteq> c_idempotency_key r' \<or>
       c_idempotency_key r \<in> {None, Some []})) (orders s) \<and>
    sorted_wrt (\<lambda>c c'. (bc_TenantID c, bc_Provider c) \<noteq> (bc_TenantID c', bc_Provider c'))
      (t_creds (w_db (s_world s)))"
  using service.reachable_inv [OF assms]
  by (auto simp: safe_def good_def tables_ok_def clash_free_def order_clash_def cred_clash_def
      elim!: sorted_wrt_mono_rel [rotated])

theorem keys_unique_witness:
  "\<exists>s. reachable (serving demo_requests) (sys_step demo_env) s \<and> length (orders s) = 1 \<and>
     sorted_wrt (\<lambda>r r'. c_id r \<noteq> c_id r' \<and> c_trade_intent_id r \<noteq> c_trade_intent_id r' \<and>
      (c_tenant_id r \<noteq> c_tenant_id r' \<or> c_idempotency_key r \<noteq> c_idempotency_key r' \<or>
       c_idempotency_key r \<in> {None, Some []})) (orders s)"
proof -
  obtain s where s: "reachable (arriving demo_requests) (sys_step demo_env) s"
    "orders s = [demo_done\<lparr>c_updated_at := 1024\<rparr>]"
    using demo_recorded by blast
  from keys_unique [OF reachable_arriving_serving [OF s(1)]] reachable_arriving_serving [OF s(1)] s(2)
  show ?thesis by (intro exI [of _ s] conjI) simp_all
qed

text \<open>C17: The orders table implements the state machine of a trade: a step of any thread leaves the
  phase of a trade alone, or reserves a trade that has none, or releases or records a reservation,
  or moves a recorded order to FILLED or PARTIAL.  No step reserves a recorded trade again,
  releases it, or gives its order another id.\<close>

theorem table_implements_trade:
  assumes "reachable (arriving reqs) (sys_step e) s" and "sys_step e s t"
  shows "trade_phase u (orders s) = trade_phase u (orders t) \<or>
    trade_step (trade_phase u (orders s)) (trade_phase u (orders t))"
  using reachable_phase [OF assms] by (simp add: stays_or_steps_def)

theorem table_implements_trade_witness:
  "\<exists>t. sys_step demo_env demo_sys t \<and>
     (NoTrade = trade_phase demo_intent (orders t) \<or> trade_step NoTrade (trade_phase demo_intent (orders t)))"
proof -
  have start: "trade_phase demo_intent (orders demo_sys) = NoTrade"
    by (simp add: trade_phase_def query_intent demo_sys_def demo_world_def)
  have "\<exists>c k. serve (TradeRequest demo_server demo_req) = Call c k"
    by (simp add: ExecuteTrade_def demo_validate Let_def c_uuid_def)
  then obtain t where step: "sys_step demo_env demo_sys t"
    using sys_step.step [of demo_sys 0] by (metis demo_thread surj_pair)
  from table_implements_trade [OF reachable.start [where init = "arriving demo_requests", OF demo_arriving] step,
    of demo_intent] step
  show ?thesis unfolding start by blast
qed

text \<open>C19: Once an order is recorded for a trade intent, every later state has the same order for it, with
  the same broker order id; only its status can still change.\<close>

theorem recorded_order_stays:
  assumes "reachable (arriving reqs) (sys_step e) s" and "(sys_step e)\<^sup>*\<^sup>* s t"
    and "trade_phase u (orders s) = Recorded i poid status"
  shows "\<exists>status'. trade_phase u (orders t) = Recorded i poid status'"
  using later_recorded [OF assms(2,1,3)] .

theorem recorded_order_stays_witness:
  "\<exists>s. reachable (arriving demo_requests) (sys_step demo_env) s \<and>
     (\<forall>t. (sys_step demo_env)\<^sup>*\<^sup>* s t \<longrightarrow>
       (\<exists>status'. trade_phase demo_intent (orders t) = Recorded demo_id ''28'' status'))"
proof -
  obtain s where s: "reachable (arriving demo_requests) (sys_step demo_env) s"
    "orders s = [demo_done\<lparr>c_updated_at := 1024\<rparr>]"
    using demo_recorded by blast
  have "trade_phase demo_intent (orders s) = Recorded demo_id ''28'' ''FILLED''"
    by (simp add: trade_phase_def query_intent s(2) demo_done_def demo_row_def phase_of_def null_text_def
        StatusPending_def)
  with recorded_order_stays [OF s(1)] s(1) show ?thesis by blast
qed



end
