(* ===== verification/Progress.thy ===== *)
theory Progress
  imports Reservation "HOL-Library.Countable"
begin

text \<open>
  Every request is answered.  A thread waits for nothing but the replies to its own calls and, in
  reserveOrder, for the deadline; so whatever the other threads do in between, it comes to an end
  once it has been scheduled often enough.  The replies a thread can get are those a clock that
  never goes back allows (\<open>clocked\<close>); under them the passes of reserveOrder do not run out.
\<close>

section \<open>Replies in the order of time\<close>

text \<open>The state is a lower bound on the clock; \<^term>\<open>None\<close> after a time before that bound, which no clock gives.\<close>

definition clocked :: "nat option \<Rightarrow> call \<Rightarrow> (reply \<Rightarrow> nat option) option" where
  "clocked q c = Some (\<lambda>r. case q of
     None \<Rightarrow> None
   | Some t \<Rightarrow>
       (case (c, r) of
          (CNow, RTime now) \<Rightarrow> if t \<le> now then Some now else None
        | (CWait n, RWait None) \<Rightarrow> Some (t + n)
        | _ \<Rightarrow> Some t))"

text \<open>From the bound q on, the program ends well for every sequence of replies, in a time later than t.\<close>

definition later :: "nat \<Rightarrow> nat option \<Rightarrow> bool" where
  "later t q \<longleftrightarrow> (case q of None \<Rightarrow> True | Some t' \<Rightarrow> t \<le> t')"

definition ends_well :: "nat option \<Rightarrow> halt \<Rightarrow> bool" where
  "ends_well q h \<longleftrightarrow> q = None \<or> h = Panicked"

definition timely :: "'a prog \<Rightarrow> nat option \<Rightarrow> bool" where
  "timely = obeys clocked (\<lambda>_ _. True) ends_well"

lemma later_simps [simp]: "later t None" "later t (Some t') \<longleftrightarrow> t \<le> t'"
  by (simp_all add: later_def)

lemma ends_well_simps [simp]: "ends_well None h" "ends_well q Panicked" "ends_well (Some t) h \<longleftrightarrow> h = Panicked"
  by (simp_all add: ends_well_def)

lemma clocked_later: "clocked q c = Some f \<Longrightarrow> later t q \<Longrightarrow> later t (f r)"
  by (auto simp: clocked_def later_def split: option.splits call.splits reply.splits if_splits)

lemma timely_simps [simp]:
  "timely (Ret a) q" "timely (Halt h) q = ends_well q h"
  "timely (Call c k) q \<longleftrightarrow> (\<forall>r. typed c r \<longrightarrow> timely (k r) (the (clocked q c) r))"
  by (simp_all add: timely_def clocked_def)

lemma timely_never [simp]: "timely p None"
  by (induction p) (auto simp: clocked_def)

lemma obeys_clocked_uses:
  "uses K p \<Longrightarrow> later t q \<Longrightarrow> obeys clocked (\<lambda>q' _. later t q') ends_well p q"
  unfolding uses_def
proof (induction p arbitrary: q)
  case (Call c k)
  obtain f where f: "clocked q c = Some f" by (simp add: clocked_def)
  have "obeys clocked (\<lambda>q' _. later t q') ends_well (k r) (f r)" if "typed c r" for r
    using Call.prems that clocked_later [OF f] by (intro Call.IH [OF rangeI]) auto
  with f show ?case by simp
qed auto

lemma timely_uses: "uses K p \<Longrightarrow> timely p q"
  unfolding timely_def
  by (rule obeys_mono [OF obeys_clocked_uses [of K p 0 q]]) (auto simp: later_def split: option.split)

text \<open>The rest of a program starts no earlier.\<close>

lemma timely_pbind:
  assumes "uses K p" and "\<And>a q'. later t q' \<Longrightarrow> timely (f a) q'" and "later t q"
  shows "timely (pbind p f) q"
  unfolding timely_def
  by (rule obeys_pbind [OF obeys_clocked_uses [OF assms(1,3)]]) (simp add: assms(2) timely_def [symmetric])

lemma timely_pbind_any: "timely p q \<Longrightarrow> (\<And>a q'. timely (f a) q') \<Longrightarrow> timely (pbind p f) q"
  unfolding timely_def by (rule obeys_pbind)

lemma timely_now:
  assumes "\<And>now. t \<le> now \<Longrightarrow> timely (k now) (Some now)"
  shows "timely (c_now k) (Some t)"
  using assms by (auto simp: c_now_def clocked_def split: reply.split)

lemma timely_wait:
  assumes "timely (k None) (Some (t + n))" and "\<And>x. timely (k (Some x)) (Some t)"
  shows "timely (c_wait n k) (Some t)"
  using assms by (auto simp: c_wait_def clocked_def split: reply.split option.split)

section \<open>The requests\<close>

lemma wait_turn_timely:
  assumes "\<And>now. t \<le> now \<Longrightarrow> now < deadline \<Longrightarrow> timely again (Some (now + sv_reservationPoll s))"
  shows "timely (wait_turn s deadline ord again) (Some t)"
  unfolding wait_turn_def
  by (rule timely_now) (auto intro!: timely_wait assms)

lemma reserve_loop_timely:
  assumes "0 < n" and "deadline \<le> t + (n - 1) * sv_reservationPoll s" and "later t q"
  shows "timely (reserve_loop n s deadline ord) q"
  using assms
proof (induction n arbitrary: ord q t)
  case (Suc n)
  have turn: "timely (wait_turn s deadline ord' (reserve_loop n s deadline ord')) q'" if "later t q'" for ord' q'
  proof (cases q')
    case (Some t')
    show ?thesis
      unfolding Some
    proof (rule wait_turn_timely)
      fix now
      assume now: "t' \<le> now" "now < deadline"
      with that Suc.prems(2) Some have n: "0 < n" by (cases n) auto
      then have "(Suc n - 1) * sv_reservationPoll s = sv_reservationPoll s + (n - 1) * sv_reservationPoll s"
        by (cases n) auto
      with Suc.prems(2) that now Some
      have "deadline \<le> (now + sv_reservationPoll s) + (n - 1) * sv_reservationPoll s" by simp
      with n show "timely (reserve_loop n s deadline ord') (Some (now + sv_reservationPoll s))"
        by (rule Suc.IH) simp
    qed
  qed simp
  have blocked: "timely (pbind (existing_order ord') (\<lambda>existing. case switch_existing existing of
      Some res \<Rightarrow> Ret (res, ord') | None \<Rightarrow> wait_turn s deadline ord' (reserve_loop n s deadline ord'))) q'"
    if "later t q'" for ord' q'
    using that by (intro timely_pbind [OF existing_order_uses]) (auto split: option.split intro: turn)
  show ?case
    using Suc.prems(3)
    by (auto intro!: timely_pbind [OF ReserveOrder_uses] blocked split: sum.split)
qed simp

definition polling :: "request \<Rightarrow> bool" where
  "polling q \<longleftrightarrow> (case q of TradeRequest s req \<Rightarrow> 0 < sv_reservationPoll s | _ \<Rightarrow> True)"

lemma reserveOrder_timely:
  assumes "0 < sv_reservationPoll s"
  shows "timely (reserveOrder s ord) q"
proof (cases q)
  case (Some t)
  show ?thesis
    unfolding Some reserveOrder_def
  proof (rule timely_now)
    fix now
    show "timely (reserve_loop (reserve_fuel s) s (now + sv_reservationWait s) ord) (Some now)"
      by (rule reserve_loop_timely [where t = now])
        (use fuel_covers_wait [OF assms] in \<open>auto simp: reserve_fuel_def\<close>)
  qed
qed simp

lemma ExecuteTrade_timely:
  assumes "0 < sv_reservationPoll s"
  shows "timely (ExecuteTrade s req) q"
  by (auto simp: ExecuteTrade_def Let_def c_uuid_def intro!: timely_pbind_any reserveOrder_timely [OF assms]
      timely_uses [OF execute_reserved_uses] split: sum.split option.split reply.split)

lemma serve_timely: "polling q \<Longrightarrow> timely (serve q) t"
  by (cases q) (auto simp: polling_def intro!: timely_pbind_any ExecuteTrade_timely timely_uses [OF ProcessFill_uses]
      timely_uses [OF SyncBrokerBalances_uses] timely_uses [OF GetQuotes_uses] timely_uses [OF ValidateTickers_uses]
      timely_uses [OF SaveCredentials_uses] timely_uses [OF handleBinanceOrderWebhook_uses])

section \<open>Threads\<close>

definition on_time :: "unit sys \<Rightarrow> bool" where
  "on_time s \<longleftrightarrow> (\<forall>i. \<exists>t \<le> w_clock (s_world s). timely (s_threads s i) (Some t))"

text \<open>The bound a reply leads to is met by the clock.\<close>

lemma handle_clocked:
  assumes "handle e c w = (r, w')" and "t \<le> w_clock w"
  shows "\<exists>t' \<le> w_clock w'. the (clocked (Some t) c) r = Some t'"
proof -
  have "t \<le> w_clock w'" using handle_clock [OF assms(1)] assms(2) by simp
  then show ?thesis
    using assms handle_now [of e w r w'] handle_wait [of e _ w w'] handle_clock [OF assms(1)]
    by (auto simp: clocked_def split: call.splits reply.splits option.splits)
      (metis add_le_mono1 le_trans)+
qed

lemma on_time_step:
  assumes "on_time s" and "sys_step e s t"
  shows "on_time t"
proof -
  obtain i c k r w' where th: "s_threads s i = Call c k" and h: "handle e c (s_world s) = (r, w')"
    and t: "t = s\<lparr>s_world := w', s_threads := (s_threads s)(i := k r), s_log := s_log s @ [(i, c, r)]\<rparr>"
    using assms(2) by (rule sys_step_cases) blast
  have "\<exists>u \<le> w_clock w'. timely (s_threads t j) (Some u)" for j
  proof -
    obtain u where u: "u \<le> w_clock (s_world s)" "timely (s_threads s j) (Some u)"
      using assms(1) by (auto simp: on_time_def)
    show ?thesis
    proof (cases "j = i")
      case True
      obtain u' where u': "u' \<le> w_clock w'" "the (clocked (Some u) c) r = Some u'"
        using handle_clocked [OF h u(1)] by blast
      have "timely (k r) (Some u')"
        using u(2) True th handle_typed_pair [OF h] by (simp add: u'(2) [symmetric])
      with u'(1) True show ?thesis by (auto simp: t)
    next
      case False
      with u handle_clock [OF h] show ?thesis by (auto simp: t intro: le_trans)
    qed
  qed
  then show ?thesis by (simp add: on_time_def t)
qed

interpretation progress: invariant_system "\<lambda>s. \<forall>i. polling (reqs i) \<and> s_threads s i = serve (reqs i)"
  "sys_step e" on_time for reqs e
proof unfold_locales
  fix s :: "unit sys"
  assume "\<forall>i. polling (reqs i) \<and> s_threads s i = serve (reqs i)"
  then show "on_time s" using serve_timely by (auto simp: on_time_def)
qed (rule on_time_step)

section \<open>Fair schedules\<close>

definition answered :: "'a prog \<Rightarrow> bool" where
  "answered p \<longleftrightarrow> (case p of Ret a \<Rightarrow> True | Halt h \<Rightarrow> h = Panicked | Call c k \<Rightarrow> False)"

text \<open>Every thread gets a turn again and again.\<close>

definition fair :: "(nat \<Rightarrow> nat) \<Rightarrow> bool" where
  "fair \<sigma> \<longleftrightarrow> (\<forall>i n. \<exists>m \<ge> n. \<sigma> m = i)"

lemma move_other: "j \<noteq> i \<Longrightarrow> s_threads (move e j s) i = s_threads s i"
  by (auto simp: move_def split: prog.split prod.split)

lemma run_schedule_other: "i \<notin> set js \<Longrightarrow> s_threads (run_schedule e js s) i = s_threads s i"
  by (induction js arbitrary: s) (auto simp: move_other)

lemma run_schedule_append: "run_schedule e (is @ js) s = run_schedule e js (run_schedule e is s)"
  by (induction "is" arbitrary: s) auto

lemma move_own: "s_threads s i = Call c k \<Longrightarrow> \<exists>r. s_threads (move e i s) i = k r"
  by (auto simp: move_def split: prod.split)

text \<open>A program is a well-founded tree of calls, so a thread that keeps getting its turn reaches a leaf.\<close>

lemma fair_reaches_leaf:
  assumes "fair \<sigma>" and "s_threads s i = p"
  shows "\<exists>n. \<forall>c k. s_threads (run_schedule e (map \<sigma> [0..<n]) s) i \<noteq> Call c k"
  using assms
proof (induction p arbitrary: s \<sigma>)
  case (Call c k)
  have "\<exists>m. \<sigma> m = i" using Call.prems(1) unfolding fair_def by blast
  then obtain m where m0: "\<sigma> m = i" "\<forall>l < m. \<sigma> l \<noteq> i"
    unfolding exists_least_iff [of "\<lambda>m. \<sigma> m = i"] by blast
  then have m: "\<sigma> m = i" "i \<notin> set (map \<sigma> [0..<m])"
    by auto
  let ?t = "run_schedule e (map \<sigma> [0..<m]) s"
  have "s_threads ?t i = Call c k"
    by (rule trans [OF run_schedule_other [OF m(2)] Call.prems(2)])
  from move_own [OF this, of e] obtain r where r: "s_threads (move e i ?t) i = k r" by blast
  have "fair (\<lambda>n. \<sigma> (n + Suc m))"
    unfolding fair_def
  proof (intro allI)
    fix j n
    obtain l where "n + Suc m \<le> l" "\<sigma> l = j" using Call.prems(1) by (auto simp: fair_def)
    then show "\<exists>l \<ge> n. \<sigma> (l + Suc m) = j" by (intro exI [of _ "l - Suc m"]) auto
  qed
  from Call.IH [OF rangeI this r]
  obtain n where n: "\<forall>c k. s_threads (run_schedule e (map (\<lambda>n. \<sigma> (n + Suc m)) [0..<n]) (move e i ?t)) i \<noteq> Call c k"
    by blast
  have "[Suc m..<Suc m + n] = map (\<lambda>k. k + Suc m) [0..<n]"
    by (simp only: map_add_upt add.commute [of "Suc m" n])
  moreover have "[0..<m + Suc n] = [0..<m] @ m # [Suc m..<Suc m + n]"
    using upt_add_eq_append [of 0 m "Suc n"] upt_conv_Cons [of m "m + Suc n"] by (simp del: upt_Suc)
  ultimately have "map \<sigma> [0..<m + Suc n] = map \<sigma> [0..<m] @ i # map (\<lambda>n. \<sigma> (n + Suc m)) [0..<n]"
    by (simp add: m(1) comp_def del: upt_Suc)
  with n show ?case
    by (intro exI [of _ "m + Suc n"]) (simp only: run_schedule_append run_schedule.simps simp_thms)
qed (rule exI [of _ 0], simp)+

lemma on_time_leaf: "on_time s \<Longrightarrow> (\<And>c k. s_threads s i \<noteq> Call c k) \<Longrightarrow> answered (s_threads s i)"
  unfolding on_time_def answered_def
  by (cases "s_threads s i") (auto dest: spec [of _ i])

section \<open>Properties\<close>

text \<open>C18: Every request is answered: under every schedule that gives each thread a turn again and again,
  and whatever the systems answer, each thread reaches the end of its handler with a result or a
  panic.  No request waits for another one for ever.\<close>

theorem every_request_answered:
  assumes "\<And>i. polling (reqs i)" and "serving reqs s" and "fair \<sigma>"
  shows "\<exists>n. answered (s_threads (run_schedule e (map \<sigma> [0..<n]) s) i)"
proof -
  obtain n where n: "\<forall>c k. s_threads (run_schedule e (map \<sigma> [0..<n]) s) i \<noteq> Call c k"
    using fair_reaches_leaf [OF assms(3), of s i _ e] by blast
  have "on_time (run_schedule e (map \<sigma> [0..<n]) s)"
    by (rule progress.reachable_inv [OF reachable_schedule [OF reachable.start], where reqs = reqs])
      (use assms(1,2) in \<open>simp add: serving_def\<close>)
  with n show ?thesis by (blast intro: on_time_leaf)
qed

theorem every_request_answered_witness:
  "\<exists>n. answered (s_threads (run_schedule demo_env (map (\<lambda>n. fst (prod_decode n)) [0..<n]) demo_sys) 7)"
proof (rule every_request_answered [OF _ demo_serving])
  show "polling (TradeRequest demo_server demo_req)"
    by (simp add: polling_def demo_server_def NewPregaoServer_def defaultReservationPoll_def)
  show "fair (\<lambda>n. fst (prod_decode n))"
    unfolding fair_def
  proof (intro allI)
    fix i n :: nat
    have "n \<le> prod_encode (i, n)" by (rule le_prod_encode_2)
    then show "\<exists>m \<ge> n. fst (prod_decode m) = i"
      by (intro exI [of _ "prod_encode (i, n)"]) simp
  qed
qed

end
