(* ===== verification/Settlement.thy ===== *)
theory Settlement
  imports Lifecycle Reservation
begin

text \<open>
  What ProcessFill does to the order table and to the ledger: which row it writes and what, the one
  settlement it asks for with its amount and key, and what a failed fill leaves behind.
\<close>

section \<open>The row a fill writes\<close>

definition of_fill :: "FillEvent \<Rightarrow> order_row \<Rightarrow> bool" where
  "of_fill event r \<longleftrightarrow> c_provider r = fe_Provider event \<and> c_provider_order_id r = Some (fe_ProviderOrderID event)"

definition filled_quantity :: "FillEvent \<Rightarrow> order_row \<Rightarrow> decimal" where
  "filled_quantity event r = Decimal_Add (c_filled_quantity r) (fe_ExecutedQuantity event)"

definition fill_average :: "FillEvent \<Rightarrow> order_row \<Rightarrow> decimal option" where
  "fill_average event r =
     (case Decimal_Mul (fe_ExecutedQuantity event) (fe_FillPrice event) of
        None \<Rightarrow> None
      | Some v \<Rightarrow> new_average (order_of_row r) event v (filled_quantity event r))"

definition fill_status :: "FillEvent \<Rightarrow> order_row \<Rightarrow> string" where
  "fill_status event r = new_status (order_of_row r) event (filled_quantity event r)"

text \<open>The columns after a fill of the order in row r, whichever row they are written to.\<close>

definition write_fill :: "FillEvent \<Rightarrow> order_row \<Rightarrow> decimal \<Rightarrow> nat \<Rightarrow> order_row \<Rightarrow> order_row" where
  "write_fill event r avg now r' = r'\<lparr>
     c_status := fill_status event r,
     c_filled_quantity := numeric 8 (filled_quantity event r),
     c_average_fill_price := numeric 4 avg,
     c_updated_at := now\<rparr>"

lemma order_of_row_simps [simp]:
  "bo_ID (order_of_row r) = c_id r" "bo_TradeIntentID (order_of_row r) = c_trade_intent_id r"
  "bo_TenantID (order_of_row r) = c_tenant_id r" "bo_UserID (order_of_row r) = c_user_id r"
  "bo_Provider (order_of_row r) = c_provider r" "bo_Side (order_of_row r) = c_side r"
  "bo_ProviderOrderID (order_of_row r) = null_text (c_provider_order_id r)"
  "bo_Symbol (order_of_row r) = c_symbol r" "bo_Status (order_of_row r) = c_status r"
  "bo_TargetQuantity (order_of_row r) = c_target_quantity r"
  "bo_FilledQuantity (order_of_row r) = c_filled_quantity r"
  "bo_AverageFillPrice (order_of_row r) = c_average_fill_price r"
  "bo_LivroHoldID (order_of_row r) = null_text (c_livro_hold_id r)"
  "bo_PortfolioID (order_of_row r) = null_text (c_portfolio_id r)"
  by (simp_all add: order_of_row_def)

lemma null_text_Some [simp]: "null_text (Some s) = s" "null_text None = []"
  by (simp_all add: null_text_def)

abbreviation fill_query :: "FillEvent \<Rightarrow> order_query" where
  "fill_query event \<equiv> ByProviderOrder (fe_Provider event) (fe_ProviderOrderID event)"

lemma fill_query_row:
  "query_order (fill_query event) t = Some r \<Longrightarrow> r \<in> set t \<and> of_fill event r"
  by (auto simp: query_order_def of_fill_def dest!: found_row)

text \<open>The ways ProcessFill ends on a database that answers.\<close>

definition fill_post :: "FillEvent \<Rightarrow> tables \<Rightarrow> (worker_error + unit) outcome \<Rightarrow> tables \<Rightarrow> bool" where
  "fill_post event db r db' \<longleftrightarrow>
     (if r = Done (Inr ()) then
        \<exists>row avg now. query_order (fill_query event) (t_orders db) = Some row \<and> fill_average event row = Some avg \<and>
          db' = db\<lparr>t_orders := map (\<lambda>x. if of_fill event x then write_fill event row avg now x else x) (t_orders db)\<rparr>
      else db' = db)"

lemma new_status_fits: "varchar 32 (new_status ord event q) = new_status ord event q" "varchar_ok 32 (new_status ord event q)"
  by (simp_all add: new_status_def)

lemma fill_statement:
  assumes "query_order (fill_query event) (t_orders db) = Some row"
    and "run_stmt now (FillStmt (fill_status event row) (filled_quantity event row) avg (c_provider row)
      (null_text (c_provider_order_id row))) db = (res, db')"
  shows "(\<exists>e. res = Inl e \<and> db' = db) \<or> (\<exists>n. res = Inr (Suc n) \<and>
      db' = db\<lparr>t_orders := map (\<lambda>x. if of_fill event x then write_fill event row avg now x else x) (t_orders db)\<rparr>)"
proof -
  note r = fill_query_row [OF assms(1)]
  let ?p = "\<lambda>x. c_provider x = fe_Provider event \<and> c_provider_order_id x = Some (fe_ProviderOrderID event)"
  have p: "?p = of_fill event"
    by (simp add: of_fill_def fun_eq_iff)
  have f: "(\<lambda>x. x\<lparr>c_status := varchar 32 (fill_status event row), c_filled_quantity := numeric 8 (filled_quantity event row),
      c_average_fill_price := numeric 4 avg, c_updated_at := now\<rparr>) = write_fill event row avg now"
    by (simp add: write_fill_def fun_eq_iff fill_status_def new_status_fits)
  have ex: "list_ex (of_fill event) (t_orders db)" and ne: "filter (of_fill event) (t_orders db) \<noteq> []"
    using r by (auto simp: list_ex_iff filter_empty_conv)
  from r have key: "c_provider row = fe_Provider event" "null_text (c_provider_order_id row) = fe_ProviderOrderID event"
    by (simp_all add: of_fill_def)
  have "fill_orders now (fill_status event row) (filled_quantity event row) avg (fe_Provider event)
      (fe_ProviderOrderID event) (t_orders db) =
      (if varchar_ok 32 (fill_status event row) \<and> numeric_ok 28 8 (filled_quantity event row) \<and> numeric_ok 28 4 avg
       then (Inr (length (filter (of_fill event) (t_orders db))),
             map (\<lambda>x. if of_fill event x then write_fill event row avg now x else x) (t_orders db))
       else (Inl PgData, t_orders db))"
    unfolding fill_orders_def p f update_orders_def by (simp add: ex)
  with assms(2) ne show ?thesis
    by (cases "filter (of_fill event) (t_orders db)") (auto simp: key split: if_splits)
qed

lemma UpdateOrderFill_post:
  assumes "db_up e" and "query_order (fill_query event) (t_orders db) = Some row"
    and "fill_average event row = Some avg" and "w_db w = db"
  shows "wp e (pbind (UpdateOrderFill (c_provider row) (null_text (c_provider_order_id row)) (fill_status event row)
                 (filled_quantity event row) avg) (\<lambda>res. case res of
                Inl e \<Rightarrow> Ret (Inl (FillUpdateFailed e))
              | Inr _ \<Rightarrow> Ret (Inr ()))) (\<lambda>r w'. fill_post event db r (w_db w')) w"
proof -
  obtain res db' where run: "run_stmt (w_clock w) (FillStmt (fill_status event row) (filled_quantity event row) avg
      (c_provider row) (null_text (c_provider_order_id row))) (w_db w) = (res, db')" by fastforce
  have post: "fill_post event db (Done (Inr ())) (db\<lparr>t_orders :=
      map (\<lambda>x. if of_fill event x then write_fill event row avg (w_clock w) x else x) (t_orders db)\<rparr>)"
    using assms(2,3) unfolding fill_post_def by auto
  show ?thesis
    unfolding UpdateOrderFill_def wp_pbind
    by (rule wp_exec_after [OF assms(1) _ run, where K = "{KFill}"])
      (use fill_statement [OF assms(2) run [unfolded assms(4)]] post in
        \<open>auto simp: wp_Ret after_def fill_post_def [of _ _ "Done (Inl _)"]\<close>)
qed

lemma apply_fill_post:
  assumes "db_up e" and "query_order (fill_query event) (t_orders db) = Some row" and "w_db w = db"
  shows "wp e (apply_fill p event (order_of_row row)) (\<lambda>r w'. fill_post event db r (w_db w')) w"
proof -
  have rest: "wp e (pbind (settle p (order_of_row row) event v (filled_quantity event row) (fill_status event row)) (\<lambda>res. case res of
            Inl e \<Rightarrow> Ret (Inl e)
          | Inr _ \<Rightarrow>
              pbind (UpdateOrderFill (c_provider row) (null_text (c_provider_order_id row)) (fill_status event row)
                 (filled_quantity event row) avg) (\<lambda>res. case res of
                Inl e \<Rightarrow> Ret (Inl (FillUpdateFailed e))
              | Inr _ \<Rightarrow> Ret (Inr ())))) (\<lambda>r w'. fill_post event db r (w_db w')) w"
    if "fill_average event row = Some avg" for avg v
    by (rule wp_pbindI [OF uses_frame [OF settle_uses]])
      (use that assms(2,3) in \<open>auto simp: changes_tables_def wp_Ret fill_post_def [of _ _ "Done (Inl _)"]
        fill_post_def [of _ _ "Stopped _"] split: sum.split intro!: UpdateOrderFill_post [OF assms(1)]\<close>)
  then show ?thesis
    using assms(3)
    by (auto simp: apply_fill_def Let_def wp_or_panic fill_average_def filled_quantity_def [symmetric]
        fill_status_def [symmetric] fill_post_def [of _ _ "Stopped _"] split: option.split)
qed

lemma ProcessFill_post:
  assumes "db_up e"
  shows "wp e (ProcessFill p event) (\<lambda>r w'. fill_post event (w_db w) r (w_db w')) w"
proof -
  have "wp e (pbind (GetOrderByProviderOrderID (fe_Provider event) (fe_ProviderOrderID event)) (\<lambda>found. case found of
          Inl e \<Rightarrow> Ret (Inl (LookupFailed e))
        | Inr order \<Rightarrow> apply_fill p event order)) (\<lambda>r w'. fill_post event (w_db w) r (w_db w')) w"
    unfolding GetOrderByProviderOrderID_def wp_pbind
    by (rule wp_query_order_after [OF assms, where K = "{KRead}"])
      (use apply_fill_post [OF assms] in \<open>auto simp: wp_Ret scanOrder_def after_def fill_post_def [of _ _ "Done (Inl _)"]
        fill_post_def [of _ _ "Stopped _"] split: option.split\<close>)
  then show ?thesis
    by (simp add: ProcessFill_def wp_Ret wp_Halt fill_post_def [of _ _ "Done (Inl _)"] fill_post_def [of _ _ "Stopped _"])
qed

section \<open>The calls of a fill\<close>

text \<open>The requests that move money or shares.\<close>

fun is_settlement :: "call \<Rightarrow> bool" where
  "is_settlement (CCaptureHold _) = True"
| "is_settlement (CCredit _) = True"
| "is_settlement (CSyncExecution _) = True"
| "is_settlement _ = False"

definition settlements :: "(call \<times> reply) list \<Rightarrow> (call \<times> reply) list" where
  "settlements = filter (\<lambda>(c, _). is_settlement c)"

lemma settlements_simps [simp]:
  "settlements [] = []" "settlements (l @ l') = settlements l @ settlements l'"
  "settlements ((c, r) # l) = (if is_settlement c then (c, r) # settlements l else settlements l)"
  by (simp_all add: settlements_def)

text \<open>The one settlement a fill of the order in row r asks for; acc is the clearing account.\<close>

definition row_settlement :: "fillProcessor \<Rightarrow> FillEvent \<Rightarrow> decimal \<Rightarrow> string \<Rightarrow> order_row \<Rightarrow> call option" where
  "row_settlement p event v acc r =
     (let order = order_of_row r; q = filled_quantity event r
      in if fp_ativosClient p then Some (CSyncExecution (sync_request (sync_params order event q)))
         else if \<not> fp_livroClient p then None
         else if equal_fold (c_side r) SideBuy
           then Some (CCaptureHold (capture_request (capture_params order v acc q (fill_status event r))))
         else if equal_fold (c_side r) SideSell then Some (CCredit (credit_request (credit_params order v q)))
         else None)"

text \<open>Nothing settled, and nothing to settle if the fill succeeded; or that one, acknowledged if it succeeded.\<close>

definition settled_as :: "call option \<Rightarrow> ('e + 'a) outcome \<Rightarrow> (call \<times> reply) list \<Rightarrow> bool" where
  "settled_as c r S \<longleftrightarrow>
     (S = [] \<and> (c = None \<or> \<not> (\<exists>a. r = Done (Inr a)))) \<or>
     (\<exists>call ack. c = Some call \<and> S = [(call, RAck ack)] \<and> (ack = None \<or> \<not> (\<exists>a. r = Done (Inr a))))"

lemma settle_traced:
  "traced (\<lambda>q' r. \<exists>l acc. q' = q @ l \<and> settled_as (row_settlement p event v acc row) r (settlements l) \<and> (\<forall>h. r \<noteq> Stopped h))
     (settle p (order_of_row row) event v (filled_quantity event row) (fill_status event row)) q"
  by (auto simp: settle_def SyncBrokerExecution_def GetOrCreateBrokerAccount_def CaptureHold_def Credit_def
      call_defs row_settlement_def settled_as_def Let_def split: option.split sum.split)
    (rule exI, rule refl)+

lemma apply_fill_traced:
  "traced (\<lambda>q' r. \<exists>l acc. q' = q @ l \<and> settled_as (case Decimal_Mul (fe_ExecutedQuantity event) (fe_FillPrice event) of
       None \<Rightarrow> None | Some v \<Rightarrow> row_settlement p event v acc row) r (settlements l))
     (apply_fill p event (order_of_row row)) q"
proof -
  have "traced (\<lambda>q' r. \<exists>l acc. q' = q @ l \<and> settled_as (row_settlement p event v acc row) r (settlements l))
      (pbind (settle p (order_of_row row) event v (filled_quantity event row) (fill_status event row)) (\<lambda>res. case res of
             Inl e \<Rightarrow> Ret (Inl e)
           | Inr _ \<Rightarrow>
               pbind (UpdateOrderFill (c_provider row) (null_text (c_provider_order_id row)) (fill_status event row)
                        (filled_quantity event row) avg) (\<lambda>res. case res of
                 Inl e \<Rightarrow> Ret (Inl (FillUpdateFailed e))
               | Inr _ \<Rightarrow> Ret (Inr ())))) q" for v avg
    by (rule traced_pbind [OF settle_traced])
      (auto simp: UpdateOrderFill_def call_defs settled_as_def split: sum.split)
  then show ?thesis
    by (auto simp: apply_fill_def Let_def or_panic_def filled_quantity_def [symmetric] fill_status_def [symmetric]
        settled_as_def split: option.split)
qed

definition fill_settlement :: "fillProcessor \<Rightarrow> FillEvent \<Rightarrow> string \<Rightarrow> order_row list \<Rightarrow> call option" where
  "fill_settlement p event acc t =
     (case query_order (fill_query event) t of
        None \<Rightarrow> None
      | Some row \<Rightarrow>
          (case Decimal_Mul (fe_ExecutedQuantity event) (fe_FillPrice event) of
             None \<Rightarrow> None | Some v \<Rightarrow> row_settlement p event v acc row))"

lemma settled_as_nothing [simp]: "settled_as c (Stopped h) []" "settled_as c (Done (Inl x)) []"
  by (simp_all add: settled_as_def)

lemma ProcessFill_settlements:
  "\<exists>acc. settled_as (fill_settlement p event acc (t_orders (w_db w))) (fst (exec e (ProcessFill p event) w))
    (settlements (new_calls e (ProcessFill p event) w))"
proof -
  let ?k = "\<lambda>found. case found of Inl e \<Rightarrow> Ret (Inl (LookupFailed e)) | Inr order \<Rightarrow> apply_fill p event order"
  obtain r w' where h: "handle e (CQueryOrder (fill_query event)) w = (r, w')" by fastforce
  have r: "r = ROrder (Inr (query_order (fill_query event) (t_orders (w_db w)))) \<or> r = ROrder (Inl PgConnection)"
    using h by (auto simp: handle_def split: db_outcome.splits)
  have "\<exists>acc. settled_as (fill_settlement p event acc (t_orders (w_db w))) (fst (exec e (?k (scanOrder x)) w'))
      (settlements (new_calls e (?k (scanOrder x)) w'))"
    if "x = Inr (query_order (fill_query event) (t_orders (w_db w))) \<or> x = Inl PgConnection" for x
  proof (cases "\<exists>row. x = Inr (Some row)")
    case True
    then obtain row where row: "x = Inr (Some row)" by blast
    with that have found: "query_order (fill_query event) (t_orders (w_db w)) = Some row" by simp
    from traced_exec [OF apply_fill_traced [where q = "[]" and event = event and p = p and row = row], of e w']
    show ?thesis by (auto simp: row scanOrder_def fill_settlement_def found)
  next
    case False
    then show ?thesis by (cases x) (auto simp: scanOrder_def split: option.split)
  qed
  with r h show ?thesis
    by (auto simp: ProcessFill_def GetOrderByProviderOrderID_def c_query_order_def)
qed

section \<open>Keys\<close>

lemma minus_no_digit: "\<not> is_digit CHR ''-''"
  by (simp add: is_digit_def byte_of_def)

lemma no_minus_Decimal_String: "0 \<le> coef d \<Longrightarrow> CHR ''-'' \<notin> set (Decimal_String d)"
proof (cases "expo d < 0")
  case True
  assume "0 \<le> coef d"
  with True obtain ip fp k where "Decimal_string True d = fixed_text False ip fp" "digits ip" "digits fp"
    using Decimal_string_fixed [of d True] by (metis not_less)
  with minus_no_digit show ?thesis
    by (auto simp: Decimal_String_def fixed_text_def list_all_iff)
next
  case False
  assume "0 \<le> coef d"
  with False have "Decimal_String d = nat_digits (nat (coef (Decimal_rescale d 0)))"
    by (simp add: Decimal_String_def Decimal_string_def int_string_def Decimal_rescale_def mult_less_0_iff)
  with digits_nat_digits minus_no_digit show ?thesis by (metis list_all_iff)
qed

lemma length_uuid_String: "length u = 16 \<Longrightarrow> length (uuid_String u) = 36"
  by (erule length_16_cases) (simp add: uuid_String_def hex_def hex_byte_def)

lemma takeWhile_until: "c \<notin> set u \<Longrightarrow> takeWhile (\<lambda>a. a \<noteq> c) (u @ c # z) = u"
  by (induction u) auto

lemma split_last_eq:
  assumes "x @ c # s = y @ c # t" and "c \<notin> set s" and "c \<notin> set t"
  shows "x = y \<and> s = t"
proof -
  from assms(1) have "takeWhile (\<lambda>a. a \<noteq> c) (rev s @ c # rev x) = takeWhile (\<lambda>a. a \<noteq> c) (rev t @ c # rev y)"
    by (metis append.assoc append_Cons append_Nil rev.simps(2) rev_append)
  with assms(2,3) have "rev s = rev t" by (simp add: takeWhile_until)
  with assms(1) show ?thesis by simp
qed

text \<open>The values a key is made of can be read back from it.\<close>

lemma settlement_key_determines:
  assumes "settlement_key name o1 q1 = settlement_key name o2 q2"
    and "length (bo_TradeIntentID o1) = 16" "length (bo_TradeIntentID o2) = 16"
    and "in32 (expo q1)" "in32 (expo q2)" "0 \<le> coef q1" "0 \<le> coef q2"
  shows "bo_TradeIntentID o1 = bo_TradeIntentID o2 \<and> bo_ProviderOrderID o1 = bo_ProviderOrderID o2 \<and> dval q1 = dval q2"
proof -
  have "uuid_String (bo_TradeIntentID o1) = uuid_String (bo_TradeIntentID o2)"
    and rest: "bo_ProviderOrderID o1 @ CHR ''-'' # Decimal_String q1 = bo_ProviderOrderID o2 @ CHR ''-'' # Decimal_String q2"
    using assms(1-3) by (auto simp: settlement_key_def length_uuid_String)
  moreover from split_last_eq [OF rest] have "bo_ProviderOrderID o1 = bo_ProviderOrderID o2" "Decimal_String q1 = Decimal_String q2"
    using assms(6,7) no_minus_Decimal_String by auto
  ultimately show ?thesis
    using uuid_text.enc_determines [OF assms(2,3)] amount.enc_determines [OF assms(4,5)]
    by (simp add: same_number_def)
qed

section \<open>Amounts\<close>

lemma Round_error:
  assumes "0 \<le> p" and "p < 2147483648"
  shows "\<bar>dval (Decimal_Round d p) - dval d\<bar> \<le> 10 powi (- p) / 2"
proof -
  let ?s = "(10 :: rat) powi p"
  have "dval (Decimal_Round d p) = of_int (round_away (dval d * ?s)) / ?s"
    using assms by (simp add: Round_eq in32_def dval_def power_int_minus_divide)
  moreover have "of_int (round_away (dval d * ?s)) / ?s - dval d = (of_int (round_away (dval d * ?s)) - dval d * ?s) / ?s"
    by (simp add: diff_divide_distrib)
  then have "\<bar>of_int (round_away (dval d * ?s)) / ?s - dval d\<bar> = \<bar>of_int (round_away (dval d * ?s)) - dval d * ?s\<bar> / ?s"
    by (simp add: abs_divide)
  moreover have "\<dots> \<le> (1 / 2) / ?s"
    by (rule divide_right_mono [OF round_away_bound]) (simp add: less_imp_le)
  ultimately show ?thesis by (simp add: power_int_minus_divide)
qed

text \<open>The amount a settlement names, read back from the texts of its request.\<close>

definition text_value :: "string \<Rightarrow> rat option" where
  "text_value s = map_option dval (decimal_of_text s)"

fun settled_value :: "call \<Rightarrow> rat option" where
  "settled_value (CCaptureHold req) = text_value (ch_Amount req)"
| "settled_value (CCredit req) = text_value (cr_Amount req)"
| "settled_value (CSyncExecution req) =
     (case (text_value (sx_ExecutedShares req), text_value (sx_ExecutedPrice req)) of
        (Some q, Some p) \<Rightarrow> Some (q * p) | _ \<Rightarrow> None)"
| "settled_value _ = None"

fun settlement_id :: "call \<Rightarrow> string" where
  "settlement_id (CCaptureHold req) = ch_IdempotencyKey req"
| "settlement_id (CCredit req) = cr_IdempotencyKey req"
| "settlement_id (CSyncExecution req) = sx_IdempotencyKey req"
| "settlement_id _ = []"

lemma fixed_value:
  "\<exists>a. text_value (Decimal_StringFixed v 4) = Some a \<and> \<bar>a - dval v\<bar> \<le> 1 / 20000"
  using Round_error [of 4 v] by (simp add: text_value_def decimal_of_text_def StringFixed_parse power_int_minus_divide)

lemma exact_value: "in32 (expo d) \<Longrightarrow> text_value (Decimal_String d) = Some (dval d)"
  using amount.decode [of d] by (auto simp: text_value_def same_number_def)

lemma fill_settlement_cases:
  assumes "fill_settlement p event acc t = Some c"
  obtains row v where "query_order (fill_query event) t = Some row"
    and "Decimal_Mul (fe_ExecutedQuantity event) (fe_FillPrice event) = Some v"
    and "row_settlement p event v acc row = Some c"
  using assms by (auto simp: fill_settlement_def split: option.splits)

text \<open>Key and amount depend on the row, not on the clearing account.\<close>

definition settlement_name :: "fillProcessor \<Rightarrow> order_row \<Rightarrow> string" where
  "settlement_name p r =
     (if fp_ativosClient p then ''sync-ativos'' else if equal_fold (c_side r) SideBuy then ''cap'' else ''credit'')"

lemma row_settlement_id:
  "row_settlement p event v acc row = Some c \<Longrightarrow>
     settlement_id c = settlement_key (settlement_name p row) (order_of_row row) (filled_quantity event row)"
  by (auto simp: row_settlement_def Let_def sync_request_def sync_params_def capture_request_def capture_params_def
      credit_request_def credit_params_def settlement_name_def split: if_splits)

lemma row_settlement_same:
  "row_settlement p event v acc row = Some c \<Longrightarrow> row_settlement p event v acc' row = Some c' \<Longrightarrow>
     settlement_id c = settlement_id c' \<and> settled_value c = settled_value c'"
  by (auto simp: row_settlement_def Let_def capture_request_def capture_params_def split: if_splits)

text \<open>The average a fill computes.\<close>

definition weighted :: "FillEvent \<Rightarrow> order_row \<Rightarrow> rat" where
  "weighted event r =
     (dval (c_filled_quantity r) * dval (c_average_fill_price r) + dval (fe_ExecutedQuantity event) * dval (fe_FillPrice event))
       / (dval (c_filled_quantity r) + dval (fe_ExecutedQuantity event))"

lemma numeric_expo: "n = 8 \<or> n = 4 \<Longrightarrow> expo (numeric n d) = - int n"
  by (auto simp: numeric_def Round_eq in32_def)

lemma fill_average_error:
  assumes "fill_average event r = Some avg" and "0 < dval (fe_ExecutedQuantity event)"
    and "row_typed r" and "0 \<le> dval (c_filled_quantity r)"
    and "\<bar>expo (fe_ExecutedQuantity event)\<bar> \<le> 500000000" and "\<bar>expo (fe_FillPrice event)\<bar> \<le> 500000000"
  shows "\<bar>dval avg - weighted event r\<bar> \<le> 1 / (2 * 10 ^ 16)"
proof -
  let ?f = "c_filled_quantity r" and ?a = "c_average_fill_price r" and ?x = "fe_ExecutedQuantity event"
    and ?p = "fe_FillPrice event"
  obtain v where v: "Decimal_Mul ?x ?p = Some v" "new_average (order_of_row r) event v (filled_quantity event r) = Some avg"
    using assms(1) by (auto simp: fill_average_def split: option.splits)
  have v_val: "dval v = dval ?x * dval ?p" using v(1) by (rule dval_Mul)
  have q_val: "dval (filled_quantity event r) = dval ?f + dval ?x" by (simp add: filled_quantity_def dec_simps)
  show ?thesis
  proof (cases "dval ?f = 0")
    case True
    then have "avg = ?p" using v(2) by (simp add: new_average_def dec_simps)
    with True assms(2) show ?thesis by (simp add: weighted_def)
  next
    case False
    then obtain w where w: "Decimal_Mul ?f ?a = Some w" "Decimal_Div (Decimal_Add w v) (filled_quantity event r) = Some avg"
      using v(2) by (auto simp: new_average_def dec_simps split: option.splits)
    have expos: "expo ?f = - 8" "expo ?a = - 4"
      using assms(3) numeric_expo [of 8 ?f] numeric_expo [of 4 ?a] by (simp_all add: row_typed_def stored_row_fixed)
    have small: "small_expo (Decimal_Add w v)" "small_expo (filled_quantity event r)"
      using v(1) w(1) assms(5,6) expos by (auto simp: Mul_Some_iff small_expo_def filled_quantity_def min_def)
    have "coef (filled_quantity event r) \<noteq> 0"
      using q_val assms(2,4) by (simp flip: dval_eq_0)
    from Div_error [OF this small w(2)] show ?thesis
      using dval_Mul [OF w(1)] by (simp add: dec_simps v_val q_val weighted_def)
  qed
qed

lemma abs_diff_trans: "\<bar>x - y\<bar> \<le> a \<Longrightarrow> \<bar>y - z\<bar> \<le> b \<Longrightarrow> \<bar>x - z\<bar> \<le> a + (b :: rat)"
  by linarith

section \<open>Fills one after the other\<close>

lemma of_fill_write [simp]: "of_fill event (write_fill event r avg now x) = of_fill event x"
  by (simp add: of_fill_def write_fill_def)

lemma fill_query_find: "query_order (fill_query event) t = List.find (of_fill event) t"
proof -
  have "query_matches (fill_query event) = of_fill event" by (simp add: fun_eq_iff of_fill_def)
  then show ?thesis by (simp add: query_order_def)
qed

lemma query_after_fill:
  assumes "query_order (fill_query event) t = Some row"
  shows "query_order (fill_query event) (map (\<lambda>x. if of_fill event x then write_fill event row avg now x else x) t) =
    Some (write_fill event row avg now row)"
proof -
  have "(\<lambda>x. of_fill event (if of_fill event x then write_fill event row avg now x else x)) = of_fill event"
    by auto
  with assms show ?thesis
    using fill_query_row [OF assms] by (simp add: fill_query_find find_map)
qed

lemma typed_expo: "row_typed row \<Longrightarrow> expo (c_filled_quantity row) = - 8"
  using numeric_expo [of 8 "c_filled_quantity row"] by (simp add: row_typed_def stored_row_fixed)

lemma quantity_stored:
  assumes "expo (c_filled_quantity row) = - 8" and "- 8 \<le> expo (fe_ExecutedQuantity event)"
  shows "numeric 8 (filled_quantity event row) = filled_quantity event row"
    and "expo (filled_quantity event row) = - 8"
    and "dval (filled_quantity event row) = dval (c_filled_quantity row) + dval (fe_ExecutedQuantity event)"
proof -
  show "expo (filled_quantity event row) = - 8"
    using assms by (simp add: filled_quantity_def)
  then show "numeric 8 (filled_quantity event row) = filled_quantity event row"
    by (simp add: numeric_def Decimal_Round_def in32_def)
qed (simp add: filled_quantity_def dec_simps)

lemma fill_done:
  assumes "db_up e" and "exec e (ProcessFill p event) w = (Done (Inr ()), w')"
  shows "\<exists>row avg now. query_order (fill_query event) (t_orders (w_db w)) = Some row \<and>
    fill_average event row = Some avg \<and>
    w_db w' = (w_db w)\<lparr>t_orders := map (\<lambda>r. if of_fill event r then write_fill event row avg now r else r)
      (t_orders (w_db w))\<rparr>"
  using ProcessFill_post [OF assms(1), of p event w] by (simp add: wp_def assms(2) fill_post_def)

text \<open>A later fill of an order has another key.\<close>

lemma later_key_differs:
  assumes "length (c_trade_intent_id row) = 16" and "c_trade_intent_id row1 = c_trade_intent_id row"
    and "c_side row1 = c_side row" and "expo (filled_quantity event row) = - 8" and "expo (filled_quantity event row1) = - 8"
    and "0 \<le> dval (filled_quantity event row)" and "dval (filled_quantity event row) < dval (filled_quantity event row1)"
  shows "settlement_key (settlement_name p row) (order_of_row row) (filled_quantity event row) \<noteq>
    settlement_key (settlement_name p row1) (order_of_row row1) (filled_quantity event row1)"
proof
  assume same: "settlement_key (settlement_name p row) (order_of_row row) (filled_quantity event row) =
    settlement_key (settlement_name p row1) (order_of_row row1) (filled_quantity event row1)"
  have name: "settlement_name p row1 = settlement_name p row"
    using assms(3) by (simp add: settlement_name_def)
  have "0 \<le> coef (filled_quantity event row)" "0 \<le> coef (filled_quantity event row1)"
    using assms(6,7) by (simp_all flip: not_less dval_less_0)
  then have "dval (filled_quantity event row) = dval (filled_quantity event row1)"
    using settlement_key_determines [OF same [unfolded name]] assms(1,2,4,5) by (simp add: in32_def)
  with assms(7) show False by simp
qed

lemma settled_as_in: "settled_as c r S \<Longrightarrow> (call, ack) \<in> set S \<Longrightarrow> c = Some call"
  by (auto simp: settled_as_def)

lemma settlements_in:
  assumes "(c, ack) \<in> set (settlements (new_calls e (ProcessFill p event) w))"
  shows "\<exists>acc. fill_settlement p event acc (t_orders (w_db w)) = Some c"
proof -
  obtain acc where "settled_as (fill_settlement p event acc (t_orders (w_db w))) (fst (exec e (ProcessFill p event) w))
      (settlements (new_calls e (ProcessFill p event) w))"
    using ProcessFill_settlements by blast
  from settled_as_in [OF this assms] show ?thesis by blast
qed

section \<open>Two fills of the order of the scenario\<close>

definition demo_placed :: "decimal \<Rightarrow> decimal \<Rightarrow> order_row" where
  "demo_placed f a = (stored_row demo_row)\<lparr>c_provider_order_id := Some ''28'', c_status := ''PARTIAL'',
     c_filled_quantity := f, c_average_fill_price := a, c_updated_at := 0\<rparr>"

definition demo_part :: FillEvent where
  "demo_part = \<lparr>fe_Provider = ''BINANCE'', fe_ProviderOrderID = ''28'', fe_Symbol = ''BTCUSDT'', fe_Side = ''BUY'',
     fe_Status = ''PARTIALLY_FILLED'', fe_ExecutedQuantity = \<lparr>coef = 2, expo = -1\<rparr>, fe_FillPrice = \<lparr>coef = 10, expo = 0\<rparr>\<rparr>"

definition demo_worker :: fillProcessor where
  "demo_worker = \<lparr>fp_ordersRepo = True, fp_livroClient = True, fp_ativosClient = False\<rparr>"

definition demo_orders_world :: "order_row list \<Rightarrow> world" where
  "demo_orders_world t = demo_world\<lparr>w_db := \<lparr>t_orders = t, t_creds = []\<rparr>\<rparr>"

lemma demo_placed_eq: "demo_placed f a = \<lparr>c_id = demo_id, c_trade_intent_id = demo_intent, c_tenant_id = ''t1'',
     c_user_id = ''u1'', c_provider = ''BINANCE'', c_provider_order_id = Some ''28'', c_symbol = ''BTCUSDT'',
     c_side = ''BUY'', c_target_quantity = \<lparr>coef = 50000000, expo = -8\<rparr>, c_status = ''PARTIAL'',
     c_filled_quantity = f, c_average_fill_price = a,
     c_idempotency_key = Some ''k1'', c_portfolio_id = Some [], c_livro_hold_id = Some [],
     c_created_at = 1002, c_updated_at = 0\<rparr>"
  unfolding demo_placed_def demo_stored by (simp add: demo_row_def)

text \<open>The ledger of this environment turns every capture down.\<close>

definition demo_refusing :: env where
  "demo_refusing = demo_env\<lparr>e_ack := (\<lambda>_ _. Some ''refused'')\<rparr>"

lemma demo_up: "db_up demo_env" "db_up demo_refusing"
  by (simp_all add: db_up_def demo_env_def demo_refusing_def)

abbreviation "demo_zero8 \<equiv> \<lparr>coef = 0, expo = -8\<rparr>"
abbreviation "demo_zero4 \<equiv> \<lparr>coef = 0, expo = -4\<rparr>"

lemma demo_part_decimals:
  "\<not> Decimal_LessThanOrEqual \<lparr>coef = 2, expo = -1\<rparr> Decimal_Zero"
  "\<not> Decimal_LessThanOrEqual \<lparr>coef = 10, expo = 0\<rparr> Decimal_Zero"
  "Decimal_Mul \<lparr>coef = 2, expo = -1\<rparr> \<lparr>coef = 10, expo = 0\<rparr> = Some \<lparr>coef = 20, expo = -1\<rparr>"
  "Decimal_Add demo_zero8 \<lparr>coef = 2, expo = -1\<rparr> = \<lparr>coef = 20000000, expo = -8\<rparr>"
  "Decimal_Add \<lparr>coef = 20000000, expo = -8\<rparr> \<lparr>coef = 2, expo = -1\<rparr> = \<lparr>coef = 40000000, expo = -8\<rparr>"
  "Decimal_IsZero demo_zero8" "\<not> Decimal_IsZero \<lparr>coef = 20000000, expo = -8\<rparr>"
  "Decimal_Mul \<lparr>coef = 20000000, expo = -8\<rparr> \<lparr>coef = 100000, expo = -4\<rparr> = Some \<lparr>coef = 2000000000000, expo = -12\<rparr>"
  "Decimal_Add \<lparr>coef = 2000000000000, expo = -12\<rparr> \<lparr>coef = 20, expo = -1\<rparr> = \<lparr>coef = 4000000000000, expo = -12\<rparr>"
  "Decimal_Div \<lparr>coef = 4000000000000, expo = -12\<rparr> \<lparr>coef = 40000000, expo = -8\<rparr> = Some \<lparr>coef = 100000000000000000, expo = -16\<rparr>"
  "\<not> Decimal_GreaterThanOrEqual \<lparr>coef = 20000000, expo = -8\<rparr> \<lparr>coef = 50000000, expo = -8\<rparr>"
  "\<not> Decimal_GreaterThanOrEqual \<lparr>coef = 40000000, expo = -8\<rparr> \<lparr>coef = 50000000, expo = -8\<rparr>"
  "numeric_ok 28 8 \<lparr>coef = 20000000, expo = -8\<rparr>" "numeric 8 \<lparr>coef = 20000000, expo = -8\<rparr> = \<lparr>coef = 20000000, expo = -8\<rparr>"
  "numeric_ok 28 8 \<lparr>coef = 40000000, expo = -8\<rparr>" "numeric 8 \<lparr>coef = 40000000, expo = -8\<rparr> = \<lparr>coef = 40000000, expo = -8\<rparr>"
  "numeric_ok 28 4 \<lparr>coef = 10, expo = 0\<rparr>" "numeric 4 \<lparr>coef = 10, expo = 0\<rparr> = \<lparr>coef = 100000, expo = -4\<rparr>"
  by (simp_all add: dec_eval numeric_ok_def numeric_def)

lemma demo_not_filled: "\<not> equal_fold ''PARTIALLY_FILLED'' ''FILLED''" "equal_fold ''BUY'' ''BUY''"
  by (simp_all add: equal_fold_def to_upper_def str_eval)

lemmas demo_fill_simps = ProcessFill_def apply_fill_def GetOrderByProviderOrderID_def Let_def demo_part_def demo_worker_def
  new_average_def new_status_def settle_def GetOrCreateBrokerAccount_def CaptureHold_def UpdateOrderFill_def
  exec_pbind call_defs handle_def or_panic_def demo_env_def demo_refusing_def demo_orders_world_def demo_world_def
  fill_orders_def update_orders_def query_order_def demo_placed_eq demo_part_decimals
  demo_not_filled scanOrder_def order_of_row_def null_text_def status_defs SideBuy_def SideSell_def varchar_ok_def
  varchar_def demo_numeric dval_gr_0

lemma demo_fills:
  assumes "t_orders (w_db w) = [demo_placed f a\<lparr>c_updated_at := t\<rparr>]"
  shows "f = demo_zero8 \<Longrightarrow> a = demo_zero4 \<Longrightarrow> \<exists>w'. exec demo_env (ProcessFill demo_worker demo_part) w = (Done (Inr ()), w') \<and>
     (\<exists>now. t_orders (w_db w') = [demo_placed \<lparr>coef = 20000000, expo = -8\<rparr> \<lparr>coef = 100000, expo = -4\<rparr>\<lparr>c_updated_at := now\<rparr>])"
    and "f = \<lparr>coef = 20000000, expo = -8\<rparr> \<Longrightarrow> a = \<lparr>coef = 100000, expo = -4\<rparr> \<Longrightarrow>
     \<exists>w'. exec demo_env (ProcessFill demo_worker demo_part) w = (Done (Inr ()), w')"
    and "f = demo_zero8 \<Longrightarrow> a = demo_zero4 \<Longrightarrow>
     \<exists>x w'. exec demo_refusing (ProcessFill demo_worker demo_part) w = (Done (Inl x), w') \<and>
       (\<exists>c m. (c, m) \<in> set (settlements (new_calls demo_refusing (ProcessFill demo_worker demo_part) w))) \<and>
       (\<exists>c m. (c, m) \<in> set (settlements (new_calls demo_env (ProcessFill demo_worker demo_part) w')))"
  using assms by (simp_all add: demo_fill_simps)

lemma demo_placed_typed: "row_typed (demo_placed demo_zero8 demo_zero4)"
  by (simp add: row_typed_def stored_row_fixed row_ok_def demo_placed_eq demo_numeric option_ok_def varchar_def
      varchar_ok_def numeric_ok_def numeric_def dec_eval)

lemma demo_fill_query:
  "t_orders (w_db w) = [demo_placed f a\<lparr>c_updated_at := t\<rparr>] \<Longrightarrow>
     query_order (fill_query demo_part) (t_orders (w_db w)) = Some (demo_placed f a\<lparr>c_updated_at := t\<rparr>)"
  by (simp add: query_order_def demo_part_def demo_placed_eq)

definition demo_fresh :: world where
  "demo_fresh = demo_orders_world [demo_placed demo_zero8 demo_zero4]"

lemma demo_fresh_orders: "t_orders (w_db demo_fresh) = [demo_placed demo_zero8 demo_zero4\<lparr>c_updated_at := 0\<rparr>]"
  by (simp add: demo_fresh_def demo_orders_world_def demo_placed_eq)

lemma demo_placed_now: "demo_placed f a\<lparr>c_updated_at := 0\<rparr> = demo_placed f a"
  by (simp add: demo_placed_eq)

lemma demo_fresh_table: "t_orders (w_db demo_fresh) = [demo_placed demo_zero8 demo_zero4]"
  by (simp add: demo_fresh_orders demo_placed_now)

lemma demo_fresh_query:
  "query_order (fill_query demo_part) [demo_placed demo_zero8 demo_zero4] = Some (demo_placed demo_zero8 demo_zero4)"
  using demo_fill_query [OF demo_fresh_orders] by (simp add: demo_fresh_table demo_placed_now)

section \<open>Properties\<close>

text \<open>C24: A fill that ProcessFill reports as processed has been written to the order it names: status,
  cumulative quantity and average price of the rows with its provider and broker order id are
  the new ones computed from the row found, and no other row and no other column has changed.\<close>

theorem fill_recorded:
  assumes "db_up e" and "exec e (ProcessFill p event) w = (Done (Inr ()), w')"
  shows "\<exists>row avg now. query_order (fill_query event) (t_orders (w_db w)) = Some row \<and>
    fill_average event row = Some avg \<and>
    w_db w' = (w_db w)\<lparr>t_orders := map (\<lambda>r. if of_fill event r then write_fill event row avg now r else r)
      (t_orders (w_db w))\<rparr>"
  using assms by (rule fill_done)

theorem fill_recorded_witness:
  "\<exists>w' avg now. exec demo_env (ProcessFill demo_worker demo_part) demo_fresh = (Done (Inr ()), w') \<and>
     t_orders (w_db w') =
       [write_fill demo_part (demo_placed demo_zero8 demo_zero4) avg now (demo_placed demo_zero8 demo_zero4)]"
proof -
  obtain w' where run: "exec demo_env (ProcessFill demo_worker demo_part) demo_fresh = (Done (Inr ()), w')"
    using demo_fills(1) [OF demo_fresh_orders] by blast
  have here: "of_fill demo_part (demo_placed demo_zero8 demo_zero4)"
    by (simp add: of_fill_def demo_part_def demo_placed_eq)
  obtain row avg now where "query_order (fill_query demo_part) (t_orders (w_db demo_fresh)) = Some row"
    and "w_db w' = (w_db demo_fresh)\<lparr>t_orders := map (\<lambda>r. if of_fill demo_part r
      then write_fill demo_part row avg now r else r) (t_orders (w_db demo_fresh))\<rparr>"
    using fill_recorded [OF demo_up(1) run] by blast
  with here have "t_orders (w_db w') =
      [write_fill demo_part (demo_placed demo_zero8 demo_zero4) avg now (demo_placed demo_zero8 demo_zero4)]"
    by (simp add: demo_fresh_table demo_fresh_query)
  with run show ?thesis by blast
qed






text \<open>C27: Settlements with the same idempotency key are settlements of the same trade, the same broker
  order and the same cumulative quantity: the ledger never takes a new fill for an old one.\<close>

theorem settlement_keys_determine:
  assumes "settlement_key name o1 q1 = settlement_key name o2 q2"
    and "length (bo_TradeIntentID o1) = 16" and "length (bo_TradeIntentID o2) = 16"
    and "in32 (expo q1)" and "in32 (expo q2)" and "0 \<le> coef q1" and "0 \<le> coef q2"
  shows "bo_TradeIntentID o1 = bo_TradeIntentID o2 \<and> bo_ProviderOrderID o1 = bo_ProviderOrderID o2 \<and>
    dval q1 = dval q2"
  using assms by (rule settlement_key_determines)

theorem settlement_keys_determine_witness:
  "bo_ProviderOrderID (order_of_row (demo_placed demo_zero8 demo_zero4)) = ''28'' \<and>
   dval \<lparr>coef = 20, expo = -1\<rparr> = dval \<lparr>coef = 2, expo = 0\<rparr>"
proof -
  have same: "settlement_key ''cap'' (order_of_row (demo_placed demo_zero8 demo_zero4)) \<lparr>coef = 20, expo = -1\<rparr> =
      settlement_key ''cap'' (order_of_row (demo_placed demo_zero8 demo_zero4)) \<lparr>coef = 2, expo = 0\<rparr>"
    by (simp add: settlement_key_def dec_eval)
  from settlement_keys_determine [OF same] show ?thesis
    by (simp add: demo_placed_eq demo_intent_def in32_def)
qed

text \<open>C29: The amount a settlement names is the product of quantity and price, to within half of the
  fourth decimal it is printed with.\<close>

theorem settled_amount_bound:
  assumes "fill_settlement p event acc t = Some c"
    and "in32 (expo (fe_ExecutedQuantity event))" and "in32 (expo (fe_FillPrice event))"
  shows "\<exists>a. settled_value c = Some a \<and>
    \<bar>a - dval (fe_ExecutedQuantity event) * dval (fe_FillPrice event)\<bar> \<le> 1 / 20000"
  using assms(1)
proof (rule fill_settlement_cases)
  fix row v
  assume mul: "Decimal_Mul (fe_ExecutedQuantity event) (fe_FillPrice event) = Some v"
    and c: "row_settlement p event v acc row = Some c"
  show ?thesis
    using c assms(2,3) fixed_value [of v]
    by (auto simp: row_settlement_def Let_def sync_request_def sync_params_def capture_request_def capture_params_def
        credit_request_def credit_params_def exact_value dval_Mul [OF mul, symmetric] split: if_splits)
qed

theorem settled_amount_bound_witness:
  "\<exists>c a. fill_settlement demo_worker demo_part ''acc'' [demo_placed demo_zero8 demo_zero4] = Some c \<and>
     settled_value c = Some a \<and> \<bar>a - 2\<bar> \<le> 1 / 20000"
proof -
  obtain c where c: "fill_settlement demo_worker demo_part ''acc'' [demo_placed demo_zero8 demo_zero4] = Some c"
    using demo_fresh_query
    by (simp add: fill_settlement_def row_settlement_def demo_worker_def demo_part_def demo_part_decimals
        demo_placed_eq SideBuy_def demo_not_filled Let_def)
  from settled_amount_bound [OF c] show ?thesis
    using c by (auto simp: demo_part_def in32_def dval_def power_int_minus_divide)
qed

text \<open>C28: What a fill stores: the cumulative quantity exactly, for quantities of at most eight decimals,
  and the average price over all fills to within the rounding of its column and of the division.\<close>

theorem fill_totals:
  assumes "row_typed row" and "0 \<le> dval (c_filled_quantity row)" and "0 < dval (fe_ExecutedQuantity event)"
    and "- 8 \<le> expo (fe_ExecutedQuantity event)" and "expo (fe_ExecutedQuantity event) \<le> 500000000"
    and "\<bar>expo (fe_FillPrice event)\<bar> \<le> 500000000" and "fill_average event row = Some avg"
  shows "dval (c_filled_quantity (write_fill event row avg now row)) =
      dval (c_filled_quantity row) + dval (fe_ExecutedQuantity event) \<and>
    \<bar>dval (c_average_fill_price (write_fill event row avg now row)) - weighted event row\<bar>
      \<le> 1 / 20000 + 1 / (2 * 10 ^ 16)"
proof
  have "dval (numeric 8 (filled_quantity event row)) = dval (c_filled_quantity row) + dval (fe_ExecutedQuantity event)"
    by (simp add: quantity_stored [OF typed_expo [OF assms(1)] assms(4)])
  then show "dval (c_filled_quantity (write_fill event row avg now row)) =
      dval (c_filled_quantity row) + dval (fe_ExecutedQuantity event)"
    by (simp add: write_fill_def)
  have "\<bar>dval (numeric 4 avg) - dval avg\<bar> \<le> 1 / 20000"
    using Round_error [of 4 avg] by (simp add: numeric_def power_int_minus_divide)
  moreover have "\<bar>dval avg - weighted event row\<bar> \<le> 1 / (2 * 10 ^ 16)"
    by (rule fill_average_error) (use assms in auto)
  moreover have "c_average_fill_price (write_fill event row avg now row) = numeric 4 avg"
    by (simp add: write_fill_def)
  ultimately show "\<bar>dval (c_average_fill_price (write_fill event row avg now row)) - weighted event row\<bar>
      \<le> 1 / 20000 + 1 / (2 * 10 ^ 16)"
    by (simp only: abs_diff_trans)
qed

theorem fill_totals_witness:
  "\<exists>avg. fill_average demo_part (demo_placed demo_zero8 demo_zero4) = Some avg \<and>
     dval (c_filled_quantity (write_fill demo_part (demo_placed demo_zero8 demo_zero4) avg 1012 (demo_placed demo_zero8 demo_zero4)))
       = 1 / 5"
proof -
  have avg: "fill_average demo_part (demo_placed demo_zero8 demo_zero4) = Some \<lparr>coef = 10, expo = 0\<rparr>"
    by (simp add: fill_average_def demo_part_def demo_part_decimals new_average_def demo_placed_eq)
  from fill_totals [OF demo_placed_typed _ _ _ _ _ avg, of 1012] avg show ?thesis
    by (simp add: demo_part_def demo_placed_eq dval_def power_int_minus_divide)
qed



end
