(* ===== verification/Secrets.thy ===== *)
theory Secrets
  imports Progress
begin

text \<open>
  The life of the plaintext credentials.  A buffer that a handler puts into a credentials struct is
  zero once the handler has ended, with a result or with a panic, and the struct no longer refers
  to it.  \<open>custody\<close> is the automaton a handler follows: which buffers it has allocated, then the struct
  it holds, what the struct still refers to and what has been wiped.  The invariant ties its states
  to the memory that all requests share.
\<close>

section \<open>The automaton\<close>

text \<open>\<open>Never\<close> is the state after a reply that contradicts the struct's content, which memory does not give.\<close>

datatype custody = Never | Idle "nat set" | Holding nat creds "nat set"

definition parts :: "creds \<Rightarrow> nat set" where
  "parts cr = set_option (fst cr) \<union> set_option (snd cr)"

lemma parts_simps [simp]: "parts (x, y) = set_option x \<union> set_option y"
  by (simp add: parts_def)

fun keep :: "custody \<Rightarrow> call \<Rightarrow> (reply \<Rightarrow> custody) option" where
  "keep Never c = Some (\<lambda>_. Never)"
| "keep (Idle A) c =
     (case c of
        CAlloc bs \<Rightarrow> Some (\<lambda>r. case r of RAddress a \<Rightarrow> Idle (insert a A) | _ \<Rightarrow> Never)
      | CNewCreds cr \<Rightarrow>
          if parts cr \<subseteq> A then Some (\<lambda>r. case r of RAddress p \<Rightarrow> Holding p cr {} | _ \<Rightarrow> Never) else None
      | CGetCreds p \<Rightarrow> None
      | CSetCreds p cr \<Rightarrow> None
      | _ \<Rightarrow> Some (\<lambda>_. Idle A))"
| "keep (Holding p cr W) c =
     (case c of
        CNewCreds cr' \<Rightarrow> None
      | CGetCreds p' \<Rightarrow> if p' = p then Some (\<lambda>r. if r = RCreds cr then Holding p cr W else Never) else None
      | CSetCreds p' cr' \<Rightarrow>
          if p' = p \<and> parts cr' \<subseteq> parts cr \<and> parts cr \<subseteq> W \<union> parts cr' then Some (\<lambda>_. Holding p cr' W) else None
      | CWipe a \<Rightarrow> if a \<in> parts cr then Some (\<lambda>_. Holding p cr (insert a W)) else None
      | _ \<Rightarrow> Some (\<lambda>_. Holding p cr W))"

text \<open>Nothing is held; a struct p is held; or it is held and refers to nothing any more.\<close>

fun idle :: "custody \<Rightarrow> bool" where
  "idle (Holding p cr W) = False" | "idle _ = True"

fun holds :: "nat \<Rightarrow> custody \<Rightarrow> bool" where
  "holds p (Holding p' cr W) = (p' = p)" | "holds p (Idle A) = False" | "holds p Never = True"

fun given_back :: "custody \<Rightarrow> bool" where
  "given_back (Holding p cr W) = (cr = (None, None))" | "given_back _ = True"

lemma idle_given_back: "idle q \<Longrightarrow> given_back q"
  by (cases q) simp_all

lemma keep_other: "call_kind c \<noteq> KMemory \<Longrightarrow> keep q c = Some (\<lambda>_. q)"
  by (cases q; cases c) simp_all

lemma obeys_memory_free:
  assumes "uses K p" and "KMemory \<notin> K" and "\<And>a. F q a" and "H q Panicked"
  shows "obeys keep F H p q"
  using assms(1) unfolding uses_def
  by (rule obeys_stays) (use assms(2-4) in \<open>auto intro: keep_other\<close>)

lemma obeys_never: "(\<And>a. F Never a) \<Longrightarrow> (\<And>h. H Never h) \<Longrightarrow> obeys keep F H p Never"
  by (induction p) auto

section \<open>Zero\<close>

lemma Zero_gives_back:
  assumes "holds p q" and "\<And>q. given_back q \<Longrightarrow> holds p q \<Longrightarrow> F q ()" and "\<And>h. H Never h"
  shows "obeys keep F H (Zero (Some p)) q"
proof (cases q)
  case (Holding p' cr W)
  have never: "obeys keep F H p Never" for p
    by (rule obeys_never) (use assms in auto)
  show ?thesis
    using assms Holding
    by (cases cr; cases "fst cr"; cases "snd cr") (auto simp: Zero_def call_defs never split: reply.split)
qed (use assms in \<open>auto intro!: obeys_never\<close>)

section \<open>Decryption\<close>

definition got_buffer :: "nat set \<Rightarrow> custody \<Rightarrow> 'e + nat \<Rightarrow> bool" where
  "got_buffer A q x \<longleftrightarrow> (\<exists>A'. q = Idle A' \<and> A \<subseteq> A' \<and> (case x of Inl _ \<Rightarrow> True | Inr a \<Rightarrow> a \<in> A'))"

definition got_creds :: "custody \<Rightarrow> 'e + nat \<Rightarrow> bool" where
  "got_creds q x \<longleftrightarrow> (case x of Inl _ \<Rightarrow> idle q | Inr p \<Rightarrow> holds p q)"

lemma Decrypt_keeps: "obeys keep (got_buffer A) (\<lambda>q _. idle q) (Decrypt c ct) (Idle A)"
  by (auto simp: Decrypt_def call_defs got_buffer_def split: sum.split option.split reply.split prod.split)

lemma decrypt_each_keeps: "obeys keep got_creds (\<lambda>q _. idle q) (decrypt_each c k s) (Idle A)"
proof -
  have secret: "obeys keep got_creds (\<lambda>q _. idle q) (pbind (Decrypt c s) (\<lambda>sec. case sec of
           Inl e \<Rightarrow> c_wipe a (Ret (Inl (ApiSecretFailed e)))
         | Inr b \<Rightarrow> c_new_creds (Some a, Some b) (\<lambda>p. Ret (Inr p)))) (Idle A)" if "a \<in> A" for a A
    by (rule obeys_pbind [OF Decrypt_keeps [of A]])
      (use that in \<open>auto simp: got_buffer_def got_creds_def call_defs split: sum.split reply.split\<close>)
  show ?thesis
    unfolding decrypt_each_def
    by (rule obeys_pbind [OF Decrypt_keeps [of A]])
      (auto simp: got_buffer_def got_creds_def [of _ "Inl _"] intro!: secret split: sum.split)
qed

lemma DecryptCredentials_keeps: "obeys keep got_creds (\<lambda>q _. idle q) (DecryptCredentials c k s) (Idle A)"
  by (auto simp: DecryptCredentials_def call_defs got_creds_def decrypt_each_keeps
      split: option.split prod.split reply.split)

lemma load_credentials_keeps:
  "obeys keep got_creds (\<lambda>q _. idle q) (load_credentials s tenant provider a b c) (Idle A)"
proof -
  have "obeys keep got_creds (\<lambda>q _. idle q) (pbind (DecryptCredentials (sv_vaultClient s) x y) (\<lambda>creds. case creds of
              Inl e \<Rightarrow> Ret (Inl (Status Internal c)) | Inr p \<Rightarrow> Ret (Inr p))) (Idle A)" for x y
    by (rule obeys_pbind [OF DecryptCredentials_keeps]) (auto simp: got_creds_def split: sum.splits)
  then show ?thesis
    by (auto simp: load_credentials_def GetCredentials_def call_defs got_creds_def [of _ "Inl _"]
        split: sum.split option.split reply.split)
qed

section \<open>Use\<close>

lemma holds_memory_free: "uses K p \<Longrightarrow> KMemory \<notin> K \<Longrightarrow> holds c q \<Longrightarrow> obeys keep (\<lambda>q _. holds c q) (\<lambda>q _. holds c q) p q"
  by (rule obeys_memory_free)

lemma with_credentials_keeps:
  assumes "\<And>x y. uses K (body x y)" and "KMemory \<notin> K" and "holds p q"
  shows "obeys keep (\<lambda>q _. holds p q) (\<lambda>q _. holds p q) (with_credentials (Some p) m body) q"
proof -
  let ?ok = "\<lambda>q _. holds p q"
  have never: "obeys keep ?ok ?ok r Never" for r :: "(broker_error + 'a) prog"
    by (rule obeys_never) simp_all
  have body: "obeys keep ?ok ?ok (pdefer (body x y) (Zero (Some p))) q" if "holds p q" for x y q
    by (rule obeys_pdefer [OF holds_memory_free [OF assms(1,2) that]]) (auto intro: Zero_gives_back)
  have load: "obeys keep ?ok ?ok (load_slice sl k) q" if "\<And>x. obeys keep ?ok ?ok (k x) q" "holds p q"
    for sl q and k :: "8 word list \<Rightarrow> (broker_error + 'a) prog"
    using that by (cases q) (auto simp: load_slice_def call_defs never split: option.split reply.split)
  have rest: "obeys keep ?ok ?ok (load_slice key (\<lambda>apiKey. load_slice sec (\<lambda>apiSecret.
      if apiKey = [] \<or> apiSecret = [] then Ret (Inl (BrokerError m))
      else pdefer (body apiKey apiSecret) (Zero (Some p))))) q" if "holds p q" for key sec q
    by (intro load that) (auto intro: body that)
  show ?thesis
    using assms(3)
    by (cases q) (auto simp: with_credentials_def c_get_creds_def never rest split: reply.split)
qed

lemma PlaceMarketOrder_keeps:
  "holds p q \<Longrightarrow> obeys keep (\<lambda>q _. holds p q) (\<lambda>q _. holds p q) (PlaceMarketOrder c (Some p) r) q"
  unfolding PlaceMarketOrder_def
  by (rule with_credentials_keeps [where K = "{KTime, KOrder}"])
    (auto intro!: uses_intros order_answer_uses split: prod.split)

lemma GetAccountBalances_keeps:
  "holds p q \<Longrightarrow> obeys keep (\<lambda>q _. holds p q) (\<lambda>q _. holds p q) (GetAccountBalances c (Some p)) q"
  unfolding GetAccountBalances_def
  by (rule with_credentials_keeps [where K = "{KTime, KMarketData}"])
    (auto simp: Let_def intro!: uses_intros balance_answer_uses)

lemma deferred_Zero:
  assumes "obeys keep (\<lambda>q _. holds p q) (\<lambda>q _. holds p q) prog q"
  shows "obeys keep (\<lambda>q _. given_back q) (\<lambda>q h. h = Panicked \<longrightarrow> given_back q) (pdefer prog (Zero (Some p))) q"
  by (rule obeys_pdefer [OF assms]) (auto intro: Zero_gives_back)

section \<open>Requests\<close>

abbreviation returns_secrets :: "'a prog \<Rightarrow> custody \<Rightarrow> bool" where
  "returns_secrets \<equiv> obeys keep (\<lambda>q _. given_back q) (\<lambda>q h. h = Panicked \<longrightarrow> given_back q)"

lemma returns_secrets_free: "uses K p \<Longrightarrow> KMemory \<notin> K \<Longrightarrow> given_back q \<Longrightarrow> returns_secrets p q"
  by (rule obeys_memory_free) auto

lemma execute_reserved_keeps: "returns_secrets (execute_reserved s req pr sd qty ord) (Idle A)"
proof -
  have load: "obeys keep got_creds (\<lambda>q h. h = Panicked \<longrightarrow> given_back q)
      (pguard (load_credentials s t pr x y z) (releaseReservation ord)) (Idle A)" for t x y z
    by (rule obeys_pguard [OF load_credentials_keeps])
      (auto simp: got_creds_def idle_given_back intro!: obeys_memory_free [OF releaseReservation_uses])
  have dispatch: "obeys keep (\<lambda>q _. holds p q) (\<lambda>q _. holds p q) (dispatch_order s p r) q" if "holds p q" for p q r
    unfolding dispatch_order_def
    by (rule obeys_pbind [OF PlaceMarketOrder_keeps [OF that]]) (auto split: sum.split)
  have zeroed: "obeys keep (\<lambda>q x. case x of Inl _ \<Rightarrow> given_back q | Inr _ \<Rightarrow> holds p q) (\<lambda>q h. h = Panicked \<longrightarrow> given_back q)
      (pguard (dispatch_order s p r) (Zero (Some p))) q" if "holds p q" for p q r
    by (rule obeys_pguard [OF dispatch [OF that]]) (auto intro: Zero_gives_back)
  have sent: "obeys keep (\<lambda>q x. case x of Inl _ \<Rightarrow> given_back q | Inr _ \<Rightarrow> holds p q) (\<lambda>q h. h = Panicked \<longrightarrow> given_back q)
      (pguard (pguard (dispatch_order s p r) (Zero (Some p))) (releaseReservation ord)) q" if "holds p q" for p q r
    by (rule obeys_pguard [OF zeroed [OF that]]) (auto intro!: obeys_memory_free [OF releaseReservation_uses])
  have settled: "returns_secrets (pdefer (settle_order s req pr sd ord res) (Zero (Some p))) q" if "holds p q" for p q res
    by (rule deferred_Zero [OF holds_memory_free [OF settle_order_uses _ that]]) simp
  show ?thesis
    unfolding execute_reserved_def
    by (rule obeys_pbind [OF load])
      (auto simp: got_creds_def idle_given_back intro!: obeys_pbind [OF sent] settled split: sum.splits)
qed

lemma reserve_loop_keeps: "obeys keep (\<lambda>q _. q = Idle A) (\<lambda>q _. q = Idle A) (reserve_loop n s deadline ord) (Idle A)"
proof (induction n arbitrary: ord)
  case (Suc n)
  have blocked: "obeys keep (\<lambda>q _. q = Idle A) (\<lambda>q _. q = Idle A) (pbind (existing_order ord') (\<lambda>existing. case switch_existing existing of
      Some res \<Rightarrow> Ret (res, ord') | None \<Rightarrow> wait_turn s deadline ord' (reserve_loop n s deadline ord'))) (Idle A)" for ord'
    by (rule obeys_pbind [OF obeys_memory_free [OF existing_order_uses], where G = "\<lambda>q _. q = Idle A"])
      (auto simp: wait_turn_def call_defs Suc.IH split: option.split reply.split)
  show ?case
    by (auto intro!: obeys_pbind [OF obeys_memory_free [OF ReserveOrder_uses], where G = "\<lambda>q _. q = Idle A"] blocked
        split: sum.split)
qed simp

lemma ExecuteTrade_keeps: "returns_secrets (ExecuteTrade s req) (Idle A)"
proof -
  have "obeys keep (\<lambda>q _. q = Idle A) (\<lambda>q h. h = Panicked \<longrightarrow> given_back q) (reserveOrder s ord) (Idle A)" for ord
    using obeys_mono [OF reserve_loop_keeps]
    by (auto simp: reserveOrder_def call_defs split: reply.split)
  then show ?thesis
    by (auto simp: ExecuteTrade_def Let_def c_uuid_def intro!: obeys_pbind execute_reserved_keeps
        split: sum.split option.split reply.split)
qed

lemma SyncBrokerBalances_keeps: "returns_secrets (SyncBrokerBalances s req) (Idle A)"
proof -
  have reconcile: "obeys keep (\<lambda>q _. holds p q) (\<lambda>q _. holds p q) (reconcile s req p) q" if "holds p q" for p q
    unfolding reconcile_def
    by (rule obeys_pbind [OF GetAccountBalances_keeps [OF that]])
      (auto simp: Let_def intro!: obeys_pbind [OF holds_memory_free [OF ledger_balance_uses]] split: sum.split)
  have load: "obeys keep got_creds (\<lambda>q h. h = Panicked \<longrightarrow> given_back q) (load_credentials s t pr x y z) (Idle A)" for t pr x y z
    by (rule obeys_mono [OF load_credentials_keeps]) (auto intro: idle_given_back)
  show ?thesis
    unfolding SyncBrokerBalances_def
    by (auto simp: got_creds_def idle_given_back intro!: obeys_pbind [OF load] deferred_Zero reconcile split: sum.splits)
qed

lemma serve_keeps: "returns_secrets (serve q) (Idle A)"
  by (cases q) (auto intro!: obeys_pbind [OF ExecuteTrade_keeps] obeys_pbind [OF SyncBrokerBalances_keeps]
      obeys_pbind [OF returns_secrets_free [OF ProcessFill_uses]] obeys_pbind [OF returns_secrets_free [OF GetQuotes_uses]]
      obeys_pbind [OF returns_secrets_free [OF ValidateTickers_uses]]
      obeys_pbind [OF returns_secrets_free [OF SaveCredentials_uses]]
      obeys_pbind [OF returns_secrets_free [OF handleBinanceOrderWebhook_uses]])

section \<open>The memory all requests share\<close>

definition zeroed :: "world \<Rightarrow> nat \<Rightarrow> bool" where
  "zeroed w a \<longleftrightarrow> a < length (w_heap w) \<and> set (w_heap w ! a) \<subseteq> {0}"

fun matches :: "custody \<Rightarrow> world \<Rightarrow> bool" where
  "matches Never w = False"
| "matches (Idle A) w = (\<forall>a \<in> A. a < length (w_heap w))"
| "matches (Holding p cr W) w =
     (p < length (w_creds w) \<and> w_creds w ! p = cr \<and> (\<forall>a \<in> parts cr. a < length (w_heap w)) \<and> (\<forall>a \<in> W. zeroed w a))"

fun struct_of :: "custody \<Rightarrow> nat option" where
  "struct_of (Holding p cr W) = Some p" | "struct_of q = None"

text \<open>What the calls do to the memory.\<close>

lemma handle_memory:
  assumes "handle e c w = (r, w')"
  shows "w_heap w' = (case c of CAlloc bs \<Rightarrow> w_heap w @ [bs] | CWipe a \<Rightarrow> (w_heap w)[a := wipe (w_heap w ! a)] | _ \<Rightarrow> w_heap w)"
    and "w_creds w' = (case c of CNewCreds cr \<Rightarrow> w_creds w @ [cr] | CSetCreds p cr \<Rightarrow> (w_creds w)[p := cr] | _ \<Rightarrow> w_creds w)"
    and "\<And>bs. c = CAlloc bs \<Longrightarrow> r = RAddress (length (w_heap w))"
    and "\<And>cr. c = CNewCreds cr \<Longrightarrow> r = RAddress (length (w_creds w))"
    and "\<And>p. c = CGetCreds p \<Longrightarrow> p < length (w_creds w) \<Longrightarrow> r = RCreds (w_creds w ! p)"
  using assms by (cases c; auto simp: handle_def split: prod.splits db_outcome.splits option.splits)+

lemma set_wipe: "set (wipe bs) \<subseteq> {0}"
  by (auto simp: wipe_def)

lemma zeroed_handle:
  assumes "handle e c w = (r, w')" and "zeroed w a"
  shows "zeroed w' a"
proof (cases "c = CWipe a")
  case True
  then show ?thesis
    using assms(2) handle_memory(1) [OF assms(1)] set_wipe by (auto simp: zeroed_def)
next
  case False
  then show ?thesis
    using assms(2) handle_memory(1) [OF assms(1)] by (cases c) (auto simp: zeroed_def nth_append)
qed

lemma matches_other:
  assumes "handle e c w = (r, w')" and "matches q w" and "\<And>p cr. c = CSetCreds p cr \<Longrightarrow> struct_of q \<noteq> Some p"
  shows "matches q w'"
proof -
  have heap: "length (w_heap w) \<le> length (w_heap w')" and creds: "length (w_creds w) \<le> length (w_creds w')"
    using handle_memory(1,2) [OF assms(1)] by (auto split: call.split)
  show ?thesis
  proof (cases q)
    case (Holding p cr W)
    have "w_creds w' ! p = w_creds w ! p"
      using assms(2,3) Holding handle_memory(2) [OF assms(1)] by (auto simp: nth_append nth_list_update split: call.splits)
    with assms(2) Holding heap creds zeroed_handle [OF assms(1)] show ?thesis by fastforce
  qed (use assms(2) heap in auto)
qed

lemma matches_own:
  assumes "handle e c w = (r, w')" and "matches q w" and "keep q c = Some f"
  shows "matches (f r) w'"
proof (cases "\<forall>bs p cr a. c \<noteq> CAlloc bs \<and> c \<noteq> CNewCreds cr \<and> c \<noteq> CGetCreds p \<and> c \<noteq> CSetCreds p cr \<and> c \<noteq> CWipe a")
  case True
  with assms(3) have "f r = q" by (cases q; cases c) auto
  with True show ?thesis using matches_other [OF assms(1,2)] by auto
next
  case False
  then show ?thesis
    using assms(2,3) handle_memory [OF assms(1)] set_wipe zeroed_handle [OF assms(1)]
    by (cases q) (auto simp: nth_append zeroed_def less_Suc_eq split: if_splits)
qed

section \<open>The invariant\<close>

text \<open>What a thread has put into structs, as its log shows it.\<close>

definition issued :: "nat \<Rightarrow> (nat \<times> call \<times> reply) list \<Rightarrow> (creds \<times> reply) set" where
  "issued i es = {(cr, r). (i, CNewCreds cr, r) \<in> set es}"

fun booked :: "custody \<Rightarrow> (creds \<times> reply) set \<Rightarrow> bool" where
  "booked (Holding p cr W) S = (\<forall>x \<in> S. snd x = RAddress p \<and> parts (fst x) \<subseteq> W \<union> parts cr)"
| "booked q S = (S = {})"

lemma issued_append [simp]:
  "issued i (es @ [(j, c, r)]) = issued i es \<union> (if i = j then {(cr, r) |cr. c = CNewCreds cr} else {})"
  by (auto simp: issued_def)

definition kept :: "(nat \<Rightarrow> custody) \<Rightarrow> unit sys \<Rightarrow> bool" where
  "kept Q s \<longleftrightarrow>
     (\<forall>i. returns_secrets (s_threads s i) (Q i)) \<and>
     (\<forall>i. matches (Q i) (s_world s)) \<and>
     (\<forall>i j p. struct_of (Q i) = Some p \<longrightarrow> struct_of (Q j) = Some p \<longrightarrow> i = j) \<and>
     (\<forall>i. booked (Q i) (issued i (s_log s)))"

lemma keep_set_own: "keep q (CSetCreds p cr) = Some f \<Longrightarrow> q = Never \<or> struct_of q = Some p"
  by (cases q) (auto split: if_splits)

lemma keep_struct:
  assumes "keep q c = Some f" and "handle e c w = (r, w')" and "matches q w"
  shows "struct_of (f r) = struct_of q \<or> struct_of (f r) = Some (length (w_creds w))"
  using assms(1,3) handle_memory(4,5) [OF assms(2)]
  by (cases q; cases c) (auto split: if_splits reply.splits)

lemma keep_booked:
  assumes "keep q c = Some f" and "handle e c w = (r, w')" and "matches q w" and "booked q S"
  shows "booked (f r) (S \<union> {(cr, r) |cr. c = CNewCreds cr})"
proof (cases "\<exists>p cr a. c = CSetCreds p cr \<or> c = CWipe a")
  case True
  then obtain p cr a where c: "c = CSetCreds p cr \<or> c = CWipe a" by blast
  show ?thesis
  proof (cases q)
    case (Holding p' old W)
    have "(f r = Holding p' cr W \<and> parts old \<subseteq> W \<union> parts cr) \<or> f r = Holding p' old (insert a W)"
      using c assms(1) Holding by (auto simp del: parts_simps split: if_splits)
    then obtain cr' W' where q': "f r = Holding p' cr' W'" "W \<union> parts old \<subseteq> W' \<union> parts cr'"
      by blast
    from assms(4) Holding have "\<forall>x \<in> S. snd x = RAddress p' \<and> parts (fst x) \<subseteq> W \<union> parts old"
      by simp
    with q'(2) have "\<forall>x \<in> S. snd x = RAddress p' \<and> parts (fst x) \<subseteq> W' \<union> parts cr'" by blast
    with q'(1) c show ?thesis by auto
  qed (use c assms(1,3,4) in auto)
next
  case False
  then show ?thesis
    using assms(1,3,4) handle_memory(3,4,5) [OF assms(2)]
    by (cases q; cases c) (auto split: if_splits reply.splits)
qed

lemma struct_allocated: "matches q w \<Longrightarrow> struct_of q = Some p \<Longrightarrow> p < length (w_creds w)"
  by (cases q) auto

lemma kept_step:
  assumes "kept Q s" and "sys_step e s t"
  shows "\<exists>Q'. kept Q' t"
proof -
  obtain i c k r w' where th: "s_threads s i = Call c k" and h: "handle e c (s_world s) = (r, w')"
    and t: "t = s\<lparr>s_world := w', s_threads := (s_threads s)(i := k r), s_log := s_log s @ [(i, c, r)]\<rparr>"
    using assms(2) by (rule sys_step_cases) blast
  have m: "matches (Q j) (s_world s)" and b: "booked (Q j) (issued j (s_log s))" for j
    using assms(1) by (auto simp: kept_def)
  have apart: "struct_of (Q j) = Some p \<Longrightarrow> struct_of (Q l) = Some p \<Longrightarrow> j = l" for j l p
    using assms(1) by (auto simp: kept_def)
  have "returns_secrets (Call c k) (Q i)"
    using assms(1) th unfolding kept_def by metis
  then obtain f where f: "keep (Q i) c = Some f" and rest: "returns_secrets (k r) (f r)"
    using handle_typed_pair [OF h] by (auto split: option.splits)
  have other: "matches (Q j) w'" if "j \<noteq> i" for j
  proof (rule matches_other [OF h m])
    fix p cr
    assume "c = CSetCreds p cr"
    with f keep_set_own have "Q i = Never \<or> struct_of (Q i) = Some p" by simp
    with m [of i] have "struct_of (Q i) = Some p" by auto
    with that apart show "struct_of (Q j) \<noteq> Some p" by blast
  qed
  have fresh: "struct_of (Q l) \<noteq> Some p" if "struct_of (f r) = Some p" "l \<noteq> i" for l p
    using keep_struct [OF f h m [of i]]
  proof
    assume "struct_of (f r) = struct_of (Q i)"
    with that apart [of l p i] show ?thesis by auto
  next
    assume "struct_of (f r) = Some (length (w_creds (s_world s)))"
    with that(1) struct_allocated [OF m [of l], of p] show ?thesis by auto
  qed
  let ?Q = "Q(i := f r)"
  have "returns_secrets (s_threads t j) (?Q j)" for j
    using assms(1) rest by (simp add: kept_def t)
  moreover have "matches (?Q j) (s_world t)" for j
    using other [of j] matches_own [OF h m [of i] f] by (cases "j = i") (simp_all add: t)
  moreover have "j = l" if "struct_of (?Q j) = Some p" "struct_of (?Q l) = Some p" for j l p
    using that apart [of j p l] fresh by (auto split: if_splits)
  moreover have "booked (?Q j) (issued j (s_log t))" for j
    using b [of j] keep_booked [OF f h m [of i] b [of i]] by (cases "j = i") (simp_all add: t)
  ultimately show ?thesis unfolding kept_def by blast
qed

definition secure :: "unit sys \<Rightarrow> bool" where
  "secure s \<longleftrightarrow> (\<exists>Q. kept Q s)"

interpretation secrets: invariant_system "serving reqs" "sys_step e" secure for reqs e
proof unfold_locales
  fix s
  assume "serving reqs s"
  then have "kept (\<lambda>_. Idle {}) s"
    by (simp add: serving_def kept_def serve_keeps issued_def)
  then show "secure s" by (auto simp: secure_def)
next
  fix s t
  assume "secure s" and "sys_step e s t"
  then show "secure t" unfolding secure_def using kept_step by blast
qed

lemma kept_wiped:
  assumes "kept Q s" and "answered (s_threads s i)" and "(i, CNewCreds cr, r) \<in> set (s_log s)"
  shows "\<exists>p. r = RAddress p \<and> w_creds (s_world s) ! p = (None, None) \<and> parts cr \<subseteq> Collect (zeroed (s_world s))"
proof -
  have "returns_secrets (s_threads s i) (Q i)" and m: "matches (Q i) (s_world s)"
    and b: "booked (Q i) (issued i (s_log s))"
    using assms(1) by (auto simp: kept_def)
  with assms(2) have returned: "given_back (Q i)"
    by (cases "s_threads s i") (auto simp: answered_def)
  have new: "(cr, r) \<in> issued i (s_log s)" using assms(3) by (simp add: issued_def)
  show ?thesis
  proof (cases "Q i")
    case (Holding p cr' W)
    with returned m b new show ?thesis by fastforce
  qed (use m b new in auto)
qed

section \<open>Two ways to decrypt\<close>

text \<open>The plaintexts a result of DecryptCredentials gives access to.\<close>

definition opened :: "('e + nat) outcome \<Rightarrow> world \<Rightarrow> (8 word list \<times> 8 word list) option" where
  "opened r w =
     (case r of
        Done (Inr p) \<Rightarrow>
          (case w_creds w ! p of
             (Some a, Some b) \<Rightarrow> Some (w_heap w ! a, w_heap w ! b)
           | _ \<Rightarrow> None)
      | _ \<Rightarrow> None)"

text \<open>A well-formed answer to the request for one ciphertext.\<close>

definition single_answer :: "string \<Rightarrow> http_error + http_response \<Rightarrow> bool" where
  "single_answer text res \<longleftrightarrow>
     (\<exists>resp. res = Inr resp \<and> hb_complete (rs_Body resp) \<and> rs_StatusCode resp = 200 \<and>
        unmarshal decryptResponse_json \<lparr>dr_Plaintext = [], dr_Errors = []\<rparr> (rs_Body resp)
          = Some \<lparr>dr_Plaintext = text, dr_Errors = []\<rparr>)"

definition batch_call :: "openBaoTransitClient \<Rightarrow> string \<Rightarrow> string \<Rightarrow> call" where
  "batch_call c k s = CVault (transit_request c (batch_json k s))"

definition single_call :: "openBaoTransitClient \<Rightarrow> string \<Rightarrow> call" where
  "single_call c ct = CVault (transit_request c (ciphertext_json ct))"

lemma handle_vault: "handle e (CVault q) w = (RHttp (e_http e (w_tick w) (CVault q)),
   w\<lparr>w_tick := Suc (w_tick w), w_clock := w_clock w + e_latency e (w_tick w),
     w_trace := w_trace w @ [(CVault q, RHttp (e_http e (w_tick w) (CVault q)))]\<rparr>)"
  by (simp add: handle_def)

lemma handle_alloc: "\<exists>w'. handle e (CAlloc bs) w = (RAddress (length (w_heap w)), w') \<and>
    w_heap w' = w_heap w @ [bs] \<and> w_creds w' = w_creds w"
  by (simp add: handle_def)

lemma handle_new_creds: "\<exists>w'. handle e (CNewCreds cr) w = (RAddress (length (w_creds w)), w') \<and>
    w_heap w' = w_heap w \<and> w_creds w' = w_creds w @ [cr]"
  by (simp add: handle_def)

lemma batch_opens:
  assumes "\<And>n. batch_results (e_http e n (batch_call c k s)) = Some (keyText, secText)"
    and "b64_DecodeString keyText = (key, True)" and "b64_DecodeString secText = (sec, True)"
  shows "wp e (DecryptCredentials c k s) (\<lambda>r w'. opened r w' = Some (key, sec)) w"
  using assms
  by (simp add: DecryptCredentials_def call_defs wp_Call handle_vault batch_call_def opened_def wp_Ret handle_def nth_append)

lemma Decrypt_opens:
  assumes "trim_space ct \<noteq> []" and "\<And>n. single_answer text (e_http e n (single_call c ct))"
    and "b64_DecodeString text = (bs, True)"
  shows "wp e (Decrypt c ct) (\<lambda>r w'. r = Done (Inr (length (w_heap w))) \<and> w_heap w' = w_heap w @ [bs] \<and>
    w_creds w' = w_creds w) w"
  using assms(1,3) assms(2) [of "w_tick w"]
  by (auto simp: Decrypt_def call_defs wp_Call handle_vault single_call_def single_answer_def wp_Ret handle_def)

lemma each_opens:
  assumes "\<And>n. batch_results (e_http e n (batch_call c k s)) = None"
    and "trim_space k \<noteq> []" and "\<And>n. single_answer keyText (e_http e n (single_call c k))"
    and "trim_space s \<noteq> []" and "\<And>n. single_answer secText (e_http e n (single_call c s))"
    and "b64_DecodeString keyText = (key, True)" and "b64_DecodeString secText = (sec, True)"
  shows "wp e (DecryptCredentials c k s) (\<lambda>r w'. opened r w' = Some (key, sec)) w"
proof -
  have second: "wp e (pbind (Decrypt c s) (\<lambda>sec. case sec of
           Inl e \<Rightarrow> c_wipe a (Ret (Inl (ApiSecretFailed e)))
         | Inr b \<Rightarrow> c_new_creds (Some a, Some b) (\<lambda>p. Ret (Inr p)))) (\<lambda>r w'. opened r w' = Some (key, sec)) w1"
    if "w_heap w1 = h @ [key]" "a = length h" for a h w1
    by (rule wp_pbindI [OF Decrypt_opens [OF assms(4,5,7)]])
      (use that in \<open>auto simp: c_new_creds_def wp_Call handle_def wp_Ret opened_def nth_append\<close>)
  have "wp e (decrypt_each c k s) (\<lambda>r w'. opened r w' = Some (key, sec)) w1" for w1
    unfolding decrypt_each_def
    by (rule wp_pbindI [OF Decrypt_opens [OF assms(2,3,6)]]) (auto intro: second)
  with assms(1) show ?thesis
    by (simp add: DecryptCredentials_def c_http_def wp_Call handle_vault batch_call_def)
qed

section \<open>A buffer that is left behind\<close>

text \<open>Old buffers stay as they are, and new structs refer to new buffers only.\<close>

definition only_new :: "world \<Rightarrow> world \<Rightarrow> bool" where
  "only_new w w' \<longleftrightarrow> (\<exists>l cs. w_heap w' = w_heap w @ l \<and> w_creds w' = w_creds w @ cs \<and>
     list_all (\<lambda>cr. parts cr \<subseteq> {length (w_heap w)..}) cs)"

lemma only_new_refl [simp]: "only_new w w"
  by (simp add: only_new_def)

lemma only_newI: "w_creds w' = w_creds w \<Longrightarrow> w_heap w' = w_heap w @ l \<Longrightarrow> only_new w w'"
  by (simp add: only_new_def)

lemma Decrypt_only_new:
  "wp e (Decrypt c ct) (\<lambda>r w'. w_creds w' = w_creds w \<and>
     (case r of Done (Inr a) \<Rightarrow> \<exists>bs. a = length (w_heap w) \<and> w_heap w' = w_heap w @ [bs]
      | _ \<Rightarrow> \<exists>l. w_heap w' = w_heap w @ l)) w"
  by (auto simp: Decrypt_def call_defs wp_Call handle_vault wp_Ret handle_def split: sum.split option.split prod.split)

lemma decrypt_each_only_new: "wp e (decrypt_each c k s) (\<lambda>r w'. only_new w w') w"
proof -
  have second: "wp e (pbind (Decrypt c s) (\<lambda>sec. case sec of
           Inl e \<Rightarrow> c_wipe a (Ret (Inl (ApiSecretFailed e)))
         | Inr b \<Rightarrow> c_new_creds (Some a, Some b) (\<lambda>p. Ret (Inr p)))) (\<lambda>r w'. only_new w w') w1"
    if "w_heap w1 = w_heap w @ [bs]" "w_creds w1 = w_creds w" "a = length (w_heap w)" for a bs w1
    by (rule wp_pbindI [OF Decrypt_only_new])
      (use that in \<open>auto simp: c_new_creds_def c_wipe_def wp_Call handle_def wp_Ret only_new_def list_update_append
        split: sum.splits\<close>)
  show ?thesis
    unfolding decrypt_each_def
    by (rule wp_pbindI [OF Decrypt_only_new])
      (auto simp: wp_Ret intro!: second only_newI split: sum.splits)
qed

lemma corrupt_secret:
  assumes "batch_results (e_http e (w_tick w) (batch_call c k s)) = Some (keyText, secText)"
    and "b64_DecodeString keyText = (key, True)" and "b64_DecodeString secText = (sec, False)"
  shows "wp e (DecryptCredentials c k s) (\<lambda>r w'. w_heap w' ! length (w_heap w) = key \<and>
    list_all (\<lambda>cr. length (w_heap w) \<notin> parts cr) (drop (length (w_creds w)) (w_creds w'))) w"
proof -
  have "wp e (decrypt_each c k s) (\<lambda>r w'. w_heap w' ! length (w_heap w) = key \<and>
      list_all (\<lambda>cr. length (w_heap w) \<notin> parts cr) (drop (length (w_creds w)) (w_creds w'))) w1"
    if "w_heap w1 = w_heap w @ [key, sec]" "w_creds w1 = w_creds w" for w1
    by (rule wp_mono [OF decrypt_each_only_new])
      (use that in \<open>fastforce simp: only_new_def nth_append list_all_iff\<close>)
  with assms show ?thesis
    by (simp add: DecryptCredentials_def call_defs wp_Call handle_vault batch_call_def handle_def)
qed

section \<open>Two transit engines\<close>

definition demo_plain_body :: "string \<Rightarrow> json" where
  "demo_plain_body text = JObject [(''data'', JObject [(''plaintext'', JString text)])]"

text \<open>One that serves only single requests, and one whose second text is cut off.\<close>

definition demo_single_env :: env where
  "demo_single_env = demo_env\<lparr>e_http := (\<lambda>_ c. case c of
     CVault q \<Rightarrow>
       (if hr_body q = Some (ciphertext_json ''vault:k'') then demo_response (demo_plain_body ''a2V5'')
        else if hr_body q = Some (ciphertext_json ''vault:s'') then demo_response (demo_plain_body ''c2Vj'')
        else Inl RequestFailed)
   | _ \<Rightarrow> Inl RequestFailed)\<rparr>"

definition demo_cut_env :: env where
  "demo_cut_env = demo_env\<lparr>e_http := (\<lambda>_ _. demo_response (JObject [(''data'', JObject [(''batch_results'', JArray
     [JObject [(''plaintext'', JString ''a2V5'')], JObject [(''plaintext'', JString ''c2V'')]])])]))\<rparr>"

lemma demo_plain: "unmarshal decryptResponse_json \<lparr>dr_Plaintext = [], dr_Errors = []\<rparr>
    \<lparr>hb_complete = True, hb_value = Some (demo_plain_body ''a2V5''), hb_trailing = False\<rparr> =
      Some \<lparr>dr_Plaintext = ''a2V5'', dr_Errors = []\<rparr>"
  "unmarshal decryptResponse_json \<lparr>dr_Plaintext = [], dr_Errors = []\<rparr>
    \<lparr>hb_complete = True, hb_value = Some (demo_plain_body ''c2Vj''), hb_trailing = False\<rparr> =
      Some \<lparr>dr_Plaintext = ''c2Vj'', dr_Errors = []\<rparr>"
  by code_simp+

lemma demo_cut_batch: "batch_results (e_http demo_cut_env n x) = Some (''a2V5'', ''c2V'')"
proof -
  have "batch_results (demo_response (JObject [(''data'', JObject [(''batch_results'', JArray
     [JObject [(''plaintext'', JString ''a2V5'')], JObject [(''plaintext'', JString ''c2V'')]])])]))
     = Some (''a2V5'', ''c2V'')"
    by code_simp
  then show ?thesis by (simp add: demo_cut_env_def)
qed

lemma demo_cut: "b64_DecodeString ''c2V'' = ([], False)"
  by code_simp

lemma demo_batch_answer:
  "batch_results (e_http demo_env n (batch_call c ''vault:k'' ''vault:s'')) = Some (''a2V5'', ''c2Vj'')"
  using demo_batch by (simp add: demo_env_def batch_call_def)

lemma demo_answers:
  "batch_results (e_http demo_single_env n (batch_call c ''vault:k'' ''vault:s'')) = None"
  "single_answer ''a2V5'' (e_http demo_single_env n (single_call c ''vault:k''))"
  "single_answer ''c2Vj'' (e_http demo_single_env n (single_call c ''vault:s''))"
  by (simp_all add: demo_single_env_def batch_call_def single_call_def transit_request_def
      batch_json_def ciphertext_json_def batch_results_def single_answer_def demo_response_def [of "demo_plain_body _"] demo_plain)

section \<open>Properties\<close>

text \<open>C31: When a request has ended, with a result or with a panic, every buffer it has put into a
  credentials struct is zero and the struct no longer refers to it, in every reachable state and
  however the requests interleave.\<close>

theorem credentials_wiped:
  assumes "reachable (serving reqs) (sys_step e) s" and "answered (s_threads s i)"
    and "(i, CNewCreds cr, r) \<in> set (s_log s)"
  shows "\<exists>p. r = RAddress p \<and> w_creds (s_world s) ! p = (None, None) \<and> parts cr \<subseteq> Collect (zeroed (s_world s))"
  using secrets.reachable_inv [OF assms(1)] assms(2,3) by (auto simp: secure_def dest: kept_wiped)

theorem credentials_wiped_witness:
  "\<exists>s. reachable (serving (\<lambda>_. TradeRequest demo_server demo_req)) (sys_step demo_env) s \<and>
     (0, CNewCreds (Some 0, Some 1), RAddress 0) \<in> set (s_log s) \<and> w_creds (s_world s) ! 0 = (None, None) \<and>
     zeroed (s_world s) 0 \<and> zeroed (s_world s) 1"
proof -
  let ?p = "serve (TradeRequest demo_server demo_req)"
  have th: "s_threads demo_sys 0 = ?p" and start: "s_world demo_sys = demo_world" "s_log demo_sys = []" "w_trace demo_world = []"
    by (simp_all only: demo_sys_def sys.simps demo_world_def world.simps)
  obtain n where n: "s_log (run_schedule demo_env (replicate n 0) demo_sys) =
      map (\<lambda>cr. (0, cr)) (w_trace (snd (exec demo_env ?p demo_world)))"
    "s_threads (run_schedule demo_env (replicate n 0) demo_sys) 0 = ended_as (fst (exec demo_env ?p demo_world))"
    using exec_schedule [OF th, of demo_env] unfolding start by (metis append_Nil drop_0 fun_upd_same list.size(3))
  obtain w where w: "exec demo_env ?p demo_world = (Done (), w)" "take 20 (w_trace w) = demo_trace"
    using demo_run by (auto simp: exec_pbind)
  have "(CNewCreds (Some 0, Some 1), RAddress 0) \<in> set (take 20 (w_trace w))"
    unfolding w(2) by (simp add: demo_trace_def)
  then have "(CNewCreds (Some 0, Some 1), RAddress 0) \<in> set (w_trace w)"
    by (rule in_set_takeD)
  with n(1) w(1) have logged: "(0, CNewCreds (Some 0, Some 1), RAddress 0) \<in> set (s_log (run_schedule demo_env (replicate n 0) demo_sys))"
    by simp
  have ended: "answered (s_threads (run_schedule demo_env (replicate n 0) demo_sys) 0)"
    unfolding n(2) w(1) by (simp add: ended_as_def answered_def)
  have reach: "reachable (serving (\<lambda>_. TradeRequest demo_server demo_req)) (sys_step demo_env)
      (run_schedule demo_env (replicate n 0) demo_sys)"
    by (rule reachable_schedule, rule reachable.start, rule demo_serving)
  from credentials_wiped [OF reach ended logged] reach logged show ?thesis by auto
qed

text \<open>C32: The batch request and the two single requests of DecryptCredentials give the same credentials:
  when the transit engine answers the batch with two texts, and when it does not answer the batch
  but each single request with the same text, the struct that is returned holds the same bytes.\<close>

theorem decrypt_paths_agree:
  assumes "\<And>n. batch_results (e_http e n (batch_call c k s)) = Some (keyText, secText)"
    and "\<And>n. batch_results (e_http e' n (batch_call c k s)) = None"
    and "\<And>n. single_answer keyText (e_http e' n (single_call c k))"
    and "\<And>n. single_answer secText (e_http e' n (single_call c s))"
    and "b64_DecodeString keyText = (key, True)" and "b64_DecodeString secText = (sec, True)"
    and "trim_space k \<noteq> []" and "trim_space s \<noteq> []"
  shows "case exec e (DecryptCredentials c k s) w of (r, w1) \<Rightarrow>
    case exec e' (DecryptCredentials c k s) w of (r', w1') \<Rightarrow>
      opened r w1 = Some (key, sec) \<and> opened r' w1' = opened r w1"
  using batch_opens [of e, OF assms(1,5,6), of w] each_opens [of e', OF assms(2,7,3,8,4,5,6), of w]
  by (simp add: wp_def split: prod.splits)

theorem decrypt_paths_agree_witness:
  "case exec demo_env (DecryptCredentials (NewTransitClient ''http://bao'' [] [] 0) ''vault:k'' ''vault:s'') demo_world of (r, w1) \<Rightarrow>
   case exec demo_single_env (DecryptCredentials (NewTransitClient ''http://bao'' [] [] 0) ''vault:k'' ''vault:s'') demo_world of (r', w1') \<Rightarrow>
     opened r w1 = Some ([107, 101, 121], [115, 101, 99]) \<and> opened r' w1' = opened r w1"
  by (rule decrypt_paths_agree [OF demo_batch_answer demo_answers demo_key demo_sec]) (simp_all add: trim_eval)

text \<open>C33: A batch answer whose second text is not base64 leaves the decoded API key in memory: the buffer
  is not wiped, and no credentials struct refers to it, so no later Zero can wipe it.\<close>

theorem corrupt_secret_leaves_key:
  assumes "batch_results (e_http e (w_tick w) (batch_call c k s)) = Some (keyText, secText)"
    and "b64_DecodeString keyText = (key, True)" and "b64_DecodeString secText = (sec, False)"
    and "exec e (DecryptCredentials c k s) w = (r, w')"
  shows "w_heap w' ! length (w_heap w) = key \<and>
    list_all (\<lambda>cr. length (w_heap w) \<notin> parts cr) (drop (length (w_creds w)) (w_creds w'))"
  using corrupt_secret [of e w, OF assms(1-3)] assms(4) by (simp add: wp_def)

theorem corrupt_secret_leaves_key_witness:
  "w_heap (snd (exec demo_cut_env (DecryptCredentials (NewTransitClient ''http://bao'' [] [] 0) ''vault:k'' ''vault:s'') demo_world)) ! 0
     = [107, 101, 121]"
proof -
  obtain r w' where run: "exec demo_cut_env (DecryptCredentials (NewTransitClient ''http://bao'' [] [] 0) ''vault:k'' ''vault:s'')
      demo_world = (r, w')" by fastforce
  have "length (w_heap demo_world) = 0" by (simp add: demo_world_def)
  with corrupt_secret_leaves_key [OF demo_cut_batch demo_key demo_cut run] run show ?thesis by simp
qed

end
