(* ===== verification/Quotes.thy ===== *)
theory Quotes
  imports Secrets Deliveries
begin

text \<open>
  Market data.  A quote that was cached is read back with the price, symbol and time it had, as fresh
  while the short lifetime lasts and as stale while the long one does; GetQuotes serves stale quotes
  when the broker fails; and whatever is in the cache or in an answer of GetQuotes is a price the
  broker gave.
\<close>

section \<open>A quote as text\<close>

lemma unmarshal_marshal:
  assumes "in32 (expo (cq_Price q))" and "in64 (cq_Timestamp q)"
  shows "\<exists>p. dval p = dval (cq_Price q) \<and> unmarshal_quote (marshal_quote q) = Some (q\<lparr>cq_Price := p\<rparr>)"
proof -
  obtain p where "dval p = dval (cq_Price q)"
    and p: "\<And>upd (s :: CachedQuote). decode_decimal upd (JString (Decimal_String (cq_Price q))) s = (upd p s, True)"
    using decode_Decimal_String [OF assms(1)] by blast
  moreover have "unmarshal_quote (marshal_quote q) = Some (q\<lparr>cq_Price := p\<rparr>)"
    using p number_int64_text [OF assms(2)]
    by (simp add: unmarshal_quote_def marshal_quote_def decoded_def CachedQuote_json_def field_for_def
        del: decode_decimal.simps)
  ultimately show ?thesis by blast
qed

section \<open>Keys\<close>

lemma fresh_key_iff [simp]: "freshKey p s = freshKey p s' \<longleftrightarrow> to_upper s = to_upper s'"
  by (simp add: freshKey_def)

lemma stale_key_iff [simp]: "staleKey p s = staleKey p s' \<longleftrightarrow> to_upper s = to_upper s'"
  by (simp add: staleKey_def)

lemma up_char_not_s: "up_char c \<noteq> CHR ''s''"
proof
  assume "up_char c = CHR ''s''"
  then have "up_char (CHR ''s'') = CHR ''s''" by (metis up_char_idem)
  then show False by (simp add: str_eval)
qed

lemma fresh_not_stale [simp]: "freshKey p s \<noteq> staleKey p' s'" "staleKey p' s' \<noteq> freshKey p s"
proof -
  show "freshKey p s \<noteq> staleKey p' s'"
    using up_char_not_s by (cases p) (auto simp: freshKey_def staleKey_def to_upper_def)
  then show "staleKey p' s' \<noteq> freshKey p s" by simp
qed

section \<open>Reading the cache\<close>

definition cached :: "world \<Rightarrow> string \<Rightarrow> CachedQuote option" where
  "cached w key = Option.bind (redis_get (w_clock w) (w_redis w) key) unmarshal_quote"

lemma collect_hits_all:
  "collect_hits (zip symbols (map f symbols)) (hits, misses) = (hits', misses') \<Longrightarrow>
     misses' = misses @ filter (\<lambda>s. Option.bind (f s) unmarshal_quote = None) symbols \<and>
     map_of hits' = (\<lambda>s. if s \<in> set symbols \<and> Option.bind (f s) unmarshal_quote \<noteq> None
       then map_option (cq_IsStaleCache_update (\<lambda>_. False)) (Option.bind (f s) unmarshal_quote) else map_of hits s)"
proof (induction symbols arbitrary: hits misses)
  case (Cons a symbols)
  from Cons.prems show ?case
    by (cases "f a") (auto simp: fun_eq_iff dest!: Cons.IH split: option.splits)
qed simp

lemma collect_stale_all:
  "map_of (collect_stale (zip symbols (map f symbols)) result) =
     (\<lambda>s. if s \<in> set symbols \<and> Option.bind (f s) unmarshal_quote \<noteq> None
       then map_option (cq_IsStaleCache_update (\<lambda>_. True)) (Option.bind (f s) unmarshal_quote) else map_of result s)"
  by (induction symbols arbitrary: result) (auto simp: fun_eq_iff split: option.splits)

lemma collect_hits_distinct:
  "distinct (map fst (fst acc)) \<Longrightarrow> distinct (map fst (fst (collect_hits rs acc)))"
  by (induction rs acc rule: collect_hits.induct) (simp_all add: distinct_update split: option.split)

lemma collect_stale_distinct:
  "distinct (map fst result) \<Longrightarrow> distinct (map fst (collect_stale rs result))"
  by (induction rs arbitrary: result) (auto simp: distinct_update split: option.split)

lemma handle_mget:
  "handle e (CRedisMGet keys) w =
     (RValues (case e_redis e (w_tick w) of None \<Rightarrow> Inr (map (redis_get (w_clock w) (w_redis w)) keys)
        | Some _ \<Rightarrow> Inl ''redis unavailable''),
      w\<lparr>w_tick := Suc (w_tick w), w_clock := w_clock w + e_latency e (w_tick w),
        w_trace := w_trace w @ [(CRedisMGet keys, RValues (case e_redis e (w_tick w) of
           None \<Rightarrow> Inr (map (redis_get (w_clock w) (w_redis w)) keys) | Some _ \<Rightarrow> Inl ''redis unavailable''))]\<rparr>)"
  by (simp add: handle_def)

text \<open>What a read leaves: the world a call later.\<close>

definition next_call :: "env \<Rightarrow> world \<Rightarrow> world \<Rightarrow> bool" where
  "next_call e w w' \<longleftrightarrow> w_redis w' = w_redis w \<and> w_tick w' = Suc (w_tick w) \<and>
     w_clock w' = w_clock w + e_latency e (w_tick w)"

lemma fresh_read:
  assumes "symbols \<noteq> []" and "e_redis e (w_tick w) = None"
  shows "\<exists>hits w'. exec e (Cache_GetQuotes provider symbols) w =
      (Done (hits, filter (\<lambda>s. cached w (freshKey provider s) = None) symbols, None), w') \<and> next_call e w w' \<and>
    distinct (map fst hits) \<and>
    map_of hits = (\<lambda>s. if s \<in> set symbols \<and> cached w (freshKey provider s) \<noteq> None
      then map_option (cq_IsStaleCache_update (\<lambda>_. False)) (cached w (freshKey provider s)) else None)"
proof -
  let ?f = "\<lambda>s. redis_get (w_clock w) (w_redis w) (freshKey provider s)"
  obtain hits misses where got: "collect_hits (zip symbols (map ?f symbols)) ([], []) = (hits, misses)" by fastforce
  show ?thesis
    using collect_hits_all [OF got] collect_hits_distinct [of "([], [])" "zip symbols (map ?f symbols)"] assms got unfolding cached_def
    by (simp add: Cache_GetQuotes_def c_mget_def handle_mget next_call_def comp_def cong: if_cong)
qed

lemma stale_read:
  assumes "symbols \<noteq> []" and "e_redis e (w_tick w) = None"
  shows "\<exists>result w'. exec e (Cache_GetStaleQuotes provider symbols) w = (Done (Inr result), w') \<and> next_call e w w' \<and>
    distinct (map fst result) \<and>
    map_of result = (\<lambda>s. if s \<in> set symbols \<and> cached w (staleKey provider s) \<noteq> None
      then map_option (cq_IsStaleCache_update (\<lambda>_. True)) (cached w (staleKey provider s)) else None)"
  using assms collect_stale_all [of symbols "\<lambda>s. redis_get (w_clock w) (w_redis w) (staleKey provider s)" "[]"]
    collect_stale_distinct [of "[]"]
  unfolding cached_def
  by (simp add: Cache_GetStaleQuotes_def c_mget_def handle_mget next_call_def comp_def cong: if_cong)

section \<open>Writing and reading back\<close>

definition quoted :: "(string \<times> decimal) list \<Rightarrow> int \<Rightarrow> bool \<Rightarrow> string \<Rightarrow> CachedQuote \<Rightarrow> bool" where
  "quoted quotes ts stale s q \<longleftrightarrow>
     (\<exists>p. (cq_Symbol q, p) \<in> set quotes \<and> to_upper (cq_Symbol q) = to_upper s \<and> dval (cq_Price q) = dval p \<and>
       cq_Timestamp q = ts \<and> cq_IsStaleCache q = stale)"

definition storable :: "(string \<times> decimal) list \<Rightarrow> int \<Rightarrow> bool" where
  "storable quotes ts \<longleftrightarrow> list_all (\<lambda>(s, p). in32 (expo p)) quotes \<and> in64 ts"

lemma entry_reads:
  assumes "storable quotes ts" and "(s', p) \<in> set quotes" and "to_upper s' = to_upper s"
  shows "\<exists>q. unmarshal_quote (marshal_quote \<lparr>cq_Symbol = s', cq_Price = p, cq_Timestamp = ts, cq_IsStaleCache = False\<rparr>) = Some q \<and>
    quoted quotes ts stale s (q\<lparr>cq_IsStaleCache := stale\<rparr>)"
proof -
  have "in32 (expo p)" and "in64 ts" using assms(1,2) by (auto simp: storable_def list_all_iff)
  then show ?thesis
    using unmarshal_marshal [of "\<lparr>cq_Symbol = s', cq_Price = p, cq_Timestamp = ts, cq_IsStaleCache = False\<rparr>"] assms(2,3)
    by (auto simp: quoted_def)
qed

text \<open>The two keys of a symbol with their lifetimes.\<close>

definition key_kind :: "redisQuotesCache \<Rightarrow> string \<Rightarrow> (string \<Rightarrow> string) \<Rightarrow> nat \<Rightarrow> bool" where
  "key_kind c provider key ttl \<longleftrightarrow>
     key = freshKey provider \<and> ttl = qc_freshTTL c \<or> key = staleKey provider \<and> ttl = qc_staleTTL c"

lemma in_quote_entries:
  "(k, v, ttl) \<in> set (concat (map (quote_entries c provider ts) quotes)) \<longleftrightarrow>
     (\<exists>s' p. (s', p) \<in> set quotes \<and>
       v = marshal_quote \<lparr>cq_Symbol = s', cq_Price = p, cq_Timestamp = ts, cq_IsStaleCache = False\<rparr> \<and>
       (k = freshKey provider s' \<and> ttl = qc_freshTTL c \<or> k = staleKey provider s' \<and> ttl = qc_staleTTL c))"
  by (auto simp: quote_entries_def Let_def)

lemma quote_entries_key:
  assumes "key_kind c provider key ttl"
  shows "(key s, v, ttl') \<in> set (concat (map (quote_entries c provider ts) quotes)) \<longleftrightarrow> ttl' = ttl \<and>
      (\<exists>s' p. (s', p) \<in> set quotes \<and> to_upper s' = to_upper s \<and>
        v = marshal_quote \<lparr>cq_Symbol = s', cq_Price = p, cq_Timestamp = ts, cq_IsStaleCache = False\<rparr>)"
  using assms unfolding key_kind_def in_quote_entries
  by (elim disjE conjE; simp only: fresh_key_iff stale_key_iff fresh_not_stale) metis+

lemma stored_entry:
  assumes "key_kind c provider key ttl" and "storable quotes ts" and "to_upper s \<in> to_upper ` fst ` set quotes"
    and "w_redis w2 = redis_set t (concat (map (quote_entries c provider ts) quotes)) es"
  shows "\<exists>q. cached w2 (key s) = (if w_clock w2 < t + ttl then Some q else None) \<and>
    quoted quotes ts stale s (q\<lparr>cq_IsStaleCache := stale\<rparr>)"
proof -
  let ?es = "concat (map (quote_entries c provider ts) quotes)"
  let ?P = "\<lambda>v ttl'. ttl' = ttl \<and>
    (\<exists>q. unmarshal_quote v = Some q \<and> quoted quotes ts stale s (q\<lparr>cq_IsStaleCache := stale\<rparr>))"
  have "key s \<in> fst ` set ?es"
  proof -
    obtain s' p where "(s', p) \<in> set quotes" and "to_upper s' = to_upper s" using assms(3) by force
    then have "(key s, marshal_quote \<lparr>cq_Symbol = s', cq_Price = p, cq_Timestamp = ts, cq_IsStaleCache = False\<rparr>, ttl) \<in> set ?es"
      unfolding quote_entries_key [OF assms(1)] by blast
    then show ?thesis by (rule image_eqI [rotated]) simp
  qed
  moreover have "?P v ttl'" if "(key s, v, ttl') \<in> set ?es" for v ttl'
    using that entry_reads [OF assms(2)] unfolding quote_entries_key [OF assms(1)] by blast
  ultimately obtain v where "\<exists>q. unmarshal_quote v = Some q \<and> quoted quotes ts stale s (q\<lparr>cq_IsStaleCache := stale\<rparr>)"
    and v: "redis_get (w_clock w2) (redis_set t ?es es) (key s) = (if w_clock w2 < t + ttl then Some v else None)"
    using redis.fetch_stored [of "key s" ?es ?P "w_clock w2" t es] by blast
  then obtain q where "unmarshal_quote v = Some q" and "quoted quotes ts stale s (q\<lparr>cq_IsStaleCache := stale\<rparr>)"
    by blast
  with v show ?thesis by (intro exI [of _ q]) (simp add: cached_def assms(4) del: set_concat)
qed

lemma SetQuotes_stores:
  assumes "exec e (Cache_SetQuotes c provider quotes ts) w = (Done None, w1)" and "quotes \<noteq> []"
  shows "w_redis w1 = redis_set (w_clock w) (concat (map (quote_entries c provider ts) quotes)) (w_redis w)"
  using assms by (auto simp: Cache_SetQuotes_def c_ack_def handle_def split: option.splits)

text \<open>Reads of a cache that holds the quotes.\<close>

lemma cache_reads_fresh:
  assumes "w_redis w2 = redis_set t (concat (map (quote_entries c provider ts) quotes)) es"
    and "storable quotes ts" and "e_redis e (w_tick w2) = None"
    and "symbols \<noteq> []" and "to_upper ` set symbols \<subseteq> to_upper ` fst ` set quotes"
  shows "w_clock w2 < t + qc_freshTTL c \<Longrightarrow>
      \<exists>hits w3. exec e (Cache_GetQuotes provider symbols) w2 = (Done (hits, [], None), w3) \<and> next_call e w2 w3 \<and>
        distinct (map fst hits) \<and> (\<forall>s \<in> set symbols. \<exists>q. map_of hits s = Some q \<and> quoted quotes ts False s q)"
    and "t + qc_freshTTL c \<le> w_clock w2 \<Longrightarrow>
      \<exists>w3. exec e (Cache_GetQuotes provider symbols) w2 = (Done ([], symbols, None), w3) \<and> next_call e w2 w3"
proof -
  have fresh: "\<exists>q. cached w2 (freshKey provider s) = (if w_clock w2 < t + qc_freshTTL c then Some q else None) \<and>
      quoted quotes ts False s (q\<lparr>cq_IsStaleCache := False\<rparr>)" if "s \<in> set symbols" for s
    using assms(5) that by (intro stored_entry [OF _ assms(2) _ assms(1)]) (auto simp: key_kind_def)
  obtain hits w3 where f: "exec e (Cache_GetQuotes provider symbols) w2 =
      (Done (hits, filter (\<lambda>s. cached w2 (freshKey provider s) = None) symbols, None), w3)" "next_call e w2 w3"
    "distinct (map fst hits)"
    "map_of hits = (\<lambda>s. if s \<in> set symbols \<and> cached w2 (freshKey provider s) \<noteq> None
      then map_option (cq_IsStaleCache_update (\<lambda>_. False)) (cached w2 (freshKey provider s)) else None)"
    using fresh_read [OF assms(4,3), of provider] by blast
  {
    assume now: "w_clock w2 < t + qc_freshTTL c"
    have "cached w2 (freshKey provider s) \<noteq> None" if "s \<in> set symbols" for s
      using fresh [OF that] now by auto
    then have "filter (\<lambda>s. cached w2 (freshKey provider s) = None) symbols = []"
      by (simp add: filter_empty_conv)
    moreover have "\<exists>q. map_of hits s = Some q \<and> quoted quotes ts False s q" if "s \<in> set symbols" for s
      using fresh [OF that] now that by (auto simp: f(4))
    ultimately show "\<exists>hits w3. exec e (Cache_GetQuotes provider symbols) w2 = (Done (hits, [], None), w3) \<and>
        next_call e w2 w3 \<and> distinct (map fst hits) \<and>
        (\<forall>s \<in> set symbols. \<exists>q. map_of hits s = Some q \<and> quoted quotes ts False s q)"
      using f(1,2,3) by auto
  next
    assume "t + qc_freshTTL c \<le> w_clock w2"
    then have none: "cached w2 (freshKey provider s) = None" if "s \<in> set symbols" for s
      using fresh [OF that] by auto
    then have "filter (\<lambda>s. cached w2 (freshKey provider s) = None) symbols = symbols"
      by (simp add: filter_id_conv)
    moreover have "map_of hits = Map.empty" using none by (auto simp: f(4))
    ultimately show "\<exists>w3. exec e (Cache_GetQuotes provider symbols) w2 = (Done ([], symbols, None), w3) \<and> next_call e w2 w3"
      using f(1,2) by auto
  }
qed

lemma cache_reads_stale:
  assumes "w_redis w2 = redis_set t (concat (map (quote_entries c provider ts) quotes)) es"
    and "storable quotes ts" and "e_redis e (w_tick w2) = None"
    and "symbols \<noteq> []" and "to_upper ` set symbols \<subseteq> to_upper ` fst ` set quotes"
    and now: "w_clock w2 < t + qc_staleTTL c"
  shows "\<exists>result w3. exec e (Cache_GetStaleQuotes provider symbols) w2 = (Done (Inr result), w3) \<and> next_call e w2 w3 \<and>
    distinct (map fst result) \<and> (\<forall>s \<in> set symbols. \<exists>q. map_of result s = Some q \<and> quoted quotes ts True s q)"
proof -
  have stale: "\<exists>q. cached w2 (staleKey provider s) = (if w_clock w2 < t + qc_staleTTL c then Some q else None) \<and>
      quoted quotes ts True s (q\<lparr>cq_IsStaleCache := True\<rparr>)" if "s \<in> set symbols" for s
    using assms(5) that by (intro stored_entry [OF _ assms(2) _ assms(1)]) (auto simp: key_kind_def)
  obtain result w4 where g: "exec e (Cache_GetStaleQuotes provider symbols) w2 = (Done (Inr result), w4)" "next_call e w2 w4"
    "distinct (map fst result)"
    "map_of result = (\<lambda>s. if s \<in> set symbols \<and> cached w2 (staleKey provider s) \<noteq> None
      then map_option (cq_IsStaleCache_update (\<lambda>_. True)) (cached w2 (staleKey provider s)) else None)"
    using stale_read [OF assms(4,3), of provider] by blast
  have "\<exists>q. map_of result s = Some q \<and> quoted quotes ts True s q" if "s \<in> set symbols" for s
    using stale [OF that] now that by (auto simp: g(4))
  with g(1,2,3) show ?thesis by blast
qed

lemmas cache_reads = cache_reads_fresh cache_reads_stale

section \<open>GetQuotes on a cache that holds the quotes\<close>

lemma map_of_put_all:
  "distinct (map fst kvs) \<Longrightarrow>
     map_of (put_all f kvs m) s = (case map_of kvs s of Some v \<Rightarrow> Some (f v) | None \<Rightarrow> map_of m s)"
  unfolding put_all_def
  by (induction kvs arbitrary: m) (auto split: option.split dest: map_of_SomeD intro: rev_image_eqI)

lemma clean_symbols_Cons:
  assumes "clean_symbols symbols [] \<noteq> []"
  shows "symbols \<noteq> []"
  using assms by auto

text \<open>The text of a price, and the quotes of an answer.\<close>

definition answers_quote :: "(string \<times> decimal) list \<Rightarrow> int \<Rightarrow> bool \<Rightarrow> string \<Rightarrow> Quote \<Rightarrow> bool" where
  "answers_quote quotes ts stale s qt \<longleftrightarrow>
     (\<exists>p d. (qt_Symbol qt, p) \<in> set quotes \<and> to_upper (qt_Symbol qt) = to_upper s \<and>
       qt_Price qt = Decimal_String d \<and> dval d = dval p \<and> qt_Timestamp qt = ts \<and> qt_IsStaleCache qt = stale)"

lemma quoted_answers: "quoted quotes ts stale s q \<Longrightarrow> answers_quote quotes ts stale' s (cached_quote stale' q)"
  by (auto simp: quoted_def answers_quote_def cached_quote_def)

lemma answers_all:
  assumes "distinct (map fst kvs)" and "\<forall>x \<in> S. \<exists>q. map_of kvs x = Some q \<and> quoted quotes ts st x q"
  shows "\<forall>x \<in> S. \<exists>qt. map_of (put_all (cached_quote stale) kvs []) x = Some qt \<and> answers_quote quotes ts stale x qt"
proof
  fix x
  assume "x \<in> S"
  then obtain q where "map_of kvs x = Some q" "quoted quotes ts st x q" using assms(2) by blast
  then show "\<exists>qt. map_of (put_all (cached_quote stale) kvs []) x = Some qt \<and> answers_quote quotes ts stale x qt"
    by (simp add: map_of_put_all [OF assms(1)] quoted_answers)
qed

lemma broker_fails:
  assumes "symbols \<noteq> []"
    and "ticker_answer (length symbols = 1) (e_http e (w_tick w) (ticker_request c symbols)) = Ret (Inl x)"
  shows "\<exists>w'. exec e (GetBookTickers c symbols) w = (Done (Inl x), w') \<and> next_call e w w'"
  using assms by (simp add: GetBookTickers_def c_http_def ticker_request_def handle_def next_call_def)

section \<open>A run\<close>

definition demo_quotes :: "(string \<times> decimal) list" where
  "demo_quotes = [(''BTCUSDT'', \<lparr>coef = 6234567, expo = -2\<rparr>)]"

definition demo_cache :: redisQuotesCache where
  "demo_cache = NewRedisQuotesCache 0 0"

definition demo_stored_world :: world where
  "demo_stored_world = snd (exec demo_env (Cache_SetQuotes demo_cache ''BINANCE'' demo_quotes 1) demo_world)"

text \<open>A minute later, with a broker that does not answer.\<close>

definition demo_later_world :: world where
  "demo_later_world = demo_stored_world\<lparr>w_clock := w_clock demo_world + 60 * 10 ^ 9\<rparr>"

definition demo_silent :: env where
  "demo_silent = demo_env\<lparr>e_http := \<lambda>_ _. Inl RequestFailed\<rparr>"

lemma demo_stores:
  "exec demo_env (Cache_SetQuotes demo_cache ''BINANCE'' demo_quotes 1) demo_world = (Done None, demo_stored_world)"
  by (simp add: demo_stored_world_def Cache_SetQuotes_def demo_quotes_def c_ack_def handle_def demo_env_def)

lemma demo_storable: "storable demo_quotes 1"
  by (simp add: storable_def demo_quotes_def in32_def in64_def)

lemma demo_redis_up: "e_redis demo_env n = None" "e_redis demo_silent n = None"
  by (simp_all add: demo_env_def demo_silent_def)

lemma demo_cache_times: "qc_freshTTL demo_cache = 5 * 10 ^ 9" "qc_staleTTL demo_cache = 24 * 3600 * 10 ^ 9"
  by (simp_all add: demo_cache_def NewRedisQuotesCache_def)

lemma demo_clock: "w_clock demo_stored_world < w_clock demo_world + 5 * 10 ^ 9"
  by (simp add: demo_stored_world_def Cache_SetQuotes_def demo_quotes_def c_ack_def handle_def demo_env_def)

lemma demo_symbols:
  "clean_symbols ['' btcusdt''] [] = [''BTCUSDT'']" "resolve_provider demo_server ''binance'' = ''BINANCE''"
  by (simp_all add: demo_server_def resolve_provider_def ParseBroker_def ProviderName_def to_upper_def str_eval trim_eval)

section \<open>Properties of the cache\<close>

text \<open>C34: What SetQuotes has stored is what a later read gives back, with its symbol, price and time: as
  fresh as long as the fresh lifetime lasts, when it is over as a miss of every symbol, and as stale
  as long as the stale lifetime lasts.\<close>

theorem cached_quotes_return:
  assumes "exec e (Cache_SetQuotes c provider quotes ts) w = (Done None, w1)" and "storable quotes ts"
    and "w_redis w2 = w_redis w1" and "e_redis e2 (w_tick w2) = None"
    and "symbols \<noteq> []" and "to_upper ` set symbols \<subseteq> to_upper ` fst ` set quotes"
  shows "(if w_clock w2 < w_clock w + qc_freshTTL c
      then \<exists>hits w3. exec e2 (Cache_GetQuotes provider symbols) w2 = (Done (hits, [], None), w3) \<and>
        (\<forall>s \<in> set symbols. \<exists>q. map_of hits s = Some q \<and> quoted quotes ts False s q)
      else \<exists>w3. exec e2 (Cache_GetQuotes provider symbols) w2 = (Done ([], symbols, None), w3)) \<and>
    (w_clock w2 < w_clock w + qc_staleTTL c \<longrightarrow>
      (\<exists>result w3. exec e2 (Cache_GetStaleQuotes provider symbols) w2 = (Done (Inr result), w3) \<and>
        (\<forall>s \<in> set symbols. \<exists>q. map_of result s = Some q \<and> quoted quotes ts True s q)))"
proof -
  have "quotes \<noteq> []" using assms(5,6) by (cases symbols) auto
  note redis = SetQuotes_stores [OF assms(1) this, folded assms(3)]
  note reads = cache_reads [OF redis assms(2,4-6)]
  show ?thesis
  proof (cases "w_clock w2 < w_clock w + qc_freshTTL c")
    case True
    with reads(1,3) show ?thesis by (simp only: if_True) blast
  next
    case False
    then have "w_clock w + qc_freshTTL c \<le> w_clock w2" by simp
    with False reads(2,3) show ?thesis by (simp only: if_False) blast
  qed
qed

theorem cached_quotes_return_witness:
  "\<exists>q. quoted demo_quotes 1 False ''btcusdt'' q \<and> dval (cq_Price q) = 6234567 / 100 \<and>
     (\<exists>hits w3. exec demo_env (Cache_GetQuotes ''BINANCE'' [''btcusdt'']) demo_stored_world = (Done (hits, [], None), w3) \<and>
       map_of hits ''btcusdt'' = Some q)"
proof -
  have "to_upper ` set [''btcusdt''] \<subseteq> to_upper ` fst ` set demo_quotes"
    by (simp add: demo_quotes_def to_upper_def str_eval)
  from cached_quotes_return [OF demo_stores demo_storable refl demo_redis_up(1) _ this]
  obtain hits w3 q where "exec demo_env (Cache_GetQuotes ''BINANCE'' [''btcusdt'']) demo_stored_world = (Done (hits, [], None), w3)"
    "map_of hits ''btcusdt'' = Some q" "quoted demo_quotes 1 False ''btcusdt'' q"
    using demo_clock by (auto simp: demo_cache_times)
  moreover from this(3) have "dval (cq_Price q) = 6234567 / 100"
    by (auto simp: quoted_def demo_quotes_def dval_def power_int_minus_divide)
  ultimately show ?thesis by blast
qed

text \<open>C35: While the quotes are fresh, GetQuotes answers every symbol with the cached quote, unflagged, and
  makes no call but the one read of the cache: the broker is not asked.\<close>

theorem fresh_quotes_served:
  assumes "exec e (Cache_SetQuotes c (resolve_provider s prov) quotes ts) w = (Done None, w1)" and "storable quotes ts"
    and "w_redis w2 = w_redis w1" and "e_redis e2 (w_tick w2) = None" and "w_clock w2 < w_clock w + qc_freshTTL c"
    and "clean_symbols symbols [] \<noteq> []"
    and "to_upper ` set (clean_symbols symbols []) \<subseteq> to_upper ` fst ` set quotes"
  shows "\<exists>answer w3. exec e2 (GetQuotes s symbols prov) w2 = (Done answer, w3) \<and> w_tick w3 = Suc (w_tick w2) \<and>
    (\<forall>x \<in> set (clean_symbols symbols []). \<exists>qt. map_of answer x = Some qt \<and> answers_quote quotes ts False x qt)"
proof -
  have "quotes \<noteq> []" using assms(6,7) by (cases "clean_symbols symbols []") auto
  note redis = SetQuotes_stores [OF assms(1) this, folded assms(3)]
  obtain hits w3 where hits: "exec e2 (Cache_GetQuotes (resolve_provider s prov) (clean_symbols symbols [])) w2 =
      (Done (hits, [], None), w3)" "next_call e2 w2 w3" "distinct (map fst hits)"
    "\<forall>x \<in> set (clean_symbols symbols []). \<exists>q. map_of hits x = Some q \<and> quoted quotes ts False x q"
    using cache_reads(1) [OF redis assms(2,4,6,7,5)] by blast
  have "symbols \<noteq> []" using assms(6) by auto
  with hits(1) have "exec e2 (GetQuotes s symbols prov) w2 = (Done (put_all (cached_quote False) hits []), w3)"
    by (simp add: GetQuotes_def Let_def exec_pbind_Done)
  with answers_all [OF hits(3,4), of False] hits(2) show ?thesis by (auto simp: next_call_def)
qed

theorem fresh_quotes_served_witness:
  "\<exists>answer w3 qt. exec demo_env (GetQuotes demo_server ['' btcusdt''] ''binance'') demo_stored_world = (Done answer, w3) \<and>
     w_tick w3 = Suc (w_tick demo_stored_world) \<and> map_of answer ''BTCUSDT'' = Some qt \<and> \<not> qt_IsStaleCache qt"
proof -
  have all: "to_upper ` set (clean_symbols ['' btcusdt''] []) \<subseteq> to_upper ` fst ` set demo_quotes"
    unfolding demo_symbols by (simp add: demo_quotes_def)
  have "\<exists>answer w3. exec demo_env (GetQuotes demo_server ['' btcusdt''] ''binance'') demo_stored_world = (Done answer, w3) \<and>
      w_tick w3 = Suc (w_tick demo_stored_world) \<and> (\<forall>x \<in> set (clean_symbols ['' btcusdt''] []).
        \<exists>qt. map_of answer x = Some qt \<and> answers_quote demo_quotes 1 False x qt)"
    by (rule fresh_quotes_served [where c = demo_cache, OF _ demo_storable refl demo_redis_up(1) _ _ all])
      (use demo_stores demo_clock in \<open>simp_all add: demo_symbols demo_cache_times del: clean_symbols.simps\<close>)
  then show ?thesis unfolding demo_symbols by (auto simp: answers_quote_def)
qed

text \<open>C36: When the fresh lifetime is over and the broker fails, GetQuotes answers every symbol with the
  quote of the stale key, as long as that one lives, and flags it as stale.\<close>

theorem stale_quotes_served:
  assumes "exec e (Cache_SetQuotes c (resolve_provider s prov) quotes ts) w = (Done None, w1)" and "storable quotes ts"
    and "w_redis w2 = w_redis w1" and "e_redis e2 (w_tick w2) = None" and "e_redis e2 (w_tick w2 + 2) = None"
    and "w_clock w + qc_freshTTL c \<le> w_clock w2"
    and "w_clock w2 + e_latency e2 (w_tick w2) + e_latency e2 (Suc (w_tick w2)) < w_clock w + qc_staleTTL c"
    and "clean_symbols symbols [] = misses" and "misses \<noteq> []" and "to_upper ` set misses \<subseteq> to_upper ` fst ` set quotes"
    and "ticker_answer (length misses = 1) (e_http e2 (Suc (w_tick w2)) (ticker_request (sv_brokerClient s) misses))
      = Ret (Inl x)"
  shows "\<exists>answer w3. exec e2 (GetQuotes s symbols prov) w2 = (Done answer, w3) \<and>
    (\<forall>x \<in> set misses. \<exists>qt. map_of answer x = Some qt \<and> answers_quote quotes ts True x qt)"
proof -
  have "quotes \<noteq> []" using assms(9,10) by (cases misses) auto
  note redis = SetQuotes_stores [OF assms(1) this, folded assms(3)]
  obtain w3 where miss: "exec e2 (Cache_GetQuotes (resolve_provider s prov) misses) w2 = (Done ([], misses, None), w3)"
    "next_call e2 w2 w3"
    using cache_reads(2) [OF redis assms(2,4,9,10,6)] by blast
  obtain w4 where broker: "exec e2 (GetBookTickers (sv_brokerClient s) misses) w3 = (Done (Inl x), w4)" "next_call e2 w3 w4"
    using broker_fails [OF assms(9), of e2 w3] assms(11) miss(2) by (auto simp: next_call_def)
  have "w_redis w4 = w_redis w2" and "w_tick w4 = w_tick w2 + 2"
    and "w_clock w4 = w_clock w2 + e_latency e2 (w_tick w2) + e_latency e2 (Suc (w_tick w2))"
    using miss(2) broker(2) by (simp_all add: next_call_def)
  then obtain result w5 where stale: "exec e2 (Cache_GetStaleQuotes (resolve_provider s prov) misses) w4 = (Done (Inr result), w5)"
    "distinct (map fst result)" "\<forall>y \<in> set misses. \<exists>q. map_of result y = Some q \<and> quoted quotes ts True y q"
    using cache_reads(3) [OF _ assms(2) _ assms(9,10), of w4] redis assms(5,7) by metis
  have "symbols \<noteq> []" using assms(8,9) by auto
  with miss(1) broker(1) stale(1) assms(8,9)
  have "exec e2 (GetQuotes s symbols prov) w2 = (Done (put_all (cached_quote True) result []), w5)"
    by (simp add: GetQuotes_def Let_def exec_pbind_Done put_all_def)
  with answers_all [OF stale(2,3), of True] show ?thesis by blast
qed

theorem stale_quotes_served_witness:
  "\<exists>answer w3 qt. exec demo_silent (GetQuotes demo_server ['' btcusdt''] ''binance'') demo_later_world = (Done answer, w3) \<and>
     map_of answer ''BTCUSDT'' = Some qt \<and> qt_IsStaleCache qt \<and> qt_Timestamp qt = 1"
proof -
  have all: "to_upper ` set [''BTCUSDT''] \<subseteq> to_upper ` fst ` set demo_quotes"
    by (simp add: demo_quotes_def)
  have silent: "ticker_answer (length [''BTCUSDT''] = 1) (e_http demo_silent (Suc (w_tick demo_later_world))
      (ticker_request (sv_brokerClient demo_server) [''BTCUSDT''])) = Ret (Inl (BrokerError ''binance bookTicker request failed''))"
    by (simp add: demo_silent_def ticker_answer_def)
  have later: "w_redis demo_later_world = w_redis demo_stored_world" "w_clock demo_later_world = w_clock demo_world + 60 * 10 ^ 9"
    and calls: "e_latency demo_silent n = 1" for n
    by (simp_all add: demo_later_world_def demo_silent_def demo_env_def)
  have over: "w_clock demo_world + qc_freshTTL demo_cache \<le> w_clock demo_later_world"
    and alive: "w_clock demo_later_world + e_latency demo_silent (w_tick demo_later_world)
      + e_latency demo_silent (Suc (w_tick demo_later_world)) < w_clock demo_world + qc_staleTTL demo_cache"
    unfolding later calls demo_cache_times by simp_all
  have "\<exists>answer w3. exec demo_silent (GetQuotes demo_server ['' btcusdt''] ''binance'') demo_later_world = (Done answer, w3) \<and>
      (\<forall>x \<in> set [''BTCUSDT'']. \<exists>qt. map_of answer x = Some qt \<and> answers_quote demo_quotes 1 True x qt)"
    by (rule stale_quotes_served [where e = demo_env, OF _ demo_storable later(1) demo_redis_up(2) demo_redis_up(2) over alive demo_symbols(1) _ all silent])
      (simp_all add: demo_symbols demo_stores)
  then show ?thesis by (auto simp: answers_quote_def)
qed

end
