(* ===== verification/Market.thy ===== *)
theory Market
  imports Quotes
begin

text \<open>
  Where prices come from.  \<open>learn\<close> follows what a request knows: the prices the broker has answered
  it and the times it has read.  A request writes only such prices into the cache, under keys of their
  symbols and with such a time; so in every reachable state the cache holds nothing else, and neither
  does an answer of GetQuotes.
\<close>

section \<open>What a request knows\<close>

record knowledge =
  known_prices :: "(string \<times> decimal) set"
  known_times :: "nat set"

definition mid_prices :: "reply \<Rightarrow> (string \<times> decimal) set" where
  "mid_prices r = {(symbol, bt_MidPrice t) |symbol t. \<exists>x single ts.
     r = RHttp x \<and> ticker_answer single x = Ret (Inr ts) \<and> (symbol, t) \<in> set ts}"

definition said :: "(call \<times> reply) set \<Rightarrow> knowledge" where
  "said S = \<lparr>known_prices = {x. \<exists>q r. (CBinance q, r) \<in> S \<and> x \<in> mid_prices r},
     known_times = {t. (CNow, RTime t) \<in> S}\<rparr>"

fun honest :: "knowledge \<Rightarrow> string \<times> json \<times> nat \<Rightarrow> bool" where
  "honest q (k, v, ttl) \<longleftrightarrow> (\<exists>provider symbol price t. (symbol, price) \<in> known_prices q \<and> t \<in> known_times q \<and>
     (k = freshKey provider symbol \<or> k = staleKey provider symbol) \<and>
     v = marshal_quote \<lparr>cq_Symbol = symbol, cq_Price = price, cq_Timestamp = int (t div 10 ^ 9), cq_IsStaleCache = False\<rparr>)"

declare honest.simps [simp del]

definition learn :: "knowledge \<Rightarrow> call \<Rightarrow> (reply \<Rightarrow> knowledge) option" where
  "learn q c =
     (case c of
        CRedisSet es \<Rightarrow> if \<forall>x \<in> set es. honest q x then Some (\<lambda>_. q) else None
      | CNow \<Rightarrow> Some (\<lambda>r. case r of RTime t \<Rightarrow> q\<lparr>known_times := insert t (known_times q)\<rparr> | _ \<Rightarrow> q)
      | CBinance _ \<Rightarrow> Some (\<lambda>r. q\<lparr>known_prices := known_prices q \<union> mid_prices r\<rparr>)
      | _ \<Rightarrow> Some (\<lambda>_. q))"

abbreviation learns :: "'a prog \<Rightarrow> knowledge \<Rightarrow> bool" where
  "learns \<equiv> obeys learn any any"

lemma learn_said:
  assumes "learn (said S) c = Some f" and "typed c r"
  shows "f r = said (insert (c, r) S)"
  using assms by (cases c) (auto simp: learn_def said_def split: if_splits)

lemma learns_free: "calls_in (\<lambda>c. \<forall>es. c \<noteq> CRedisSet es) p \<Longrightarrow> learns p q"
proof (induction p arbitrary: q)
  case (Call c k q)
  have "\<exists>f. learn q c = Some f" using Call.prems by (cases c) (auto simp: learn_def)
  with Call show ?case by auto
qed simp_all

lemma learns_uses:
  assumes "uses K p" and "KCache \<notin> K"
  shows "learns p q"
  by (rule learns_free [OF calls_in_mono [OF assms(1) [unfolded uses_def]]]) (use assms(2) in auto)

lemmas learns_pbind = obeys_pbind [where G = any and F = any and H = any]

section \<open>Every request writes only what it knows\<close>

lemma reserve_loop_learns: "learns (reserve_loop n s deadline ord) q"
proof (induction n arbitrary: ord q)
  case (Suc n)
  have blocked: "learns (pbind (existing_order ord') (\<lambda>existing. case switch_existing existing of
      Some res \<Rightarrow> Ret (res, ord') | None \<Rightarrow> wait_turn s deadline ord' (reserve_loop n s deadline ord'))) q" for ord' q
    by (rule learns_pbind [OF learns_uses [OF existing_order_uses]])
      (auto simp: wait_turn_def call_defs learn_def Suc.IH split: option.split reply.split)
  show ?case
    by (auto intro!: learns_pbind [OF learns_uses [OF ReserveOrder_uses]] blocked split: sum.split)
qed simp

lemma ExecuteTrade_learns: "learns (ExecuteTrade s req) q"
proof -
  have "learns (reserveOrder s ord) q" for ord q
    by (auto simp: reserveOrder_def call_defs learn_def reserve_loop_learns split: reply.split)
  moreover have "learns (execute_reserved s req pr sd qty ord) q" for pr sd qty ord q
    by (rule learns_uses [OF execute_reserved_uses]) simp
  ultimately show ?thesis
    by (auto simp: ExecuteTrade_def Let_def c_uuid_def learn_def intro!: learns_pbind
        split: sum.split option.split reply.split)
qed

lemma ticker_answer_ends: "(\<exists>y. ticker_answer single x = Ret y) \<or> (\<exists>h. ticker_answer single x = Halt h)"
  by (auto simp: ticker_answer_def or_panic_def split: sum.split option.split)

definition fetched :: "knowledge \<Rightarrow> broker_error + (string \<times> BookTicker) list \<Rightarrow> bool" where
  "fetched q x \<longleftrightarrow> (\<forall>ts. x = Inr ts \<longrightarrow> (\<forall>(symbol, t) \<in> set ts. (symbol, bt_MidPrice t) \<in> known_prices q))"

lemma GetBookTickers_learns: "obeys learn fetched any (GetBookTickers c symbols) q"
proof -
  have "obeys learn fetched any (ticker_answer single x) (q\<lparr>known_prices := known_prices q \<union> mid_prices (RHttp x)\<rparr>)" for single x
    using ticker_answer_ends [of single x] by (auto simp: fetched_def mid_prices_def)
  then show ?thesis
    by (auto simp: GetBookTickers_def ticker_request_def c_http_def learn_def fetched_def split: reply.split)
qed

lemma SetQuotes_learns:
  assumes "fetched q (Inr ts)" and "t \<in> known_times q"
  shows "learns (Cache_SetQuotes c p (map (\<lambda>(symbol, t). (symbol, bt_MidPrice t)) ts) (int (t div 10 ^ 9))) q"
proof -
  have "honest q x" if "x \<in> set (concat (map (quote_entries c p (int (t div 10 ^ 9))) (map (\<lambda>(symbol, t). (symbol, bt_MidPrice t)) ts)))" for x
  proof -
    obtain k v ttl where x: "x = (k, v, ttl)" by (cases x)
    from that assms show ?thesis
      unfolding x in_quote_entries honest.simps by (fastforce simp: fetched_def)
  qed
  then show ?thesis
    by (auto simp: Cache_SetQuotes_def c_ack_def learn_def split: reply.split)
qed

lemma GetQuotes_learns: "learns (GetQuotes s symbols prov) q"
proof -
  have reads: "learns (Cache_GetQuotes p ss) q" "learns (Cache_GetStaleQuotes p ss) q" for p ss q
    by (auto simp: Cache_GetQuotes_def Cache_GetStaleQuotes_def c_mget_def learn_def split: reply.split sum.split prod.split)
  have broker: "obeys learn fetched any (GetBookTickers c ss) q" for c ss q
    by (rule GetBookTickers_learns)
  have writes: "learns (Cache_SetQuotes c p (map (\<lambda>(symbol, t). (symbol, bt_MidPrice t)) ts) (int (t div 10 ^ 9)))
      (q\<lparr>known_times := insert t (known_times q)\<rparr>)" if "fetched q (Inr ts)" for c p ts t q
    by (rule SetQuotes_learns) (use that in \<open>auto simp: fetched_def\<close>)
  show ?thesis
    unfolding GetQuotes_def Let_def
    by (auto simp: c_now_def learn_def intro!: learns_pbind reads obeys_pbind [OF broker] writes [simplified] split: sum.split reply.split)
qed

lemma serve_learns: "learns (serve r) q"
  by (cases r) (auto intro!: learns_pbind ExecuteTrade_learns GetQuotes_learns learns_uses [OF ProcessFill_uses]
      learns_uses [OF SyncBrokerBalances_uses] learns_uses [OF ValidateTickers_uses]
      learns_uses [OF SaveCredentials_uses] learns_uses [OF handleBinanceOrderWebhook_uses])

section \<open>The cache holds what the broker said\<close>

definition known :: "nat \<Rightarrow> (nat \<times> call \<times> reply) list \<Rightarrow> knowledge" where
  "known i es = said {(c, r). (i, c, r) \<in> set es}"

definition genuine :: "unit sys \<Rightarrow> bool" where
  "genuine s \<longleftrightarrow> (\<forall>i. learns (s_threads s i) (known i (s_log s))) \<and>
     (\<forall>x \<in> set (w_redis (s_world s)). \<exists>i. honest (known i (s_log s)) x)"

lemma said_mono: "S \<subseteq> T \<Longrightarrow> known_prices (said S) \<subseteq> known_prices (said T) \<and> known_times (said S) \<subseteq> known_times (said T)"
  by (auto simp: said_def)

lemma honest_mono: "honest (said S) x \<Longrightarrow> S \<subseteq> T \<Longrightarrow> honest (said T) x"
  using said_mono [of S T] by (cases x) (simp add: honest.simps; blast)

lemma known_append:
  "known j (es @ [(i, c, r)]) = (if j = i then said (insert (c, r) {(c, r). (i, c, r) \<in> set es}) else known j es)"
  by (auto simp: known_def intro: arg_cong [of _ _ said])

lemma known_later: "honest (known i es) x \<Longrightarrow> honest (known i (es @ es')) x"
  unfolding known_def by (rule honest_mono) auto

lemma set_redis_set: "set (redis_set now es s) = set s \<union> (\<lambda>(k, v, ttl). (k, v, now + ttl)) ` set es"
proof (induction es rule: rev_induct)
  case (snoc x es)
  have "redis_set now (es @ [x]) s = (case x of (k, v, ttl) \<Rightarrow> (k, v, now + ttl)) # redis_set now es s"
    by (simp add: redis_set_def split: prod.split)
  with snoc.IH show ?case by simp
qed (simp add: redis_set_def)

lemma handle_redis:
  assumes "handle e c w = (r, w')"
  shows "w_redis w' = (case c of
      CRedisSet es \<Rightarrow> redis_set (w_clock w) (case e_redis e (w_tick w) of None \<Rightarrow> es | Some n \<Rightarrow> take n es) (w_redis w)
    | _ \<Rightarrow> w_redis w)"
  using assms by (cases c) (auto simp: handle_def split: prod.splits db_outcome.splits option.splits)

lemma handle_entry:
  assumes "handle e c w = (r, w')" and "x \<in> set (w_redis w')"
  shows "x \<in> set (w_redis w) \<or> (\<exists>es k v ttl. c = CRedisSet es \<and> (k, v, ttl) \<in> set es \<and> x = (k, v, w_clock w + ttl))"
proof (cases "\<exists>es. c = CRedisSet es")
  case True
  then obtain es where c: "c = CRedisSet es" by blast
  have "w_redis w' = redis_set (w_clock w) (take (case e_redis e (w_tick w) of None \<Rightarrow> length es | Some n \<Rightarrow> n) es) (w_redis w)"
    by (simp add: handle_redis [OF assms(1)] c split: option.split)
  with c assms(2) show ?thesis by (auto simp: set_redis_set dest!: in_set_takeD)
next
  case False
  with assms show ?thesis by (auto simp: handle_redis split: call.splits)
qed

lemma honest_ttl: "honest q (k, v, a) \<Longrightarrow> honest q (k, v, b)"
  by (simp add: honest.simps)

lemma learn_entry:
  assumes "learn q c = Some f" and "handle e c w = (r, w')" and "x \<in> set (w_redis w')"
  shows "x \<in> set (w_redis w) \<or> honest q x"
  using handle_entry [OF assms(2,3)] assms(1) honest_ttl by (fastforce simp: learn_def split: if_splits)

lemma genuine_step:
  assumes "genuine s" and "sys_step e s t"
  shows "genuine t"
proof -
  obtain i c k r w' where th: "s_threads s i = Call c k" and h: "handle e c (s_world s) = (r, w')"
    and t: "t = s\<lparr>s_world := w', s_threads := (s_threads s)(i := k r), s_log := s_log s @ [(i, c, r)]\<rparr>"
    using assms(2) by (rule sys_step_cases) blast
  have "learns (Call c k) (known i (s_log s))"
    using assms(1) th unfolding genuine_def by metis
  then obtain f where f: "learn (known i (s_log s)) c = Some f" and rest: "learns (k r) (f r)"
    using handle_typed_pair [OF h] by (auto split: option.splits)
  have "f r = known i (s_log t)"
    using learn_said [OF f [unfolded known_def] handle_typed_pair [OF h]] by (simp add: t known_append)
  with rest assms(1) have "learns (s_threads t j) (known j (s_log t))" for j
    by (simp add: t genuine_def known_append)
  moreover have "\<exists>j. honest (known j (s_log t)) x" if "x \<in> set (w_redis (s_world t))" for x
  proof -
    have "x \<in> set (w_redis w')" using that by (simp add: t)
    then obtain j where "honest (known j (s_log s)) x"
      using learn_entry [OF f h] assms(1) unfolding genuine_def by blast
    then have "honest (known j (s_log s @ [(i, c, r)])) x" by (rule known_later)
    moreover have "s_log t = s_log s @ [(i, c, r)]" by (simp add: t)
    ultimately show ?thesis by metis
  qed
  ultimately show ?thesis by (simp add: genuine_def)
qed

interpretation market: invariant_system "\<lambda>s. serving reqs s \<and> w_redis (s_world s) = []" "sys_step e" genuine for reqs e
proof unfold_locales
  fix s
  assume "serving reqs s \<and> w_redis (s_world s) = []"
  then show "genuine s" by (simp add: genuine_def serving_def serve_learns)
qed (rule genuine_step)

section \<open>What GetQuotes answers\<close>

lemma redis_get_in: "redis_get now es key = Some v \<Longrightarrow> \<exists>x. (key, v, x) \<in> set es"
  by (induction now es key rule: redis_get.induct) (auto split: if_splits)

text \<open>The values a run reads from the cache are as honest as the cache was, or written by the run itself.\<close>

lemma reads_honest:
  assumes "learns p (said S)" and "\<forall>x \<in> set (w_redis w). \<exists>q \<in> insert (said S) K. honest q x"
    and "(CRedisMGet ks, RValues (Inr vs)) \<in> set (new_calls e p w)" and "Some v \<in> set vs"
  shows "\<exists>q \<in> insert (said (S \<union> set (new_calls e p w))) K. \<exists>key. honest q (key, v, 0)"
  using assms(1-3)
proof (induction p arbitrary: S w)
  case (Call c k)
  obtain r w' where h: "handle e c w = (r, w')" by fastforce
  obtain f where f: "learn (said S) c = Some f" and rest: "learns (k r) (f r)"
    using Call.prems(1) handle_typed_pair [OF h] by (auto split: option.splits)
  have f_r: "f r = said (insert (c, r) S)" by (rule learn_said [OF f handle_typed_pair [OF h]])
  have new: "new_calls e (Call c k) w = (c, r) # new_calls e (k r) w'" using h by simp
  show ?case
  proof (cases "(CRedisMGet ks, RValues (Inr vs)) = (c, r)")
    case True
    then have "\<exists>key. redis_get (w_clock w) (w_redis w) key = Some v"
      using h assms(4) by (auto simp: handle_mget split: option.splits) metis
    then obtain key x where "(key, v, x) \<in> set (w_redis w)"
      using redis_get_in by blast
    then obtain q where q: "q \<in> insert (said S) K" "honest q (key, v, x)"
      using Call.prems(2) by blast
    from q(2) have "honest q (key, v, 0)" by (rule honest_ttl)
    with q(1) show ?thesis using honest_mono [of S _ "S \<union> set (new_calls e (Call c k) w)"] by blast
  next
    case False
    have entries: "\<forall>x \<in> set (w_redis w'). \<exists>q \<in> insert (said (insert (c, r) S)) K. honest q x"
    proof
      fix x
      assume "x \<in> set (w_redis w')"
      with learn_entry [OF f h this] Call.prems(2) have "\<exists>q \<in> insert (said S) K. honest q x" by blast
      then show "\<exists>q \<in> insert (said (insert (c, r) S)) K. honest q x"
        using honest_mono [of S x "insert (c, r) S"] by blast
    qed
    have later: "(CRedisMGet ks, RValues (Inr vs)) \<in> set (new_calls e (k r) w')"
      using Call.prems(3) False unfolding new by auto
    have "insert (c, r) S \<union> set (new_calls e (k r) w') = S \<union> set (new_calls e (Call c k) w)"
      unfolding new by simp
    with Call.IH [OF rangeI rest [unfolded f_r] entries later] show ?thesis by metis
  qed
qed simp_all

definition genuine_quote :: "knowledge \<Rightarrow> Quote \<Rightarrow> bool" where
  "genuine_quote q qt \<longleftrightarrow> (\<exists>price t d. (qt_Symbol qt, price) \<in> known_prices q \<and> t \<in> known_times q \<and>
     qt_Price qt = Decimal_String d \<and> dval d = dval price \<and> qt_Timestamp qt = int (t div 10 ^ 9))"

lemma in_update: "(x, q) \<in> set (AList.update k v m) \<Longrightarrow> (x, q) \<in> set m \<or> (x, q) = (k, v)"
  by (induction m) (auto split: if_splits)

lemma in_put_all: "(x, qt) \<in> set (put_all f kvs m) \<Longrightarrow> (x, qt) \<in> set m \<or> (\<exists>v. (x, v) \<in> set kvs \<and> qt = f v)"
  unfolding put_all_def
  by (induction kvs arbitrary: m) (auto dest: in_update)

lemma in_collect_hits:
  "(x, q) \<in> set (fst (collect_hits rs (hits, misses))) \<Longrightarrow> (x, q) \<in> set hits \<or>
     (\<exists>v quote. (x, Some v) \<in> set rs \<and> unmarshal_quote v = Some quote \<and> q = quote\<lparr>cq_IsStaleCache := False\<rparr>)"
proof (induction rs arbitrary: hits misses)
  case (Cons r rs)
  from Cons.prems show ?case
    by (cases r) (auto split: option.splits dest!: Cons.IH in_update)
qed simp

lemma in_collect_stale:
  "(x, q) \<in> set (collect_stale rs result) \<Longrightarrow> (x, q) \<in> set result \<or>
     (\<exists>v quote. (x, Some v) \<in> set rs \<and> unmarshal_quote v = Some quote \<and> q = quote\<lparr>cq_IsStaleCache := True\<rparr>)"
proof (induction rs arbitrary: result)
  case (Cons r rs)
  from Cons.prems show ?case
    by (cases r) (auto split: option.splits dest!: Cons.IH in_update)
qed simp

lemma Div_expo: "Decimal_Div a b = Some c \<Longrightarrow> expo c = - 16"
  by (auto simp: Decimal_Div_def Decimal_DivRound_def Decimal_QuoRem_def Let_def wrap32_def Decimal_New_def
      split: option.splits if_splits)

lemma parse_expo: "parseBookTicker raw = Some (Inr t) \<Longrightarrow> expo (bt_MidPrice t) = - 16"
  by (auto simp: parseBookTicker_def Div_expo split: sum.splits option.splits)

lemma collect_tickers_all:
  "collect_tickers raws result = Some ts \<Longrightarrow>
     \<forall>x \<in> set result. fst x = bt_Symbol (snd x) \<and> expo (bt_MidPrice (snd x)) = - 16 \<Longrightarrow>
     \<forall>x \<in> set ts. fst x = bt_Symbol (snd x) \<and> expo (bt_MidPrice (snd x)) = - 16"
proof (induction raws arbitrary: result)
  case (Cons raw raws)
  show ?case
  proof (cases "\<exists>t. parseBookTicker raw = Some (Inr t)")
    case True
    then obtain t where t: "parseBookTicker raw = Some (Inr t)" by blast
    have "\<forall>x \<in> set (AList.update (bt_Symbol t) t result). fst x = bt_Symbol (snd x) \<and> expo (bt_MidPrice (snd x)) = - 16"
      using Cons.prems(2) parse_expo [OF t] by (auto dest!: in_update)
    moreover have "collect_tickers raws (AList.update (bt_Symbol t) t result) = Some ts"
      using Cons.prems(1) t by simp
    ultimately show ?thesis using Cons.IH by blast
  next
    case False
    with Cons.prems(1) have "collect_tickers raws result = Some ts" by (auto split: option.splits sum.splits)
    with Cons.IH Cons.prems(2) show ?thesis by blast
  qed
qed simp

lemma ticker_answer_source:
  "ticker_answer single x = Ret (Inr ts) \<Longrightarrow>
     (\<exists>raw t. parseBookTicker raw = Some (Inr t) \<and> ts = [(bt_Symbol t, t)]) \<or> (\<exists>raws. collect_tickers raws [] = Some ts)"
  unfolding ticker_answer_def or_panic_def
  by (simp split: sum.splits if_splits option.splits) blast+

lemma tickers_answered:
  assumes "ticker_answer single x = Ret (Inr ts)" and "(k, t) \<in> set ts"
  shows "k = bt_Symbol t \<and> expo (bt_MidPrice t) = - 16"
  using ticker_answer_source [OF assms(1)]
proof
  assume "\<exists>raws. collect_tickers raws [] = Some ts"
  then obtain raws where "collect_tickers raws [] = Some ts" by blast
  from collect_tickers_all [OF this] assms(2) show ?thesis by auto
qed (use assms(2) parse_expo in auto)

lemma mid_price_expo: "(symbol, price) \<in> mid_prices r \<Longrightarrow> in32 (expo price)"
  by (auto simp: mid_prices_def in32_def dest!: tickers_answered)

text \<open>An entry of an answer comes from a value read or from the broker's answer.\<close>

definition read_quote :: "(call \<times> reply) list \<Rightarrow> CachedQuote \<Rightarrow> bool" where
  "read_quote q y \<longleftrightarrow> (\<exists>ks vs v quote stale. (CRedisMGet ks, RValues (Inr vs)) \<in> set q \<and> Some v \<in> set vs \<and>
     unmarshal_quote v = Some quote \<and> y = quote\<lparr>cq_IsStaleCache := stale\<rparr>)"

definition sourced :: "(call \<times> reply) list \<Rightarrow> Quote \<Rightarrow> bool" where
  "sourced q qt \<longleftrightarrow> (\<exists>y stale. read_quote q y \<and> qt = cached_quote stale y) \<or> genuine_quote (said (set q)) qt"

lemma sourced_mono: "sourced q qt \<Longrightarrow> set q \<subseteq> set q' \<Longrightarrow> sourced q' qt"
  using said_mono [of "set q" "set q'"] unfolding sourced_def read_quote_def genuine_quote_def by blast

definition all_read :: "(call \<times> reply) list \<Rightarrow> (string \<times> CachedQuote) list \<Rightarrow> bool" where
  "all_read q kvs \<longleftrightarrow> (\<forall>x y. (x, y) \<in> set kvs \<longrightarrow> read_quote q y)"

lemma all_read_Nil [simp]: "all_read q []"
  by (simp add: all_read_def)

lemma Cache_GetQuotes_traced:
  "traced (\<lambda>q' r. set q \<subseteq> set q' \<and> (\<forall>hits misses err. r = Done (hits, misses, err) \<longrightarrow> all_read q' hits))
     (Cache_GetQuotes p ss) q"
proof -
  have "read_quote (q @ [(CRedisMGet ks, RValues (Inr vs))]) y"
    if "(x, y) \<in> set (fst (collect_hits (zip ss vs) ([], [])))" for x y ks vs
    using in_collect_hits [OF that] unfolding read_quote_def by (fastforce dest: set_zip_rightD)
  then show ?thesis
    by (auto simp: Cache_GetQuotes_def c_mget_def all_read_def split: reply.split sum.split prod.splits)
qed

lemma Cache_GetStaleQuotes_traced:
  "traced (\<lambda>q' r. set q \<subseteq> set q' \<and> (\<forall>result. r = Done (Inr result) \<longrightarrow> all_read q' result))
     (Cache_GetStaleQuotes p ss) q"
proof -
  have "read_quote (q @ [(CRedisMGet ks, RValues (Inr vs))]) y"
    if "(x, y) \<in> set (collect_stale (zip ss vs) [])" for x y ks vs
    using in_collect_stale [OF that] unfolding read_quote_def by (fastforce dest: set_zip_rightD)
  then show ?thesis
    by (auto simp: Cache_GetStaleQuotes_def c_mget_def all_read_def split: reply.split sum.split)
qed

definition priced :: "(call \<times> reply) list \<Rightarrow> string \<times> BookTicker \<Rightarrow> bool" where
  "priced q x \<longleftrightarrow> fst x = bt_Symbol (snd x) \<and> (fst x, bt_MidPrice (snd x)) \<in> known_prices (said (set q))"

lemma GetBookTickers_traced:
  "traced (\<lambda>q' r. set q \<subseteq> set q' \<and> (\<forall>ts. r = Done (Inr ts) \<longrightarrow> list_all (priced q') ts)) (GetBookTickers c ss) q"
proof -
  let ?G = "\<lambda>q' r. set q \<subseteq> set q' \<and> (\<forall>ts. r = Done (Inr ts) \<longrightarrow> list_all (priced q') ts)"
  have "priced (q @ [(CBinance req, RHttp res)]) (x, t)"
    if "ticker_answer single res = Ret (Inr ts)" "(x, t) \<in> set ts" for x t req res single ts
  proof -
    have "(x, bt_MidPrice t) \<in> mid_prices (RHttp res)" using that by (auto simp: mid_prices_def)
    then show ?thesis using tickers_answered [OF that] by (auto simp: said_def priced_def)
  qed
  then have "traced ?G (ticker_answer single res) (q @ [(CBinance req, RHttp res)])" for req res single
    using ticker_answer_ends [of single res] by (auto simp: list_all_iff)
  then show ?thesis
    by (auto simp: GetBookTickers_def ticker_request_def c_http_def split: reply.split)
qed

lemma ticker_quote_genuine:
  assumes "priced q (x, t)"
  shows "sourced (q @ [(CNow, RTime now)]) (ticker_quote (int (now div 10 ^ 9)) t)"
  using assms said_mono [of "set q" "set (q @ [(CNow, RTime now)])"]
  by (auto simp: priced_def sourced_def genuine_quote_def ticker_quote_def said_def intro!: exI [of _ "bt_MidPrice t"])

definition all_sourced :: "(call \<times> reply) list \<Rightarrow> (string \<times> Quote) list \<Rightarrow> bool" where
  "all_sourced q m \<longleftrightarrow> (\<forall>x qt. (x, qt) \<in> set m \<longrightarrow> sourced q qt)"

lemma all_sourced_Nil [simp]: "all_sourced q []"
  by (simp add: all_sourced_def)

lemma all_sourced_mono: "all_sourced q m \<Longrightarrow> set q \<subseteq> set q' \<Longrightarrow> all_sourced q' m"
  using sourced_mono unfolding all_sourced_def by blast

lemma all_sourced_later [intro]: "all_sourced q m \<Longrightarrow> all_sourced (q @ l) m"
  by (erule all_sourced_mono) simp

lemma cached_sourced:
  assumes "all_read q kvs" and "all_sourced q m"
  shows "all_sourced q (put_all (cached_quote stale) kvs m)"
  using assms unfolding all_sourced_def all_read_def by (blast dest: in_put_all intro: sourced_def [THEN iffD2])

lemma tickers_sourced:
  assumes "list_all (priced q) ts" and "all_sourced q m"
  shows "all_sourced (q @ [(CNow, RTime now)]) (put_all (ticker_quote (int (now div 10 ^ 9))) ts m)"
  unfolding all_sourced_def
proof (intro allI impI)
  fix x qt
  assume "(x, qt) \<in> set (put_all (ticker_quote (int (now div 10 ^ 9))) ts m)"
  from in_put_all [OF this] show "sourced (q @ [(CNow, RTime now)]) qt"
    using assms ticker_quote_genuine sourced_mono [of q qt "q @ [(CNow, RTime now)]"]
    by (auto simp: list_all_iff all_sourced_def)
qed

abbreviation answers_sourced :: "(call \<times> reply) list \<Rightarrow> ((string \<times> Quote) list) outcome \<Rightarrow> bool" where
  "answers_sourced q r \<equiv> case r of Done m \<Rightarrow> all_sourced q m | Stopped h \<Rightarrow> True"

lemma SetQuotes_sourced:
  "all_sourced q m \<Longrightarrow> traced answers_sourced (pbind (Cache_SetQuotes c p qs ts) (\<lambda>err. Ret m)) q"
  by (auto simp: Cache_SetQuotes_def c_ack_def split: reply.split)

lemma GetStaleQuotes_sourced:
  assumes "all_sourced q m"
  shows "traced answers_sourced (pbind (Cache_GetStaleQuotes p ss) (\<lambda>stale. case stale of
      Inr staleQuotes \<Rightarrow> Ret (put_all (cached_quote True) staleQuotes m) | Inl staleErr \<Rightarrow> Ret m)) q"
  by (rule traced_pbind [OF Cache_GetStaleQuotes_traced])
    (auto simp: cached_sourced all_sourced_mono [OF assms] split: sum.split)

lemma GetQuotes_traced: "traced answers_sourced (GetQuotes s symbols prov) q"
proof -
  have now: "traced answers_sourced (c_now (\<lambda>now. pbind
      (Cache_SetQuotes c p (map (\<lambda>(symbol, t). (symbol, bt_MidPrice t)) ts) (int (now div 10 ^ 9)))
      (\<lambda>err. Ret (put_all (ticker_quote (int (now div 10 ^ 9))) ts m)))) q"
    if "list_all (priced q) ts" "all_sourced q m" for c p ts m q
    using tickers_sourced [OF that]
    by (auto simp: c_now_def intro!: SetQuotes_sourced [simplified] split: reply.split)
  have fetch: "traced answers_sourced (pbind (GetBookTickers c misses) (\<lambda>fetched. case fetched of
      Inr ts \<Rightarrow> c_now (\<lambda>now. pbind
        (Cache_SetQuotes (sv_cache s) p (map (\<lambda>(symbol, t). (symbol, bt_MidPrice t)) ts) (int (now div 10 ^ 9)))
        (\<lambda>err. Ret (put_all (ticker_quote (int (now div 10 ^ 9))) ts m)))
    | Inl e \<Rightarrow> pbind (Cache_GetStaleQuotes p misses) (\<lambda>stale. case stale of
      Inr staleQuotes \<Rightarrow> Ret (put_all (cached_quote True) staleQuotes m) | Inl staleErr \<Rightarrow> Ret m))) q"
    if "all_sourced q m" for c p m q misses
    by (rule traced_pbind [OF GetBookTickers_traced])
      (use that in \<open>auto intro!: now [simplified] GetStaleQuotes_sourced intro: all_sourced_mono split: sum.split\<close>)
  have rest: "traced answers_sourced (case a of (hits, misses, err) \<Rightarrow>
      if misses = [] then Ret (put_all (cached_quote False) hits [])
      else pbind (GetBookTickers (sv_brokerClient s) misses) (\<lambda>fetched. case fetched of
        Inr ts \<Rightarrow> c_now (\<lambda>now. pbind
          (Cache_SetQuotes (sv_cache s) p (map (\<lambda>(symbol, t). (symbol, bt_MidPrice t)) ts) (int (now div 10 ^ 9)))
          (\<lambda>err. Ret (put_all (ticker_quote (int (now div 10 ^ 9))) ts (put_all (cached_quote False) hits []))))
      | Inl e \<Rightarrow> pbind (Cache_GetStaleQuotes p misses) (\<lambda>stale. case stale of
          Inr staleQuotes \<Rightarrow> Ret (put_all (cached_quote True) staleQuotes (put_all (cached_quote False) hits []))
        | Inl staleErr \<Rightarrow> Ret (put_all (cached_quote False) hits [])))) q"
    if "all_read q (fst a)" for a p q
  proof (cases a)
    case (fields hits misses err)
    with that have hits: "all_sourced q (put_all (cached_quote False) hits [])" by (simp add: cached_sourced)
    show ?thesis
    proof (cases "misses = []")
      case True
      with hits show ?thesis by (simp add: fields)
    next
      case False
      show ?thesis unfolding fields prod.case if_not_P [OF False] by (rule fetch [OF hits])
    qed
  qed
  show ?thesis
  proof (cases "symbols = []")
    case False
    show ?thesis
      unfolding GetQuotes_def Let_def if_not_P [OF False]
    proof (rule traced_pbind [OF Cache_GetQuotes_traced], rule rest)
      fix q' a
      assume "set q \<subseteq> set q' \<and> (\<forall>hits misses err. Done a = Done (hits, misses, err) \<longrightarrow> all_read q' hits)"
      then show "all_read q' (fst a)" by (cases a) simp
    qed simp
  qed (simp add: GetQuotes_def)
qed

section \<open>Entries read back\<close>

lemma unmarshal_in64: "unmarshal_quote (marshal_quote y) = Some z \<Longrightarrow> in64 (cq_Timestamp y)"
  by (rule ccontr)
    (auto simp: unmarshal_quote_def marshal_quote_def decoded_def CachedQuote_json_def field_for_def number_int64_int
      simp del: decode_decimal.simps split: prod.splits if_splits)

lemma honest_quote:
  assumes "honest (said S) (key, v, x)" and "unmarshal_quote v = Some y"
  shows "genuine_quote (said S) (cached_quote stale (y\<lparr>cq_IsStaleCache := b\<rparr>))"
proof -
  obtain symbol price t where known: "(symbol, price) \<in> known_prices (said S)" "t \<in> known_times (said S)"
    and v: "v = marshal_quote \<lparr>cq_Symbol = symbol, cq_Price = price, cq_Timestamp = int (t div 10 ^ 9), cq_IsStaleCache = False\<rparr>"
    using assms(1) unfolding honest.simps by blast
  have "in32 (expo price)" using known(1) mid_price_expo by (auto simp: said_def)
  moreover have "in64 (int (t div 10 ^ 9))" using unmarshal_in64 [OF assms(2) [unfolded v]] by simp
  ultimately obtain p where "dval p = dval price" "y = \<lparr>cq_Symbol = symbol, cq_Price = p, cq_Timestamp = int (t div 10 ^ 9), cq_IsStaleCache = False\<rparr>"
    using unmarshal_marshal [of "\<lparr>cq_Symbol = symbol, cq_Price = price, cq_Timestamp = int (t div 10 ^ 9), cq_IsStaleCache = False\<rparr>"]
      assms(2) unfolding v by auto
  with known show ?thesis
    unfolding genuine_quote_def by (intro exI [of _ price] exI [of _ t] exI [of _ p]) (simp add: cached_quote_def)
qed

section \<open>A run\<close>

definition demo_ticker_body :: json where
  "demo_ticker_body = JObject [(''symbol'', JString ''BTCUSDT''), (''bidPrice'', JString ''100''),
     (''bidQty'', JString ''1''), (''askPrice'', JString ''102''), (''askQty'', JString ''1'')]"

definition demo_market :: env where
  "demo_market = demo_env\<lparr>e_http := \<lambda>_ _. demo_response demo_ticker_body\<rparr>"

definition demo_mid :: BookTicker where
  "demo_mid = \<lparr>bt_Symbol = ''BTCUSDT'', bt_BidPrice = \<lparr>coef = 100, expo = 0\<rparr>, bt_BidQty = \<lparr>coef = 1, expo = 0\<rparr>,
     bt_AskPrice = \<lparr>coef = 102, expo = 0\<rparr>, bt_AskQty = \<lparr>coef = 1, expo = 0\<rparr>,
     bt_MidPrice = \<lparr>coef = 1010000000000000000, expo = - 16\<rparr>\<rparr>"

lemma demo_raw_ticker: "unmarshal RawBookTicker_json zero_RawBookTicker
    \<lparr>hb_complete = True, hb_value = Some demo_ticker_body, hb_trailing = False\<rparr> =
    Some \<lparr>rb_Symbol = ''BTCUSDT'', rb_BidPrice = ''100'', rb_BidQty = ''1'', rb_AskPrice = ''102'', rb_AskQty = ''1''\<rparr>"
  by (simp add: demo_ticker_body_def unmarshal_def decoded_def RawBookTicker_json_def zero_RawBookTicker_def field_for_def)

lemma demo_parsed: "parseBookTicker
    \<lparr>rb_Symbol = ''BTCUSDT'', rb_BidPrice = ''100'', rb_BidQty = ''1'', rb_AskPrice = ''102'', rb_AskQty = ''1''\<rparr> = Some (Inr demo_mid)"
proof -
  have "Decimal_NewFromString ''100'' = Inr \<lparr>coef = 100, expo = 0\<rparr>" "Decimal_NewFromString ''1'' = Inr \<lparr>coef = 1, expo = 0\<rparr>"
    "Decimal_NewFromString ''102'' = Inr \<lparr>coef = 102, expo = 0\<rparr>"
    by (simp_all add: parse_eval)
  moreover have "Decimal_Div (Decimal_Add \<lparr>coef = 100, expo = 0\<rparr> \<lparr>coef = 102, expo = 0\<rparr>) (Decimal_NewFromInt 2) =
      Some \<lparr>coef = 1010000000000000000, expo = - 16\<rparr>"
    by (simp add: dec_eval)
  ultimately show ?thesis by (simp add: parseBookTicker_def demo_mid_def)
qed

lemma demo_ticker: "ticker_answer True (demo_response demo_ticker_body) = Ret (Inr [(''BTCUSDT'', demo_mid)])"
  by (simp add: ticker_answer_def demo_response_def rate_limited_def demo_raw_ticker demo_parsed or_panic_def)
    (simp add: demo_mid_def)

definition demo_quotes_sys :: "unit sys" where
  "demo_quotes_sys = \<lparr>s_world = demo_world, s_threads = \<lambda>_. serve (TickersRequest demo_server []), s_log = []\<rparr>"

lemma demo_asked:
  "\<exists>w'. exec demo_market (GetQuotes demo_server ['' btcusdt''] ''binance'') demo_world =
    (Done [(''BTCUSDT'', ticker_quote 0 demo_mid)], w')"
  unfolding GetQuotes_def demo_symbols
  by (simp add: Cache_GetQuotes_def c_mget_def exec_pbind handle_mget demo_market_def demo_env_def demo_world_def
      GetBookTickers_def ticker_request_def c_http_def handle_def demo_ticker c_now_def Cache_SetQuotes_def c_ack_def Let_def put_all_def)

lemma demo_quotes_start:
  "serving (\<lambda>_. TickersRequest demo_server []) demo_quotes_sys \<and> w_redis (s_world demo_quotes_sys) = []"
  using demo_tables_ok by (simp add: demo_quotes_sys_def serving_def demo_world_def)

section \<open>Properties\<close>

text \<open>C37: Every quote GetQuotes answers, in any state requests can reach from an empty cache, has a price
  the broker has answered for that symbol and a time that was read, by one request: the one that
  answers now, or one whose quote the cache has kept.\<close>

theorem quotes_genuine:
  assumes "reachable (\<lambda>s. serving reqs s \<and> w_redis (s_world s) = []) (sys_step e) s"
    and "exec e (GetQuotes sv symbols prov) (s_world s) = (Done quotes, w')" and "(x, qt) \<in> set quotes"
  shows "genuine_quote (said (set (new_calls e (GetQuotes sv symbols prov) (s_world s)))) qt \<or>
    (\<exists>i. genuine_quote (known i (s_log s)) qt)"
proof -
  let ?new = "new_calls e (GetQuotes sv symbols prov) (s_world s)"
  let ?K = "range (\<lambda>i. known i (s_log s))"
  have "\<forall>y \<in> set (w_redis (s_world s)). \<exists>q \<in> insert (said {}) ?K. honest q y"
    using market.reachable_inv [OF assms(1)] unfolding genuine_def by blast
  note read = reads_honest [OF GetQuotes_learns this]
  have "sourced ?new qt"
    using traced_exec [OF GetQuotes_traced [of sv symbols prov "[]"], of e "s_world s"] assms(2,3)
    by (simp add: all_sourced_def)
  then show ?thesis
    unfolding sourced_def
  proof
    assume "\<exists>y stale. read_quote ?new y \<and> qt = cached_quote stale y"
    then obtain ks vs v y stale b where "(CRedisMGet ks, RValues (Inr vs)) \<in> set ?new" "Some v \<in> set vs"
      and y: "unmarshal_quote v = Some y" "qt = cached_quote stale (y\<lparr>cq_IsStaleCache := b\<rparr>)"
      unfolding read_quote_def by blast
    from read [OF this(1,2)] obtain q key where "q \<in> insert (said (set ?new)) ?K" "honest q (key, v, 0)"
      by auto
    then show ?thesis using honest_quote [OF _ y(1)] y(2) unfolding known_def by blast
  qed blast
qed

theorem quotes_genuine_witness:
  "\<exists>w' qt. exec demo_market (GetQuotes demo_server ['' btcusdt''] ''binance'') demo_world = (Done [(''BTCUSDT'', qt)], w') \<and>
     genuine_quote (said (set (new_calls demo_market (GetQuotes demo_server ['' btcusdt''] ''binance'') demo_world))) qt"
proof -
  have start: "s_world demo_quotes_sys = demo_world" "s_log demo_quotes_sys = []"
    by (simp_all add: demo_quotes_sys_def)
  obtain w' where run: "exec demo_market (GetQuotes demo_server ['' btcusdt''] ''binance'') (s_world demo_quotes_sys) =
      (Done [(''BTCUSDT'', ticker_quote 0 demo_mid)], w')"
    using demo_asked start by auto
  have "\<not> genuine_quote (known i []) qt" for i qt
    by (simp add: genuine_quote_def known_def said_def)
  with quotes_genuine [OF reachable.start, OF demo_quotes_start run, of "''BTCUSDT''" "ticker_quote 0 demo_mid"] run
  show ?thesis unfolding start by auto
qed

end
