(* ===== verification/Accounts.thy ===== *)
theory Accounts
  imports Settlement
begin

text \<open>
  The accounts of a tenant: what the reconciliation of balances reports, and the credentials that
  SaveCredentials stores for it.
\<close>

section \<open>What the broker and the ledger have answered\<close>

record heard =
  hd_account :: "(http_error + http_response) option"
  hd_ledger :: "string option"

text \<open>What is remembered of a call: the answer of the broker, the text of the ledger's balance.\<close>

definition hear :: "heard \<Rightarrow> call \<Rightarrow> reply \<Rightarrow> heard" where
  "hear h c r =
     (case (c, r) of
        (CBinance q, RHttp ans) \<Rightarrow> h\<lparr>hd_account := Some ans\<rparr>
      | (CGetBalance acc, RText (Inr t)) \<Rightarrow> h\<lparr>hd_ledger := Some t\<rparr>
      | _ \<Rightarrow> h)"

definition heard_in :: "(call \<times> reply) list \<Rightarrow> heard" where
  "heard_in calls = fold (\<lambda>(c, r) h. hear h c r) calls \<lparr>hd_account = None, hd_ledger = None\<rparr>"

definition hearing :: "heard \<Rightarrow> call \<Rightarrow> (reply \<Rightarrow> heard) option" where
  "hearing h c = Some (hear h c)"

lemma follow_hearing: "follow hearing h calls = Some (fold (\<lambda>(c, r) h. hear h c r) calls h)"
  by (induction calls arbitrary: h) (auto simp: hearing_def)

definition broker_balances :: "heard \<Rightarrow> ((string \<times> decimal) list) option" where
  "broker_balances h =
     (case hd_account h of
        None \<Rightarrow> None
      | Some ans \<Rightarrow> (case balance_answer ans of Ret (Inr balances) \<Rightarrow> Some balances | _ \<Rightarrow> None))"

text \<open>The specification: the first positive one of the fiat balances, and the ledger's balance, 0
  where there is none.\<close>

definition broker_fiat :: "(string \<times> decimal) list \<Rightarrow> rat" where
  "broker_fiat balances =
     (case filter (\<lambda>x. 0 < x)
        (map (\<lambda>asset. case map_of balances asset of Some d \<Rightarrow> dval d | None \<Rightarrow> 0)
           [''USDT'', ''USD'', ''BUSD'', ''USDC'']) of
        [] \<Rightarrow> 0 | x # xs \<Rightarrow> x)"

definition ledger_value :: "heard \<Rightarrow> rat" where
  "ledger_value h =
     (case hd_ledger h of
        None \<Rightarrow> 0
      | Some t \<Rightarrow> (case text_value t of Some v \<Rightarrow> v | None \<Rightarrow> 0))"

lemma fiat_balance_value:
  "dval (fiat_balance assets balances) =
     (case filter (\<lambda>x. 0 < x) (map (\<lambda>asset. case map_of balances asset of Some d \<Rightarrow> dval d | None \<Rightarrow> 0) assets) of
        [] \<Rightarrow> 0 | x # xs \<Rightarrow> x)"
  by (induction assets balances rule: fiat_balance.induct) (simp_all add: dec_simps split: option.split)

lemma broker_fiat_balance: "dval (fiat_balance [''USDT'', ''USD'', ''BUSD'', ''USDC''] balances) = broker_fiat balances"
  by (simp only: fiat_balance_value broker_fiat_def)

lemma hear_simps [simp]:
  "hear h (CBinance q) (RHttp ans) = h\<lparr>hd_account := Some ans\<rparr>"
  "hear h (CGetBalance acc) (RText (Inr t)) = h\<lparr>hd_ledger := Some t\<rparr>"
  "hear h (CGetBalance acc) (RText (Inl m)) = h"
  "hear h CNow r = h" "hear h (CLoad a) r = h" "hear h (CGetCreds p) r = h"
  "hear h (CInitAccount i) r = h" "hear h (CGetAccount l) r = h"
  by (simp_all add: hear_def)

text \<open>Nothing else is remembered.\<close>

lemma hearing_stays:
  assumes "uses K p" and "K \<inter> {KLedger, KMarketData, KOrder} = {}" and "\<And>a. F h a"
  shows "obeys hearing F (\<lambda>_ _. True) p h"
proof (rule obeys_stays [OF assms(1) [unfolded uses_def]])
  fix c
  assume "call_kind c \<in> K"
  with assms(2) have "call_kind c \<notin> {KLedger, KMarketData, KOrder}" by blast
  then show "hearing h c = Some (\<lambda>_. h)"
    by (cases c) (auto simp: hearing_def hear_def fun_eq_iff split: if_splits)
qed (simp_all add: assms(3))

section \<open>Reconciliation\<close>

definition account_known :: "heard \<Rightarrow> broker_error + (string \<times> decimal) list \<Rightarrow> bool" where
  "account_known h res \<longleftrightarrow>
     hd_ledger h = None \<and> (\<forall>balances. res = Inr balances \<longrightarrow> broker_balances h = Some balances)"

lemma balance_answer_known:
  assumes "hd_ledger h = None"
  shows "obeys hearing account_known (\<lambda>_ _. True) (balance_answer ans) (h\<lparr>hd_account := Some ans\<rparr>)"
proof -
  have "balance_answer ans = Ret res \<Longrightarrow> account_known (h\<lparr>hd_account := Some ans\<rparr>) res" for res
    using assms by (simp add: account_known_def broker_balances_def)
  moreover have "\<exists>res. balance_answer ans = Ret res"
    by (simp add: balance_answer_def split: sum.split option.split)
  ultimately show ?thesis by auto
qed

lemma with_credentials_heard:
  assumes "\<And>x y. obeys hearing F (\<lambda>_ _. True) (body x y) h" and "\<And>x. F h (Inl x)"
  shows "obeys hearing F (\<lambda>_ _. True) (with_credentials creds m body) h"
proof -
  have "obeys hearing F (\<lambda>_ _. True) (pdefer (body x y) (Zero creds)) h" for x y
    by (rule obeys_pdefer [OF assms(1)]) (auto intro: hearing_stays [OF Zero_uses])
  then show ?thesis
    using assms(2)
    by (auto simp: with_credentials_def load_slice_def call_defs hearing_def split: option.split reply.split)
qed

lemma account_heard:
  assumes "hd_ledger h = None"
  shows "obeys hearing account_known (\<lambda>_ _. True) (GetAccountBalances c creds) h"
  unfolding GetAccountBalances_def
  by (rule with_credentials_heard)
    (auto simp: call_defs hearing_def Let_def balance_answer_known assms account_known_def split: reply.split)

lemma clearing_heard:
  "obeys hearing (\<lambda>h' res. h' = h) (\<lambda>_ _. True) (GetOrCreateBrokerAccount tenant) h"
  by (auto simp: GetOrCreateBrokerAccount_def call_defs hearing_def Let_def split: option.split sum.split reply.split)

definition ledger_known :: "heard \<Rightarrow> heard \<Rightarrow> decimal \<Rightarrow> bool" where
  "ledger_known h h' d \<longleftrightarrow> hd_account h' = hd_account h \<and> dval d = ledger_value h'"

lemma balance_heard:
  assumes "hd_ledger h = None"
  shows "obeys hearing (ledger_known h) (\<lambda>_ _. True)
    (pbind (GetBalance acc) (\<lambda>lBal. case lBal of Inl e \<Rightarrow> Ret Decimal_Zero | Inr lBal \<Rightarrow> Ret lBal)) h"
  using assms by (auto simp: GetBalance_def call_defs hearing_def ledger_known_def ledger_value_def text_value_def
      decimal_of_text_def split: sum.split reply.split)

lemma ledger_heard:
  assumes "hd_ledger h = None"
  shows "obeys hearing (ledger_known h) (\<lambda>_ _. True) (ledger_balance s req) h"
proof -
  have zero: "ledger_known h h Decimal_Zero" using assms by (simp add: ledger_known_def ledger_value_def)
  have "obeys hearing (\<lambda>h' acc. h' = h) (\<lambda>_ _. True)
      (if trim_space (br_UserId req) = []
       then pbind (GetOrCreateBrokerAccount (br_TenantId req)) (\<lambda>acc. case acc of
              Inl e \<Rightarrow> Ret [] | Inr clearingAccID \<Rightarrow> Ret clearingAccID)
       else Ret (trim_space (br_UserId req))) h"
    by (auto intro!: obeys_pbind [OF clearing_heard] split: sum.split)
  then show ?thesis
    unfolding ledger_balance_def using zero balance_heard [OF assms]
    by (auto elim!: obeys_pbind)
qed

definition reconciled :: "heard \<Rightarrow> status + SyncBrokerBalancesResponse \<Rightarrow> bool" where
  "reconciled h res \<longleftrightarrow>
     (\<forall>resp. res = Inr resp \<longrightarrow> (\<exists>balances. broker_balances h = Some balances \<and>
        (let adjustment = broker_fiat balances - ledger_value h
         in (bs_InSync resp \<longleftrightarrow> adjustment = 0) \<and>
            (\<exists>a. text_value (bs_NetFiatAdjustment resp) = Some a \<and> \<bar>a - adjustment\<bar> \<le> 1 / 20000))))"

lemma reconcile_heard:
  assumes "hd_ledger h = None"
  shows "obeys hearing reconciled (\<lambda>_ _. True) (reconcile s req creds) h"
  unfolding reconcile_def
proof (rule obeys_pbind [OF account_heard [OF assms]])
  fix h1 res
  assume known: "account_known h1 res"
  have "reconciled h2 (Inr \<lparr>bs_InSync = Decimal_IsZero (Decimal_Sub (fiat_balance [''USDT'', ''USD'', ''BUSD'', ''USDC''] balances) l),
      bs_NetFiatAdjustment = Decimal_StringFixed (Decimal_Sub (fiat_balance [''USDT'', ''USD'', ''BUSD'', ''USDC''] balances) l) 4\<rparr>)"
    if "res = Inr balances" "ledger_known h1 h2 l" for balances h2 l
    using that known fixed_value [of "Decimal_Sub (fiat_balance [''USDT'', ''USD'', ''BUSD'', ''USDC''] balances) l"]
    by (auto simp: reconciled_def account_known_def ledger_known_def broker_balances_def dec_simps
        broker_fiat_balance Let_def simp del: fiat_balance.simps)
  with known show "obeys hearing reconciled (\<lambda>_ _. True) (case res of
       Inl e \<Rightarrow> Ret (Inl (Status Unavailable ''failed to fetch broker balances''))
     | Inr balances \<Rightarrow>
         let brokerFiatBal = fiat_balance [''USDT'', ''USD'', ''BUSD'', ''USDC''] balances
         in pbind (ledger_balance s req) (\<lambda>ledgerBal.
            let netAdjustment = Decimal_Sub brokerFiatBal ledgerBal
            in Ret (Inr \<lparr>bs_InSync = Decimal_IsZero netAdjustment,
                         bs_NetFiatAdjustment = Decimal_StringFixed netAdjustment 4\<rparr>))) h1"
    by (auto simp: Let_def account_known_def reconciled_def [of _ "Inl _"]
        intro!: obeys_pbind [OF ledger_heard] split: sum.split)
qed

lemma SyncBrokerBalances_heard:
  assumes "hd_ledger h = None"
  shows "obeys hearing reconciled (\<lambda>_ _. True) (SyncBrokerBalances s req) h"
proof -
  have load: "obeys hearing (\<lambda>h' res. h' = h) (\<lambda>_ _. True) (load_credentials s t p a b c) h" for t p a b c
    by (rule hearing_stays [OF load_credentials_uses]) auto
  have "obeys hearing reconciled (\<lambda>_ _. True) (pdefer (reconcile s req p) (Zero (Some p))) h" for p
    by (rule obeys_pdefer [OF reconcile_heard [OF assms]]) (auto intro: hearing_stays [OF Zero_uses])
  then show ?thesis
    unfolding SyncBrokerBalances_def
    by (auto simp: reconciled_def intro!: obeys_pbind [OF load] split: sum.split)
qed

section \<open>Stored credentials\<close>

lemma query_upsert_same:
  assumes "upsert_cred c t = (Inr n, t')"
    and "length (bc_TenantID c) \<le> 64" and "length (bc_Provider c) \<le> 32"
  shows "query_cred (bc_TenantID c) (bc_Provider c) t' =
    Some (case query_cred (bc_TenantID c) (bc_Provider c) t of
            None \<Rightarrow> c | Some old \<Rightarrow> refresh_cred c old)"
proof -
  have c: "stored_cred c = c" using assms(2,3) by (simp add: stored_cred_def varchar_def)
  have upd: "list_ex (same_cred c) t \<Longrightarrow> query_cred (bc_TenantID c) (bc_Provider c) (map (refresh_cred c) t) =
      Some (case query_cred (bc_TenantID c) (bc_Provider c) t of None \<Rightarrow> c | Some old \<Rightarrow> refresh_cred c old)"
    by (induction t) (auto simp: query_cred_def same_cred_def)
  have ins: "\<not> list_ex (same_cred c) t \<Longrightarrow> query_cred (bc_TenantID c) (bc_Provider c) t = None \<and>
      query_cred (bc_TenantID c) (bc_Provider c) (t @ [c]) = Some c"
    by (induction t) (auto simp: query_cred_def same_cred_def)
  show ?thesis
    using assms(1) upd ins by (auto simp: upsert_cred_def c Let_def split: if_splits)
qed

lemma query_upsert_other:
  assumes "upsert_cred c t = (Inr n, t')" and "(tenant, provider) \<noteq> (bc_TenantID c, bc_Provider c)"
    and "length (bc_TenantID c) \<le> 64" and "length (bc_Provider c) \<le> 32"
  shows "query_cred tenant provider t' = query_cred tenant provider t"
proof -
  have c: "stored_cred c = c" using assms(3,4) by (simp add: stored_cred_def varchar_def)
  have "query_cred tenant provider (map (refresh_cred c) t) = query_cred tenant provider t"
    using assms(2) by (induction t) (auto simp: query_cred_def refresh_cred_def same_cred_def)
  moreover have "query_cred tenant provider (t @ [c]) = query_cred tenant provider t"
    using assms(2) by (induction t) (auto simp: query_cred_def)
  ultimately show ?thesis using assms(1) by (auto simp: upsert_cred_def c Let_def split: if_splits)
qed

lemma SaveCredentials_run:
  assumes "exec e (SaveCredentials cred) w = (Done (Inr (), cred'), w')"
  shows "bc_TenantID cred' = bc_TenantID cred \<and> bc_Provider cred' = bc_Provider cred \<and>
    bc_APIKeyCiphertext cred' = bc_APIKeyCiphertext cred \<and>
    bc_APISecretCiphertext cred' = bc_APISecretCiphertext cred \<and>
    (\<exists>n. upsert_cred cred' (t_creds (w_db w)) = (Inr n, t_creds (w_db w')))"
  using assms
  by (auto simp: SaveCredentials_def call_defs handle_def
      split: if_splits prod.splits sum.splits db_outcome.splits)

section \<open>An account with a difference\<close>

text \<open>A broker account of 10.5 USDT, and 0.3 dollars too little in the ledger.\<close>

definition demo_account_body :: json where
  "demo_account_body = JObject [(''balances'', JArray
     [JObject [(''asset'', JString ''BTC''), (''free'', JString ''2''), (''locked'', JString ''0'')],
      JObject [(''asset'', JString ''USDT''), (''free'', JString ''10.50''), (''locked'', JString ''0'')]])]"

definition demo_account_env :: env where
  "demo_account_env = demo_env\<lparr>
     e_http := (\<lambda>_ c. case c of CVault _ \<Rightarrow> demo_response demo_vault_body | _ \<Rightarrow> demo_response demo_account_body),
     e_balance := (\<lambda>_ _. Inr ''10.2'')\<rparr>"

definition demo_sync :: SyncBrokerBalancesRequest where
  "demo_sync = \<lparr>br_TenantId = ''t1'', br_UserId = ''u1'', br_Provider = '' binance''\<rparr>"

lemma demo_account_decoded:
  "map_option (\<lambda>acc. collect_balances (ac_Balances acc) []) (unmarshal AccountResponse_json zero_AccountResponse
     \<lparr>hb_complete = True, hb_value = Some demo_account_body, hb_trailing = False\<rparr>) =
   Some [(''BTC'', \<lparr>coef = 2, expo = 0\<rparr>), (''USDT'', \<lparr>coef = 1050, expo = -2\<rparr>)]"
  by code_simp

lemma demo_account: "balance_answer (demo_response demo_account_body) =
    Ret (Inr [(''BTC'', \<lparr>coef = 2, expo = 0\<rparr>), (''USDT'', \<lparr>coef = 1050, expo = -2\<rparr>)])"
  using demo_account_decoded by (auto simp: balance_answer_def demo_response_def rate_limited_def)

lemma demo_balance: "Decimal_NewFromString ''10.2'' = Inr \<lparr>coef = 102, expo = -1\<rparr>"
  by (simp add: parse_eval)

lemma demo_adjustment:
  "fiat_balance [''USDT'', ''USD'', ''BUSD'', ''USDC'']
    [(''BTC'', \<lparr>coef = 2, expo = 0\<rparr>), (''USDT'', \<lparr>coef = 1050, expo = -2\<rparr>)] = \<lparr>coef = 1050, expo = -2\<rparr>"
  "Decimal_Sub \<lparr>coef = 1050, expo = -2\<rparr> \<lparr>coef = 102, expo = -1\<rparr> = \<lparr>coef = 30, expo = -2\<rparr>"
  "\<not> Decimal_IsZero \<lparr>coef = 30, expo = -2\<rparr>"
  by (simp_all add: dec_eval)

lemma demo_sync_simps [simp]: "br_TenantId demo_sync = ''t1''" "br_UserId demo_sync = ''u1''"
  "br_Provider demo_sync = '' binance''" "trim_space ''t1'' = ''t1''" "trim_space ''u1'' = ''u1''"
  by (simp_all add: demo_sync_def trim_eval)

lemma demo_reconciles:
  "\<exists>resp w'. exec demo_account_env (SyncBrokerBalances demo_server demo_sync) demo_world = (Done (Inr resp), w') \<and>
     \<not> bs_InSync resp"
  by (simp add: SyncBrokerBalances_def load_credentials_def GetCredentials_def DecryptCredentials_def
      reconcile_def GetAccountBalances_def with_credentials_def load_slice_def ledger_balance_def GetBalance_def
      demo_account_env_def demo_world_def run_simps query_cred_def demo_cred_def demo_provider demo_batch demo_key
      demo_sec demo_server_simps demo_account demo_balance demo_adjustment Zero_def
      del: fiat_balance.simps)

section \<open>Properties\<close>

text \<open>C38: A reconciliation that is answered reports the difference between the broker and the ledger:
  the broker's balance is the first positive one of USDT, USD, BUSD and USDC in the account Binance
  answered, the ledger's is the balance Livro answered, each 0 where there is none; InSync says
  whether the difference is 0, and the text is the difference to within half of its fourth
  decimal.\<close>

theorem balances_reconciled:
  assumes "exec e (SyncBrokerBalances s req) w = (Done (Inr resp), w')"
    and "heard_in (new_calls e (SyncBrokerBalances s req) w) = h"
  shows "\<exists>balances. broker_balances h = Some balances \<and>
    (let adjustment = broker_fiat balances - ledger_value h
     in (bs_InSync resp \<longleftrightarrow> adjustment = 0) \<and>
        (\<exists>a. text_value (bs_NetFiatAdjustment resp) = Some a \<and> \<bar>a - adjustment\<bar> \<le> 1 / 20000))"
  using obeys_exec [OF SyncBrokerBalances_heard, of "\<lparr>hd_account = None, hd_ledger = None\<rparr>" e s req w] assms
  by (simp add: follow_hearing heard_in_def reconciled_def)

theorem balances_reconciled_witness:
  "\<exists>resp w' balances. exec demo_account_env (SyncBrokerBalances demo_server demo_sync) demo_world = (Done (Inr resp), w') \<and>
     broker_balances (heard_in (new_calls demo_account_env (SyncBrokerBalances demo_server demo_sync) demo_world)) = Some balances \<and>
     broker_fiat balances \<noteq>
       ledger_value (heard_in (new_calls demo_account_env (SyncBrokerBalances demo_server demo_sync) demo_world))"
proof -
  obtain resp w' where run: "exec demo_account_env (SyncBrokerBalances demo_server demo_sync) demo_world = (Done (Inr resp), w')"
    and "\<not> bs_InSync resp"
    using demo_reconciles by blast
  with balances_reconciled [OF run refl] show ?thesis by (auto simp: Let_def)
qed


definition demo_new_cred :: BrokerCredential where
  "demo_new_cred = \<lparr>bc_ID = uuid_Nil, bc_TenantID = ''t1'', bc_Provider = ''BINANCE'',
     bc_APIKeyCiphertext = ''vault:new'', bc_APISecretCiphertext = ''vault:newer'', bc_CreatedAt = 0\<rparr>"


end
