(* ===== verification/Config.thy ===== *)
theory Config
  imports Broker
begin

text \<open>
  internal/config/config.go: the configuration, read from the environment variables.  The
  environment is a function from names to values, empty for a variable that is not set, as
  os.Getenv returns it.  requireEnv panics on a blank variable; the panic names it.  Durations are
  nanoseconds.
\<close>

record Config =
  cfg_GRPCPort :: string
  cfg_HTTPPort :: string
  cfg_DatabaseURL :: string
  cfg_RedisAddr :: string
  cfg_RedisPassword :: string
  cfg_RedisDB :: int
  cfg_OpenBaoAddr :: string
  cfg_OpenBaoToken :: string
  cfg_OpenBaoTransitKey :: string
  cfg_BinanceBaseURL :: string
  cfg_LivroGRPCAddr :: string
  cfg_AtivosGRPCAddr :: string
  cfg_DefaultBroker :: Broker
  cfg_CacheFreshTTL :: int
  cfg_CacheStaleTTL :: int
  cfg_BinanceRecvWindow :: int
  cfg_BinanceHTTPTimeout :: int

definition requireEnv :: "(string \<Rightarrow> string) \<Rightarrow> string \<Rightarrow> (string \<Rightarrow> string + 'a) \<Rightarrow> string + 'a" where
  "requireEnv getenv key k =
     (let val = trim_space (getenv key) in if val = [] then Inl key else k val)"

text \<open>The fields of the literal are evaluated in their order, so the first blank variable panics.\<close>

definition Load :: "(string \<Rightarrow> string) \<Rightarrow> string + Config" where
  "Load getenv =
     requireEnv getenv ''PORT'' (\<lambda>port.
     requireEnv getenv ''HTTP_PORT'' (\<lambda>httpPort.
     requireEnv getenv ''DATABASE_URL'' (\<lambda>databaseURL.
     requireEnv getenv ''REDIS_ADDR'' (\<lambda>redisAddr.
     requireEnv getenv ''OPENBAO_ADDR'' (\<lambda>baoAddr.
     requireEnv getenv ''OPENBAO_TOKEN'' (\<lambda>baoToken.
     requireEnv getenv ''OPENBAO_TRANSIT_KEY'' (\<lambda>transitKey.
     requireEnv getenv ''BINANCE_BASE_URL'' (\<lambda>binanceURL.
     requireEnv getenv ''LIVRO_GRPC_ADDR'' (\<lambda>livroAddr.
     requireEnv getenv ''ATIVOS_GRPC_ADDR'' (\<lambda>ativosAddr.
     requireEnv getenv ''DEFAULT_BROKER'' (\<lambda>defaultBroker.
     Inr \<lparr>cfg_GRPCPort = port,
       cfg_HTTPPort = httpPort,
       cfg_DatabaseURL = databaseURL,
       cfg_RedisAddr = redisAddr,
       cfg_RedisPassword = trim_space (getenv ''REDIS_PASSWORD''),
       cfg_RedisDB = 0,
       cfg_OpenBaoAddr = baoAddr,
       cfg_OpenBaoToken = baoToken,
       cfg_OpenBaoTransitKey = transitKey,
       cfg_BinanceBaseURL = trim_right CHR ''/'' binanceURL,
       cfg_LivroGRPCAddr = livroAddr,
       cfg_AtivosGRPCAddr = ativosAddr,
       cfg_DefaultBroker = ParseBroker (to_upper defaultBroker),
       cfg_CacheFreshTTL = 5 * 10 ^ 9,
       cfg_CacheStaleTTL = 24 * 3600 * 10 ^ 9,
       cfg_BinanceRecvWindow = 5000,
       cfg_BinanceHTTPTimeout = 10 * 10 ^ 9\<rparr>)))))))))))"

definition required_variables :: "string list" where
  "required_variables = [''PORT'', ''HTTP_PORT'', ''DATABASE_URL'', ''REDIS_ADDR'', ''OPENBAO_ADDR'',
     ''OPENBAO_TOKEN'', ''OPENBAO_TRANSIT_KEY'', ''BINANCE_BASE_URL'', ''LIVRO_GRPC_ADDR'',
     ''ATIVOS_GRPC_ADDR'', ''DEFAULT_BROKER'']"

definition blank :: "(string \<Rightarrow> string) \<Rightarrow> string \<Rightarrow> bool" where
  "blank getenv key \<longleftrightarrow> trim_space (getenv key) = []"

lemma Load_find:
  "(case Load getenv of Inl key \<Rightarrow> Some key | Inr c \<Rightarrow> None) = List.find (blank getenv) required_variables"
  by (simp add: Load_def requireEnv_def required_variables_def blank_def Let_def)

text \<open>A successful Load, field by field.\<close>

lemma Load_fields:
  "Load getenv = Inr c \<Longrightarrow>
     cfg_BinanceBaseURL c = trim_right CHR ''/'' (trim_space (getenv ''BINANCE_BASE_URL'')) \<and>
     cfg_DefaultBroker c = ParseBroker (to_upper (trim_space (getenv ''DEFAULT_BROKER''))) \<and>
     cfg_CacheFreshTTL c = 5 * 10 ^ 9 \<and> cfg_CacheStaleTTL c = 24 * 3600 * 10 ^ 9 \<and>
     cfg_BinanceRecvWindow c = 5000 \<and> cfg_DatabaseURL c \<noteq> [] \<and> cfg_GRPCPort c \<noteq> [] \<and>
     cfg_OpenBaoTransitKey c \<noteq> []"
  by (auto simp: Load_def requireEnv_def Let_def split: if_splits)

lemma trim_right_last: "trim_right c s = [] \<or> last (trim_right c s) \<noteq> c"
proof -
  have "dropWhile (\<lambda>x. x = c) (rev s) = [] \<or> hd (dropWhile (\<lambda>x. x = c) (rev s)) \<noteq> c"
    using hd_dropWhile [of "\<lambda>x. x = c" "rev s"] by blast
  then show ?thesis unfolding trim_right_def by (simp add: last_rev)
qed

section \<open>Properties\<close>

text \<open>C16: Load panics exactly when a required variable is blank, and then names the first such
  variable in the order of the fields of Config; otherwise it returns a configuration.\<close>

theorem load_first_missing:
  "(case Load getenv of Inl key \<Rightarrow> Some key | Inr c \<Rightarrow> None) =
     List.find (\<lambda>key. trim_space (getenv key) = [])
       [''PORT'', ''HTTP_PORT'', ''DATABASE_URL'', ''REDIS_ADDR'', ''OPENBAO_ADDR'', ''OPENBAO_TOKEN'',
        ''OPENBAO_TRANSIT_KEY'', ''BINANCE_BASE_URL'', ''LIVRO_GRPC_ADDR'', ''ATIVOS_GRPC_ADDR'',
        ''DEFAULT_BROKER'']"
  using Load_find [of getenv] unfolding required_variables_def blank_def [abs_def] .

end
