(* ===== verification/Startup.thy ===== *)
theory Startup
  imports Config Service Webhook
begin

text \<open>
  cmd/server/main.go with internal/db/db.go: how the process is put together and taken down.  What
  the systems answer while it starts is a \<open>startup\<close> record: the environment variables, the errors
  of the calls that connect, each the text of the error or \<^term>\<open>None\<close>, and the tables of the
  database, \<^term>\<open>None\<close> before the first migration.  A database that cannot be reached leaves both
  repositories nil and the process running; a ledger or a portfolio engine that cannot be dialled
  leaves that client nil; a migration that fails and a port that cannot be listened on stop the
  process.  The result is the pair of servers that the requests reach, the calls that main has
  deferred, and the tables the requests find.  The goroutines that serve and the wait for a signal
  are left out.
\<close>

record startup =
  su_getenv :: "string \<Rightarrow> string"
  su_parseConfig :: "string \<Rightarrow> string option"
  su_newPool :: "string \<Rightarrow> string option"
  su_ping :: "string option"
  su_migrate :: "string option"
  su_tables :: "tables option"
  su_dialLivro :: "string \<Rightarrow> string option"
  su_dialAtivos :: "string \<Rightarrow> string option"
  su_listen :: "string \<Rightarrow> string option"

section \<open>Connections\<close>

datatype pool_error = PoolParseFailed string | PoolCreateFailed string | PoolPingFailed string

text \<open>A pool that was opened; a pool whose ping fails is closed and not returned.\<close>

definition NewPool :: "startup \<Rightarrow> string \<Rightarrow> pool_error + unit" where
  "NewPool u databaseURL =
     (case su_parseConfig u databaseURL of
        Some err \<Rightarrow> Inl (PoolParseFailed err)
      | None \<Rightarrow>
          (case su_newPool u databaseURL of
             Some err \<Rightarrow> Inl (PoolCreateFailed err)
           | None \<Rightarrow>
               (case su_ping u of
                  Some err \<Rightarrow> Inl (PoolPingFailed err)
                | None \<Rightarrow> Inr ())))"

text \<open>
  The schema creates what does not exist yet and leaves existing tables alone; when it fails,
  PostgreSQL rolls all of it back.
\<close>

definition initial_schema :: "tables option \<Rightarrow> tables" where
  "initial_schema db = (case db of None \<Rightarrow> \<lparr>t_orders = [], t_creds = []\<rparr> | Some t \<Rightarrow> t)"

definition RunMigrations :: "startup \<Rightarrow> string + tables" where
  "RunMigrations u =
     (case su_migrate u of Some err \<Rightarrow> Inl err | None \<Rightarrow> Inr (initial_schema (su_tables u)))"

definition NewFillProcessor :: "bool \<Rightarrow> bool \<Rightarrow> bool \<Rightarrow> fillProcessor" where
  "NewFillProcessor ordersRepo livroClient ativosClient =
     \<lparr>fp_ordersRepo = ordersRepo, fp_livroClient = livroClient, fp_ativosClient = ativosClient\<rparr>"

section \<open>The process\<close>

text \<open>The calls main makes on its way out, the deferred ones among them.\<close>

datatype closing_call =
    GracefulStop
  | ShutdownHTTP nat
  | CancelShutdown
  | CloseConn string
  | CloseRedis
  | ClosePool
  | CancelContext

record process =
  ps_HTTPAddr :: string
  ps_GRPCAddr :: string
  ps_webhookServer :: Server
  ps_pregaoServer :: PregaoServer
  ps_deferred :: "closing_call list"
  ps_tables :: "tables option"

datatype startup_error =
    MissingVariable string
  | MigrationsFailed string
  | ListenFailed string

text \<open>
  A call that is deferred is put in front of those deferred before it: they run last first.  The
  errors that end the process here do not run them, as neither log.Fatalf nor the panic of Load
  before the first defer does.
\<close>

definition start_process :: "startup \<Rightarrow> startup_error + process" where
  "start_process u =
     (case Load (su_getenv u) of
        Inl key \<Rightarrow> Inl (MissingVariable key)
      | Inr cfg \<Rightarrow>
          let pool = NewPool u (cfg_DatabaseURL cfg);
              repos = (pool = Inr ());
              migrated = (if repos then map_sum id Some (RunMigrations u) else Inr (su_tables u))
          in (case migrated of
            Inl err \<Rightarrow> Inl (MigrationsFailed err)
          | Inr db \<Rightarrow>
              let deferred = CloseRedis # (if repos then [ClosePool] else []) @ [CancelContext];
                  quotesCache = NewRedisQuotesCache (cfg_CacheFreshTTL cfg) (cfg_CacheStaleTTL cfg);
                  vaultClient = NewTransitClient (cfg_OpenBaoAddr cfg) (cfg_OpenBaoToken cfg)
                    (cfg_OpenBaoTransitKey cfg) (5 * 10 ^ 9);
                  brokerClient = NewClient (cfg_BinanceBaseURL cfg) (cfg_BinanceRecvWindow cfg)
                    (cfg_BinanceHTTPTimeout cfg);
                  (livroClient, deferred) = (case Livro_NewClient (su_dialLivro u) (cfg_LivroGRPCAddr cfg) of
                    Inl err \<Rightarrow> (None, deferred)
                  | Inr lClient \<Rightarrow> (Some lClient, map CloseConn (Livro_Close lClient) @ deferred));
                  (ativosClient, deferred) = (case Ativos_NewClient (su_dialAtivos u) (cfg_AtivosGRPCAddr cfg) of
                    Inl err \<Rightarrow> (None, deferred)
                  | Inr aClient \<Rightarrow> (Some aClient, map CloseConn (Ativos_Close aClient) @ deferred));
                  processor = NewFillProcessor repos (livroClient \<noteq> None) (ativosClient \<noteq> None);
                  pregaoServer = NewPregaoServer \<lparr>
                    sp_DefaultBroker = cfg_DefaultBroker cfg,
                    sp_Cache = quotesCache,
                    sp_BrokerClient = brokerClient,
                    sp_VaultClient = vaultClient,
                    sp_CredentialsRepo = repos,
                    sp_OrdersRepo = repos,
                    sp_LivroClient = livroClient \<noteq> None,
                    sp_FillProcessor = Some processor\<rparr>
              in (case su_listen u ('':'' @ cfg_GRPCPort cfg) of
                Some err \<Rightarrow> Inl (ListenFailed err)
              | None \<Rightarrow> Inr \<lparr>
                  ps_HTTPAddr = '':'' @ cfg_HTTPPort cfg,
                  ps_GRPCAddr = '':'' @ cfg_GRPCPort cfg,
                  ps_webhookServer = NewServer processor,
                  ps_pregaoServer = pregaoServer,
                  ps_deferred = deferred,
                  ps_tables = db\<rparr>)))"

text \<open>What follows the signal.\<close>

definition shutdown :: "process \<Rightarrow> closing_call list" where
  "shutdown p = [GracefulStop, ShutdownHTTP (5 * 10 ^ 9)] @ CancelShutdown # ps_deferred p"

end
