(* ===== verification/Degraded.thy ===== *)
theory Degraded
  imports Startup Scenario
begin

text \<open>
  The process without its database: main logs the failure and goes on in what it calls degraded
  mode.  What start-up hands to the servers, what shutdown closes, and what the handlers of a
  degraded process do.
\<close>

section \<open>What start-up builds\<close>

lemma started_server:
  assumes "start_process u = Inr p" and "Load (su_getenv u) = Inr cfg"
  shows "sv_ordersRepo (ps_pregaoServer p) \<longleftrightarrow> NewPool u (cfg_DatabaseURL cfg) = Inr ()"
    and "sv_credentialsRepo (ps_pregaoServer p) \<longleftrightarrow> NewPool u (cfg_DatabaseURL cfg) = Inr ()"
    and "fp_ordersRepo (ws_processor (ps_webhookServer p)) \<longleftrightarrow> NewPool u (cfg_DatabaseURL cfg) = Inr ()"
    and "sv_defaultBroker (ps_pregaoServer p) =
      (if cfg_DefaultBroker cfg = BROKER_UNSPECIFIED then DefaultBroker else cfg_DefaultBroker cfg)"
    and "sv_cache (ps_pregaoServer p) = NewRedisQuotesCache (cfg_CacheFreshTTL cfg) (cfg_CacheStaleTTL cfg)"
    and "sv_brokerClient (ps_pregaoServer p) =
      NewClient (cfg_BinanceBaseURL cfg) (cfg_BinanceRecvWindow cfg) (cfg_BinanceHTTPTimeout cfg)"
  using assms
  by (auto simp: start_process_def Let_def NewPregaoServer_def NewServer_def NewFillProcessor_def
      split: option.splits sum.splits prod.splits if_splits)

text \<open>Shutdown closes what start-up has opened, each once and last opened first.\<close>

lemma shutdown_closes:
  assumes "start_process u = Inr p" and "Load (su_getenv u) = Inr cfg"
  shows "shutdown p = [GracefulStop, ShutdownHTTP (5 * 10 ^ 9), CancelShutdown] @
    (if su_dialAtivos u (cfg_AtivosGRPCAddr cfg) = None then [CloseConn (cfg_AtivosGRPCAddr cfg)] else []) @
    (if su_dialLivro u (cfg_LivroGRPCAddr cfg) = None then [CloseConn (cfg_LivroGRPCAddr cfg)] else []) @
    CloseRedis # (if NewPool u (cfg_DatabaseURL cfg) = Inr () then [ClosePool] else []) @ [CancelContext]"
  using assms
  by (auto simp: start_process_def shutdown_def Let_def Livro_NewClient_def Ativos_NewClient_def
      Livro_Close_def Ativos_Close_def split: option.splits sum.splits prod.splits if_splits)

text \<open>The tables the first request finds satisfy the constraints of the schema.\<close>

lemma started_tables:
  assumes "start_process u = Inr p" and "Load (su_getenv u) = Inr cfg"
    and "NewPool u (cfg_DatabaseURL cfg) = Inr ()" and "pred_option tables_ok (su_tables u)"
  shows "\<exists>db. ps_tables p = Some db \<and> tables_ok db"
proof -
  have "tables_ok (initial_schema (su_tables u))"
    using assms(4) by (cases "su_tables u") (simp_all add: initial_schema_def tables_ok_def clash_free_def)
  with assms(1-3) show ?thesis
    by (auto simp: start_process_def RunMigrations_def Let_def split: option.splits sum.splits prod.splits if_splits)
qed

section \<open>The handlers without repositories\<close>

lemma quotes_need_no_repositories:
  assumes "sv_defaultBroker s = sv_defaultBroker s'" and "sv_cache s = sv_cache s'"
    and "sv_brokerClient s = sv_brokerClient s'"
  shows "GetQuotes s = GetQuotes s' \<and> ValidateTickers s = ValidateTickers s'"
  unfolding fun_eq_iff GetQuotes_def ValidateTickers_def resolve_provider_def assms
  by (intro conjI allI refl)

lemma trade_needs_orders:
  assumes "\<not> sv_ordersRepo s" and "validate_trade req = Inr v"
  shows "fst (exec e (ExecuteTrade s req) w) = Stopped Panicked \<and>
    map fst (new_calls e (ExecuteTrade s req) w) = [CNewUUID, CNow]"
proof -
  obtain intent qty where v: "v = (intent, qty)" by fastforce
  show ?thesis
    using assms unfolding v
    by (simp add: ExecuteTrade_def Let_def reserveOrder_def reserve_fuel_def call_defs handle_def)
qed

lemma balances_need_credentials:
  "\<not> sv_credentialsRepo s \<Longrightarrow> trim_space (br_TenantId req) \<noteq> [] \<Longrightarrow> SyncBrokerBalances s req = Halt Panicked"
  by (simp add: SyncBrokerBalances_def load_credentials_def)

lemma fill_needs_orders:
  "\<not> fp_ordersRepo q \<Longrightarrow> \<not> Decimal_LessThanOrEqual (fe_ExecutedQuantity ev) Decimal_Zero \<Longrightarrow>
     \<not> Decimal_LessThanOrEqual (fe_FillPrice ev) Decimal_Zero \<Longrightarrow> ProcessFill q ev = Halt Panicked"
  by (simp add: ProcessFill_def)

section \<open>Degraded mode\<close>

text \<open>C40: A process whose database cannot be reached starts, and its market data is what it would be
  with the database: GetQuotes and ValidateTickers are the handlers of every process with the same
  environment variables.  But every request that passes the checks in front panics on a nil
  repository: a trade after its UUID and its deadline, before any reservation or order; the
  reconciliation of a tenant's balances and a fill of positive quantity and price at once.\<close>

theorem degraded_mode:
  assumes "start_process u = Inr p" and "Load (su_getenv u) = Inr cfg"
    and "NewPool u (cfg_DatabaseURL cfg) = Inl err"
  shows "(\<forall>u' p'. su_getenv u' = su_getenv u \<and> start_process u' = Inr p' \<longrightarrow>
      GetQuotes (ps_pregaoServer p) = GetQuotes (ps_pregaoServer p') \<and>
      ValidateTickers (ps_pregaoServer p) = ValidateTickers (ps_pregaoServer p')) \<and>
    (\<forall>e w req v. validate_trade req = Inr v \<longrightarrow>
      fst (exec e (ExecuteTrade (ps_pregaoServer p) req) w) = Stopped Panicked \<and>
      map fst (new_calls e (ExecuteTrade (ps_pregaoServer p) req) w) = [CNewUUID, CNow]) \<and>
    (\<forall>req. trim_space (br_TenantId req) \<noteq> [] \<longrightarrow>
      SyncBrokerBalances (ps_pregaoServer p) req = Halt Panicked) \<and>
    (\<forall>ev. \<not> Decimal_LessThanOrEqual (fe_ExecutedQuantity ev) Decimal_Zero \<and>
        \<not> Decimal_LessThanOrEqual (fe_FillPrice ev) Decimal_Zero \<longrightarrow>
      ProcessFill (ws_processor (ps_webhookServer p)) ev = Halt Panicked)"
proof -
  note built = started_server [OF assms(1,2)]
  have nil: "\<not> sv_ordersRepo (ps_pregaoServer p)" "\<not> sv_credentialsRepo (ps_pregaoServer p)"
    "\<not> fp_ordersRepo (ws_processor (ps_webhookServer p))"
    using assms(3) by (simp_all add: built(1-3))
  have market: "GetQuotes (ps_pregaoServer p) = GetQuotes (ps_pregaoServer p') \<and>
      ValidateTickers (ps_pregaoServer p) = ValidateTickers (ps_pregaoServer p')"
    if "su_getenv u' = su_getenv u \<and> start_process u' = Inr p'" for u' p'
    using that assms(2) built(4-6) started_server(4-6) [of u' p' cfg]
    by (intro quotes_need_no_repositories) simp_all
  show ?thesis
    by (intro conjI [OF _ conjI [OF _ conjI]] allI impI; (elim conjE)?)
      (rule market trade_needs_orders balances_need_credentials fill_needs_orders; use nil in simp)+
qed

definition demo_startup :: startup where
  "demo_startup = \<lparr>su_getenv = (\<lambda>_. ''binance''), su_parseConfig = (\<lambda>_. None), su_newPool = (\<lambda>_. None),
     su_ping = Some ''connection refused'', su_migrate = None, su_tables = None, su_dialLivro = (\<lambda>_. None),
     su_dialAtivos = (\<lambda>_. None), su_listen = (\<lambda>_. None)\<rparr>"

theorem degraded_mode_witness:
  "\<exists>p. start_process demo_startup = Inr p \<and>
     fst (exec demo_env (ExecuteTrade (ps_pregaoServer p) demo_req) demo_world) = Stopped Panicked"
proof -
  obtain cfg where cfg: "Load (su_getenv demo_startup) = Inr cfg"
    by (simp add: Load_def requireEnv_def demo_startup_def trim_eval)
  have pool: "NewPool demo_startup (cfg_DatabaseURL cfg) = Inl (PoolPingFailed ''connection refused'')"
    by (simp add: NewPool_def demo_startup_def)
  have "\<exists>p. start_process demo_startup = Inr p"
    unfolding start_process_def cfg Let_def by (simp add: pool split: prod.split) (simp add: demo_startup_def)
  then obtain p where p: "start_process demo_startup = Inr p" by blast
  with degraded_mode [OF p cfg pool] demo_validate show ?thesis by blast
qed

end
