(* ===== verification/Spec2Isabelle.thy ===== *)
theory Spec2Isabelle
  imports Quantities Deliveries Lifecycle Progress Settlement Secrets Market Accounts Degraded
begin

text \<open>
  Pregao (src/): a gRPC service that executes trades of fund managers at a broker, with the fills
  that follow, the reconciliation of balances, and market data.  This library models all of its own
  Go code, cmd/server and internal/, and proves what makes it correct.

  The program and its model.

  A request arrives over gRPC (\<open>Service\<close>: internal/service/service.go) or, for a fill, over HTTP
  (\<open>Webhook\<close>: internal/webhook/handler.go).  ExecuteTrade reserves the trade by inserting a PENDING
  row into broker_orders, decrypts the tenant's credentials, places a market order, records the
  answer of the broker in the row and settles an immediate fill; ProcessFill (\<open>Worker\<close>:
  internal/worker/fill_processor.go) settles a fill with the portfolio engine or the ledger and adds
  it to the row; SyncBrokerBalances compares the broker's balance with the ledger's; GetQuotes and
  ValidateTickers answer market data, from Redis where they can.  They use
    \<open>Db_Store\<close>, \<open>Db\<close>        internal/db: tables with the column types and unique constraints of
                          migrations/001_initial_schema.sql, the SQL statements, the repositories
    \<open>Vault\<close>               internal/vault/client.go: decryption through OpenBao, Zero
    \<open>Binance\<close>             internal/broker/binance: the four calls to the exchange, TruncateToStepSize
    \<open>Broker\<close>              internal/broker: the data of the Broker interface, the enum
    \<open>Ledger\<close>              internal/client/livro and internal/client/ativos
    \<open>Cache\<close>               internal/cache: quotes under a fresh and a stale key
    \<open>Config\<close>, \<open>Startup\<close>   internal/config, cmd/server/main.go, internal/db/db.go: what start-up builds
                          and shutdown closes
    \<open>Decimal\<close>, \<open>Uuid\<close>     the parts of the vendored decimal and uuid packages that are called
    \<open>Json\<close>, \<open>Http_Text\<close>,  what the code uses of the standard library: encoding/json, net/url,
    \<open>Float_Text\<close>, \<open>Crypto\<close>   float64 numbers in a generic map, SHA-256 and HMAC
    \<open>Prelude\<close>             byte strings, 32-bit wrap-around, truncated division, the codec interface
  Definitions have the names of the code; a method whose name two packages share is prefixed with
  its package (\<open>Cache_GetQuotes\<close>, \<open>Livro_Close\<close>).

  How programs are modelled (\<open>Prog\<close>).  A Go function that talks to another system is a tree of
  calls, \<open>'a prog\<close>: a call and the continuation for every reply, a result, or a panic.  Deferred
  functions are \<open>pdefer\<close> and \<open>pguard\<close>.  The state the code works on is the \<open>world\<close>: the tables, the
  heap of secret buffers and credential structs, the Redis entries, the clock.  \<open>exec\<close> runs one tree
  alone; \<open>sys_step\<close> interleaves the trees of any number of requests (\<open>serve\<close> in \<open>Trade_Safety\<close>), call
  by call, over one world: goroutines and replicas over one PostgreSQL.  The systems called are not
  under src/: their answers are the \<open>env\<close>, an arbitrary function of the number of the call, so any
  service can answer or fail at any time, and the properties hold for all of them unless a
  hypothesis says otherwise.  PostgreSQL runs the statements of \<open>Db_Store\<close>, but a connection can be
  lost before or after a statement was applied.

  What is proved.  C1 to C40 mark the properties.
    Trades: \<open>Trade_Safety\<close> gives every request a protocol automaton and an invariant of all reachable
    states, whence C1 here: the broker accepts at most one order per trade, however requests
    interleave.  \<open>Reservation\<close> (C2 to C6) is ExecuteTrade run alone: duplicates, failures, a
    reservation held by another request, termination, validation.  \<open>Lifecycle\<close> (C17, C19 to C22)
    refines the order table to a machine of three phases, none, reserved, recorded, and gives the
    well-formedness of rows and uniqueness of keys.  \<open>Progress\<close> (C18): under fair scheduling every
    request is answered.
    Quantities and settlement: \<open>Quantities\<close> (C7 to C10) for the order sent and its truncation,
    \<open>Settlement\<close> (C23 to C30) for what a fill asks of the ledger and writes to its row, \<open>Deliveries\<close>
    (C11 to C15) for what the webhook makes of a payload.  They rest on \<open>Decimal\<close>, which gives every
    operation its rational value, and \<open>Decimal_Text\<close>, the round trip of its texts.
    Credentials: \<open>Secrets\<close> (C31 to C33) for the life of the plaintext, \<open>Accounts\<close> (C39) for storing it.
    Market data: \<open>Quotes\<close> (C34 to C36) for the two lifetimes, \<open>Market\<close> (C37): every price answered was
    given by the broker.
    The rest: \<open>Accounts\<close> (C38) reconciliation, \<open>Config\<close> (C16) the environment variables, \<open>Degraded\<close> (C40)
    the process without its database.
  \<open>Prog_Rules\<close> holds the rules the proofs share: weakest preconditions for a run alone, the calls a
  program can make, protocols along every branch; \<open>Footprints\<close> the kinds of call of every operation.
  \<open>Scenario\<close> is one concrete trade from request to settled fill, with which the theorems are
  instantiated.  Some properties state a flaw as the code has it: C10, C14, C15, C30, C33, C40.

  Interfaces.  \<open>keyed_table\<close> (what unique constraints promise) is interpreted on both tables,
  \<open>expiring_store\<close> (writing and reading entries that expire) on Redis, \<open>wire_codec\<close> (printing and
  parsing) on decimals and UUIDs, \<open>invariant_system\<close> (an invariant of a transition system) once for
  every safety argument over the interleaved requests.

  Bounds.  The loop of reserveOrder has fuel only to be total: a pass that does not end it waits the
  poll interval, which is positive in every server that NewPregaoServer builds, so after wait div
  poll + 1 passes the deadline is over, and \<open>reserve_fuel\<close> is one more (C5, and C18 for
  interleaved requests, on a clock that does not go back).  Everything else recurses on its data.
  Exponents of decimals are 32-bit as in the library; int64 members of JSON are checked against
  their range.

  Where the model is narrower than Go.  Upper-casing and EqualFold are those of ASCII.  A JSON
  document is its tree; a member that occurs twice with an array as its value is decoded afresh,
  where Go reuses the elements of the first.  Texts stored in PostgreSQL contain no NUL.  Time
  limits of contexts and HTTP clients are data, and a request that exceeds them is one the
  environment answers with an error.  A repository or client held in an interface is present or nil;
  log lines, and the values formatted into messages, are left out.

  Not modelled: the goroutines that serve the two ports and the wait for a signal (library code that
  calls the handlers); the connections behind the calls, which are the environment; the parts of the
  vendored packages that the code does not call; scripts/test_client.go, a test harness; the tests,
  build files and deployment descriptions.
\<close>



end
